(* ===== verification/Prelude.thy ===== *)
theory Prelude
  imports Main "HOL-Library.Multiset"
begin

text \<open>
  Shared vocabulary of the development: the parts of the Go language and of its standard library
  that the modelled code uses (string functions of package strings, \<open>strconv.Atoi\<close>, the verbs
  of \<open>fmt.Sprintf\<close>, 64-bit \<open>int\<close> arithmetic, built-in maps, \<open>sort.Sort\<close>), with the
  facts about them that the components share.

  Go strings are byte sequences, here \<open>string\<close> (a list of 8-bit characters). Functions that Go
  defines on Unicode code points (\<open>TrimSpace\<close>, \<open>ToLower\<close>, the verb q) are modelled on
  their ASCII part; annotation values, kinds and names in Kubernetes manifests are ASCII.
\<close>

named_theorems go_simps \<open>evaluation of the Go library functions\<close>
named_theorems task_simps \<open>field and update facts of the synchronization tasks\<close>
named_theorems frame_simps \<open>what an operation leaves unchanged\<close>

section \<open>64-bit integers\<close>

text \<open>Go's \<open>int\<close> on a 64-bit platform: two's complement, silently wrapping.\<close>

definition wrap64 :: "int \<Rightarrow> int" where
  "wrap64 x = (x + 2 ^ 63) mod 2 ^ 64 - 2 ^ 63"

definition int64 :: "int \<Rightarrow> bool" where
  "int64 x \<longleftrightarrow> - (2 ^ 63) \<le> x \<and> x < 2 ^ 63"

lemma wrap64_id: "int64 x \<Longrightarrow> wrap64 x = x"
  by (simp add: wrap64_def int64_def)

lemma int64_wrap64: "int64 (wrap64 x)"
proof -
  have "0 \<le> (x + 2 ^ 63) mod (2 ^ 64 :: int)" by simp
  moreover have "(x + 2 ^ 63) mod (2 ^ 64 :: int) < 2 ^ 64" by simp
  ultimately show ?thesis by (simp add: wrap64_def int64_def)
qed

lemma wrap64_eq_0_iff:
  assumes "int64 a" "int64 b"
  shows "wrap64 (a - b) = 0 \<longleftrightarrow> a = b"
proof
  define q where "q = (a - b + 9223372036854775808) div 18446744073709551616"
  assume "wrap64 (a - b) = 0"
  then have "(a - b + 9223372036854775808) mod 18446744073709551616 = 9223372036854775808"
    by (simp add: wrap64_def)
  then have ab: "a - b = 18446744073709551616 * q"
    using div_mult_mod_eq [of "a - b + 9223372036854775808" 18446744073709551616]
    unfolding q_def by linarith
  from assms have "- 18446744073709551616 < a - b" "a - b < 18446744073709551616"
    unfolding int64_def by simp_all
  with ab have "- 1 < q" "q < 1" by linarith+
  with ab show "a = b" by simp
qed (simp add: wrap64_def)

text \<open>The same for \<open>int32\<close>, the type of replica counts.\<close>

definition wrap32 :: "int \<Rightarrow> int" where
  "wrap32 x = (x + 2 ^ 31) mod 2 ^ 32 - 2 ^ 31"

lemma wrap32_id: "- (2 ^ 31) \<le> x \<Longrightarrow> x < 2 ^ 31 \<Longrightarrow> wrap32 x = x"
  by (simp add: wrap32_def)

section \<open>Strings\<close>

definition go_space :: "char \<Rightarrow> bool" where
  "go_space c \<longleftrightarrow> c \<in> {CHR '' '', CHR 0x09, CHR 0x0A, CHR 0x0B, CHR 0x0C, CHR 0x0D}"

text \<open>\<open>strings.TrimSpace\<close>, \<open>strings.Split\<close> with a one-byte separator, \<open>strings.Join\<close>.\<close>

definition TrimSpace :: "string \<Rightarrow> string" where
  "TrimSpace s = rev (dropWhile go_space (rev (dropWhile go_space s)))"

fun Split :: "string \<Rightarrow> char \<Rightarrow> string list" where
  "Split [] sep = [[]]"
| "Split (c # cs) sep =
     (if c = sep then [] # Split cs sep
      else case Split cs sep of [] \<Rightarrow> [[c]] | p # ps \<Rightarrow> (c # p) # ps)"

fun Join :: "string list \<Rightarrow> string \<Rightarrow> string" where
  "Join [] sep = []"
| "Join [x] sep = x"
| "Join (x # y # ys) sep = x @ sep @ Join (y # ys) sep"

definition HasPrefix :: "string \<Rightarrow> string \<Rightarrow> bool" where
  "HasPrefix s p \<longleftrightarrow> take (length p) s = p"

definition HasSuffix :: "string \<Rightarrow> string \<Rightarrow> bool" where
  "HasSuffix s p \<longleftrightarrow> HasPrefix (rev s) (rev p)"

definition lower_char :: "char \<Rightarrow> char" where
  "lower_char c = (let n = of_char c :: nat in if 65 \<le> n \<and> n \<le> 90 then char_of (n + 32) else c)"

definition ToLower :: "string \<Rightarrow> string" where
  "ToLower = map lower_char"

lemma Split_not_Nil [simp]: "Split s sep \<noteq> []"
  by (cases s) (auto split: list.split)

lemma Join_Split: "Join (Split s c) [c] = s"
proof (induction s)
  case (Cons a s)
  then show ?case
    by (cases "Split s c" rule: list.exhaust; cases "tl (Split s c)") auto
qed simp

lemma Split_no_sep: "x \<in> set (Split s c) \<Longrightarrow> c \<notin> set x"
  by (induction s arbitrary: x) (auto split: list.splits if_splits)

text \<open>String comparison with the operator \<open><\<close>: byte-wise lexicographic.\<close>

fun str_less :: "string \<Rightarrow> string \<Rightarrow> bool" where
  "str_less _ [] = False"
| "str_less [] (_ # _) = True"
| "str_less (a # as) (b # bs) =
     (if (of_char a :: nat) < of_char b then True
      else if (of_char b :: nat) < of_char a then False else str_less as bs)"

lemma str_less_irrefl [simp]: "\<not> str_less a a"
  by (induction a) auto

lemma str_less_asym: "str_less a b \<Longrightarrow> \<not> str_less b a"
  by (induction a b rule: str_less.induct) (auto split: if_splits)

lemma str_less_trans: "str_less a b \<Longrightarrow> str_less b c \<Longrightarrow> str_less a c"
proof (induction a b arbitrary: c rule: str_less.induct)
  case (2 b bs)
  then show ?case by (cases c) auto
next
  case (3 a as b bs)
  then show ?case by (cases c) (auto split: if_splits)
qed simp

lemma str_less_linear: "a \<noteq> b \<Longrightarrow> str_less a b \<or> str_less b a"
  by (induction a b rule: str_less.induct) (auto simp: neq_Nil_conv split: if_splits)

section \<open>Numbers in text\<close>

definition digit_val :: "char \<Rightarrow> int option" where
  "digit_val c = (let n = of_char c :: nat in if 48 \<le> n \<and> n \<le> 57 then Some (int n - 48) else None)"

fun digits_val :: "int \<Rightarrow> string \<Rightarrow> int option" where
  "digits_val acc [] = Some acc"
| "digits_val acc (c # cs) =
     (case digit_val c of None \<Rightarrow> None | Some d \<Rightarrow> digits_val (10 * acc + d) cs)"

text \<open>
  \<open>strconv.Atoi\<close>: an optional sign, at least one decimal digit, nothing else, and a value that
  fits 64 bits. \<open>None\<close> is the error return (syntax or range).
\<close>

definition Atoi :: "string \<Rightarrow> int option" where
  "Atoi s =
     (let neg = (case s of c # _ \<Rightarrow> c = CHR ''-'' | [] \<Rightarrow> False);
          body = (case s of c # cs \<Rightarrow> if c = CHR ''-'' \<or> c = CHR ''+'' then cs else s | [] \<Rightarrow> [])
      in if body = [] then None
         else case digits_val 0 body of
                None \<Rightarrow> None
              | Some n \<Rightarrow> (let v = if neg then - n else n in if int64 v then Some v else None))"

lemma Atoi_int64: "Atoi s = Some n \<Longrightarrow> int64 n"
  by (auto simp: Atoi_def Let_def split: if_splits option.splits)

text \<open>The verb d of \<open>fmt.Sprintf\<close>.\<close>

fun show_nat :: "nat \<Rightarrow> string" where
  "show_nat n = (if n < 10 then [char_of (48 + n)] else show_nat (n div 10) @ [char_of (48 + n mod 10)])"

declare show_nat.simps [simp del]

definition show_int :: "int \<Rightarrow> string" where
  "show_int i = (if i < 0 then ''-'' @ show_nat (nat (- i)) else show_nat (nat i))"

lemma digit_val_char: "d < 10 \<Longrightarrow> digit_val (char_of (48 + d :: nat)) = Some (int d)"
  by (simp add: digit_val_def Let_def)

lemma digits_val_append:
  "digits_val a (xs @ ys) = (case digits_val a xs of None \<Rightarrow> None | Some b \<Rightarrow> digits_val b ys)"
  by (induction xs arbitrary: a) (auto split: option.split)

lemma digits_val_show_nat: "digits_val 0 (show_nat n) = Some (int n)"
proof (induction n rule: show_nat.induct)
  case (1 n)
  show ?case
  proof (cases "n < 10")
    case True
    then show ?thesis by (subst show_nat.simps) (simp add: digit_val_char)
  next
    case False
    moreover have "10 * int (n div 10) + int (n mod 10) = int n"
      by (metis mult_div_mod_eq of_nat_add of_nat_mult of_nat_numeral)
    ultimately show ?thesis using 1
      by (subst show_nat.simps) (simp add: digits_val_append digit_val_char)
  qed
qed

lemma show_nat_digit: "x \<in> set (show_nat n) \<Longrightarrow> \<exists>d < 10. x = char_of (48 + d :: nat)"
proof (induction n rule: show_nat.induct)
  case (1 n)
  then show ?case
    by (subst (asm) show_nat.simps) (auto split: if_splits intro: exI [of _ "n mod 10"])
qed

lemma show_nat_not_Nil [simp]: "show_nat n \<noteq> []"
  by (subst show_nat.simps) simp

lemma char_digit_not_sign: "d < 10 \<Longrightarrow> (char_of (48 + d :: nat) :: char) \<noteq> CHR ''-'' \<and>
    (char_of (48 + d) :: char) \<noteq> CHR ''+''"
proof -
  assume "d < 10"
  then have *: "of_char (char_of (48 + d) :: char) = (48 + d :: nat)" by simp
  show ?thesis
  proof (intro conjI notI)
    assume "(char_of (48 + d) :: char) = CHR ''-''"
    then have "of_char (CHR ''-'') = (48 + d :: nat)" using * by metis
    then show False by simp
  next
    assume "(char_of (48 + d) :: char) = CHR ''+''"
    then have "of_char (CHR ''+'') = (48 + d :: nat)" using * by metis
    then show False by simp
  qed
qed

text \<open>Printing an integer and parsing it back.\<close>

lemma Atoi_show_int:
  assumes "int64 i"
  shows "Atoi (show_int i) = Some i"
proof (cases "i < 0")
  case True
  with assms show ?thesis
    by (simp add: Atoi_def show_int_def Let_def digits_val_show_nat)
next
  case False
  obtain c cs where s: "show_nat (nat i) = c # cs" by (cases "show_nat (nat i)") auto
  then have "c \<noteq> CHR ''-''" "c \<noteq> CHR ''+''"
    using show_nat_digit [of c "nat i"] char_digit_not_sign by auto
  with False assms s show ?thesis
    using digits_val_show_nat [of "nat i"]
    by (simp add: Atoi_def show_int_def Let_def del: digits_val.simps)
qed

text \<open>The verb q of \<open>fmt.Sprintf\<close> on ASCII text.\<close>

definition hex_digit :: "nat \<Rightarrow> char" where
  "hex_digit d = (if d < 10 then char_of (48 + d) else char_of (87 + d))"

definition quote_char :: "char \<Rightarrow> string" where
  "quote_char c =
     (let n = of_char c :: nat in
      if c = CHR 0x22 then [CHR 0x5C, CHR 0x22]
      else if c = CHR 0x5C then [CHR 0x5C, CHR 0x5C]
      else if n = 7 then CHR 0x5C # ''a'' else if n = 8 then CHR 0x5C # ''b''
      else if n = 12 then CHR 0x5C # ''f'' else if n = 10 then CHR 0x5C # ''n''
      else if n = 13 then CHR 0x5C # ''r'' else if n = 9 then CHR 0x5C # ''t''
      else if n = 11 then CHR 0x5C # ''v''
      else if n < 32 \<or> n = 127 then CHR 0x5C # CHR ''x'' # [hex_digit (n div 16), hex_digit (n mod 16)]
      else [c])"

definition quote :: "string \<Rightarrow> string" where
  "quote s = [CHR 0x22] @ concat (map quote_char s) @ [CHR 0x22]"

section \<open>Built-in maps\<close>

text \<open>
  A Go map whose size or contents are iterated is an association list with distinct keys; the order
  of the list is one iteration order (Go leaves it unspecified, so theorems hold of every list).
\<close>

fun map_put :: "'k \<Rightarrow> 'v \<Rightarrow> ('k \<times> 'v) list \<Rightarrow> ('k \<times> 'v) list" where
  "map_put k v [] = [(k, v)]"
| "map_put k v ((k', v') # m) = (if k' = k then (k, v) # m else (k', v') # map_put k v m)"

definition map_del :: "'k \<Rightarrow> ('k \<times> 'v) list \<Rightarrow> ('k \<times> 'v) list" where
  "map_del k m = filter (\<lambda>(k', _). k' \<noteq> k) m"

definition map_wf :: "('k \<times> 'v) list \<Rightarrow> bool" where
  "map_wf m \<longleftrightarrow> distinct (map fst m)"

lemma map_of_put [simp]: "map_of (map_put k v m) = (map_of m)(k \<mapsto> v)"
  by (induction m) (auto simp: fun_eq_iff)

lemma map_of_del [simp]: "map_of (map_del k m) = (map_of m)(k := None)"
  by (induction m) (auto simp: map_del_def fun_eq_iff)

lemma map_del_Nil [simp]: "map_del k [] = []"
  by (simp add: map_del_def)

lemma keys_del [simp]: "fst ` set (map_del k m) = fst ` set m - {k}"
  by (force simp: map_del_def)

lemma keys_put [simp]: "fst ` set (map_put k v m) = insert k (fst ` set m)"
  by (induction k v m rule: map_put.induct) auto

lemma set_map_put: "set (map_put k v m) \<subseteq> insert (k, v) (set m)"
  by (induction k v m rule: map_put.induct) auto

lemma map_put_new: "map_of m k = None \<Longrightarrow> map_put k v m = m @ [(k, v)]"
  by (induction m) (auto split: if_splits)

lemma keys_put_list: "map fst (map_put k v m) = (if k \<in> fst ` set m then map fst m else map fst m @ [k])"
  by (induction k v m rule: map_put.induct) auto

lemma map_wf_put [simp, intro]: "map_wf m \<Longrightarrow> map_wf (map_put k v m)"
  by (auto simp: map_wf_def keys_put_list)

lemma map_wf_del [simp, intro]: "map_wf m \<Longrightarrow> map_wf (map_del k m)"
  by (auto simp: map_wf_def map_del_def distinct_map inj_on_def)

lemma map_wf_Nil [simp]: "map_wf []"
  by (simp add: map_wf_def)

lemma length_put: "length (map_put k v m) = (if k \<in> fst ` set m then length m else Suc (length m))"
  by (induction k v m rule: map_put.induct) auto

section \<open>sort.Sort\<close>

text \<open>
  \<open>sort.Sort\<close> promises a permutation that is ordered by the comparison, and does not promise
  stability. The executable model is insertion sort (what the library runs on short slices); the
  locale states the promise alone, and the theorems about sorted tasks are proved from it.
\<close>

definition strict_weak_on :: "('a \<Rightarrow> 'a \<Rightarrow> bool) \<Rightarrow> 'a set \<Rightarrow> bool" where
  "strict_weak_on lt A \<longleftrightarrow>
     (\<forall>x\<in>A. \<not> lt x x) \<and>
     (\<forall>x\<in>A. \<forall>y\<in>A. \<forall>z\<in>A. lt x y \<longrightarrow> lt y z \<longrightarrow> lt x z) \<and>
     (\<forall>x\<in>A. \<forall>y\<in>A. \<forall>z\<in>A. lt x z \<longrightarrow> lt x y \<or> lt y z)"

fun sort_insert :: "('a \<Rightarrow> 'a \<Rightarrow> bool) \<Rightarrow> 'a \<Rightarrow> 'a list \<Rightarrow> 'a list" where
  "sort_insert lt x [] = [x]"
| "sort_insert lt x (y # ys) =
     (if lt x y then x # y # ys else y # sort_insert lt x ys)"

definition sort_Sort :: "('a \<Rightarrow> 'a \<Rightarrow> bool) \<Rightarrow> 'a list \<Rightarrow> 'a list" where
  "sort_Sort lt xs = foldl (\<lambda>acc x. sort_insert lt x acc) [] xs"

lemma mset_sort_insert [simp]: "mset (sort_insert lt x xs) = add_mset x (mset xs)"
  by (induction xs) auto

lemma set_sort_insert [simp]: "set (sort_insert lt x xs) = insert x (set xs)"
  by (induction xs) auto

lemma mset_foldl_insert: "mset (foldl (\<lambda>acc x. sort_insert lt x acc) acc xs) = mset acc + mset xs"
  by (induction xs arbitrary: acc) auto

lemma mset_sort_Sort: "mset (sort_Sort lt xs) = mset xs"
  by (simp add: sort_Sort_def mset_foldl_insert)

lemma strict_weak_subset: "strict_weak_on lt B \<Longrightarrow> A \<subseteq> B \<Longrightarrow> strict_weak_on lt A"
  unfolding strict_weak_on_def by blast

lemma strict_weak_onD:
  assumes "strict_weak_on lt A" "x \<in> A" "y \<in> A" "z \<in> A"
  shows "\<not> lt x x" and "lt x y \<Longrightarrow> lt y z \<Longrightarrow> lt x z"
    and "lt x z \<Longrightarrow> lt x y \<or> lt y z" and "lt x y \<Longrightarrow> \<not> lt y x"
  using assms unfolding strict_weak_on_def by blast+

text \<open>Comparisons that go field by field, by the first field that differs.\<close>

definition strict_total :: "('a \<Rightarrow> 'a \<Rightarrow> bool) \<Rightarrow> bool" where
  "strict_total lt \<longleftrightarrow> (\<forall>x. \<not> lt x x) \<and> (\<forall>x y z. lt x y \<longrightarrow> lt y z \<longrightarrow> lt x z) \<and> (\<forall>x y. x \<noteq> y \<longrightarrow> lt x y \<or> lt y x)"

lemma strict_total_str_less: "strict_total str_less"
  unfolding strict_total_def using str_less_trans str_less_linear by auto

lemma strict_total_less: "strict_total ((<) :: int \<Rightarrow> int \<Rightarrow> bool)"
  by (auto simp: strict_total_def)

lemma strict_totalD:
  assumes "strict_total lt"
  shows "\<not> lt x x" "lt x y \<Longrightarrow> lt y z \<Longrightarrow> lt x z" "lt x z \<Longrightarrow> lt x y \<or> lt y z"
    "x \<noteq> y \<Longrightarrow> lt x y \<or> lt y x"
proof -
  from assms have irr: "\<not> lt x x" for x unfolding strict_total_def by blast
  from assms have tr: "lt x y \<Longrightarrow> lt y z \<Longrightarrow> lt x z" for x y z unfolding strict_total_def by blast
  from assms have lin: "x \<noteq> y \<Longrightarrow> lt x y \<or> lt y x" for x y unfolding strict_total_def by blast
  show "\<not> lt x x" by (rule irr)
  show "lt x y \<Longrightarrow> lt y z \<Longrightarrow> lt x z" by (rule tr)
  show "x \<noteq> y \<Longrightarrow> lt x y \<or> lt y x" by (rule lin)
  show "lt x z \<Longrightarrow> lt x y \<or> lt y z" using lin [of x y] tr [of y x z] by (cases "x = y") auto
qed

lemma strict_weak_by: "strict_total lt \<Longrightarrow> strict_weak_on (\<lambda>p q. lt (f p) (f q)) A"
  unfolding strict_weak_on_def by (intro conjI ballI impI) (erule (2) strict_totalD | erule (1) strict_totalD | erule strict_totalD)+

lemma strict_weak_lex:
  assumes tot: "strict_total lt" and weak: "strict_weak_on lt2 A"
  shows "strict_weak_on (\<lambda>p q. if f p \<noteq> f q then lt (f p) (f q) else lt2 p q) A"
  unfolding strict_weak_on_def
proof (intro conjI ballI impI)
  fix x assume "x \<in> A"
  then show "\<not> (if f x \<noteq> f x then lt (f x) (f x) else lt2 x x)" using strict_weak_onD(1) [OF weak] by simp
next
  fix x y z assume A: "x \<in> A" "y \<in> A" "z \<in> A"
    and xy: "if f x \<noteq> f y then lt (f x) (f y) else lt2 x y" and yz: "if f y \<noteq> f z then lt (f y) (f z) else lt2 y z"
  show "if f x \<noteq> f z then lt (f x) (f z) else lt2 x z"
    using xy yz strict_totalD(2) [OF tot, of "f x" "f y" "f z"] strict_totalD(1) [OF tot, of "f x"]
      strict_weak_onD(2) [OF weak A] strict_totalD(2) [OF tot, of "f x" "f y" "f x"]
    by (auto split: if_splits)
next
  fix x y z assume A: "x \<in> A" "y \<in> A" "z \<in> A"
    and xz: "if f x \<noteq> f z then lt (f x) (f z) else lt2 x z"
  show "(if f x \<noteq> f y then lt (f x) (f y) else lt2 x y) \<or> (if f y \<noteq> f z then lt (f y) (f z) else lt2 y z)"
    using xz strict_totalD(3) [OF tot, of "f x" "f z" "f y"] strict_weak_onD(3) [OF weak A]
      strict_totalD(4) [OF tot, of "f x" "f y"]
    by (auto split: if_splits)
qed

lemma sorted_sort_insert:
  assumes "strict_weak_on lt (insert x (set ys))" "sorted_wrt (\<lambda>a b. \<not> lt b a) ys"
  shows "sorted_wrt (\<lambda>a b. \<not> lt b a) (sort_insert lt x ys)"
  using assms
proof (induction ys)
  case (Cons y ys)
  from Cons.prems(1) have sub: "strict_weak_on lt (insert x (set ys))"
    by (rule strict_weak_subset) auto
  have "\<not> lt z x" if "z \<in> set ys" "lt x y" for z
    using Cons.prems that strict_weak_onD(3) [OF Cons.prems(1), of z y x]
      strict_weak_onD(2) [OF Cons.prems(1), of z x y] by auto
  moreover have "lt x y \<Longrightarrow> \<not> lt y x"
    using strict_weak_onD(4) [OF Cons.prems(1), of x y x] by simp
  ultimately show ?case using Cons sub by auto
qed simp

lemma sorted_foldl_insert:
  assumes "strict_weak_on lt (set acc \<union> set xs)" "sorted_wrt (\<lambda>a b. \<not> lt b a) acc"
  shows "sorted_wrt (\<lambda>a b. \<not> lt b a) (foldl (\<lambda>acc x. sort_insert lt x acc) acc xs)"
  using assms
proof (induction xs arbitrary: acc)
  case (Cons x xs)
  then have "strict_weak_on lt (insert x (set acc))"
    by (auto elim!: strict_weak_subset)
  with Cons show ?case by (auto intro!: Cons.IH sorted_sort_insert)
qed simp

text \<open>A comparison that tells any two elements apart leaves one ordered list only.\<close>

lemma sorted_wrt_unique:
  "sorted_wrt R xs \<Longrightarrow> sorted_wrt R ys \<Longrightarrow> mset xs = mset ys \<Longrightarrow>
     (\<And>x y. x \<in> set xs \<Longrightarrow> y \<in> set xs \<Longrightarrow> R x y \<Longrightarrow> R y x \<Longrightarrow> x = y) \<Longrightarrow> xs = ys"
proof (induction xs arbitrary: ys)
  case (Cons x xs)
  then obtain y ys' where ys: "ys = y # ys'" by (cases ys) auto
  from Cons.prems(3) have set: "insert x (set xs) = insert y (set ys')" unfolding ys by (metis list.set(2) mset_eq_setD)
  have "x = y"
  proof (rule ccontr)
    assume ne: "x \<noteq> y"
    with set have "x \<in> set ys'" "y \<in> set xs" by auto
    with Cons.prems ys ne show False by auto
  qed
  with Cons ys show ?case by auto
qed simp

locale sorter =
  fixes srt :: "('a \<Rightarrow> 'a \<Rightarrow> bool) \<Rightarrow> 'a list \<Rightarrow> 'a list"
  assumes srt_perm: "mset (srt lt xs) = mset xs"
    and srt_ordered: "strict_weak_on lt (set xs) \<Longrightarrow> sorted_wrt (\<lambda>a b. \<not> lt b a) (srt lt xs)"
begin

lemma srt_set: "set (srt lt xs) = set xs"
  by (metis srt_perm set_mset_mset)

lemma srt_length: "length (srt lt xs) = length xs"
  by (metis srt_perm size_mset)

lemma srt_distinct_keys: "distinct (map f (srt lt xs)) = distinct (map f xs)"
  by (metis srt_perm mset_map mset_eq_imp_distinct_iff)

lemma srt_unique:
  assumes "strict_weak_on lt (set xs)" "mset xs = mset ys"
    and "\<And>x y. x \<in> set xs \<Longrightarrow> y \<in> set xs \<Longrightarrow> \<not> lt x y \<Longrightarrow> \<not> lt y x \<Longrightarrow> x = y"
  shows "srt lt xs = srt lt ys"
proof (rule sorted_wrt_unique [where R = "\<lambda>a b. \<not> lt b a"])
  from assms(1,2) have "strict_weak_on lt (set ys)" by (metis mset_eq_setD)
  then show "sorted_wrt (\<lambda>a b. \<not> lt b a) (srt lt xs)" "sorted_wrt (\<lambda>a b. \<not> lt b a) (srt lt ys)"
    using assms(1) by (auto intro: srt_ordered)
qed (use assms srt_perm srt_set in auto)

lemma srt_nth_not_less:
  assumes "strict_weak_on lt (set xs)" "i < j" "j < length xs"
  shows "\<not> lt (srt lt xs ! j) (srt lt xs ! i)"
  using sorted_wrt_nth_less [OF srt_ordered [OF assms(1)], of i j] assms(2,3) by (simp add: srt_length)

end

interpretation gosort: sorter sort_Sort
  by unfold_locales (simp add: mset_sort_Sort, simp add: sort_Sort_def sorted_foldl_insert)

section \<open>Lists\<close>

lemma list_update_id': "i < length xs \<Longrightarrow> xs ! i = x \<Longrightarrow> xs[i := x] = xs"
  by (metis list_update_id)

lemma filter_True_conv: "(\<And>x. x \<in> set xs \<Longrightarrow> P x) \<Longrightarrow> filter P xs = xs"
  by (simp add: filter_id_conv)

lemma filter_pointwise:
  assumes "length xs = length ys" "\<And>i. i < length ys \<Longrightarrow> P (xs ! i) = P (ys ! i)"
    and "\<And>i. i < length ys \<Longrightarrow> P (ys ! i) \<Longrightarrow> xs ! i = ys ! i"
  shows "filter P xs = filter P ys"
  using assms
proof (induction xs ys rule: list_induct2)
  case (Cons x xs y ys)
  from Cons.prems(1) [of "Suc _"] Cons.prems(2) [of "Suc _"] have "filter P xs = filter P ys"
    by (intro Cons.IH) auto
  with Cons.prems(1) [of 0] Cons.prems(2) [of 0] show ?case by auto
qed simp

end
