(* ===== verification/KubeTypes.thy ===== *)
theory KubeTypes
  imports Prelude
begin

text \<open>
  Kubernetes objects as the engine sees them, and the helpers of \<open>pkg/utils/kube/kube.go\<close> and
  \<open>pkg/utils/text/text.go\<close>.

  \<open>unstructured.Unstructured\<close> belongs to k8s.io/apimachinery. The engine reads it through accessor
  methods only, so the model of an object is the record of what those accessors return, each field
  named after its accessor; a setter is the record update of that field. \<open>NestedString\<close> gives, for a
  path, the value that \<open>unstructured.NestedString\<close> finds there without an error, and \<open>NestedSlice\<close>
  the elements that \<open>unstructured.NestedSlice\<close> finds. \<open>Ptr\<close> is the identity of the Go pointer: two
  variables that hold the same pointer hold objects with the same \<open>Ptr\<close>.
\<close>

record GroupVersionKind =
  gvkGroup :: string
  gvkVersion :: string
  gvkKind :: string

record OwnerReference =
  ownerAPIVersion :: string
  ownerKind :: string
  ownerName :: string
  ownerUID :: string

datatype slice_elem = NotAMap | MapElem "string list \<Rightarrow> string option"

record unstructured =
  Ptr :: nat
  GVK :: GroupVersionKind
  GetKind :: string
  GetAPIVersion :: string
  GetName :: string
  GetGenerateName :: string
  GetNamespace :: string
  GetUID :: string
  GetResourceVersion :: string
  GetLabels :: "string \<rightharpoonup> string"
  GetAnnotations :: "string \<rightharpoonup> string"
  GetFinalizers :: "string list"
  GetDeletionTimestamp :: "int option"
  GetCreationTimestamp :: "int option"
  GetOwnerReferences :: "OwnerReference list"
  GetManagers :: "string list"
  NestedString :: "string list \<Rightarrow> string option"
  NestedSlice :: "string list \<Rightarrow> slice_elem list option"

text \<open>The empty object: the base on which concrete objects are written.\<close>

definition blank :: unstructured where
  "blank = \<lparr>Ptr = 0, GVK = \<lparr>gvkGroup = '''', gvkVersion = '''', gvkKind = ''''\<rparr>, GetKind = '''',
     GetAPIVersion = '''', GetName = '''', GetGenerateName = '''', GetNamespace = '''', GetUID = '''',
     GetResourceVersion = '''', GetLabels = Map.empty, GetAnnotations = Map.empty, GetFinalizers = [],
     GetDeletionTimestamp = None, GetCreationTimestamp = None, GetOwnerReferences = [], GetManagers = [],
     NestedString = (\<lambda>_. None), NestedSlice = (\<lambda>_. None)\<rparr>"

definition mk_obj :: "string \<Rightarrow> string \<Rightarrow> string \<Rightarrow> string \<Rightarrow> unstructured" where
  "mk_obj g kind ns name =
     blank\<lparr>GVK := \<lparr>gvkGroup = g, gvkVersion = ''v1'', gvkKind = kind\<rparr>, GetKind := kind,
       GetAPIVersion := (if g = [] then ''v1'' else g @ ''/v1''), GetNamespace := ns,
       GetName := name\<rparr>"

section \<open>Errors\<close>

text \<open>
  An error is its text and what the \<open>apierrors.Is...\<close> predicates answer for it. Wrapping with the
  verb w keeps the reason (the predicates unwrap) and puts text in front; the verb v keeps text only.
\<close>

datatype err_reason = ReasonNotFound | ReasonConflict | ReasonUnauthorized | ReasonForbidden
  | ReasonMethodNotSupported | ReasonOther

datatype go_error = Err (reason_of: err_reason) (err_text: string)

definition wrap_err :: "string \<Rightarrow> go_error \<Rightarrow> go_error" where
  "wrap_err prefix e = Err (reason_of e) (prefix @ '': '' @ err_text e)"

text \<open>
  \<open>retry.OnError\<close> of client-go: the action is retried up to a number of times as long as its error is
  retriable; the last error is returned. The delays between the attempts are left out.
\<close>

fun OnError ::
  "nat \<Rightarrow> (go_error \<Rightarrow> bool) \<Rightarrow> ('s \<Rightarrow> (go_error + 'a) \<times> 's) \<Rightarrow> 's \<Rightarrow> (go_error + 'a) \<times> 's" where
  "OnError 0 retriable act st = act st"
| "OnError (Suc n) retriable act st =
     (case act st of
        (Inl e, st') \<Rightarrow> (if retriable e then OnError n retriable act st' else (Inl e, st'))
      | (Inr x, st') \<Rightarrow> (Inr x, st'))"

lemma OnError_Inr: "act st = (Inr x, st') \<Longrightarrow> OnError n retriable act st = (Inr x, st')"
  by (cases n) simp_all

definition IsNotFound :: "go_error \<Rightarrow> bool" where
  "IsNotFound e \<longleftrightarrow> reason_of e = ReasonNotFound"

definition IsConflict :: "go_error \<Rightarrow> bool" where
  "IsConflict e \<longleftrightarrow> reason_of e = ReasonConflict"

definition IsUnauthorized :: "go_error \<Rightarrow> bool" where
  "IsUnauthorized e \<longleftrightarrow> reason_of e = ReasonUnauthorized"

definition IsForbidden :: "go_error \<Rightarrow> bool" where
  "IsForbidden e \<longleftrightarrow> reason_of e = ReasonForbidden"

lemma wrap_err_reason [simp]: "reason_of (wrap_err p e) = reason_of e"
  by (simp add: wrap_err_def)

section \<open>Kinds and resource keys\<close>

abbreviation "SecretKind \<equiv> ''Secret''"
abbreviation "ServiceKind \<equiv> ''Service''"
abbreviation "ServiceAccountKind \<equiv> ''ServiceAccount''"
abbreviation "EndpointsKind \<equiv> ''Endpoints''"
abbreviation "DeploymentKind \<equiv> ''Deployment''"
abbreviation "ReplicaSetKind \<equiv> ''ReplicaSet''"
abbreviation "StatefulSetKind \<equiv> ''StatefulSet''"
abbreviation "DaemonSetKind \<equiv> ''DaemonSet''"
abbreviation "IngressKind \<equiv> ''Ingress''"
abbreviation "JobKind \<equiv> ''Job''"
abbreviation "PersistentVolumeClaimKind \<equiv> ''PersistentVolumeClaim''"
abbreviation "CustomResourceDefinitionKind \<equiv> ''CustomResourceDefinition''"
abbreviation "PodKind \<equiv> ''Pod''"
abbreviation "APIServiceKind \<equiv> ''APIService''"
abbreviation "NamespaceKind \<equiv> ''Namespace''"
abbreviation "HorizontalPodAutoscalerKind \<equiv> ''HorizontalPodAutoscaler''"

record ResourceKey =
  Group :: string
  Kind :: string
  Namespace :: string
  Name :: string

definition ResourceKey_String :: "ResourceKey \<Rightarrow> string" where
  "ResourceKey_String k = Group k @ ''/'' @ Kind k @ ''/'' @ Namespace k @ ''/'' @ Name k"

type_synonym GroupKind = "string \<times> string"

definition ResourceKey_GroupKind :: "ResourceKey \<Rightarrow> GroupKind" where
  "ResourceKey_GroupKind k = (Group k, Kind k)"

definition NewResourceKey :: "string \<Rightarrow> string \<Rightarrow> string \<Rightarrow> string \<Rightarrow> ResourceKey" where
  "NewResourceKey g kind namespace name =
     \<lparr>Group = g, Kind = kind, Namespace = namespace, Name = name\<rparr>"

definition GetResourceKey :: "unstructured \<Rightarrow> ResourceKey" where
  "GetResourceKey obj = NewResourceKey (gvkGroup (GVK obj)) (gvkKind (GVK obj)) (GetNamespace obj) (GetName obj)"

record ObjectReference =
  RefUID :: string
  RefAPIVersion :: string
  RefKind :: string
  RefName :: string
  RefNamespace :: string
  RefGVK :: GroupVersionKind

text \<open>
  \<open>RefGVK\<close> is what \<open>ObjectReference.GroupVersionKind()\<close> computes from the API version and kind;
  the object's own \<open>GroupVersionKind()\<close> computes it from the same two fields.
\<close>

definition GetObjectRef :: "unstructured \<Rightarrow> ObjectReference" where
  "GetObjectRef obj = \<lparr>RefUID = GetUID obj, RefAPIVersion = GetAPIVersion obj, RefKind = GetKind obj,
     RefName = GetName obj, RefNamespace = GetNamespace obj, RefGVK = GVK obj\<rparr>"

definition IsCRDGroupVersionKind :: "GroupVersionKind \<Rightarrow> bool" where
  "IsCRDGroupVersionKind gvk \<longleftrightarrow>
     gvkKind gvk = CustomResourceDefinitionKind \<and> gvkGroup gvk = ''apiextensions.k8s.io''"

definition IsCRD :: "unstructured \<Rightarrow> bool" where
  "IsCRD obj \<longleftrightarrow> IsCRDGroupVersionKind (GVK obj)"

text \<open>
  \<open>IsNamespacedOrUnknown\<close>: a provider answers with a scope or an error.
\<close>

type_synonym ResourceInfoProvider = "GroupKind \<Rightarrow> go_error + bool"

definition IsNamespacedOrUnknown :: "ResourceInfoProvider \<Rightarrow> GroupKind \<Rightarrow> bool" where
  "IsNamespacedOrUnknown provider gk = (case provider gk of Inl _ \<Rightarrow> True | Inr namespaced \<Rightarrow> namespaced)"

section \<open>Labels and images\<close>

definition GetAppInstanceLabel :: "unstructured \<Rightarrow> string \<Rightarrow> string" where
  "GetAppInstanceLabel un key = (case GetLabels un key of Some v \<Rightarrow> v | None \<Rightarrow> '''')"

text \<open>
  Removing the last label removes the field \<open>metadata.labels\<close>; either way the accessor afterwards
  returns the labels without the key.
\<close>

definition UnsetLabel :: "unstructured \<Rightarrow> string \<Rightarrow> unstructured" where
  "UnsetLabel target key =
     (if GetLabels target key \<noteq> None then target\<lparr>GetLabels := (GetLabels target)(key := None)\<rparr> else target)"

fun first_found :: "('a \<Rightarrow> 'b option) \<Rightarrow> 'a list \<Rightarrow> 'b option" where
  "first_found f [] = None"
| "first_found f (x # xs) = (case f x of Some y \<Rightarrow> Some y | None \<Rightarrow> first_found f xs)"

fun container_images :: "slice_elem list \<Rightarrow> string list" where
  "container_images [] = []"
| "container_images (NotAMap # cs) = container_images cs"
| "container_images (MapElem m # cs) =
     (case m [''image''] of None \<Rightarrow> container_images cs | Some img \<Rightarrow> img # container_images cs)"

definition containerPaths :: "string list list" where
  "containerPaths = [[''spec'', ''containers''],
     [''spec'', ''template'', ''spec'', ''containers''],
     [''spec'', ''jobTemplate'', ''spec'', ''template'', ''spec'', ''containers'']]"

definition GetResourceImages :: "unstructured \<Rightarrow> string list" where
  "GetResourceImages u =
     (case first_found (NestedSlice u) containerPaths of None \<Rightarrow> [] | Some containers \<Rightarrow> container_images containers)"

section \<open>API discovery\<close>

record APIResource =
  apiName :: string
  apiKind :: string
  apiNamespaced :: bool
  apiVerbs :: "string list"

text \<open>\<open>isSupportedVerb\<close> of \<open>pkg/utils/kube/ctl.go\<close>; \<open>strings.EqualFold\<close> ignores case.\<close>

definition isSupportedVerb :: "APIResource \<Rightarrow> string \<Rightarrow> bool" where
  "isSupportedVerb apiResource verb \<longleftrightarrow>
     verb = '''' \<or> verb = ''*'' \<or> list_ex (\<lambda>v. ToLower v = ToLower verb) (apiVerbs apiResource)"

text \<open>
  \<open>apierrors.NewNotFound\<close> and \<open>NewMethodNotSupported\<close> are library code: the model fixes the
  reason they carry and leaves their text a parameter.
\<close>

record api_error_texts =
  NotFoundText :: "GroupVersionKind \<Rightarrow> string"
  MethodNotSupportedText :: "GroupVersionKind \<Rightarrow> string \<Rightarrow> string"

fun find_api_resource ::
  "api_error_texts \<Rightarrow> GroupVersionKind \<Rightarrow> string \<Rightarrow> APIResource list \<Rightarrow> go_error \<Rightarrow> go_error + APIResource" where
  "find_api_resource msgs gvk verb [] retErr = Inl retErr"
| "find_api_resource msgs gvk verb (r # rs) retErr =
     (if apiKind r = gvkKind gvk then
        if isSupportedVerb r verb then Inr r
        else find_api_resource msgs gvk verb rs
               (Err ReasonMethodNotSupported (MethodNotSupportedText msgs gvk verb))
      else find_api_resource msgs gvk verb rs retErr)"

definition GroupVersion_String :: "GroupVersionKind \<Rightarrow> string" where
  "GroupVersion_String gvk =
     (if gvkGroup gvk = [] then gvkVersion gvk else gvkGroup gvk @ ''/'' @ gvkVersion gvk)"

text \<open>
  \<open>ServerResourceForGroupVersionKind\<close>; \<open>disco\<close> is what discovery answers for a group version
  (\<open>disco.ServerResourcesForGroupVersion\<close>).
\<close>

definition ServerResourceForGroupVersionKind ::
  "api_error_texts \<Rightarrow> (string \<Rightarrow> go_error + APIResource list) \<Rightarrow> GroupVersionKind \<Rightarrow> string \<Rightarrow>
     go_error + APIResource" where
  "ServerResourceForGroupVersionKind msgs disco gvk verb =
     (case disco (GroupVersion_String gvk) of
        Inl e \<Rightarrow> Inl (wrap_err (''failed to discover server resources for group version '' @
                   GroupVersion_String gvk) e)
      | Inr resources \<Rightarrow>
          find_api_resource msgs gvk verb resources (Err ReasonNotFound (NotFoundText msgs gvk)))"

section \<open>Text helpers\<close>

fun FirstNonEmpty :: "string list \<Rightarrow> string" where
  "FirstNonEmpty [] = ''''"
| "FirstNonEmpty (value # args) = (if 0 < length value then value else FirstNonEmpty args)"

definition WithDefault :: "string \<Rightarrow> string \<Rightarrow> string" where
  "WithDefault val defaultValue = (if length val = 0 then defaultValue else val)"

section \<open>Results of a comparison\<close>

text \<open>\<open>DiffResult\<close> and \<open>DiffResultList\<close> of \<open>pkg/diff/diff.go\<close>; the two byte slices are strings.\<close>

record DiffResult =
  Modified :: bool
  NormalizedLive :: string
  PredictedLive :: string

record DiffResultList =
  Diffs :: "DiffResult list"
  AnyModified :: bool

section \<open>Facts\<close>

lemma append_sep_inj:
  assumes "a @ c # b = a' @ c # b'" "c \<notin> set a" "c \<notin> set a'"
  shows "a = a' \<and> b = b'"
  using assms
proof (induction a arbitrary: a')
  case Nil
  then show ?case by (cases a') auto
next
  case (Cons x a)
  then show ?case by (cases a') auto
qed

definition slash_free :: "ResourceKey \<Rightarrow> bool" where
  "slash_free k \<longleftrightarrow> CHR ''/'' \<notin> set (Group k) \<union> set (Kind k) \<union> set (Namespace k)"

lemma ResourceKey_String_inj:
  assumes "ResourceKey_String k = ResourceKey_String k'" "slash_free k" "slash_free k'"
  shows "k = k'"
proof -
  from assms have 1: "Group k = Group k' \<and>
      Kind k @ ''/'' @ Namespace k @ ''/'' @ Name k = Kind k' @ ''/'' @ Namespace k' @ ''/'' @ Name k'"
    by (intro append_sep_inj) (auto simp: ResourceKey_String_def slash_free_def)
  with assms(2,3) have 2: "Kind k = Kind k' \<and>
      Namespace k @ ''/'' @ Name k = Namespace k' @ ''/'' @ Name k'"
    by (intro append_sep_inj) (auto simp: slash_free_def)
  with assms(2,3) have "Namespace k = Namespace k' \<and> Name k = Name k'"
    by (intro append_sep_inj) (auto simp: slash_free_def)
  with 1 2 show ?thesis by (intro ResourceKey.equality) auto
qed

lemma find_api_resource_Inr:
  "find_api_resource msgs gvk verb rs e = Inr r \<Longrightarrow>
     r \<in> set rs \<and> apiKind r = gvkKind gvk \<and> isSupportedVerb r verb"
  by (induction msgs gvk verb rs e rule: find_api_resource.induct) (auto split: if_splits)

lemma find_api_resource_Inl:
  "find_api_resource msgs gvk verb rs e = Inl e' \<Longrightarrow> r \<in> set rs \<Longrightarrow> apiKind r = gvkKind gvk \<Longrightarrow>
     \<not> isSupportedVerb r verb"
  by (induction msgs gvk verb rs e rule: find_api_resource.induct) (simp_all split: if_splits, blast+)

lemma find_api_resource_reason:
  "find_api_resource msgs gvk verb rs e = Inl e' \<Longrightarrow>
     reason_of e' = (if \<exists>r\<in>set rs. apiKind r = gvkKind gvk then ReasonMethodNotSupported else reason_of e)"
proof (induction rs arbitrary: e)
  case (Cons r rs)
  then show ?case by (cases "apiKind r = gvkKind gvk"; cases "isSupportedVerb r verb") simp_all
qed simp

end
