(* ===== verification/SyncCommon.thy ===== *)
theory SyncCommon
  imports KubeTypes
begin

text \<open>
  The vocabulary of a synchronization, \<open>pkg/sync/common/types.go\<close>: annotation names and values,
  phases, result codes, hook types and hook deletion policies. Go's string-typed enumerations are
  datatypes; the constructor ending in \<open>Empty\<close> is the empty string, Go's zero value.
\<close>

abbreviation "AnnotationSyncOptions \<equiv> ''argocd.argoproj.io/sync-options''"
abbreviation "AnnotationSyncWave \<equiv> ''argocd.argoproj.io/sync-wave''"
abbreviation "AnnotationKeyHook \<equiv> ''argocd.argoproj.io/hook''"
abbreviation "AnnotationKeyHookDeletePolicy \<equiv> ''argocd.argoproj.io/hook-delete-policy''"
abbreviation "SyncOptionSkipDryRunOnMissingResource \<equiv> ''SkipDryRunOnMissingResource=true''"
abbreviation "SyncOptionDisablePrune \<equiv> ''Prune=false''"
abbreviation "SyncOptionsDisableValidation \<equiv> ''Validate=false''"
abbreviation "SyncOptionPruneLast \<equiv> ''PruneLast=true''"
abbreviation "SyncOptionReplace \<equiv> ''Replace=true''"
abbreviation "SyncOptionForce \<equiv> ''Force=true''"
abbreviation "SyncOptionServerSideApply \<equiv> ''ServerSideApply=true''"
abbreviation "SyncOptionDisableServerSideApply \<equiv> ''ServerSideApply=false''"
abbreviation "SyncOptionPruneRequireConfirm \<equiv> ''Prune=confirm''"
abbreviation "DefaultClientSideApplyMigrationManager \<equiv> ''kubectl-client-side-apply''"

datatype SyncPhase = SyncPhaseEmpty | SyncPhasePreSync | SyncPhaseSync | SyncPhasePostSync | SyncPhaseSyncFail

fun SyncPhase_string :: "SyncPhase \<Rightarrow> string" where
  "SyncPhase_string SyncPhaseEmpty = ''''"
| "SyncPhase_string SyncPhasePreSync = ''PreSync''"
| "SyncPhase_string SyncPhaseSync = ''Sync''"
| "SyncPhase_string SyncPhasePostSync = ''PostSync''"
| "SyncPhase_string SyncPhaseSyncFail = ''SyncFail''"

datatype OperationPhase = OperationEmpty | OperationRunning | OperationTerminating | OperationFailed
  | OperationError | OperationSucceeded

fun Completed :: "OperationPhase \<Rightarrow> bool" where
  "Completed OperationFailed = True"
| "Completed OperationError = True"
| "Completed OperationSucceeded = True"
| "Completed _ = False"

definition Running :: "OperationPhase \<Rightarrow> bool" where
  "Running os \<longleftrightarrow> os = OperationRunning"

definition Successful :: "OperationPhase \<Rightarrow> bool" where
  "Successful os \<longleftrightarrow> os = OperationSucceeded"

definition Failed :: "OperationPhase \<Rightarrow> bool" where
  "Failed os \<longleftrightarrow> os = OperationFailed"

datatype ResultCode = ResultCodeEmpty | ResultCodeSynced | ResultCodeSyncFailed | ResultCodePruned
  | ResultCodePruneSkipped

datatype HookType = HookTypeEmpty | HookTypePreSync | HookTypeSync | HookTypePostSync | HookTypeSkip
  | HookTypeSyncFail

text \<open>The pair (value, ok) of \<open>NewHookType\<close> is an option: callers use the value only when ok.\<close>

definition NewHookType :: "string \<Rightarrow> HookType option" where
  "NewHookType t =
     (if t = ''PreSync'' then Some HookTypePreSync
      else if t = ''Sync'' then Some HookTypeSync
      else if t = ''PostSync'' then Some HookTypePostSync
      else if t = ''SyncFail'' then Some HookTypeSyncFail
      else if t = ''Skip'' then Some HookTypeSkip
      else None)"

datatype HookDeletePolicy = HookDeletePolicyHookSucceeded | HookDeletePolicyHookFailed
  | HookDeletePolicyBeforeHookCreation

definition NewHookDeletePolicy :: "string \<Rightarrow> HookDeletePolicy option" where
  "NewHookDeletePolicy p =
     (if p = ''HookSucceeded'' then Some HookDeletePolicyHookSucceeded
      else if p = ''HookFailed'' then Some HookDeletePolicyHookFailed
      else if p = ''BeforeHookCreation'' then Some HookDeletePolicyBeforeHookCreation
      else None)"

text \<open>The conversions between the two string types, \<open>SyncPhase(hookType)\<close> and \<open>HookType(phase)\<close>.\<close>

fun phase_of_hook :: "HookType \<Rightarrow> SyncPhase option" where
  "phase_of_hook HookTypePreSync = Some SyncPhasePreSync"
| "phase_of_hook HookTypeSync = Some SyncPhaseSync"
| "phase_of_hook HookTypePostSync = Some SyncPhasePostSync"
| "phase_of_hook HookTypeSyncFail = Some SyncPhaseSyncFail"
| "phase_of_hook _ = None"

fun hook_of_phase :: "SyncPhase \<Rightarrow> HookType" where
  "hook_of_phase SyncPhaseEmpty = HookTypeEmpty"
| "hook_of_phase SyncPhasePreSync = HookTypePreSync"
| "hook_of_phase SyncPhaseSync = HookTypeSync"
| "hook_of_phase SyncPhasePostSync = HookTypePostSync"
| "hook_of_phase SyncPhaseSyncFail = HookTypeSyncFail"

record ResourceSyncResult =
  resKey :: ResourceKey
  resImages :: "string list"
  resVersion :: string
  resOrder :: int
  resStatus :: ResultCode
  resMessage :: string
  resHookType :: HookType
  resHookPhase :: OperationPhase
  resSyncPhase :: SyncPhase

datatype HealthStatusCode = HealthStatusEmpty | HealthStatusUnknown | HealthStatusProgressing
  | HealthStatusHealthy | HealthStatusSuspended | HealthStatusDegraded | HealthStatusMissing

record HealthStatus =
  Status :: HealthStatusCode
  Message :: string

lemma phase_of_hook_of_phase [simp]:
  "phase_of_hook (hook_of_phase p) = (if p = SyncPhaseEmpty then None else Some p)"
  by (cases p) auto

lemma phase_of_hook_Some: "phase_of_hook h = Some p \<longleftrightarrow> p \<noteq> SyncPhaseEmpty \<and> h = hook_of_phase p"
  by (cases h; cases p) auto

lemma SyncPhase_string_no_colon [simp]: "CHR '':'' \<notin> set (SyncPhase_string p)"
  by (cases p) auto

lemma SyncPhase_string_inj [simp]: "SyncPhase_string p = SyncPhase_string q \<longleftrightarrow> p = q"
  by (cases p; cases q) auto

lemma Completed_iff: "Completed p \<longleftrightarrow> p \<in> {OperationFailed, OperationError, OperationSucceeded}"
  by (cases p) auto

lemma NewHookType_SyncPhase:
  "p \<noteq> SyncPhaseEmpty \<Longrightarrow> NewHookType (SyncPhase_string p) = Some (hook_of_phase p)"
  by (cases p) (auto simp: NewHookType_def)

end
