(* ===== verification/Hooks.thy ===== *)
theory Hooks
  imports SyncCommon
begin

text \<open>
  How annotations steer the synchronization of one object: \<open>pkg/sync/resource/annotations.go\<close>,
  \<open>pkg/sync/hook\<close> (Argo hooks), \<open>pkg/sync/hook/helm\<close> (Helm hooks), \<open>pkg/sync/syncwaves\<close>,
  \<open>pkg/sync/ignore\<close> and \<open>pkg/sync/sync_phase.go\<close>.

  The code removes duplicates by collecting values as keys of a Go map and then ranging over it, so the
  order of the result is unspecified. The definitions here list the values in the order in which they
  are first met; each consumer is defined on a given list of values, and the lemmas at the end show
  that its answer is the same for every other order.
\<close>

section \<open>Comma-separated annotations\<close>

definition annotation_or_empty :: "unstructured \<Rightarrow> string \<Rightarrow> string" where
  "annotation_or_empty obj key = (case GetAnnotations obj key of Some v \<Rightarrow> v | None \<Rightarrow> '''')"

definition GetAnnotationCSVs :: "unstructured \<Rightarrow> string \<Rightarrow> string list" where
  "GetAnnotationCSVs obj key =
     remdups (filter (\<lambda>val. val \<noteq> '''') (map TrimSpace (Split (annotation_or_empty obj key) (CHR '',''))))"

definition HasAnnotationOption :: "unstructured \<Rightarrow> string \<Rightarrow> string \<Rightarrow> bool" where
  "HasAnnotationOption obj key val \<longleftrightarrow> list_ex (\<lambda>item. item = val) (GetAnnotationCSVs obj key)"

section \<open>Helm hooks\<close>

datatype HelmType = PreInstall | PreUpgrade | PostUpgrade | PostInstall

definition NewType :: "string \<Rightarrow> HelmType option" where
  "NewType t =
     (if t = ''pre-install'' then Some PreInstall
      else if t = ''pre-upgrade'' then Some PreUpgrade
      else if t = ''post-upgrade'' then Some PostUpgrade
      else if t = ''post-install'' then Some PostInstall
      else None)"

fun helm_HookType :: "HelmType \<Rightarrow> HookType" where
  "helm_HookType PreInstall = HookTypePreSync"
| "helm_HookType PreUpgrade = HookTypePreSync"
| "helm_HookType PostUpgrade = HookTypePostSync"
| "helm_HookType PostInstall = HookTypePostSync"

definition helm_Types :: "string list \<Rightarrow> HelmType list" where
  "helm_Types texts = List.map_filter NewType texts"

definition helm_IsHook :: "unstructured \<Rightarrow> bool" where
  "helm_IsHook obj =
     (case GetAnnotations obj ''helm.sh/hook'' of None \<Rightarrow> False | Some value \<Rightarrow> value \<noteq> ''crd-install'')"

datatype HelmDeletePolicy = BeforeHookCreation | HookSucceeded | HookFailed

definition NewDeletePolicy :: "string \<Rightarrow> HelmDeletePolicy option" where
  "NewDeletePolicy p =
     (if p = ''before-hook-creation'' then Some BeforeHookCreation
      else if p = ''hook-succeeded'' then Some HookSucceeded
      else if p = ''hook-failed'' then Some HookFailed
      else None)"

fun helm_DeletePolicy :: "HelmDeletePolicy \<Rightarrow> HookDeletePolicy" where
  "helm_DeletePolicy BeforeHookCreation = HookDeletePolicyBeforeHookCreation"
| "helm_DeletePolicy HookSucceeded = HookDeletePolicyHookSucceeded"
| "helm_DeletePolicy HookFailed = HookDeletePolicyHookFailed"

definition helm_DeletePolicies :: "string list \<Rightarrow> HelmDeletePolicy list" where
  "helm_DeletePolicies texts = List.map_filter NewDeletePolicy texts"

definition helm_Weight :: "unstructured \<Rightarrow> int" where
  "helm_Weight obj =
     (case GetAnnotations obj ''helm.sh/hook-weight'' of
        Some text \<Rightarrow> (case Atoi text of Some value \<Rightarrow> value | None \<Rightarrow> 0)
      | None \<Rightarrow> 0)"

section \<open>Argo hooks\<close>

abbreviation "HookFinalizer \<equiv> ''argocd.argoproj.io/hook-finalizer''"

definition HasHookFinalizer :: "unstructured \<Rightarrow> bool" where
  "HasHookFinalizer obj \<longleftrightarrow> list_ex (\<lambda>finalizer. finalizer = HookFinalizer) (GetFinalizers obj)"

text \<open>\<open>hook.Types\<close> on the values of the Argo and of the Helm hook annotation, then on an object.\<close>

definition Types_of :: "string list \<Rightarrow> string list \<Rightarrow> HookType list" where
  "Types_of argo helm =
     (let types = List.map_filter NewHookType argo
      in if length types = 0 then map helm_HookType (helm_Types helm) else types)"

definition Types :: "unstructured \<Rightarrow> HookType list" where
  "Types obj = Types_of (GetAnnotationCSVs obj AnnotationKeyHook) (GetAnnotationCSVs obj ''helm.sh/hook'')"

definition Skip_of :: "HookType list \<Rightarrow> bool" where
  "Skip_of types \<longleftrightarrow> (if list_ex (\<lambda>hookType. hookType = HookTypeSkip) types then length types = 1 else False)"

definition Skip :: "unstructured \<Rightarrow> bool" where
  "Skip obj = Skip_of (Types obj)"

definition IsHook :: "unstructured \<Rightarrow> bool" where
  "IsHook obj =
     (case GetAnnotations obj AnnotationKeyHook of Some _ \<Rightarrow> \<not> Skip obj | None \<Rightarrow> helm_IsHook obj)"

definition DeletePolicies_of :: "string list \<Rightarrow> string list \<Rightarrow> HookDeletePolicy list" where
  "DeletePolicies_of argo helm =
     (let policies = List.map_filter NewHookDeletePolicy argo @ map helm_DeletePolicy (helm_DeletePolicies helm)
      in if length policies = 0 then [HookDeletePolicyBeforeHookCreation] else policies)"

definition DeletePolicies :: "unstructured \<Rightarrow> HookDeletePolicy list" where
  "DeletePolicies obj = DeletePolicies_of (GetAnnotationCSVs obj AnnotationKeyHookDeletePolicy)
     (GetAnnotationCSVs obj ''helm.sh/hook-delete-policy'')"

section \<open>Waves, ignored objects, phases\<close>

definition Wave :: "unstructured \<Rightarrow> int" where
  "Wave obj =
     (case GetAnnotations obj AnnotationSyncWave of
        Some text \<Rightarrow> (case Atoi text of Some val \<Rightarrow> val | None \<Rightarrow> helm_Weight obj)
      | None \<Rightarrow> helm_Weight obj)"

definition Ignore :: "unstructured \<Rightarrow> bool" where
  "Ignore obj \<longleftrightarrow> IsHook obj \<and> length (Types obj) = 0"

definition syncPhases :: "unstructured \<Rightarrow> SyncPhase list" where
  "syncPhases obj =
     (if Skip obj then []
      else if IsHook obj then remdups (List.map_filter phase_of_hook (Types obj))
      else [SyncPhaseSync])"

section \<open>Facts\<close>

lemma set_map_filter: "set (List.map_filter f xs) = {y. \<exists>x\<in>set xs. f x = Some y}"
  by (force simp: List.map_filter_def)

lemma mset_map_filter_cong: "mset xs = mset ys \<Longrightarrow> mset (List.map_filter f xs) = mset (List.map_filter f ys)"
  by (simp only: List.map_filter_def mset_map mset_filter)

lemma GetAnnotationCSVs_set:
  "set (GetAnnotationCSVs obj key) =
     {v. v \<noteq> '''' \<and> v \<in> TrimSpace ` set (Split (annotation_or_empty obj key) (CHR '',''))}"
  by (auto simp: GetAnnotationCSVs_def)

lemma GetAnnotationCSVs_distinct [simp]: "distinct (GetAnnotationCSVs obj key)"
  by (simp add: GetAnnotationCSVs_def)

lemma HasAnnotationOption_iff: "HasAnnotationOption obj key val \<longleftrightarrow> val \<in> set (GetAnnotationCSVs obj key)"
  by (auto simp: HasAnnotationOption_def list_ex_iff)

lemma GetAnnotationCSVs_none [simp]: "GetAnnotations obj key = None \<Longrightarrow> GetAnnotationCSVs obj key = []"
  by (simp add: GetAnnotationCSVs_def annotation_or_empty_def TrimSpace_def)

lemma helm_HookType_not_Skip [simp]: "helm_HookType t \<noteq> HookTypeSkip" "HookTypeSkip \<noteq> helm_HookType t"
  by (cases t; simp)+

lemma Types_of_perm:
  assumes "mset argo = mset argo'" "mset helm = mset helm'"
  shows "mset (Types_of argo helm) = mset (Types_of argo' helm')"
proof -
  have "mset (List.map_filter NewHookType argo) = mset (List.map_filter NewHookType argo')"
    and "mset (helm_Types helm) = mset (helm_Types helm')"
    unfolding helm_Types_def by (intro mset_map_filter_cong assms)+
  moreover from this(1)
  have "List.map_filter NewHookType argo = [] \<longleftrightarrow> List.map_filter NewHookType argo' = []"
    by (metis mset_zero_iff)
  ultimately show ?thesis by (simp add: Types_of_def Let_def)
qed

lemma Skip_of_perm: "mset types = mset types' \<Longrightarrow> Skip_of types = Skip_of types'"
  by (metis Skip_of_def list_ex_iff mset_eq_setD size_mset)

lemma DeletePolicies_of_perm:
  assumes "mset argo = mset argo'" "mset helm = mset helm'"
  shows "set (DeletePolicies_of argo helm) = set (DeletePolicies_of argo' helm')"
proof -
  have "set argo = set argo'" "set helm = set helm'"
    using assms by (auto dest: mset_eq_setD)
  then have "set (List.map_filter NewHookDeletePolicy argo) = set (List.map_filter NewHookDeletePolicy argo')"
    and "set (helm_DeletePolicies helm) = set (helm_DeletePolicies helm')"
    by (simp_all add: set_map_filter helm_DeletePolicies_def)
  moreover from this
  have "List.map_filter NewHookDeletePolicy argo = [] \<longleftrightarrow> List.map_filter NewHookDeletePolicy argo' = []"
    and "helm_DeletePolicies helm = [] \<longleftrightarrow> helm_DeletePolicies helm' = []"
    by (metis set_empty)+
  ultimately show ?thesis by (simp add: DeletePolicies_of_def Let_def)
qed

lemma Wave_int64: "int64 (Wave obj)"
  by (auto simp: Wave_def helm_Weight_def int64_def split: option.split dest: Atoi_int64 [unfolded int64_def])

lemma syncPhases_distinct [simp]: "distinct (syncPhases obj)"
  by (simp add: syncPhases_def)

lemma syncPhases_not_Empty [simp]: "SyncPhaseEmpty \<notin> set (syncPhases obj)"
  by (auto simp: syncPhases_def set_map_filter phase_of_hook_Some)

lemma IsHook_not_Skip: "IsHook obj \<Longrightarrow> \<not> Skip obj"
proof
  assume h: "IsHook obj" and s: "Skip obj"
  then have none: "GetAnnotations obj AnnotationKeyHook = None"
    by (auto simp: IsHook_def split: option.splits)
  then have "HookTypeSkip \<notin> set (Types obj)"
    by (auto simp: Types_def Types_of_def Let_def List.map_filter_def)
  with s show False by (simp add: Skip_def Skip_of_def list_ex_iff split: if_splits)
qed

text \<open>
  The phases of an object. A hook runs in exactly the phases that its hook annotation names, where
  the Helm annotation counts only if the Argo annotation names no hook type; an object whose only hook
  type is Skip runs in no phase; everything else is synchronized in the Sync phase. In particular an
  object that is not skipped runs in no phase only if it is ignored or is a hook whose types include
  nothing but Skip.
\<close>

theorem syncPhases_spec:
  "set (syncPhases obj) =
     (if Skip obj then {}
      else if \<not> IsHook obj then {SyncPhaseSync}
      else {p. p \<noteq> SyncPhaseEmpty \<and> hook_of_phase p \<in> set (Types obj)}) \<and>
   distinct (syncPhases obj) \<and> \<not> (IsHook obj \<and> Skip obj)"
  by (auto simp: syncPhases_def set_map_filter phase_of_hook_Some IsHook_not_Skip)

text \<open>
  The order in which the values of the hook annotations come out of the Go maps does not matter:
  for every order the object has the same hook types up to order, the same answer to Skip, and the same
  set of deletion policies (never empty: the default is BeforeHookCreation).
\<close>

theorem hook_order_independent:
  assumes "mset argo = mset (GetAnnotationCSVs obj AnnotationKeyHook)"
    and "mset helm = mset (GetAnnotationCSVs obj ''helm.sh/hook'')"
    and "mset argo_del = mset (GetAnnotationCSVs obj AnnotationKeyHookDeletePolicy)"
    and "mset helm_del = mset (GetAnnotationCSVs obj ''helm.sh/hook-delete-policy'')"
  shows "mset (Types_of argo helm) = mset (Types obj) \<and>
    Skip_of (Types_of argo helm) = Skip obj \<and>
    set (DeletePolicies_of argo_del helm_del) = set (DeletePolicies obj) \<and> DeletePolicies obj \<noteq> []"
proof -
  have t: "mset (Types_of argo helm) = mset (Types obj)"
    unfolding Types_def by (intro Types_of_perm assms)
  moreover have "Skip_of (Types_of argo helm) = Skip obj"
    unfolding Skip_def by (intro Skip_of_perm t)
  moreover have "set (DeletePolicies_of argo_del helm_del) = set (DeletePolicies obj)"
    unfolding DeletePolicies_def by (intro DeletePolicies_of_perm assms)
  moreover have "DeletePolicies obj \<noteq> []"
    by (simp add: DeletePolicies_def DeletePolicies_of_def Let_def)
  ultimately show ?thesis by blast
qed

definition hook_example :: unstructured where
  "hook_example = (mk_obj ''batch'' JobKind ''ns'' ''migrate'')
     \<lparr>GetAnnotations := [AnnotationKeyHook \<mapsto> ''PostSync, PreSync'',
        AnnotationKeyHookDeletePolicy \<mapsto> ''HookSucceeded'']\<rparr>"

lemma hook_example_csvs [simp]:
  "GetAnnotationCSVs hook_example AnnotationKeyHook = [''PostSync'', ''PreSync'']"
  "GetAnnotationCSVs hook_example AnnotationKeyHookDeletePolicy = [''HookSucceeded'']"
  "GetAnnotationCSVs hook_example ''helm.sh/hook'' = []"
  "GetAnnotationCSVs hook_example ''helm.sh/hook-delete-policy'' = []"
  by (simp_all add: hook_example_def mk_obj_def blank_def GetAnnotationCSVs_def annotation_or_empty_def
      TrimSpace_def go_space_def)

theorem hook_order_independent_witness:
  "mset (Types_of [''PreSync'', ''PostSync''] []) = mset (Types hook_example) \<and>
   set (DeletePolicies_of [''HookSucceeded''] []) = set (DeletePolicies hook_example)"
  using hook_order_independent [of "[''PreSync'', ''PostSync'']" hook_example "[]" "[''HookSucceeded'']" "[]"]
  by simp



end
