(* ===== verification/Tasks.thy ===== *)
theory Tasks
  imports Hooks
begin

text \<open>
  One synchronization task, \<open>pkg/sync/sync_task.go\<close>, and lists of tasks, \<open>pkg/sync/sync_tasks.go\<close>:
  their order (phase, wave, kind, name) and the repair of that order that puts namespaces and custom
  resource definitions before the objects that need them. Here a task is a value; the state of a
  running synchronization, where tasks are shared by pointer, is in SyncState.
\<close>

section \<open>One task\<close>

record syncTask =
  tphase :: SyncPhase
  liveObj :: "unstructured option"
  targetObj :: "unstructured option"
  skipDryRun :: bool
  syncStatus :: ResultCode
  operationState :: OperationPhase
  tmessage :: string
  waveOverride :: "int option"

definition new_task :: "SyncPhase \<Rightarrow> unstructured option \<Rightarrow> unstructured option \<Rightarrow> syncTask" where
  "new_task ph target live = \<lparr>tphase = ph, liveObj = live, targetObj = target, skipDryRun = False,
     syncStatus = ResultCodeEmpty, operationState = OperationEmpty, tmessage = '''', waveOverride = None\<rparr>"

text \<open>
  \<open>obj(a, b)\<close> of \<open>sync_context.go\<close>: the first unless nil. A task has a target or a live object (both
  nil would be a nil dereference in the code); \<open>task_wf\<close> says so and the task lists are shown to keep it.
\<close>

definition obj_or :: "unstructured option \<Rightarrow> unstructured option \<Rightarrow> unstructured option" where
  "obj_or a b = (if a \<noteq> None then a else b)"

definition task_wf :: "syncTask \<Rightarrow> bool" where
  "task_wf t \<longleftrightarrow> targetObj t \<noteq> None \<or> liveObj t \<noteq> None"

definition task_obj :: "syncTask \<Rightarrow> unstructured" where
  "task_obj t = (case obj_or (targetObj t) (liveObj t) of Some o' \<Rightarrow> o' | None \<Rightarrow> blank)"

definition isPrune :: "syncTask \<Rightarrow> bool" where
  "isPrune t \<longleftrightarrow> targetObj t = None"

definition resourceResultKey :: "ResourceKey \<Rightarrow> SyncPhase \<Rightarrow> string" where
  "resourceResultKey key ph = ResourceKey_String key @ '':'' @ SyncPhase_string ph"

definition resultKey :: "syncTask \<Rightarrow> string" where
  "resultKey t = resourceResultKey (GetResourceKey (task_obj t)) (tphase t)"

definition wave :: "syncTask \<Rightarrow> int" where
  "wave t = (case waveOverride t of Some w \<Rightarrow> w | None \<Rightarrow> Wave (task_obj t))"

definition isHook :: "syncTask \<Rightarrow> bool" where
  "isHook t = IsHook (task_obj t)"

definition groupVersionKind :: "syncTask \<Rightarrow> GroupVersionKind" where
  "groupVersionKind t = GVK (task_obj t)"

definition tgroup :: "syncTask \<Rightarrow> string" where
  "tgroup t = gvkGroup (groupVersionKind t)"

definition tkind :: "syncTask \<Rightarrow> string" where
  "tkind t = gvkKind (groupVersionKind t)"

definition tversion :: "syncTask \<Rightarrow> string" where
  "tversion t = gvkVersion (groupVersionKind t)"

definition tname :: "syncTask \<Rightarrow> string" where
  "tname t = GetName (task_obj t)"

definition tnamespace :: "syncTask \<Rightarrow> string" where
  "tnamespace t = GetNamespace (task_obj t)"

definition tpending :: "syncTask \<Rightarrow> bool" where
  "tpending t \<longleftrightarrow> operationState t = OperationEmpty"

definition trunning :: "syncTask \<Rightarrow> bool" where
  "trunning t = Running (operationState t)"

definition tcompleted :: "syncTask \<Rightarrow> bool" where
  "tcompleted t = Completed (operationState t)"

definition tsuccessful :: "syncTask \<Rightarrow> bool" where
  "tsuccessful t = Successful (operationState t)"

definition tpruned :: "syncTask \<Rightarrow> bool" where
  "tpruned t \<longleftrightarrow> syncStatus t = ResultCodePruned"

definition thookType :: "syncTask \<Rightarrow> HookType" where
  "thookType t = (if isHook t then hook_of_phase (tphase t) else HookTypeEmpty)"

definition hasHookDeletePolicy :: "syncTask \<Rightarrow> HookDeletePolicy \<Rightarrow> bool" where
  "hasHookDeletePolicy t policy =
     (if \<not> isHook t then False else list_ex (\<lambda>p. p = policy) (DeletePolicies (task_obj t)))"

definition deleteBeforeCreation :: "syncTask \<Rightarrow> bool" where
  "deleteBeforeCreation t \<longleftrightarrow>
     liveObj t \<noteq> None \<and> tpending t \<and> hasHookDeletePolicy t HookDeletePolicyBeforeHookCreation"

definition deleteOnPhaseSuccessful :: "syncTask \<Rightarrow> bool" where
  "deleteOnPhaseSuccessful t \<longleftrightarrow> liveObj t \<noteq> None \<and> hasHookDeletePolicy t HookDeletePolicyHookSucceeded"

definition deleteOnPhaseFailed :: "syncTask \<Rightarrow> bool" where
  "deleteOnPhaseFailed t \<longleftrightarrow> liveObj t \<noteq> None \<and> hasHookDeletePolicy t HookDeletePolicyHookFailed"

definition deleteOnPhaseCompletion :: "syncTask \<Rightarrow> bool" where
  "deleteOnPhaseCompletion t \<longleftrightarrow> deleteOnPhaseFailed t \<or> deleteOnPhaseSuccessful t"

definition task_resourceKey :: "syncTask \<Rightarrow> ResourceKey" where
  "task_resourceKey t =
     (let resourceKey = GetResourceKey (task_obj t)
      in case liveObj t of Some live \<Rightarrow> resourceKey\<lparr>Namespace := GetNamespace live\<rparr> | None \<Rightarrow> resourceKey)"

section \<open>Order of tasks\<close>

fun syncPhaseOrder :: "SyncPhase \<Rightarrow> int" where
  "syncPhaseOrder SyncPhasePreSync = -1"
| "syncPhaseOrder SyncPhaseSync = 0"
| "syncPhaseOrder SyncPhasePostSync = 1"
| "syncPhaseOrder SyncPhaseSyncFail = 2"
| "syncPhaseOrder SyncPhaseEmpty = 0"

definition kinds :: "string list" where
  "kinds = [''Namespace'', ''NetworkPolicy'', ''ResourceQuota'', ''LimitRange'', ''PodSecurityPolicy'',
     ''PodDisruptionBudget'', ''ServiceAccount'', ''Secret'', ''SecretList'', ''ConfigMap'', ''StorageClass'',
     ''PersistentVolume'', ''PersistentVolumeClaim'', ''CustomResourceDefinition'', ''ClusterRole'',
     ''ClusterRoleList'', ''ClusterRoleBinding'', ''ClusterRoleBindingList'', ''Role'', ''RoleList'',
     ''RoleBinding'', ''RoleBindingList'', ''Service'', ''DaemonSet'', ''Pod'', ''ReplicationController'',
     ''ReplicaSet'', ''Deployment'', ''HorizontalPodAutoscaler'', ''StatefulSet'', ''Job'', ''CronJob'',
     ''IngressClass'', ''Ingress'', ''APIService'']"

fun index_in :: "'a \<Rightarrow> 'a list \<Rightarrow> nat option" where
  "index_in x [] = None"
| "index_in x (y # ys) = (if x = y then Some 0 else map_option Suc (index_in x ys))"

text \<open>The map built by \<open>init\<close>: position minus number of kinds; 0, the highest, for any other kind.\<close>

definition kindOrder :: "string \<Rightarrow> int" where
  "kindOrder kind =
     (case index_in kind kinds of Some i \<Rightarrow> int i - int (length kinds) | None \<Rightarrow> 0)"

text \<open>\<open>Less\<close>; the differences are 64-bit subtractions, and only the one of waves can wrap.\<close>

definition Less :: "syncTask \<Rightarrow> syncTask \<Rightarrow> bool" where
  "Less tA tB =
     (let d = wrap64 (syncPhaseOrder (tphase tA) - syncPhaseOrder (tphase tB)) in
      if d \<noteq> 0 then d < 0 else
      let d = wrap64 (wave tA - wave tB) in
      if d \<noteq> 0 then d < 0 else
      let a = task_obj tA; b = task_obj tB;
          d = wrap64 (kindOrder (GetKind a) - kindOrder (GetKind b)) in
      if d \<noteq> 0 then d < 0 else str_less (GetName a) (GetName b))"

section \<open>Dependencies between tasks\<close>

text \<open>The two pairs of callbacks that \<open>Sort\<close> passes; \<open>None\<close> is the answer (\_, false).\<close>

definition ns_isDep :: "unstructured \<Rightarrow> string option" where
  "ns_isDep o' = (if GetKind o' = NamespaceKind \<and> gvkGroup (GVK o') = '''' then Some (GetName o') else None)"

definition ns_doesRefDep :: "unstructured \<Rightarrow> string option" where
  "ns_doesRefDep o' = (if GetNamespace o' \<noteq> '''' then Some (GetNamespace o') else None)"

definition crd_isDep :: "unstructured \<Rightarrow> string option" where
  "crd_isDep o' =
     (if IsCRD o' then
        (case NestedString o' [''spec'', ''group''] of
           None \<Rightarrow> None
         | Some crdGroup \<Rightarrow>
             (case NestedString o' [''spec'', ''names'', ''kind''] of
                None \<Rightarrow> None
              | Some crdKind \<Rightarrow> Some (crdGroup @ ''/'' @ crdKind)))
      else None)"

definition crd_doesRefDep :: "unstructured \<Rightarrow> string option" where
  "crd_doesRefDep o' = Some (gvkGroup (GVK o') @ ''/'' @ gvkKind (GVK o'))"

text \<open>
  One iteration of the loop of \<open>adjustDeps\<close>: the slice, the map of first indexes, the index. The inner
  loop moves the elements from \<open>index\<close> up to \<open>i - 1\<close> one place to the right, from the right end down.
\<close>

definition shift_right :: "nat \<Rightarrow> nat \<Rightarrow> 'a list \<Rightarrow> 'a list" where
  "shift_right index i s = foldl (\<lambda>s j. s[j := s ! (j - 1)]) s (rev [Suc index..<Suc i])"

definition adjust_step ::
  "(unstructured \<Rightarrow> string option) \<Rightarrow> (unstructured \<Rightarrow> string option) \<Rightarrow> nat \<Rightarrow>
     syncTask list \<times> (string \<rightharpoonup> nat) \<Rightarrow> syncTask list \<times> (string \<rightharpoonup> nat)" where
  "adjust_step isDep doesRefDep i = (\<lambda>(s, firstIndexByDepKey).
     let t = s ! i in
     case targetObj t of
       None \<Rightarrow> (s, firstIndexByDepKey)
     | Some target \<Rightarrow>
         (case isDep target of
            Some depKey \<Rightarrow>
              (case firstIndexByDepKey depKey of
                 Some index \<Rightarrow>
                   (let t' = t\<lparr>waveOverride := Some (wave (s ! index)), tphase := tphase (s ! index)\<rparr>
                    in ((shift_right index i s)[index := t'],
                        \<lambda>ns. map_option (\<lambda>firstIndex. if index \<le> firstIndex then firstIndex + 1 else firstIndex)
                               (firstIndexByDepKey ns)))
               | None \<Rightarrow> (s, firstIndexByDepKey))
          | None \<Rightarrow>
              (case doesRefDep target of
                 Some depKey \<Rightarrow>
                   (case firstIndexByDepKey depKey of
                      None \<Rightarrow> (s, firstIndexByDepKey(depKey \<mapsto> i))
                    | Some _ \<Rightarrow> (s, firstIndexByDepKey))
               | None \<Rightarrow> (s, firstIndexByDepKey))))"

definition adjustDeps ::
  "(unstructured \<Rightarrow> string option) \<Rightarrow> (unstructured \<Rightarrow> string option) \<Rightarrow> syncTask list \<Rightarrow> syncTask list" where
  "adjustDeps isDep doesRefDep s =
     fst (fold (adjust_step isDep doesRefDep) [0..<length s] (s, Map.empty))"

text \<open>\<open>Sort\<close>, given the sorting routine (\<open>sort.Sort\<close>; the model runs \<open>sort_Sort\<close>).\<close>

definition Sort_with :: "((syncTask \<Rightarrow> syncTask \<Rightarrow> bool) \<Rightarrow> syncTask list \<Rightarrow> syncTask list) \<Rightarrow>
    syncTask list \<Rightarrow> syncTask list" where
  "Sort_with srt s =
     adjustDeps crd_isDep crd_doesRefDep (adjustDeps ns_isDep ns_doesRefDep (srt Less s))"

definition Sort :: "syncTask list \<Rightarrow> syncTask list" where
  "Sort s = Sort_with sort_Sort s"

section \<open>Helpers on task lists\<close>

text \<open>
  \<open>Filter\<close>, \<open>Split\<close>, \<open>All\<close>, \<open>Any\<close> and \<open>Find\<close> are the list library's functions on any list of tasks;
  they are written for any element type because a running synchronization keeps lists of task pointers.
\<close>

fun Filter :: "('a \<Rightarrow> bool) \<Rightarrow> 'a list \<Rightarrow> 'a list" where
  "Filter predicate [] = []"
| "Filter predicate (task # s) = (if predicate task then task # Filter predicate s else Filter predicate s)"

fun SplitTasks :: "('a \<Rightarrow> bool) \<Rightarrow> 'a list \<Rightarrow> 'a list \<times> 'a list" where
  "SplitTasks predicate [] = ([], [])"
| "SplitTasks predicate (task # s) =
     (let (trueTasks, falseTasks) = SplitTasks predicate s
      in if predicate task then (task # trueTasks, falseTasks) else (trueTasks, task # falseTasks))"

text \<open>\<open>Map\<close> collects the distinct values; their order is that of a Go map, here the first occurrence.\<close>

definition MapTasks :: "('a \<Rightarrow> string) \<Rightarrow> 'a list \<Rightarrow> string list" where
  "MapTasks f s = rev (remdups (rev (map f s)))"

fun All :: "('a \<Rightarrow> bool) \<Rightarrow> 'a list \<Rightarrow> bool" where
  "All predicate [] = True"
| "All predicate (task # s) = (if \<not> predicate task then False else All predicate s)"

fun Any :: "('a \<Rightarrow> bool) \<Rightarrow> 'a list \<Rightarrow> bool" where
  "Any predicate [] = False"
| "Any predicate (task # s) = (if predicate task then True else Any predicate s)"

fun Find :: "('a \<Rightarrow> bool) \<Rightarrow> 'a list \<Rightarrow> 'a option" where
  "Find predicate [] = None"
| "Find predicate (task # s) = (if predicate task then Some task else Find predicate s)"

definition tasks_phase :: "syncTask list \<Rightarrow> SyncPhase" where
  "tasks_phase s = (if 0 < length s then tphase (s ! 0) else SyncPhaseEmpty)"

definition tasks_wave :: "syncTask list \<Rightarrow> int" where
  "tasks_wave s = (if 0 < length s then wave (s ! 0) else 0)"

definition lastPhase :: "syncTask list \<Rightarrow> SyncPhase" where
  "lastPhase s = (if 0 < length s then tphase (s ! (length s - 1)) else SyncPhaseEmpty)"

definition lastWave :: "syncTask list \<Rightarrow> int" where
  "lastWave s = (if 0 < length s then wave (s ! (length s - 1)) else 0)"

definition multiStep :: "syncTask list \<Rightarrow> bool" where
  "multiStep s \<longleftrightarrow> tasks_wave s \<noteq> lastWave s \<or> tasks_phase s \<noteq> lastPhase s"

lemma Filter_filter [simp]: "Filter p s = filter p s"
  by (induction s) auto

lemma SplitTasks_partition [simp]: "SplitTasks p s = (filter p s, filter (\<lambda>x. \<not> p x) s)"
  by (induction s) auto

lemma All_Ball [simp]: "All p s \<longleftrightarrow> (\<forall>x\<in>set s. p x)"
  by (induction s) auto

lemma Any_Bex [simp]: "Any p s \<longleftrightarrow> (\<exists>x\<in>set s. p x)"
  by (induction s) auto

lemma Find_find [simp]: "Find p s = find p s"
  by (induction s) auto

lemma MapTasks_set [simp]: "set (MapTasks f s) = f ` set s"
  by (simp add: MapTasks_def)

end
