(* ===== verification/TaskOrder.thy ===== *)
theory TaskOrder
  imports Tasks
begin

text \<open>
  What \<open>Sort\<close> of \<open>pkg/sync/sync_tasks.go\<close> guarantees: the comparison is a strict weak order as long as
  waves are far from the ends of the 64-bit range (and is not one beyond), the in-place loop of
  \<open>adjustDeps\<close> refines a simple insertion, no task is lost or duplicated, phases and waves stay
  in order, and dependencies come before the tasks that need them.
\<close>

section \<open>The comparison\<close>

definition small_wave :: "syncTask \<Rightarrow> bool" where
  "small_wave t \<longleftrightarrow> - (2 ^ 62) \<le> wave t \<and> wave t < 2 ^ 62"

definition step_le :: "syncTask \<Rightarrow> syncTask \<Rightarrow> bool" where
  "step_le a b \<longleftrightarrow> syncPhaseOrder (tphase a) < syncPhaseOrder (tphase b) \<or>
     syncPhaseOrder (tphase a) = syncPhaseOrder (tphase b) \<and> wave a \<le> wave b"

lemma index_in_less: "index_in x xs = Some i \<Longrightarrow> i < length xs"
  by (induction xs arbitrary: i) (auto split: if_splits)

lemma kindOrder_bounds: "- 35 \<le> kindOrder k \<and> kindOrder k \<le> 0"
  using index_in_less [of k kinds] by (auto simp: kindOrder_def kinds_def split: option.split)

lemma syncPhaseOrder_bounds: "- 1 \<le> syncPhaseOrder p \<and> syncPhaseOrder p \<le> 2"
  by (cases p) auto

lemma wrap64_small: "- (2 ^ 63) \<le> x \<Longrightarrow> x < 2 ^ 63 \<Longrightarrow> wrap64 x = x"
  by (rule wrap64_id) (simp add: int64_def)

lemma Less_iff:
  assumes "small_wave a" "small_wave b"
  shows "Less a b \<longleftrightarrow>
    syncPhaseOrder (tphase a) < syncPhaseOrder (tphase b) \<or>
    syncPhaseOrder (tphase a) = syncPhaseOrder (tphase b) \<and>
      (wave a < wave b \<or> wave a = wave b \<and>
        (kindOrder (GetKind (task_obj a)) < kindOrder (GetKind (task_obj b)) \<or>
         kindOrder (GetKind (task_obj a)) = kindOrder (GetKind (task_obj b)) \<and>
           str_less (GetName (task_obj a)) (GetName (task_obj b))))"
proof -
  have 1: "wrap64 (syncPhaseOrder (tphase a) - syncPhaseOrder (tphase b)) =
      syncPhaseOrder (tphase a) - syncPhaseOrder (tphase b)"
    using syncPhaseOrder_bounds [of "tphase a"] syncPhaseOrder_bounds [of "tphase b"]
    by (intro wrap64_small) auto
  have 2: "wrap64 (wave a - wave b) = wave a - wave b"
    using assms by (intro wrap64_small) (auto simp: small_wave_def)
  have 3: "wrap64 (kindOrder (GetKind (task_obj a)) - kindOrder (GetKind (task_obj b))) =
      kindOrder (GetKind (task_obj a)) - kindOrder (GetKind (task_obj b))"
    using kindOrder_bounds [of "GetKind (task_obj a)"] kindOrder_bounds [of "GetKind (task_obj b)"]
    by (intro wrap64_small) auto
  show ?thesis by (auto simp: Less_def Let_def 1 2 3)
qed

lemma Less_strict_weak: "\<forall>t\<in>S. small_wave t \<Longrightarrow> strict_weak_on Less S"
  unfolding strict_weak_on_def
proof (intro conjI ballI impI)
  fix x assume "\<forall>t\<in>S. small_wave t" "x \<in> S"
  then show "\<not> Less x x" by (simp add: Less_iff)
next
  fix x y z assume "\<forall>t\<in>S. small_wave t" "x \<in> S" "y \<in> S" "z \<in> S" "Less x y" "Less y z"
  then show "Less x z" by (auto simp: Less_iff dest: str_less_trans)
next
  fix x y z assume S: "\<forall>t\<in>S. small_wave t" "x \<in> S" "y \<in> S" "z \<in> S" "Less x z"
  show "Less x y \<or> Less y z"
    using S str_less_linear [of "GetName (task_obj y)" "GetName (task_obj z)"]
      str_less_trans [of "GetName (task_obj x)" "GetName (task_obj z)" "GetName (task_obj y)"]
    by (cases "GetName (task_obj y) = GetName (task_obj z)") (auto simp: Less_iff)
qed

lemma not_Less_step_le: "small_wave a \<Longrightarrow> small_wave b \<Longrightarrow> \<not> Less b a \<Longrightarrow> step_le a b"
  by (auto simp: Less_iff step_le_def)

definition wave_task :: "int \<Rightarrow> syncTask" where
  "wave_task w = (new_task SyncPhaseSync (Some blank) None)\<lparr>waveOverride := Some w\<rparr>"


section \<open>The loop of adjustDeps refines an insertion\<close>

definition dep_key :: "(unstructured \<Rightarrow> string option) \<Rightarrow> syncTask \<Rightarrow> string option" where
  "dep_key isDep t = (case targetObj t of None \<Rightarrow> None | Some target \<Rightarrow> isDep target)"

definition ref_key ::
  "(unstructured \<Rightarrow> string option) \<Rightarrow> (unstructured \<Rightarrow> string option) \<Rightarrow> syncTask \<Rightarrow> string option" where
  "ref_key isDep refDep t =
     (case targetObj t of None \<Rightarrow> None
      | Some target \<Rightarrow> (if isDep target = None then refDep target else None))"

definition move_to :: "syncTask \<Rightarrow> syncTask \<Rightarrow> syncTask" where
  "move_to x t = t\<lparr>waveOverride := Some (wave x), tphase := tphase x\<rparr>"

fun place :: "('a \<Rightarrow> bool) \<Rightarrow> ('a \<Rightarrow> 'a \<Rightarrow> 'a) \<Rightarrow> 'a \<Rightarrow> 'a list \<Rightarrow> 'a list" where
  "place P mv t [] = [t]"
| "place P mv t (x # xs) = (if P x then mv x t # x # xs else x # place P mv t xs)"

definition adjust_one ::
  "(unstructured \<Rightarrow> string option) \<Rightarrow> (unstructured \<Rightarrow> string option) \<Rightarrow> syncTask list \<Rightarrow> syncTask \<Rightarrow> syncTask list" where
  "adjust_one isDep refDep pre t =
     (case dep_key isDep t of
        None \<Rightarrow> pre @ [t]
      | Some k \<Rightarrow> place (\<lambda>x. ref_key isDep refDep x = Some k) move_to t pre)"

definition adjust_ref ::
  "(unstructured \<Rightarrow> string option) \<Rightarrow> (unstructured \<Rightarrow> string option) \<Rightarrow> syncTask list \<Rightarrow> syncTask list" where
  "adjust_ref isDep refDep s = foldl (adjust_one isDep refDep) [] s"

fun first_idx :: "('a \<Rightarrow> bool) \<Rightarrow> 'a list \<Rightarrow> nat option" where
  "first_idx P [] = None"
| "first_idx P (x # xs) = (if P x then Some 0 else map_option Suc (first_idx P xs))"

lemma first_idx_less: "first_idx P xs = Some i \<Longrightarrow> i < length xs \<and> P (xs ! i)"
  by (induction xs arbitrary: i) (auto split: if_splits)

lemma first_idx_snoc:
  "first_idx P (xs @ [t]) =
     (case first_idx P xs of Some i \<Rightarrow> Some i | None \<Rightarrow> (if P t then Some (length xs) else None))"
  by (induction xs) (auto split: option.split)

lemma place_none: "first_idx P xs = None \<Longrightarrow> place P mv t xs = xs @ [t]"
  by (induction xs) (auto split: if_splits)

lemma place_some:
  "first_idx P xs = Some i \<Longrightarrow> place P mv t xs = take i xs @ mv (xs ! i) t # drop i xs"
  by (induction xs arbitrary: i) (auto split: if_splits)

lemma first_idx_insert:
  assumes "\<not> P t" "i \<le> length xs"
  shows "first_idx P (take i xs @ t # drop i xs) =
    map_option (\<lambda>j. if i \<le> j then j + 1 else j) (first_idx P xs)"
  using assms(2)
proof (induction xs arbitrary: i)
  case Nil
  with assms(1) show ?case by simp
next
  case (Cons x xs)
  show ?case
  proof (cases i)
    case 0
    with assms(1) show ?thesis by (cases "first_idx P xs") simp_all
  next
    case (Suc i')
    with Cons show ?thesis by (cases "first_idx P xs") simp_all
  qed
qed

lemma length_shift_right [simp]: "length (shift_right index i s) = length s"
proof -
  have "length (foldl (\<lambda>s j. s[j := s ! (j - 1)]) s js) = length s" for js :: "nat list"
    by (induction js arbitrary: s) auto
  then show ?thesis by (simp add: shift_right_def)
qed

lemma nth_shift_right:
  assumes "index \<le> i" "i < length s" "n < length s"
  shows "shift_right index i s ! n = (if index < n \<and> n \<le> i then s ! (n - 1) else s ! n)"
  using assms
proof (induction "i - index" arbitrary: i s)
  case 0
  then show ?case by (auto simp: shift_right_def)
next
  case (Suc d)
  then obtain i' where i: "i = Suc i'" by (cases i) auto
  have "rev [Suc index..<Suc i] = i # rev [Suc index..<Suc i']"
    using Suc.hyps(2) i by simp
  then have "shift_right index i s = shift_right index i' (s[i := s ! i'])"
    using i by (simp add: shift_right_def)
  moreover have "shift_right index i' (s[i := s ! i']) ! n =
      (if index < n \<and> n \<le> i' then s[i := s ! i'] ! (n - 1) else s[i := s ! i'] ! n)"
    using Suc i by (intro Suc.hyps(1)) auto
  ultimately show ?case using Suc.prems Suc.hyps(2) i by (auto simp: nth_list_update)
qed

lemma shift_insert:
  assumes "index < length pre"
  shows "(shift_right index (length pre) (pre @ t # rest))[index := t'] =
    (take index pre @ t' # drop index pre) @ rest"
  using assms
  by (intro nth_equalityI)
    (auto simp: nth_shift_right nth_append nth_list_update nth_Cons' min_def)

text \<open>
  The invariant of the loop: the slice is the adjusted prefix followed by the untouched rest, and the map
  holds for each key the first index of a task that refers to it.
\<close>

lemma adjust_step_refines:
  assumes fm: "\<And>k. m k = first_idx (\<lambda>x. ref_key isDep refDep x = Some k) pre"
  shows "\<exists>m'. adjust_step isDep refDep (length pre) (pre @ t # rest, m) =
      (adjust_one isDep refDep pre t @ rest, m') \<and>
      (\<forall>k. m' k = first_idx (\<lambda>x. ref_key isDep refDep x = Some k) (adjust_one isDep refDep pre t))"
proof (cases "targetObj t")
  case None
  then have "dep_key isDep t = None" "ref_key isDep refDep t = None"
    by (simp_all add: dep_key_def ref_key_def)
  with None show ?thesis
    by (auto simp: adjust_step_def adjust_one_def first_idx_snoc fm split: option.split)
next
  case (Some target)
  show ?thesis
  proof (cases "isDep target")
    case None
    then have "dep_key isDep t = None" "ref_key isDep refDep t = refDep target"
      using Some by (simp_all add: dep_key_def ref_key_def)
    with None Some show ?thesis
      by (cases "refDep target"; cases "m (the (refDep target))")
        (auto simp: adjust_step_def adjust_one_def first_idx_snoc fm split: option.split)
  next
    case (Some k)
    with \<open>targetObj t = Some target\<close>
    have dk: "dep_key isDep t = Some k" and rk: "ref_key isDep refDep (move_to x t) = None" for x
      by (simp_all add: dep_key_def ref_key_def move_to_def)
    have rt: "ref_key isDep refDep t = None"
      using Some \<open>targetObj t = Some target\<close> by (simp add: ref_key_def)
    show ?thesis
    proof (cases "m k")
      case None
      then have "first_idx (\<lambda>x. ref_key isDep refDep x = Some k) pre = None" by (simp add: fm)
      with None Some \<open>targetObj t = Some target\<close> dk rt show ?thesis
        by (auto simp: adjust_step_def adjust_one_def place_none first_idx_snoc fm split: option.split)
    next
      case idx: (Some index)
      then have f: "first_idx (\<lambda>x. ref_key isDep refDep x = Some k) pre = Some index" by (simp add: fm)
      then have less: "index < length pre" by (auto dest: first_idx_less)
      then have nth: "(pre @ t # rest) ! index = pre ! index" by (simp add: nth_append)
      have one: "adjust_one isDep refDep pre t = take index pre @ move_to (pre ! index) t # drop index pre"
        using dk f by (simp add: adjust_one_def place_some)
      have "adjust_step isDep refDep (length pre) (pre @ t # rest, m) =
          (adjust_one isDep refDep pre t @ rest,
           \<lambda>ns. map_option (\<lambda>firstIndex. if index \<le> firstIndex then firstIndex + 1 else firstIndex) (m ns))"
        using idx Some \<open>targetObj t = Some target\<close> less
        by (simp add: adjust_step_def Let_def nth one shift_insert flip: move_to_def)
      moreover have "first_idx (\<lambda>x. ref_key isDep refDep x = Some k') (adjust_one isDep refDep pre t) =
          map_option (\<lambda>firstIndex. if index \<le> firstIndex then firstIndex + 1 else firstIndex) (m k')" for k'
        using less unfolding one fm by (intro first_idx_insert) (simp_all add: rk)
      ultimately show ?thesis by simp
    qed
  qed
qed

lemma length_adjust_one [simp]: "length (adjust_one isDep refDep pre t) = Suc (length pre)"
proof -
  have "length (place P mv t pre) = Suc (length pre)" for P :: "syncTask \<Rightarrow> bool" and mv
    by (induction pre) auto
  then show ?thesis by (simp add: adjust_one_def split: option.split)
qed

lemma adjust_loop:
  assumes "\<And>k. m k = first_idx (\<lambda>x. ref_key isDep refDep x = Some k) pre"
  shows "fst (fold (adjust_step isDep refDep) [length pre..<length pre + length rest] (pre @ rest, m)) =
    foldl (adjust_one isDep refDep) pre rest"
  using assms
proof (induction rest arbitrary: pre m)
  case (Cons t rest)
  obtain m' where m': "adjust_step isDep refDep (length pre) (pre @ t # rest, m) =
      (adjust_one isDep refDep pre t @ rest, m')"
    and fm: "\<And>k. m' k = first_idx (\<lambda>x. ref_key isDep refDep x = Some k) (adjust_one isDep refDep pre t)"
    using adjust_step_refines [OF Cons.prems, of t rest] by blast
  have "[length pre..<length pre + length (t # rest)] =
      length pre # [length (adjust_one isDep refDep pre t)..<length (adjust_one isDep refDep pre t) + length rest]"
    by (subst upt_conv_Cons) simp_all
  then show ?case using Cons.IH [OF fm] by (simp add: m')
qed simp

text \<open>
  C35. The in-place algorithm (index map, shifting loop, index fix-up) computes the insertion: each task in
  turn is appended to the tasks before it, except that a dependency goes right before the first earlier
  task that refers to it, taking over that task's wave and phase.
\<close>

theorem adjustDeps_refines: "adjustDeps isDep doesRefDep s = adjust_ref isDep doesRefDep s"
  using adjust_loop [of Map.empty isDep doesRefDep "[]" s] by (simp add: adjustDeps_def adjust_ref_def)

section \<open>No task is lost\<close>

text \<open>What sorting must not change of a task: everything but the phase and the wave override.\<close>

definition core :: "syncTask \<Rightarrow> syncTask" where
  "core t = t\<lparr>tphase := SyncPhaseEmpty, waveOverride := None\<rparr>"

lemma core_move_to [simp]: "core (move_to x t) = core t"
  by (simp add: core_def move_to_def)

lemma mset_place: "(\<And>x. f (mv x t) = f t) \<Longrightarrow> mset (map f (place P mv t xs)) = add_mset (f t) (mset (map f xs))"
  by (induction xs) auto

lemma mset_core_adjust_one: "mset (map core (adjust_one isDep refDep pre t)) = add_mset (core t) (mset (map core pre))"
  unfolding adjust_one_def by (simp add: mset_place del: mset_map split: option.split)

lemma mset_core_foldl:
  "mset (map core (foldl (adjust_one isDep refDep) pre s)) = mset (map core pre) + mset (map core s)"
  by (induction s arbitrary: pre) (simp_all add: mset_core_adjust_one del: mset_map)

lemma mset_core_adjustDeps: "mset (map core (adjustDeps isDep refDep s)) = mset (map core s)"
  by (simp add: adjustDeps_refines adjust_ref_def mset_core_foldl del: mset_map)

section \<open>Phases and waves stay in order\<close>

lemma step_le_refl [simp]: "step_le a a"
  by (simp add: step_le_def)

lemma step_le_trans: "step_le a b \<Longrightarrow> step_le b c \<Longrightarrow> step_le a c"
  by (auto simp: step_le_def)

lemma step_le_move_to [simp]:
  "step_le (move_to x t) y = step_le x y" "step_le y (move_to x t) = step_le y x"
  by (simp_all add: step_le_def move_to_def wave_def)

lemma sorted_adjust_one:
  assumes "sorted_wrt step_le (pre @ t # rest)"
  shows "sorted_wrt step_le (adjust_one isDep refDep pre t @ rest)"
proof (cases "dep_key isDep t")
  case None
  with assms show ?thesis by (simp add: adjust_one_def)
next
  case (Some k)
  let ?P = "\<lambda>x. ref_key isDep refDep x = Some k"
  show ?thesis
  proof (cases "first_idx ?P pre")
    case None
    with Some assms show ?thesis by (simp add: adjust_one_def place_none)
  next
    case idx: (Some i)
    then have i: "i < length pre" by (auto dest: first_idx_less)
    then have pre: "pre = take i pre @ pre ! i # drop (Suc i) pre" by (rule id_take_nth_drop)
    have "sorted_wrt step_le ((take i pre @ pre ! i # drop (Suc i) pre) @ t # rest)"
      using assms pre by simp
    moreover have "drop i pre = pre ! i # drop (Suc i) pre" using i by (simp add: Cons_nth_drop_Suc)
    ultimately show ?thesis
      using Some idx by (auto simp: adjust_one_def place_some sorted_wrt_append)
  qed
qed

lemma sorted_foldl_adjust:
  "sorted_wrt step_le (pre @ s) \<Longrightarrow> sorted_wrt step_le (foldl (adjust_one isDep refDep) pre s)"
  by (induction s arbitrary: pre) (simp_all add: sorted_adjust_one)

lemma sorted_adjustDeps: "sorted_wrt step_le s \<Longrightarrow> sorted_wrt step_le (adjustDeps isDep refDep s)"
  by (simp add: adjustDeps_refines adjust_ref_def sorted_foldl_adjust)

section \<open>Dependencies come first\<close>

definition deps_first ::
  "(unstructured \<Rightarrow> string option) \<Rightarrow> (unstructured \<Rightarrow> string option) \<Rightarrow> syncTask list \<Rightarrow> bool" where
  "deps_first isDep refDep s \<longleftrightarrow>
     sorted_wrt (\<lambda>a b. \<forall>k. dep_key isDep b = Some k \<longrightarrow> ref_key isDep refDep a \<noteq> Some k) s"

lemma dep_key_move_to [simp]: "dep_key isDep (move_to x t) = dep_key isDep t"
  by (simp add: dep_key_def move_to_def)

lemma dep_key_no_ref: "dep_key isDep t = Some k \<Longrightarrow> ref_key isDep refDep (move_to x t) = None"
  by (auto simp: dep_key_def ref_key_def move_to_def split: option.splits)

lemma first_idx_None_iff: "first_idx P xs = None \<longleftrightarrow> (\<forall>x\<in>set xs. \<not> P x)"
  by (induction xs) auto

lemma first_idx_before: "first_idx P xs = Some i \<Longrightarrow> \<forall>x\<in>set (take i xs). \<not> P x"
  by (induction xs arbitrary: i) (auto split: if_splits)

lemma deps_first_adjust_one:
  assumes "deps_first isDep refDep pre"
  shows "deps_first isDep refDep (adjust_one isDep refDep pre t)"
proof (cases "dep_key isDep t")
  case None
  with assms show ?thesis by (simp add: adjust_one_def deps_first_def sorted_wrt_append)
next
  case (Some k)
  let ?P = "\<lambda>x. ref_key isDep refDep x = Some k"
  show ?thesis
  proof (cases "first_idx ?P pre")
    case None
    with Some assms show ?thesis
      by (auto simp: adjust_one_def place_none deps_first_def sorted_wrt_append first_idx_None_iff)
  next
    case idx: (Some i)
    have "sorted_wrt (\<lambda>a b. \<forall>k. dep_key isDep b = Some k \<longrightarrow> ref_key isDep refDep a \<noteq> Some k)
        (take i pre @ drop i pre)"
      using assms by (simp add: deps_first_def)
    note split = this [unfolded sorted_wrt_append]
    from split show ?thesis
      using Some idx first_idx_before [OF idx] dep_key_no_ref [OF Some]
      by (auto simp: adjust_one_def place_some deps_first_def sorted_wrt_append)
  qed
qed

lemma deps_first_adjustDeps: "deps_first isDep refDep (adjustDeps isDep refDep s)"
proof -
  have "deps_first isDep refDep pre \<Longrightarrow> deps_first isDep refDep (foldl (adjust_one isDep refDep) pre s)" for pre
    by (induction s arbitrary: pre) (simp_all add: deps_first_adjust_one)
  then show ?thesis by (simp add: adjustDeps_refines adjust_ref_def deps_first_def)
qed

text \<open>A pass leaves the tasks that are not dependencies of its own kind exactly as and where they were.\<close>

lemma filter_place: "(\<And>x. \<not> Q (mv x t)) \<Longrightarrow> \<not> Q t \<Longrightarrow> filter Q (place P mv t xs) = filter Q xs"
  by (induction xs) auto

lemma filter_adjustDeps:
  "filter (\<lambda>t. dep_key isDep t = None) (adjustDeps isDep refDep s) = filter (\<lambda>t. dep_key isDep t = None) s"
proof -
  have one: "filter (\<lambda>t. dep_key isDep t = None) (adjust_one isDep refDep pre t) =
      filter (\<lambda>t. dep_key isDep t = None) (pre @ [t])" for pre t
    by (auto simp: adjust_one_def filter_place split: option.split)
  have "filter (\<lambda>t. dep_key isDep t = None) (foldl (adjust_one isDep refDep) pre s) =
      filter (\<lambda>t. dep_key isDep t = None) (pre @ s)" for pre
    by (induction s arbitrary: pre) (simp_all add: one)
  from this [of "[]"] show ?thesis by (simp add: adjustDeps_refines adjust_ref_def)
qed

lemma deps_first_filter: "deps_first isDep refDep s \<Longrightarrow> deps_first isDep refDep (filter Q s)"
  unfolding deps_first_def by (rule sorted_wrt_filter)

section \<open>Sort\<close>

locale task_sorter = sorter srt for srt :: "(syncTask \<Rightarrow> syncTask \<Rightarrow> bool) \<Rightarrow> syncTask list \<Rightarrow> syncTask list"
begin

lemma Sort_with_core: "mset (map core (Sort_with srt s)) = mset (map core s)"
  by (simp only: Sort_with_def mset_core_adjustDeps) (simp add: srt_perm)

lemma Sort_with_sorted:
  assumes "\<forall>t\<in>set s. small_wave t"
  shows "sorted_wrt step_le (Sort_with srt s)"
proof -
  have "sorted_wrt (\<lambda>a b. \<not> Less b a) (srt Less s)"
    using assms by (intro srt_ordered Less_strict_weak)
  then have "sorted_wrt step_le (srt Less s)"
    using assms by (elim sorted_wrt_mono_rel [rotated]) (simp add: not_Less_step_le srt_set)
  then show ?thesis by (simp add: Sort_with_def sorted_adjustDeps)
qed

lemma Sort_with_deps:
  "deps_first crd_isDep crd_doesRefDep (Sort_with srt s) \<and>
   deps_first ns_isDep ns_doesRefDep (filter (\<lambda>t. dep_key crd_isDep t = None) (Sort_with srt s))"
  by (simp add: Sort_with_def deps_first_adjustDeps filter_adjustDeps deps_first_filter)

end

interpretation tasksort: task_sorter sort_Sort
  by unfold_locales


definition ns_example :: "syncTask list" where
  "ns_example = [
     new_task SyncPhaseSync (Some (mk_obj '''' NamespaceKind '''' ''foo'')) None,
     new_task SyncPhasePreSync (Some (mk_obj ''batch'' JobKind ''foo'' ''migrate'')) None]"

lemma ns_example_small: "\<forall>t\<in>set ns_example. small_wave t"
  by (simp add: ns_example_def small_wave_def new_task_def wave_def task_obj_def obj_or_def mk_obj_def
      blank_def Wave_def helm_Weight_def)


text \<open>
  C34. In the sorted list no task precedes the custom resource definition of its own kind, and, leaving the
  definitions aside, no task that lives in a namespace precedes the task that creates the namespace.
\<close>

theorem Sort_dependencies_first:
  "deps_first crd_isDep crd_doesRefDep (Sort s) \<and>
   deps_first ns_isDep ns_doesRefDep (filter (\<lambda>t. dep_key crd_isDep t = None) (Sort s))"
  unfolding Sort_def by (rule tasksort.Sort_with_deps)

end
