(* ===== verification/Reconcile.thy ===== *)
theory Reconcile
  imports Hooks
begin

text \<open>
  \<open>pkg/sync/reconcile.go\<close>: pairing the objects of the repository with the live objects of the cluster.
  The map of live objects is an association list in the order in which Go happens to range over it; a
  value may be nil. Deleting from the map is \<open>map_del\<close>.
\<close>

type_synonym live_map = "(ResourceKey \<times> unstructured option) list"

section \<open>Model\<close>

fun splitHooks :: "unstructured option list \<Rightarrow> unstructured list \<times> unstructured list" where
  "splitHooks [] = ([], [])"
| "splitHooks (obj # target) =
     (let (targetObjs, hooks) = splitHooks target in
      case obj of
        None \<Rightarrow> (targetObjs, hooks)
      | Some o' \<Rightarrow>
          (if Ignore o' then (targetObjs, hooks)
           else if IsHook o' then (targetObjs, o' # hooks)
           else (o' # targetObjs, hooks)))"

text \<open>\<open>liveObjsById\<close>: the non-nil live objects, grouped by UID in the order of the map.\<close>

fun append_at :: "'k \<Rightarrow> 'v \<Rightarrow> ('k \<times> 'v list) list \<Rightarrow> ('k \<times> 'v list) list" where
  "append_at k v [] = [(k, [v])]"
| "append_at k v ((k', vs) # m) = (if k' = k then (k', vs @ [v]) # m else (k', vs) # append_at k v m)"

definition liveObjsById :: "live_map \<Rightarrow> (string \<times> unstructured list) list" where
  "liveObjsById live =
     foldl (\<lambda>m (k, obj). case obj of None \<Rightarrow> m | Some o' \<Rightarrow> append_at (GetUID o') o' m) [] live"

fun dedup_loop :: "ResourceKey set \<Rightarrow> unstructured list \<Rightarrow> nat \<Rightarrow> live_map \<Rightarrow> live_map" where
  "dedup_loop targets [] duplicatesLeft live = live"
| "dedup_loop targets (obj # objs) duplicatesLeft live =
     (let resourceKey = GetResourceKey obj in
      if resourceKey \<notin> targets then
        let live' = map_del resourceKey live; left' = duplicatesLeft - 1
        in if left' = 1 then live' else dedup_loop targets objs left' live'
      else dedup_loop targets objs duplicatesLeft live)"

definition dedupLiveResources :: "unstructured list \<Rightarrow> live_map \<Rightarrow> live_map" where
  "dedupLiveResources targetObjs live =
     foldl (\<lambda>live' (id, objs).
        if 1 < length objs then dedup_loop (GetResourceKey ` set targetObjs) objs (length objs) live' else live')
       live (liveObjsById live)"

record ReconciliationResult =
  Live :: "unstructured option list"
  Target :: "unstructured option list"
  Hooks :: "unstructured list"

definition keysToCheck :: "string \<Rightarrow> ResourceInfoProvider \<Rightarrow> unstructured \<Rightarrow> ResourceKey list" where
  "keysToCheck namespace resInfo obj =
     (let gvk = GVK obj;
          ns = FirstNonEmpty [GetNamespace obj, namespace];
          answer = resInfo (gvkGroup gvk, gvkKind gvk);
          namespaced = (case answer of Inl _ \<Rightarrow> False | Inr b \<Rightarrow> b);
          unknownScope = (case answer of Inl _ \<Rightarrow> True | Inr _ \<Rightarrow> False)
      in (if namespaced \<or> unknownScope
          then [NewResourceKey (gvkGroup gvk) (gvkKind gvk) ns (GetName obj)] else []) @
         (if \<not> namespaced \<or> unknownScope
          then [NewResourceKey (gvkGroup gvk) (gvkKind gvk) '''' (GetName obj)] else []))"

fun take_live :: "ResourceKey list \<Rightarrow> live_map \<Rightarrow> unstructured option \<times> live_map" where
  "take_live [] live = (None, live)"
| "take_live (key # keys) live =
     (case map_of live key of
        Some liveObj \<Rightarrow> (liveObj, map_del key live)
      | None \<Rightarrow> take_live keys live)"

fun match_live :: "string \<Rightarrow> ResourceInfoProvider \<Rightarrow> unstructured list \<Rightarrow> live_map \<Rightarrow>
    unstructured option list \<times> live_map" where
  "match_live namespace resInfo [] live = ([], live)"
| "match_live namespace resInfo (obj # objs) live =
     (let (managed, live') = take_live (keysToCheck namespace resInfo obj) live;
          (rest, live'') = match_live namespace resInfo objs live'
      in (managed # rest, live''))"

definition Reconcile :: "unstructured option list \<Rightarrow> live_map \<Rightarrow> string \<Rightarrow> ResourceInfoProvider \<Rightarrow>
    ReconciliationResult" where
  "Reconcile targets liveObjByKey namespace resInfo =
     (let (targetObjs, hooks) = splitHooks targets;
          live = dedupLiveResources targetObjs liveObjByKey;
          (managedLiveObj, rest) = match_live namespace resInfo targetObjs live
      in \<lparr>Live = managedLiveObj @ map snd rest,
          Target = map Some targetObjs @ map (\<lambda>_. None) rest,
          Hooks = hooks\<rparr>)"

section \<open>Splitting off the hooks\<close>

lemma splitHooks_eq:
  "splitHooks target =
    (filter (\<lambda>o'. \<not> IsHook o') (List.map_filter id target),
     filter (\<lambda>o'. IsHook o' \<and> Types o' \<noteq> []) (List.map_filter id target))"
  by (induction target) (auto simp: List.map_filter_def Ignore_def split: option.splits)

section \<open>Duplicates\<close>

text \<open>Every entry of a live map is stored under the key of its object.\<close>

definition live_keyed :: "live_map \<Rightarrow> bool" where
  "live_keyed live \<longleftrightarrow> (\<forall>(k, v)\<in>set live. \<forall>o'. v = Some o' \<longrightarrow> k = GetResourceKey o')"

text \<open>A group's loop deletes a list of keys; fewer of them than the group has members.\<close>

fun removed :: "ResourceKey set \<Rightarrow> unstructured list \<Rightarrow> nat \<Rightarrow> ResourceKey list" where
  "removed T [] n = []"
| "removed T (obj # objs) n =
     (if GetResourceKey obj \<notin> T
      then GetResourceKey obj # (if n - 1 = 1 then [] else removed T objs (n - 1))
      else removed T objs n)"

lemma dedup_loop_filter: "dedup_loop T objs n live = filter (\<lambda>e. fst e \<notin> set (removed T objs n)) live"
  by (induction T objs n live rule: dedup_loop.induct)
    (auto simp: Let_def map_del_def intro!: filter_cong)

lemma length_removed: "1 < n \<Longrightarrow> length (removed T objs n) < n"
proof (induction T objs n rule: removed.induct)
  case (2 T obj objs n)
  show ?case
  proof (cases "GetResourceKey obj \<in> T \<or> n - 1 = 1")
    case True
    with 2 show ?thesis by auto
  next
    case False
    with "2.prems" have "1 < n - 1" by linarith
    with False "2.IH"(1) have "length (removed T objs (n - 1)) < n - 1" by simp
    with False show ?thesis by simp
  qed
qed simp

lemma set_removed: "set (removed T objs n) \<subseteq> GetResourceKey ` set objs - T"
  by (induction T objs n rule: removed.induct) auto

lemma removed_survivor:
  assumes "distinct (map GetResourceKey objs)" "1 < length objs"
  shows "\<exists>o'\<in>set objs. GetResourceKey o' \<notin> set (removed T objs (length objs))"
proof (rule ccontr)
  assume "\<not> ?thesis"
  then have "set (map GetResourceKey objs) \<subseteq> set (removed T objs (length objs))" by auto
  then have "card (set (map GetResourceKey objs)) \<le> card (set (removed T objs (length objs)))"
    by (rule card_mono [rotated]) simp
  also have "\<dots> \<le> length (removed T objs (length objs))" by (rule card_length)
  also have "\<dots> < length objs" using assms(2) by (rule length_removed)
  finally show False using distinct_card [OF assms(1)] by simp
qed

text \<open>The groups: each object with its UID, in order, no key twice.\<close>

definition groups_ok :: "(string \<times> unstructured list) list \<Rightarrow> bool" where
  "groups_ok m \<longleftrightarrow> map_wf m \<and> (\<forall>(u, os)\<in>set m. os \<noteq> [] \<and> (\<forall>o'\<in>set os. GetUID o' = u))"

lemma append_at_keys: "fst ` set (append_at k v m) = insert k (fst ` set m)"
  by (induction k v m rule: append_at.induct) auto

lemma append_at_map_of:
  "map_of (append_at k v m) =
    (map_of m)(k \<mapsto> (case map_of m k of None \<Rightarrow> [] | Some vs \<Rightarrow> vs) @ [v])"
  by (induction k v m rule: append_at.induct) (auto simp: fun_eq_iff)

lemma append_at_wf: "map_wf m \<Longrightarrow> map_wf (append_at k v m)"
  by (induction k v m rule: append_at.induct) (auto simp: map_wf_def append_at_keys)

lemma liveObjsById_snoc:
  "liveObjsById (live @ [(k, v)]) =
    (case v of None \<Rightarrow> liveObjsById live | Some o' \<Rightarrow> append_at (GetUID o') o' (liveObjsById live))"
  by (simp add: liveObjsById_def split: option.split)

lemma liveObjsById_spec:
  "map_wf (liveObjsById live) \<and>
   map_of (liveObjsById live) u =
     (let os = filter (\<lambda>o'. GetUID o' = u) (List.map_filter snd live) in if os = [] then None else Some os)"
proof (induction live rule: rev_induct)
  case Nil
  then show ?case by (simp add: liveObjsById_def List.map_filter_def)
next
  case (snoc e live)
  then show ?case
    by (cases e; cases "snd e")
      (auto simp: liveObjsById_snoc append_at_wf append_at_map_of Let_def List.map_filter_def
        split: option.splits if_splits)
qed

lemma map_filter_snd_iff: "o' \<in> set (List.map_filter snd live) \<longleftrightarrow> (\<exists>k. (k, Some o') \<in> set live)"
  by (force simp: set_map_filter)

lemma liveObjsById_member:
  "(u, os) \<in> set (liveObjsById live) \<longleftrightarrow>
     os = filter (\<lambda>o'. GetUID o' = u) (List.map_filter snd live) \<and> os \<noteq> []"
  using liveObjsById_spec [of live u] map_of_eq_Some_iff [of "liveObjsById live" u os]
  by (auto simp: map_wf_def Let_def split: if_splits)

definition removed_keys :: "ResourceKey set \<Rightarrow> live_map \<Rightarrow> ResourceKey set" where
  "removed_keys T live =
     (\<Union>(u, os)\<in>set (liveObjsById live). if 1 < length os then set (removed T os (length os)) else {})"

lemma dedup_filter:
  "dedupLiveResources targetObjs live =
     filter (\<lambda>e. fst e \<notin> removed_keys (GetResourceKey ` set targetObjs) live) live"
proof -
  let ?T = "GetResourceKey ` set targetObjs"
  have "foldl (\<lambda>live' (id, objs). if 1 < length objs then dedup_loop ?T objs (length objs) live' else live') l gs =
      filter (\<lambda>e. fst e \<notin> (\<Union>(u, os)\<in>set gs. if 1 < length os then set (removed ?T os (length os)) else {})) l"
    for gs :: "(string \<times> unstructured list) list" and l
  proof (induction gs arbitrary: l)
    case (Cons g gs)
    then show ?case
      by (cases g; cases "1 < length (snd g)") (auto simp: dedup_loop_filter intro: filter_cong)
  qed simp
  then show ?thesis by (simp add: dedupLiveResources_def removed_keys_def)
qed

lemma live_key_inj:
  assumes "map_wf live" "live_keyed live" "(k, Some o1) \<in> set live" "(k', Some o2) \<in> set live"
    "GetResourceKey o1 = GetResourceKey o2"
  shows "o1 = o2"
proof -
  have "k = GetResourceKey o1" "k' = GetResourceKey o2"
    using assms(2-4) by (auto simp: live_keyed_def)
  with assms eq_key_imp_eq_value [of live k "Some o1" "Some o2"] show ?thesis
    by (auto simp: map_wf_def)
qed

lemma distinct_group_keys:
  assumes "map_wf live" "live_keyed live"
  shows "distinct (map GetResourceKey (filter P (List.map_filter snd live)))"
proof -
  have "map GetResourceKey (List.map_filter snd live) = map fst (filter (\<lambda>e. snd e \<noteq> None) live)"
    using assms(2) by (induction live) (auto simp: live_keyed_def List.map_filter_def)
  then have "distinct (map GetResourceKey (List.map_filter snd live))"
    using assms(1) by (simp add: map_wf_def distinct_map_filter)
  then show ?thesis by (rule distinct_map_filter)
qed

lemma removed_keys_uid:
  assumes wf: "map_wf live" "live_keyed live" and o': "(k, Some o') \<in> set live"
    and rem: "GetResourceKey o' \<in> removed_keys T live"
  shows "let os = filter (\<lambda>x. GetUID x = GetUID o') (List.map_filter snd live)
    in 1 < length os \<and> GetResourceKey o' \<in> set (removed T os (length os))"
proof -
  from rem obtain u os where g: "(u, os) \<in> set (liveObjsById live)" "1 < length os"
    "GetResourceKey o' \<in> set (removed T os (length os))"
    by (auto simp: removed_keys_def split: if_splits)
  then obtain x where x: "x \<in> set os" "GetResourceKey x = GetResourceKey o'"
    using set_removed [of T os "length os"] by auto
  from x(1) g(1) obtain k' where "(k', Some x) \<in> set live" "GetUID x = u"
    by (auto simp: liveObjsById_member map_filter_snd_iff)
  with live_key_inj [OF wf o'] x(2) have "u = GetUID o'" by metis
  with g show ?thesis by (auto simp: liveObjsById_member Let_def)
qed

lemma dedup_keeps_uid:
  assumes wf: "map_wf live" "live_keyed live" and o': "(k, Some o') \<in> set live"
  shows "\<exists>k' x. (k', Some x) \<in> set (dedupLiveResources targetObjs live) \<and> GetUID x = GetUID o'"
proof -
  let ?T = "GetResourceKey ` set targetObjs"
  define os where "os = filter (\<lambda>x. GetUID x = GetUID o') (List.map_filter snd live)"
  have "o' \<in> set os" using o' by (auto simp: os_def map_filter_snd_iff)
  have "\<exists>x\<in>set os. \<not> (1 < length os \<and> GetResourceKey x \<in> set (removed ?T os (length os)))"
    using removed_survivor [of os ?T] distinct_group_keys [OF wf] \<open>o' \<in> set os\<close> by (auto simp: os_def)
  then obtain x where x: "x \<in> set os" "\<not> (1 < length os \<and> GetResourceKey x \<in> set (removed ?T os (length os)))"
    by blast
  then obtain k' where k': "(k', Some x) \<in> set live" "GetUID x = GetUID o'"
    by (auto simp: os_def map_filter_snd_iff)
  moreover have "k' = GetResourceKey x" using k' wf(2) by (auto simp: live_keyed_def)
  moreover have "GetResourceKey x \<notin> removed_keys ?T live"
    using removed_keys_uid [OF wf k'(1), of ?T] x(2) k'(2) by (auto simp: os_def Let_def)
  ultimately show ?thesis by (auto simp: dedup_filter)
qed

lemma dedup_keeps_targets:
  assumes "e \<in> set live" "fst e \<in> GetResourceKey ` set targetObjs"
  shows "e \<in> set (dedupLiveResources targetObjs live)"
  using assms set_removed by (fastforce simp: dedup_filter removed_keys_def split: if_splits)

lemma map_wf_filter: "map_wf m \<Longrightarrow> map_wf (filter P m)"
  by (simp add: map_wf_def distinct_map_filter)

section \<open>Matching\<close>

lemma set_map_del: "set (map_del k m) = {e \<in> set m. fst e \<noteq> k}"
  by (auto simp: map_del_def)

lemma mset_map_del:
  assumes "map_wf m" "map_of m k = Some v"
  shows "mset (map snd m) = add_mset v (mset (map snd (map_del k m)))"
  using assms
proof (induction m)
  case (Cons e m)
  show ?case
  proof (cases "fst e = k")
    case True
    with Cons.prems have "k \<notin> fst ` set m" by (simp add: map_wf_def)
    then have "\<forall>e'\<in>set m. fst e' \<noteq> k" by blast
    then have "map_del k m = m"
      by (simp add: map_del_def case_prod_beta filter_id_conv)
    with True Cons.prems show ?thesis by (cases e) (simp add: map_del_def)
  next
    case False
    with Cons show ?thesis by (cases e) (auto simp: map_del_def map_wf_def)
  qed
qed simp

abbreviation non_nil :: "'a option multiset \<Rightarrow> 'a option multiset" where
  "non_nil \<equiv> filter_mset (\<lambda>v. v \<noteq> None)"

lemma take_live_conserves:
  assumes "map_wf live" "take_live ks live = (v, live')"
  shows "map_wf live' \<and> set live' \<subseteq> set live \<and>
    non_nil (mset (map snd live)) = non_nil (add_mset v (mset (map snd live')))"
  using assms(2)
proof (induction ks)
  case (Cons k ks)
  then show ?case
    using mset_map_del [OF assms(1), of k] assms(1)
    by (auto simp: set_map_del split: option.splits simp del: mset_map)
qed (use assms(1) in auto)

lemma match_live_conserves:
  assumes "map_wf live" "match_live ns ri objs live = (ms, rest)"
  shows "length ms = length objs \<and> set rest \<subseteq> set live \<and>
    non_nil (mset (map snd live)) = non_nil (mset ms + mset (map snd rest))"
  using assms
proof (induction objs arbitrary: live ms)
  case (Cons obj objs)
  obtain v live' where t: "take_live (keysToCheck ns ri obj) live = (v, live')" by fastforce
  obtain ms' where m: "match_live ns ri objs live' = (ms', rest)" "ms = v # ms'"
    using Cons.prems(2) t by (auto split: prod.splits)
  from take_live_conserves [OF Cons.prems(1) t] Cons.IH [OF _ m(1)] m(2)
  show ?case by (auto simp del: mset_map)
qed auto

lemma match_live_claims:
  assumes "map_wf live" "match_live ns ri objs live = (ms, rest)" "obj \<in> set objs"
    "keysToCheck ns ri obj = [k]"
  shows "k \<notin> fst ` set rest"
  using assms
proof (induction objs arbitrary: live ms)
  case (Cons x objs)
  obtain v live' where t: "take_live (keysToCheck ns ri x) live = (v, live')" by fastforce
  obtain ms' where m: "match_live ns ri objs live' = (ms', rest)"
    using Cons.prems(2) t by (auto split: prod.splits)
  have wf: "map_wf live'" using take_live_conserves [OF Cons.prems(1) t] by blast
  show ?case
  proof (cases "obj \<in> set objs")
    case True
    with Cons.IH [OF wf m] Cons.prems(4) show ?thesis by blast
  next
    case False
    with Cons.prems have "keysToCheck ns ri x = [k]" by auto
    with t have "k \<notin> fst ` set live'"
      by (auto simp: set_map_del split: option.splits dest: weak_map_of_SomeI)
    moreover have "set rest \<subseteq> set live'" using match_live_conserves [OF wf m] by blast
    ultimately show ?thesis by blast
  qed
qed simp

section \<open>Reconcile\<close>

text \<open>
  Removing duplicates is safe: only entries of the map disappear, an entry whose key is in the
  repository stays, and for every live object some object with the same UID stays.
\<close>

theorem dedup_safe:
  assumes "map_wf live" "live_keyed live"
  shows "set (dedupLiveResources targetObjs live) \<subseteq> set live \<and>
    (\<forall>e\<in>set live. fst e \<in> GetResourceKey ` set targetObjs \<longrightarrow> e \<in> set (dedupLiveResources targetObjs live)) \<and>
    (\<forall>k o'. (k, Some o') \<in> set live \<longrightarrow>
       (\<exists>k' x. (k', Some x) \<in> set (dedupLiveResources targetObjs live) \<and> GetUID x = GetUID o'))"
  using dedup_keeps_uid [OF assms] dedup_keeps_targets by (auto simp: dedup_filter)

definition live_example :: live_map where
  "live_example =
     (let d1 = (mk_obj ''apps'' DeploymentKind ''ns'' ''web'')\<lparr>GetUID := ''1''\<rparr>;
          d2 = (mk_obj ''extensions'' DeploymentKind ''ns'' ''web'')\<lparr>GetUID := ''1''\<rparr>;
          s1 = (mk_obj '''' SecretKind ''ns'' ''old'')\<lparr>GetUID := ''2''\<rparr>
      in [(GetResourceKey d1, Some d1), (GetResourceKey d2, Some d2), (GetResourceKey s1, Some s1)])"

lemmas object_simps = mk_obj_def blank_def GetResourceKey_def NewResourceKey_def

lemma live_example_ok: "map_wf live_example" "live_keyed live_example"
  by (simp_all add: live_example_def Let_def map_wf_def live_keyed_def object_simps)

theorem dedup_safe_witness:
  "set (dedupLiveResources [mk_obj ''apps'' DeploymentKind ''ns'' ''web''] live_example) \<subseteq> set live_example"
  using dedup_safe [OF live_example_ok] by blast

text \<open>
  Reconciliation pairs targets and live objects without losing any: the two lists have the same
  length, and the live objects in the result are exactly the live objects left after removing
  duplicates, each once, whether matched to a target or left to prune.
\<close>

theorem Reconcile_conserves:
  assumes "map_wf liveObjByKey"
  shows "length (Live (Reconcile targets liveObjByKey ns ri)) = length (Target (Reconcile targets liveObjByKey ns ri)) \<and>
    non_nil (mset (Live (Reconcile targets liveObjByKey ns ri))) =
    non_nil (mset (map snd (dedupLiveResources (fst (splitHooks targets)) liveObjByKey)))"
proof -
  obtain targetObjs hooks where sp: "splitHooks targets = (targetObjs, hooks)" by fastforce
  obtain ms rest where m: "match_live ns ri targetObjs (dedupLiveResources targetObjs liveObjByKey) = (ms, rest)"
    by fastforce
  have "map_wf (dedupLiveResources targetObjs liveObjByKey)"
    using assms by (simp add: dedup_filter map_wf_filter)
  from match_live_conserves [OF this m] sp m show ?thesis
    by (simp add: Reconcile_def Let_def del: mset_map)
qed

theorem Reconcile_conserves_witness:
  "length (Live (Reconcile [Some (mk_obj ''apps'' DeploymentKind ''ns'' ''web'')] live_example ''ns'' (\<lambda>_. Inr True))) =
   length (Target (Reconcile [Some (mk_obj ''apps'' DeploymentKind ''ns'' ''web'')] live_example ''ns'' (\<lambda>_. Inr True)))"
  using Reconcile_conserves [OF live_example_ok(1)] by blast



end
