(* ===== verification/Health.thy ===== *)
theory Health
  imports Hooks
begin

text \<open>
  Health of a live object, \<open>pkg/health\<close>. The engine converts an object to the typed struct of its
  group, version and kind with apimachinery's converter and inspects the struct. The typed structs are
  records of the fields that are inspected, named after them; the converter, the JSON decoder of the
  autoscaler annotation and the printer of a GroupVersionKind are the fields of \<open>health_env\<close>, a
  parameter. \<open>podReady\<close> is the answer of kubectl's \<open>podutils.IsPodReady\<close>.
\<close>

section \<open>Typed objects\<close>

record Condition =
  condType :: string
  condStatus :: string
  condReason :: string
  condMessage :: string

record Deployment =
  depName :: string
  depGeneration :: int
  depPaused :: bool
  depSpecReplicas :: "int option"
  depObservedGeneration :: int
  depReplicas :: int
  depUpdatedReplicas :: int
  depAvailableReplicas :: int
  depConditions :: "Condition list"

record ReplicaSet =
  rsGeneration :: int
  rsSpecReplicas :: "int option"
  rsObservedGeneration :: int
  rsAvailableReplicas :: int
  rsConditions :: "Condition list"

record DaemonSet =
  dsName :: string
  dsGeneration :: int
  dsUpdateStrategyType :: string
  dsObservedGeneration :: int
  dsUpdatedNumberScheduled :: int
  dsDesiredNumberScheduled :: int
  dsNumberAvailable :: int

text \<open>\<open>stsRollingUpdate\<close>: nil, or the strategy with its partition, itself possibly nil.\<close>

record StatefulSet =
  stsGeneration :: int
  stsSpecReplicas :: "int option"
  stsUpdateStrategyType :: string
  stsRollingUpdate :: "int option option"
  stsObservedGeneration :: int
  stsReadyReplicas :: int
  stsUpdatedReplicas :: int
  stsCurrentReplicas :: int
  stsUpdateRevision :: string
  stsCurrentRevision :: string

record Job =
  jobConditions :: "Condition list"

record Terminated =
  termMessage :: string
  termReason :: string
  termExitCode :: int

record Waiting =
  waitReason :: string
  waitMessage :: string

record ContainerStatus =
  ctrName :: string
  ctrWaiting :: "Waiting option"
  ctrTerminated :: "Terminated option"
  ctrLastTerminated :: bool

record Pod =
  podRestartPolicy :: string
  podPhase :: string
  podMessage :: string
  podInitContainerStatuses :: "ContainerStatus list"
  podContainerStatuses :: "ContainerStatus list"
  podReady :: bool

record Service =
  svcType :: string
  svcIngressCount :: nat

record PVC =
  pvcPhase :: string

record HPA =
  hpaAnnotations :: "string \<rightharpoonup> string"
  hpaConditions :: "Condition list"

record APIService =
  apiserviceConditions :: "Condition list"

record health_env =
  toDeployment :: "unstructured \<Rightarrow> go_error + Deployment"
  toReplicaSet :: "unstructured \<Rightarrow> go_error + ReplicaSet"
  toDaemonSet :: "unstructured \<Rightarrow> go_error + DaemonSet"
  toStatefulSet :: "unstructured \<Rightarrow> go_error + StatefulSet"
  toJob :: "unstructured \<Rightarrow> go_error + Job"
  toPod :: "unstructured \<Rightarrow> go_error + Pod"
  toService :: "unstructured \<Rightarrow> go_error + Service"
  toPVC :: "unstructured \<Rightarrow> go_error + PVC"
  toHPA :: "unstructured \<Rightarrow> go_error + HPA"
  toAPIService :: "unstructured \<Rightarrow> go_error + APIService"
  unmarshalConditions :: "string \<Rightarrow> go_error + Condition list"
  GVK_String :: "GroupVersionKind \<Rightarrow> string"

type_synonym health_result = "go_error + HealthStatus"

section \<open>Comparing health codes\<close>

definition healthOrder :: "HealthStatusCode list" where
  "healthOrder = [HealthStatusHealthy, HealthStatusSuspended, HealthStatusProgressing,
     HealthStatusMissing, HealthStatusDegraded, HealthStatusUnknown]"

text \<open>The loop leaves the index at 0 for a code that is not in the list.\<close>

definition IsWorse :: "HealthStatusCode \<Rightarrow> HealthStatusCode \<Rightarrow> bool" where
  "IsWorse current new =
     (let (currentIndex, newIndex) =
        foldl (\<lambda>(c, n) (i, code). (if current = code then i else c, if new = code then i else n))
          (0 :: nat, 0 :: nat) (zip [0..<length healthOrder] healthOrder)
      in currentIndex < newIndex)"

section \<open>Workloads\<close>

definition health :: "HealthStatusCode \<Rightarrow> string \<Rightarrow> health_result" where
  "health code msg = Inr \<lparr>Status = code, Message = msg\<rparr>"

fun get_condition :: "string \<Rightarrow> Condition list \<Rightarrow> Condition option" where
  "get_condition ty [] = None"
| "get_condition ty (c # cs) = (if condType c = ty then Some c else get_condition ty cs)"

definition getAppsv1DeploymentHealth :: "Deployment \<Rightarrow> health_result" where
  "getAppsv1DeploymentHealth d =
     (if depPaused d then health HealthStatusSuspended ''Deployment is paused''
      else if depGeneration d \<le> depObservedGeneration d then
        let cond = get_condition ''Progressing'' (depConditions d) in
        if (case cond of Some c \<Rightarrow> condReason c = ''ProgressDeadlineExceeded'' | None \<Rightarrow> False) then
          health HealthStatusDegraded (''Deployment '' @ quote (depName d) @ '' exceeded its progress deadline'')
        else if (case depSpecReplicas d of Some r \<Rightarrow> depUpdatedReplicas d < r | None \<Rightarrow> False) then
          health HealthStatusProgressing (''Waiting for rollout to finish: '' @ show_int (depUpdatedReplicas d) @
            '' out of '' @ show_int (the (depSpecReplicas d)) @ '' new replicas have been updated...'')
        else if depUpdatedReplicas d < depReplicas d then
          health HealthStatusProgressing (''Waiting for rollout to finish: '' @
            show_int (wrap32 (depReplicas d - depUpdatedReplicas d)) @ '' old replicas are pending termination...'')
        else if depAvailableReplicas d < depUpdatedReplicas d then
          health HealthStatusProgressing (''Waiting for rollout to finish: '' @ show_int (depAvailableReplicas d) @
            '' of '' @ show_int (depUpdatedReplicas d) @ '' updated replicas are available...'')
        else health HealthStatusHealthy ''''
      else health HealthStatusProgressing
        ''Waiting for rollout to finish: observed deployment generation less than desired generation'')"

definition getAppsv1ReplicaSetHealth :: "ReplicaSet \<Rightarrow> health_result" where
  "getAppsv1ReplicaSetHealth r =
     (if rsGeneration r \<le> rsObservedGeneration r then
        (case get_condition ''ReplicaFailure'' (rsConditions r) of
           Some cond \<Rightarrow>
             (if condStatus cond = ''True'' then health HealthStatusDegraded (condMessage cond)
              else if (case rsSpecReplicas r of Some n \<Rightarrow> rsAvailableReplicas r < n | None \<Rightarrow> False) then
                health HealthStatusProgressing (''Waiting for rollout to finish: '' @ show_int (rsAvailableReplicas r) @
                  '' out of '' @ show_int (the (rsSpecReplicas r)) @ '' new replicas are available...'')
              else health HealthStatusHealthy '''')
         | None \<Rightarrow>
             (if (case rsSpecReplicas r of Some n \<Rightarrow> rsAvailableReplicas r < n | None \<Rightarrow> False) then
                health HealthStatusProgressing (''Waiting for rollout to finish: '' @ show_int (rsAvailableReplicas r) @
                  '' out of '' @ show_int (the (rsSpecReplicas r)) @ '' new replicas are available...'')
              else health HealthStatusHealthy ''''))
      else health HealthStatusProgressing
        ''Waiting for rollout to finish: observed replica set generation less than desired generation'')"

definition getAppsv1DaemonSetHealth :: "DaemonSet \<Rightarrow> health_result" where
  "getAppsv1DaemonSetHealth d =
     (if dsObservedGeneration d < dsGeneration d then
        health HealthStatusProgressing
          ''Waiting for rollout to finish: observed daemon set generation less than desired generation''
      else if dsUpdateStrategyType d = ''OnDelete'' then
        health HealthStatusHealthy (''daemon set '' @ show_int (dsUpdatedNumberScheduled d) @ '' out of '' @
          show_int (dsDesiredNumberScheduled d) @ '' new pods have been updated'')
      else if dsUpdatedNumberScheduled d < dsDesiredNumberScheduled d then
        health HealthStatusProgressing (''Waiting for daemon set '' @ quote (dsName d) @ '' rollout to finish: '' @
          show_int (dsUpdatedNumberScheduled d) @ '' out of '' @ show_int (dsDesiredNumberScheduled d) @
          '' new pods have been updated...'')
      else if dsNumberAvailable d < dsDesiredNumberScheduled d then
        health HealthStatusProgressing (''Waiting for daemon set '' @ quote (dsName d) @ '' rollout to finish: '' @
          show_int (dsNumberAvailable d) @ '' of '' @ show_int (dsDesiredNumberScheduled d) @
          '' updated pods are available...'')
      else health HealthStatusHealthy '''')"

definition getAppsv1StatefulSetHealth :: "StatefulSet \<Rightarrow> health_result" where
  "getAppsv1StatefulSetHealth s =
     (if stsObservedGeneration s = 0 \<or> stsObservedGeneration s < stsGeneration s then
        health HealthStatusProgressing ''Waiting for statefulset spec update to be observed...''
      else if (case stsSpecReplicas s of Some r \<Rightarrow> stsReadyReplicas s < r | None \<Rightarrow> False) then
        health HealthStatusProgressing (''Waiting for '' @
          show_int (wrap32 (the (stsSpecReplicas s) - stsReadyReplicas s)) @ '' pods to be ready...'')
      else if stsUpdateStrategyType s = ''RollingUpdate'' \<and> stsRollingUpdate s \<noteq> None then
        (case (stsSpecReplicas s, the (stsRollingUpdate s)) of
           (Some r, Some part) \<Rightarrow>
             (if stsUpdatedReplicas s < wrap32 (r - part) then
                health HealthStatusProgressing (''Waiting for partitioned roll out to finish: '' @
                  show_int (stsUpdatedReplicas s) @ '' out of '' @ show_int (wrap32 (r - part)) @
                  '' new pods have been updated...'')
              else health HealthStatusHealthy (''partitioned roll out complete: '' @
                  show_int (stsUpdatedReplicas s) @ '' new pods have been updated...''))
         | _ \<Rightarrow> health HealthStatusHealthy (''partitioned roll out complete: '' @
                  show_int (stsUpdatedReplicas s) @ '' new pods have been updated...''))
      else if stsUpdateStrategyType s = ''OnDelete'' then
        health HealthStatusHealthy (''statefulset has '' @ show_int (stsReadyReplicas s) @ '' ready pods'')
      else if stsUpdateRevision s \<noteq> stsCurrentRevision s then
        health HealthStatusProgressing (''waiting for statefulset rolling update to complete '' @
          show_int (stsUpdatedReplicas s) @ '' pods at revision '' @ stsUpdateRevision s @ ''...'')
      else health HealthStatusHealthy (''statefulset rolling update complete '' @
          show_int (stsCurrentReplicas s) @ '' pods at revision '' @ stsCurrentRevision s @ ''...''))"

section \<open>Jobs\<close>

record job_scan =
  failed :: bool
  failMsg :: string
  complete :: bool
  jmessage :: string
  isSuspended :: bool

definition job_init :: job_scan where
  "job_init = \<lparr>failed = False, failMsg = '''', complete = False, jmessage = '''', isSuspended = False\<rparr>"

definition job_step :: "job_scan \<Rightarrow> Condition \<Rightarrow> job_scan" where
  "job_step s c =
     (if condType c = ''Failed'' then s\<lparr>failed := True, complete := True, failMsg := condMessage c\<rparr>
      else if condType c = ''Complete'' then s\<lparr>complete := True, jmessage := condMessage c\<rparr>
      else if condType c = ''Suspended'' then
        (let s' = s\<lparr>complete := True, jmessage := condMessage c\<rparr>
         in if condStatus c = ''True'' then s'\<lparr>isSuspended := True\<rparr> else s')
      else s)"

definition getBatchv1JobHealth :: "Job \<Rightarrow> health_result" where
  "getBatchv1JobHealth job =
     (let s = foldl job_step job_init (jobConditions job) in
      if \<not> complete s then health HealthStatusProgressing (jmessage s)
      else if failed s then health HealthStatusDegraded (failMsg s)
      else if isSuspended s then health HealthStatusSuspended (failMsg s)
      else health HealthStatusHealthy (jmessage s))"

section \<open>Pods\<close>

definition waiting_error :: "Waiting \<Rightarrow> bool" where
  "waiting_error w \<longleftrightarrow> HasPrefix (waitReason w) ''Err'' \<or> HasSuffix (waitReason w) ''Error'' \<or>
     HasSuffix (waitReason w) ''BackOff''"

fun waiting_messages :: "ContainerStatus list \<Rightarrow> string list" where
  "waiting_messages [] = []"
| "waiting_messages (c # cs) =
     (case ctrWaiting c of
        Some w \<Rightarrow> (if waiting_error w then waitMessage w # waiting_messages cs else waiting_messages cs)
      | None \<Rightarrow> waiting_messages cs)"

definition getFailMessage :: "ContainerStatus \<Rightarrow> string" where
  "getFailMessage ctr =
     (case ctrTerminated ctr of
        Some t \<Rightarrow>
          (if termMessage t \<noteq> '''' then termMessage t
           else if termReason t = ''OOMKilled'' then termReason t
           else if termExitCode t \<noteq> 0 then
             ''container '' @ quote (ctrName ctr) @ '' failed with exit code '' @ show_int (termExitCode t)
           else '''')
      | None \<Rightarrow> '''')"

fun first_fail_message :: "ContainerStatus list \<Rightarrow> string" where
  "first_fail_message [] = ''''"
| "first_fail_message (c # cs) = (if getFailMessage c \<noteq> '''' then getFailMessage c else first_fail_message cs)"

text \<open>The first part returns only if a container of an always-restarting pod waits on an error.\<close>

definition getCorev1PodHealth :: "Pod \<Rightarrow> health_result" where
  "getCorev1PodHealth pod =
     (let messages = waiting_messages (podContainerStatuses pod) in
      if podRestartPolicy pod = ''Always'' \<and> messages \<noteq> [] then health HealthStatusDegraded (Join messages '', '')
      else if podPhase pod = ''Pending'' then health HealthStatusProgressing (podMessage pod)
      else if podPhase pod = ''Succeeded'' then health HealthStatusHealthy (podMessage pod)
      else if podPhase pod = ''Failed'' then
        (if podMessage pod \<noteq> '''' then health HealthStatusDegraded (podMessage pod)
         else health HealthStatusDegraded
           (first_fail_message (podInitContainerStatuses pod @ podContainerStatuses pod)))
      else if podPhase pod = ''Running'' then
        (if podRestartPolicy pod = ''Always'' then
           (if podReady pod then health HealthStatusHealthy (podMessage pod)
            else if list_ex ctrLastTerminated (podContainerStatuses pod) then
              health HealthStatusDegraded (podMessage pod)
            else health HealthStatusProgressing (podMessage pod))
         else if podRestartPolicy pod = ''OnFailure'' \<or> podRestartPolicy pod = ''Never'' then
           health HealthStatusProgressing (podMessage pod)
         else health HealthStatusUnknown (podMessage pod))
      else health HealthStatusUnknown (podMessage pod))"

section \<open>Services, claims, ingresses, API services, workflows\<close>

definition getCorev1ServiceHealth :: "Service \<Rightarrow> health_result" where
  "getCorev1ServiceHealth service =
     (if svcType service = ''LoadBalancer'' then
        (if 0 < svcIngressCount service then health HealthStatusHealthy '''' else health HealthStatusProgressing '''')
      else health HealthStatusHealthy '''')"

definition getCorev1PVCHealth :: "PVC \<Rightarrow> health_result" where
  "getCorev1PVCHealth pvc =
     (if pvcPhase pvc = ''Lost'' then health HealthStatusDegraded ''''
      else if pvcPhase pvc = ''Pending'' then health HealthStatusProgressing ''''
      else if pvcPhase pvc = ''Bound'' then health HealthStatusHealthy ''''
      else health HealthStatusUnknown '''')"

definition getIngressHealth :: "unstructured \<Rightarrow> health_result" where
  "getIngressHealth obj =
     (case NestedSlice obj [''status'', ''loadBalancer'', ''ingress''] of
        Some ingresses \<Rightarrow>
          (if 0 < length ingresses then health HealthStatusHealthy '''' else health HealthStatusProgressing '''')
      | None \<Rightarrow> health HealthStatusProgressing '''')"

text \<open>The functions for v1 and v1beta1 API services have the same text.\<close>

definition getApiregistrationAPIServiceHealth :: "APIService \<Rightarrow> health_result" where
  "getApiregistrationAPIServiceHealth s =
     (case get_condition ''Available'' (apiserviceConditions s) of
        Some c \<Rightarrow>
          (if condStatus c = ''True'' then health HealthStatusHealthy (condReason c @ '': '' @ condMessage c)
           else health HealthStatusProgressing (condReason c @ '': '' @ condMessage c))
      | None \<Rightarrow> health HealthStatusProgressing ''Waiting to be processed'')"

definition nested_or_empty :: "unstructured \<Rightarrow> string list \<Rightarrow> string" where
  "nested_or_empty obj path = (case NestedString obj path of Some v \<Rightarrow> v | None \<Rightarrow> '''')"

definition getArgoWorkflowHealth :: "unstructured \<Rightarrow> health_result" where
  "getArgoWorkflowHealth obj =
     (let ph = nested_or_empty obj [''status'', ''phase'']; msg = nested_or_empty obj [''status'', ''message''] in
      if ph = '''' \<or> ph = ''Pending'' \<or> ph = ''Running'' then health HealthStatusProgressing msg
      else if ph = ''Succeeded'' then health HealthStatusHealthy msg
      else if ph = ''Failed'' \<or> ph = ''Error'' then health HealthStatusDegraded msg
      else health HealthStatusUnknown msg)"

section \<open>Autoscalers\<close>

definition progressingStatus :: HealthStatus where
  "progressingStatus = \<lparr>Status = HealthStatusProgressing, Message = ''Waiting to Autoscale''\<rparr>"

definition isDegraded :: "Condition \<Rightarrow> bool" where
  "isDegraded c \<longleftrightarrow> list_ex (\<lambda>(ty, reason). condType c = ty \<and> condReason c = reason)
     [(''AbleToScale'', ''FailedGetScale''), (''AbleToScale'', ''FailedUpdateScale''),
      (''ScalingActive'', ''FailedGetResourceMetric''), (''ScalingActive'', ''InvalidSelector'')]"

definition isHealthy :: "Condition \<Rightarrow> bool" where
  "isHealthy c \<longleftrightarrow> list_ex (\<lambda>ty. condType c = ty \<and> condStatus c = ''True'') [''AbleToScale'', ''ScalingLimited'']"

fun checkConditions :: "Condition list \<Rightarrow> HealthStatus \<Rightarrow> health_result" where
  "checkConditions [] progressing = Inr progressing"
| "checkConditions (c # cs) progressing =
     (if isDegraded c then health HealthStatusDegraded (condMessage c)
      else if isHealthy c then health HealthStatusHealthy (condMessage c)
      else checkConditions cs progressing)"

text \<open>The functions for v2, v2beta2 and v2beta1 copy the conditions field by field; they have the same text.\<close>

definition getAutoScalingV2HPAHealth :: "HPA \<Rightarrow> health_result" where
  "getAutoScalingV2HPAHealth hpa = checkConditions (hpaConditions hpa) progressingStatus"

definition getAutoScalingV1HPAHealth :: "health_env \<Rightarrow> HPA \<Rightarrow> health_result" where
  "getAutoScalingV1HPAHealth env hpa =
     (case hpaAnnotations hpa ''autoscaling.alpha.kubernetes.io/conditions'' of
        None \<Rightarrow> Inr progressingStatus
      | Some annotation \<Rightarrow>
          (case unmarshalConditions env annotation of
             Inl e \<Rightarrow> Inl (Err ReasonOther (''failed to convert conditions annotation to typed: '' @ err_text e))
           | Inr conditions \<Rightarrow>
               (if length conditions = 0 then Inr progressingStatus
                else checkConditions conditions progressingStatus)))"

section \<open>Dispatch on the kind\<close>

definition unsupported :: "health_env \<Rightarrow> string \<Rightarrow> unstructured \<Rightarrow> health_result" where
  "unsupported env what obj =
     Inl (Err ReasonOther (''unsupported '' @ what @ '' GVK: '' @ GVK_String env (GVK obj)))"

definition typed_health ::
  "health_env \<Rightarrow> (string \<times> string) list \<Rightarrow> string \<Rightarrow> string \<Rightarrow> (unstructured \<Rightarrow> go_error + 'a) \<Rightarrow>
     ('a \<Rightarrow> health_result) \<Rightarrow> unstructured \<Rightarrow> health_result" where
  "typed_health env gvs kind what conv f obj =
     (if gvkKind (GVK obj) = kind \<and> (gvkGroup (GVK obj), gvkVersion (GVK obj)) \<in> set gvs then
        (case conv obj of
           Inl e \<Rightarrow> Inl (wrap_err (''failed to convert unstructured '' @ what @ '' to typed'') e)
         | Inr x \<Rightarrow> f x)
      else unsupported env what obj)"

definition getDeploymentHealth :: "health_env \<Rightarrow> unstructured \<Rightarrow> health_result" where
  "getDeploymentHealth env =
     typed_health env [(''apps'', ''v1'')] DeploymentKind ''Deployment'' (toDeployment env) getAppsv1DeploymentHealth"

definition getStatefulSetHealth :: "health_env \<Rightarrow> unstructured \<Rightarrow> health_result" where
  "getStatefulSetHealth env =
     typed_health env [(''apps'', ''v1'')] StatefulSetKind ''StatefulSet'' (toStatefulSet env) getAppsv1StatefulSetHealth"

definition getReplicaSetHealth :: "health_env \<Rightarrow> unstructured \<Rightarrow> health_result" where
  "getReplicaSetHealth env =
     typed_health env [(''apps'', ''v1'')] ReplicaSetKind ''ReplicaSet'' (toReplicaSet env) getAppsv1ReplicaSetHealth"

definition getDaemonSetHealth :: "health_env \<Rightarrow> unstructured \<Rightarrow> health_result" where
  "getDaemonSetHealth env =
     typed_health env [(''apps'', ''v1'')] DaemonSetKind ''DaemonSet'' (toDaemonSet env) getAppsv1DaemonSetHealth"

definition getAPIServiceHealth :: "health_env \<Rightarrow> unstructured \<Rightarrow> health_result" where
  "getAPIServiceHealth env =
     typed_health env [(''apiregistration.k8s.io'', ''v1''), (''apiregistration.k8s.io'', ''v1beta1'')]
       APIServiceKind ''APIService'' (toAPIService env) getApiregistrationAPIServiceHealth"

definition getServiceHealth :: "health_env \<Rightarrow> unstructured \<Rightarrow> health_result" where
  "getServiceHealth env =
     typed_health env [('''', ''v1'')] ServiceKind ''Service'' (toService env) getCorev1ServiceHealth"

definition getPVCHealth :: "health_env \<Rightarrow> unstructured \<Rightarrow> health_result" where
  "getPVCHealth env =
     typed_health env [('''', ''v1'')] PersistentVolumeClaimKind ''PersistentVolumeClaim'' (toPVC env) getCorev1PVCHealth"

definition getPodHealth :: "health_env \<Rightarrow> unstructured \<Rightarrow> health_result" where
  "getPodHealth env = typed_health env [('''', ''v1'')] PodKind ''Pod'' (toPod env) getCorev1PodHealth"

definition getJobHealth :: "health_env \<Rightarrow> unstructured \<Rightarrow> health_result" where
  "getJobHealth env = typed_health env [(''batch'', ''v1'')] JobKind ''Job'' (toJob env) getBatchv1JobHealth"

text \<open>The errors of the autoscaler's conversions are printed with the verb v, so their reason is lost.\<close>

definition getHPAHealth :: "health_env \<Rightarrow> unstructured \<Rightarrow> health_result" where
  "getHPAHealth env obj =
     (if gvkKind (GVK obj) = HorizontalPodAutoscalerKind \<and> gvkGroup (GVK obj) = ''autoscaling'' \<and>
         gvkVersion (GVK obj) \<in> {''v1'', ''v2beta1'', ''v2beta2'', ''v2''} then
        (case toHPA env obj of
           Inl e \<Rightarrow> Inl (Err ReasonOther (''failed to convert unstructured HPA to typed: '' @ err_text e))
         | Inr hpa \<Rightarrow>
             (if gvkVersion (GVK obj) = ''v1'' then getAutoScalingV1HPAHealth env hpa
              else getAutoScalingV2HPAHealth hpa))
      else unsupported env ''HPA'' obj)"

definition GetHealthCheckFunc ::
  "health_env \<Rightarrow> GroupVersionKind \<Rightarrow> (unstructured \<Rightarrow> health_result) option" where
  "GetHealthCheckFunc env gvk =
     (let g = gvkGroup gvk; k = gvkKind gvk in
      if g = ''apps'' then
        (if k = DeploymentKind then Some (getDeploymentHealth env)
         else if k = StatefulSetKind then Some (getStatefulSetHealth env)
         else if k = ReplicaSetKind then Some (getReplicaSetHealth env)
         else if k = DaemonSetKind then Some (getDaemonSetHealth env)
         else None)
      else if g = ''extensions'' then (if k = IngressKind then Some getIngressHealth else None)
      else if g = ''argoproj.io'' then (if k = ''Workflow'' then Some getArgoWorkflowHealth else None)
      else if g = ''apiregistration.k8s.io'' then (if k = APIServiceKind then Some (getAPIServiceHealth env) else None)
      else if g = ''networking.k8s.io'' then (if k = IngressKind then Some getIngressHealth else None)
      else if g = '''' then
        (if k = ServiceKind then Some (getServiceHealth env)
         else if k = PersistentVolumeClaimKind then Some (getPVCHealth env)
         else if k = PodKind then Some (getPodHealth env)
         else None)
      else if g = ''batch'' then (if k = JobKind then Some (getJobHealth env) else None)
      else if g = ''autoscaling'' then
        (if k = HorizontalPodAutoscalerKind then Some (getHPAHealth env) else None)
      else None)"

text \<open>
  \<open>GetResourceHealth\<close> returns a health and an error, either possibly nil. An override, when set, may
  answer with an error, with a health, or with neither.
\<close>

type_synonym HealthOverride = "unstructured \<Rightarrow> go_error + HealthStatus option"

definition GetResourceHealth ::
  "health_env \<Rightarrow> unstructured \<Rightarrow> HealthOverride option \<Rightarrow> HealthStatus option \<times> go_error option" where
  "GetResourceHealth env obj healthOverride =
     (if GetDeletionTimestamp obj \<noteq> None \<and> \<not> HasHookFinalizer obj then
        (Some \<lparr>Status = HealthStatusProgressing, Message = ''Pending deletion''\<rparr>, None)
      else
        let builtin =
          (case GetHealthCheckFunc env (GVK obj) of
             None \<Rightarrow> (None, None)
           | Some healthCheck \<Rightarrow>
               (case healthCheck obj of
                  Inl e \<Rightarrow> (Some \<lparr>Status = HealthStatusUnknown, Message = err_text e\<rparr>, Some e)
                | Inr h \<Rightarrow> (Some h, None)))
        in case healthOverride of
             None \<Rightarrow> builtin
           | Some override \<Rightarrow>
               (case override obj of
                  Inl e \<Rightarrow> (Some \<lparr>Status = HealthStatusUnknown, Message = err_text e\<rparr>,
                      Some (wrap_err (''failed to get resource health for '' @ GetNamespace obj @ ''/'' @ GetName obj) e))
                | Inr (Some h) \<Rightarrow> (Some h, None)
                | Inr None \<Rightarrow> builtin))"

end
