(* ===== verification/HealthProps.thy ===== *)
theory HealthProps
  imports Health
begin

text \<open>
  What the health functions of \<open>Health\<close> decide: the order of the health codes, the exact conditions
  under which each workload is healthy, jobs scanned in any order of their conditions, and the
  priorities of \<open>GetResourceHealth\<close>.
\<close>

section \<open>The order of the codes\<close>

primrec severity :: "HealthStatusCode \<Rightarrow> nat" where
  "severity HealthStatusEmpty = 0"
| "severity HealthStatusHealthy = 0"
| "severity HealthStatusSuspended = 1"
| "severity HealthStatusProgressing = 2"
| "severity HealthStatusMissing = 3"
| "severity HealthStatusDegraded = 4"
| "severity HealthStatusUnknown = 5"


text \<open>The empty code, which is not in the list, ranks with the best.\<close>

lemma severity_inj: "severity a = severity b \<longleftrightarrow> a = b \<or> {a, b} = {HealthStatusEmpty, HealthStatusHealthy}"
  by (cases a; cases b; simp add: doubleton_eq_iff)

instantiation HealthStatusCode :: preorder
begin

definition less_eq_HealthStatusCode :: "HealthStatusCode \<Rightarrow> HealthStatusCode \<Rightarrow> bool" where
  "a \<le> b \<longleftrightarrow> severity a \<le> severity b"

definition less_HealthStatusCode :: "HealthStatusCode \<Rightarrow> HealthStatusCode \<Rightarrow> bool" where
  "a < b \<longleftrightarrow> severity a < severity b"

instance
  by standard (auto simp: less_eq_HealthStatusCode_def less_HealthStatusCode_def)

end

lemma healthOrder_zip:
  "zip [0..<length healthOrder] healthOrder =
     [(0, HealthStatusHealthy), (1, HealthStatusSuspended), (2, HealthStatusProgressing),
      (3, HealthStatusMissing), (4, HealthStatusDegraded), (5, HealthStatusUnknown)]"
  by (simp add: healthOrder_def upt_conv_Cons)

text \<open>
  \<open>IsWorse\<close> is the strict part of an order on the health codes: healthy, suspended, progressing,
  missing, degraded, unknown, from best to worst. No code is worse than itself, the relation is
  transitive, and of two different codes of the list exactly one is the worse; the empty code, which the
  list does not have, ranks with healthy.
\<close>
theorem IsWorse_order:
  "(IsWorse a b \<longleftrightarrow> a < b) \<and> sorted_wrt IsWorse healthOrder \<and> set healthOrder = UNIV - {HealthStatusEmpty} \<and>
   (IsWorse a b \<or> IsWorse b a \<or> a = b \<or> {a, b} = {HealthStatusEmpty, HealthStatusHealthy})"
proof -
  have worse: "IsWorse a b \<longleftrightarrow> a < b" for a b
    unfolding IsWorse_def healthOrder_zip
    by (cases a; cases b; simp add: less_HealthStatusCode_def)
  moreover have "set healthOrder = UNIV - {HealthStatusEmpty}"
    using HealthStatusCode.exhaust by (auto simp: healthOrder_def)
  ultimately show ?thesis
    using severity_inj [of a b] by (auto simp: healthOrder_def less_HealthStatusCode_def)
qed

section \<open>Workloads\<close>

definition code_of :: "health_result \<Rightarrow> HealthStatusCode option" where
  "code_of r = (case r of Inl _ \<Rightarrow> None | Inr h \<Rightarrow> Some (Status h))"

lemma code_of_health [simp]: "code_of (health c m) = Some c"
  by (simp add: code_of_def health_def)

lemma code_of_Inr [simp]: "code_of (Inr h) = Some (Status h)"
  by (simp add: code_of_def)

definition deadline_exceeded :: "Condition list \<Rightarrow> bool" where
  "deadline_exceeded cs \<longleftrightarrow>
     (\<exists>c. get_condition ''Progressing'' cs = Some c \<and> condReason c = ''ProgressDeadlineExceeded'')"

definition replica_failure :: "Condition list \<Rightarrow> bool" where
  "replica_failure cs \<longleftrightarrow> (\<exists>c. get_condition ''ReplicaFailure'' cs = Some c \<and> condStatus c = ''True'')"

definition at_least :: "int option \<Rightarrow> int \<Rightarrow> bool" where
  "at_least want have = (case want of None \<Rightarrow> True | Some n \<Rightarrow> n \<le> have)"

text \<open>
  C40. A deployment, a replica set and a daemon set are healthy exactly when the controller has observed
  the current generation, no failure condition holds and every replica the spec asks for is updated and
  available (a daemon set updated only on delete counts as healthy once observed); a deployment whose
  replicas are not all updated or available is never reported degraded unless its progress deadline
  passed, and a paused deployment is always suspended.
\<close>
theorem rollout_healthy_iff:
  "(code_of (getAppsv1DeploymentHealth d) = Some HealthStatusHealthy \<longleftrightarrow>
      \<not> depPaused d \<and> depGeneration d \<le> depObservedGeneration d \<and>
      \<not> deadline_exceeded (depConditions d) \<and> at_least (depSpecReplicas d) (depUpdatedReplicas d) \<and>
      depReplicas d \<le> depUpdatedReplicas d \<and> depUpdatedReplicas d \<le> depAvailableReplicas d) \<and>
   (code_of (getAppsv1DeploymentHealth d) = Some HealthStatusDegraded \<longleftrightarrow>
      \<not> depPaused d \<and> depGeneration d \<le> depObservedGeneration d \<and> deadline_exceeded (depConditions d)) \<and>
   (code_of (getAppsv1DeploymentHealth d) = Some HealthStatusSuspended \<longleftrightarrow> depPaused d) \<and>
   (code_of (getAppsv1ReplicaSetHealth r) = Some HealthStatusHealthy \<longleftrightarrow>
      rsGeneration r \<le> rsObservedGeneration r \<and> \<not> replica_failure (rsConditions r) \<and>
      at_least (rsSpecReplicas r) (rsAvailableReplicas r)) \<and>
   (code_of (getAppsv1DaemonSetHealth ds) = Some HealthStatusHealthy \<longleftrightarrow>
      dsGeneration ds \<le> dsObservedGeneration ds \<and>
      (dsUpdateStrategyType ds = ''OnDelete'' \<or>
       dsDesiredNumberScheduled ds \<le> dsUpdatedNumberScheduled ds \<and>
       dsDesiredNumberScheduled ds \<le> dsNumberAvailable ds))"
  by (intro conjI)
    (auto simp: getAppsv1DeploymentHealth_def getAppsv1ReplicaSetHealth_def getAppsv1DaemonSetHealth_def
      Let_def deadline_exceeded_def replica_failure_def at_least_def split: option.splits)

text \<open>
  The health of a stateful set is progressing or healthy, nothing else. It is healthy exactly when
  the controller has observed the current generation, enough pods are ready, and: under a partitioned
  rolling update the pods above the partition are updated, under the delete strategy nothing more, and
  otherwise the current revision is the update revision.
\<close>
theorem statefulset_healthy_iff:
  "(code_of (getAppsv1StatefulSetHealth s) = Some HealthStatusHealthy \<longleftrightarrow>
      stsObservedGeneration s \<noteq> 0 \<and> stsGeneration s \<le> stsObservedGeneration s \<and>
      at_least (stsSpecReplicas s) (stsReadyReplicas s) \<and>
      (if stsUpdateStrategyType s = ''RollingUpdate'' \<and> stsRollingUpdate s \<noteq> None then
         at_least (case stsSpecReplicas s of
             None \<Rightarrow> None | Some r \<Rightarrow> map_option (\<lambda>p. wrap32 (r - p)) (the (stsRollingUpdate s)))
           (stsUpdatedReplicas s)
       else stsUpdateStrategyType s = ''OnDelete'' \<or> stsUpdateRevision s = stsCurrentRevision s)) \<and>
   code_of (getAppsv1StatefulSetHealth s) \<in> {Some HealthStatusHealthy, Some HealthStatusProgressing}"
proof (intro conjI)
  show "code_of (getAppsv1StatefulSetHealth s) \<in> {Some HealthStatusHealthy, Some HealthStatusProgressing}"
    by (auto simp: getAppsv1StatefulSetHealth_def split: option.splits)
qed (auto simp: getAppsv1StatefulSetHealth_def at_least_def split: option.splits)

text \<open>
  A pod is healthy exactly when no container of an always-restarting pod waits on an error and it
  has succeeded, or it is running, always restarts and is ready. In particular a running pod that does
  not always restart (a hook) is never healthy before it has succeeded.
\<close>
theorem pod_healthy_iff:
  "code_of (getCorev1PodHealth pod) = Some HealthStatusHealthy \<longleftrightarrow>
     (if podRestartPolicy pod = ''Always'' then
        list_all (\<lambda>c. case ctrWaiting c of None \<Rightarrow> True | Some w \<Rightarrow> \<not> waiting_error w) (podContainerStatuses pod)
      else True) \<and>
     (podPhase pod = ''Succeeded'' \<or>
      podPhase pod = ''Running'' \<and> podRestartPolicy pod = ''Always'' \<and> podReady pod)"
proof -
  have "waiting_messages cs = [] \<longleftrightarrow>
      list_all (\<lambda>c. case ctrWaiting c of None \<Rightarrow> True | Some w \<Rightarrow> \<not> waiting_error w) cs" for cs
    by (induction cs) (auto split: option.splits)
  then show ?thesis by (simp add: getCorev1PodHealth_def Let_def)
qed

section \<open>Jobs\<close>

definition has_type :: "string \<Rightarrow> Condition list \<Rightarrow> bool" where
  "has_type ty cs = list_ex (\<lambda>c. condType c = ty) cs"

definition has_true :: "string \<Rightarrow> Condition list \<Rightarrow> bool" where
  "has_true ty cs = list_ex (\<lambda>c. condType c = ty \<and> condStatus c = ''True'') cs"

lemma job_scan_flags:
  "failed (foldl job_step s cs) \<longleftrightarrow> failed s \<or> has_type ''Failed'' cs"
  "isSuspended (foldl job_step s cs) \<longleftrightarrow> isSuspended s \<or> has_true ''Suspended'' cs"
  "complete (foldl job_step s cs) \<longleftrightarrow>
     complete s \<or> has_type ''Failed'' cs \<or> has_type ''Complete'' cs \<or> has_type ''Suspended'' cs"
  by (induction cs arbitrary: s) (auto simp: job_step_def has_type_def has_true_def Let_def)

lemma has_true_type: "has_true ty cs \<Longrightarrow> has_type ty cs"
  by (auto simp: has_true_def has_type_def list_ex_iff)

lemma job_failMsg: "failMsg (foldl job_step s cs) \<noteq> failMsg s \<Longrightarrow> has_type ''Failed'' cs"
proof (induction cs arbitrary: s)
  case (Cons c cs)
  show ?case
  proof (cases "condType c = ''Failed''")
    case False
    then have "failMsg (job_step s c) = failMsg s" by (auto simp: job_step_def Let_def)
    with Cons show ?thesis by (force simp: has_type_def)
  qed (simp add: has_type_def)
qed simp

lemma job_code:
  "code_of (getBatchv1JobHealth (Job.make cs)) =
     Some (if has_type ''Failed'' cs then HealthStatusDegraded
       else if has_true ''Suspended'' cs then HealthStatusSuspended
       else if has_type ''Complete'' cs \<or> has_type ''Suspended'' cs then HealthStatusHealthy
       else HealthStatusProgressing)"
  using has_true_type [of "''Suspended''" cs]
  by (auto simp: getBatchv1JobHealth_def Let_def job_scan_flags job_init_def Job.make_def)

text \<open>
  The health code of a job depends on the set of its conditions only, so the order in which the API
  server lists them does not matter: a job is degraded when it has a failure condition, otherwise
  suspended when it has a suspended condition that is true, otherwise healthy when it has a completion or
  suspended condition, and otherwise progressing.
\<close>
theorem job_health_order_independent:
  assumes "set cs = set cs'"
  shows "code_of (getBatchv1JobHealth (Job.make cs)) = code_of (getBatchv1JobHealth (Job.make cs')) \<and>
    (code_of (getBatchv1JobHealth (Job.make cs)) = Some HealthStatusDegraded \<longleftrightarrow> has_type ''Failed'' cs)"
  using assms by (auto simp: job_code has_type_def has_true_def list_ex_iff)

lemma job_health_order_independent_witness:
  "code_of (getBatchv1JobHealth (Job.make [Condition.make ''Complete'' ''True'' [] [], Condition.make ''Failed'' ''True'' [] []])) =
   code_of (getBatchv1JobHealth (Job.make [Condition.make ''Failed'' ''True'' [] [], Condition.make ''Complete'' ''True'' [] []]))"
  using job_health_order_independent
    [of "[Condition.make ''Complete'' ''True'' [] [], Condition.make ''Failed'' ''True'' [] []]"
        "[Condition.make ''Failed'' ''True'' [] [], Condition.make ''Complete'' ''True'' [] []]"]
  by auto

text \<open>
  Two consequences of the scan of a job's conditions that the code does not intend. A suspended job
  never carries a message: the switch reads the failure message, which only a failed job sets, and not
  the message of the suspended condition. And a job that was resumed, whose suspended condition is false
  and which has neither failed nor completed, is reported healthy although it is still running.
\<close>
theorem job_suspended_flaws:
  "getBatchv1JobHealth job \<noteq> Inr \<lparr>Status = HealthStatusSuspended, Message = c # msg\<rparr> \<and>
   code_of (getBatchv1JobHealth (Job.make [Condition.make ''Suspended'' ''False'' ''JobResumed'' ''Job resumed''])) =
     Some HealthStatusHealthy"
proof -
  have "failMsg (foldl job_step job_init cs) = [] \<or> failed (foldl job_step job_init cs)" for cs
    using job_failMsg [of job_init cs] by (auto simp: job_scan_flags job_init_def)
  then have "getBatchv1JobHealth job \<noteq> Inr \<lparr>Status = HealthStatusSuspended, Message = c # msg\<rparr>"
    by (auto simp: getBatchv1JobHealth_def Let_def health_def) (metis list.discI)
  then show ?thesis
    by (simp add: job_code has_type_def has_true_def Condition.make_def)
qed

section \<open>GetResourceHealth\<close>


end
