(* ===== verification/SyncState.thy ===== *)
theory SyncState
  imports TaskOrder Reconcile Health
begin

text \<open>
  The state of a synchronization, \<open>syncContext\<close> of \<open>pkg/sync/sync_context.go\<close>, its options, its result
  map, and the outside world it calls.

  A field \<open>sc_f\<close> is the field \<open>f\<close> of the struct; the clients among the fields (config, dynamicIf, disco,
  extensionsclientset, kubectl, resourceOps) are the one parameter \<open>cluster\<close>, and the logger and the lock
  are left out. \<open>sync_state\<close> adds what the code has in memory and in the world: the tasks of the current
  step, addressed by index (a task pointer is an index into \<open>store\<close>), the next free object pointer, and
  the calls issued so far, the last one first.

  A live object may be held by several tasks and by \<open>sc_resources\<close> at once; an update in place reaches
  every holder of the same pointer (\<open>mutate\<close>). Go maps are association lists in the order in which the
  code happens to range over them. The goroutines of a group run one after the other in an order that
  the scheduler chooses; their only shared writes are under the lock.
\<close>

section \<open>Calls and answers\<close>

datatype dry_run_strategy = DryRunNone | DryRunClient

type_synonym gvr = "string \<times> string"

datatype api_call =
    CallApply unstructured dry_run_strategy bool bool bool string
  | CallReplace unstructured dry_run_strategy bool
  | CallCreate unstructured dry_run_strategy bool
  | CallUpdate unstructured dry_run_strategy
  | CallDelete GroupVersionKind string string string
  | CallGet GroupVersionKind string string
  | CallDiscover string
  | CallDynGet gvr "string option" string
  | CallDynUpdate gvr "string option" unstructured
  | CallDynDelete gvr "string option" string string
  | CallGetCRD string
  | CallWaveHook SyncPhase int bool

text \<open>A call that changes the cluster; a client-side dry run does not.\<close>

fun mutating :: "api_call \<Rightarrow> bool" where
  "mutating (CallApply _ s _ _ _ _) \<longleftrightarrow> s = DryRunNone"
| "mutating (CallReplace _ s _) \<longleftrightarrow> s = DryRunNone"
| "mutating (CallCreate _ s _) \<longleftrightarrow> s = DryRunNone"
| "mutating (CallUpdate _ s) \<longleftrightarrow> s = DryRunNone"
| "mutating (CallDelete _ _ _ _) \<longleftrightarrow> True"
| "mutating (CallDynUpdate _ _ _) \<longleftrightarrow> True"
| "mutating (CallDynDelete _ _ _ _) \<longleftrightarrow> True"
| "mutating _ \<longleftrightarrow> False"

text \<open>
  The answers of the cluster, of the scheduler and of the callbacks are arbitrary functions of all calls
  issued so far, the call that is answered first. \<open>crd_polls\<close> is the number of polls that fit into the
  timeout of \<open>ensureCRDReady\<close>, \<open>answer_conditions\<close> the conditions of a definition as pairs of type and
  status.
\<close>

record cluster =
  answer_text :: "api_call list \<Rightarrow> go_error + string"
  answer_object :: "api_call list \<Rightarrow> go_error + unstructured"
  answer_done :: "api_call list \<Rightarrow> go_error option"
  answer_resources :: "api_call list \<Rightarrow> go_error + APIResource list"
  answer_conditions :: "api_call list \<Rightarrow> go_error + (string \<times> string) list"
  crd_polls :: "api_call list \<Rightarrow> nat"
  schedule :: "api_call list \<Rightarrow> nat list \<Rightarrow> nat list"
  namespaceObject :: "string \<Rightarrow> go_error + unstructured"
  api_msgs :: api_error_texts
  healths :: health_env

section \<open>The context\<close>

record reconciledResource =
  rTarget :: "unstructured option"
  rLive :: "unstructured option"

definition deref :: "unstructured option \<Rightarrow> unstructured" where
  "deref o' = (case o' of Some x \<Rightarrow> x | None \<Rightarrow> blank)"

definition key :: "reconciledResource \<Rightarrow> ResourceKey" where
  "key r = (case rLive r of Some live \<Rightarrow> GetResourceKey live | None \<Rightarrow> GetResourceKey (deref (rTarget r)))"

text \<open>
  The namespace modifier gets the two objects by pointer and may change them, so it also returns them.
\<close>

type_synonym namespace_modifier =
  "unstructured \<Rightarrow> unstructured option \<Rightarrow> unstructured \<times> unstructured option \<times> (go_error + bool)"

record syncContext =
  sc_healthOverride :: "HealthOverride option"
  sc_permissionValidator :: "unstructured \<Rightarrow> APIResource \<Rightarrow> go_error option"
  sc_resources :: "(ResourceKey \<times> reconciledResource) list"
  sc_hooks :: "unstructured list"
  sc_namespace :: string
  sc_dryRun :: bool
  sc_skipDryRunOnMissingResource :: bool
  sc_force :: bool
  sc_validate :: bool
  sc_skipHooks :: bool
  sc_resourcesFilter :: "(ResourceKey \<Rightarrow> unstructured option \<Rightarrow> unstructured option \<Rightarrow> bool) option"
  sc_prune :: bool
  sc_replace :: bool
  sc_serverSideApply :: bool
  sc_serverSideApplyManager :: string
  sc_pruneLast :: bool
  sc_prunePropagationPolicy :: "string option"
  sc_pruneConfirmed :: bool
  sc_clientSideApplyMigrationManager :: string
  sc_enableClientSideApplyMigration :: bool
  sc_syncRes :: "(string \<times> ResourceSyncResult) list"
  sc_startedAt :: int
  sc_revision :: string
  sc_phase :: OperationPhase
  sc_message :: string
  sc_syncNamespace :: "namespace_modifier option"
  sc_syncWaveHook :: "(api_call list \<Rightarrow> go_error option) option"
  sc_applyOutOfSyncOnly :: bool
  sc_modificationResult :: "(ResourceKey \<times> bool) list"

record sync_state = syncContext +
  store :: "syncTask list"
  trace :: "api_call list"
  nextPtr :: nat

section \<open>Options\<close>

type_synonym SyncOpt = "syncContext \<Rightarrow> syncContext"

definition WithPrunePropagationPolicy :: "string option \<Rightarrow> SyncOpt" where
  "WithPrunePropagationPolicy policy ctx = ctx\<lparr>sc_prunePropagationPolicy := policy\<rparr>"

definition WithPermissionValidator :: "(unstructured \<Rightarrow> APIResource \<Rightarrow> go_error option) \<Rightarrow> SyncOpt" where
  "WithPermissionValidator validator ctx = ctx\<lparr>sc_permissionValidator := validator\<rparr>"

definition WithHealthOverride :: "HealthOverride option \<Rightarrow> SyncOpt" where
  "WithHealthOverride override ctx = ctx\<lparr>sc_healthOverride := override\<rparr>"

definition WithInitialState :: "OperationPhase \<Rightarrow> string \<Rightarrow> ResourceSyncResult list \<Rightarrow> int \<Rightarrow> SyncOpt" where
  "WithInitialState phase message results startedAt ctx =
     ctx\<lparr>sc_phase := phase, sc_message := message, sc_startedAt := startedAt,
       sc_syncRes := foldl (\<lambda>m r. map_put (resourceResultKey (resKey r) (resSyncPhase r)) r m) [] results\<rparr>"

definition WithResourcesFilter ::
  "(ResourceKey \<Rightarrow> unstructured option \<Rightarrow> unstructured option \<Rightarrow> bool) option \<Rightarrow> SyncOpt" where
  "WithResourcesFilter resourcesFilter ctx = ctx\<lparr>sc_resourcesFilter := resourcesFilter\<rparr>"

definition WithSkipHooks :: "bool \<Rightarrow> SyncOpt" where
  "WithSkipHooks skipHooks ctx = ctx\<lparr>sc_skipHooks := skipHooks\<rparr>"

definition WithPrune :: "bool \<Rightarrow> SyncOpt" where
  "WithPrune prune ctx = ctx\<lparr>sc_prune := prune\<rparr>"

definition WithPruneConfirmed :: "bool \<Rightarrow> SyncOpt" where
  "WithPruneConfirmed confirmed ctx = ctx\<lparr>sc_pruneConfirmed := confirmed\<rparr>"

definition WithOperationSettings :: "bool \<Rightarrow> bool \<Rightarrow> bool \<Rightarrow> bool \<Rightarrow> SyncOpt" where
  "WithOperationSettings dryRun prune force skipHooks ctx =
     ctx\<lparr>sc_prune := prune, sc_skipHooks := skipHooks, sc_dryRun := dryRun, sc_force := force\<rparr>"

definition WithManifestValidation :: "bool \<Rightarrow> SyncOpt" where
  "WithManifestValidation enabled ctx = ctx\<lparr>sc_validate := enabled\<rparr>"

definition WithPruneLast :: "bool \<Rightarrow> SyncOpt" where
  "WithPruneLast enabled ctx = ctx\<lparr>sc_pruneLast := enabled\<rparr>"

text \<open>\<open>groupDiffResults\<close>; \<open>decode\<close> is the JSON decoder, a result that does not decode is left out.\<close>

definition groupDiffResults ::
  "(string \<Rightarrow> go_error + unstructured) \<Rightarrow> DiffResultList \<Rightarrow> (ResourceKey \<times> bool) list" where
  "groupDiffResults decode diffResultList =
     foldl (\<lambda>m res.
        case decode (if NormalizedLive res \<noteq> ''null'' then NormalizedLive res else PredictedLive res) of
          Inl _ \<Rightarrow> m
        | Inr obj \<Rightarrow> map_put (GetResourceKey obj) (Modified res) m)
       [] (Diffs diffResultList)"

definition WithResourceModificationChecker ::
  "(string \<Rightarrow> go_error + unstructured) \<Rightarrow> bool \<Rightarrow> DiffResultList \<Rightarrow> SyncOpt" where
  "WithResourceModificationChecker decode enabled diffResults ctx =
     ctx\<lparr>sc_applyOutOfSyncOnly := enabled,
       sc_modificationResult := (if enabled then groupDiffResults decode diffResults else [])\<rparr>"

definition WithNamespaceModifier :: "namespace_modifier option \<Rightarrow> SyncOpt" where
  "WithNamespaceModifier namespaceModifier ctx = ctx\<lparr>sc_syncNamespace := namespaceModifier\<rparr>"

definition WithSyncWaveHook :: "(api_call list \<Rightarrow> go_error option) option \<Rightarrow> SyncOpt" where
  "WithSyncWaveHook syncWaveHook ctx = ctx\<lparr>sc_syncWaveHook := syncWaveHook\<rparr>"

definition WithReplace :: "bool \<Rightarrow> SyncOpt" where
  "WithReplace replace ctx = ctx\<lparr>sc_replace := replace\<rparr>"

definition WithSkipDryRunOnMissingResource :: "bool \<Rightarrow> SyncOpt" where
  "WithSkipDryRunOnMissingResource b ctx = ctx\<lparr>sc_skipDryRunOnMissingResource := b\<rparr>"

definition WithServerSideApply :: "bool \<Rightarrow> SyncOpt" where
  "WithServerSideApply serverSideApply ctx = ctx\<lparr>sc_serverSideApply := serverSideApply\<rparr>"

definition WithServerSideApplyManager :: "string \<Rightarrow> SyncOpt" where
  "WithServerSideApplyManager manager ctx = ctx\<lparr>sc_serverSideApplyManager := manager\<rparr>"

definition WithClientSideApplyMigration :: "bool \<Rightarrow> string \<Rightarrow> SyncOpt" where
  "WithClientSideApplyMigration enabled manager ctx =
     (let ctx' = ctx\<lparr>sc_enableClientSideApplyMigration := enabled\<rparr>
      in if enabled \<and> manager \<noteq> '''' then ctx'\<lparr>sc_clientSideApplyMigrationManager := manager\<rparr> else ctx')"

text \<open>
  \<open>groupResources\<close> and \<open>NewSyncContext\<close>. The constructors of the clients are library code and may fail
  before the context exists; \<open>now\<close> is the clock.
\<close>

definition groupResources :: "ReconciliationResult \<Rightarrow> (ResourceKey \<times> reconciledResource) list" where
  "groupResources r =
     foldl (\<lambda>m (target, live). map_put (GetResourceKey (deref (obj_or live target))) \<lparr>rTarget = target, rLive = live\<rparr> m)
       [] (zip (Target r) (Live r))"

definition NewSyncContext :: "string \<Rightarrow> ReconciliationResult \<Rightarrow> string \<Rightarrow> int \<Rightarrow> SyncOpt list \<Rightarrow> syncContext" where
  "NewSyncContext revision reconciliationResult namespace now opts =
     foldl (\<lambda>ctx opt. opt ctx)
       \<lparr>sc_healthOverride = None, sc_permissionValidator = (\<lambda>_ _. None),
        sc_resources = groupResources reconciliationResult, sc_hooks = Hooks reconciliationResult,
        sc_namespace = namespace, sc_dryRun = False, sc_skipDryRunOnMissingResource = False,
        sc_force = False, sc_validate = True, sc_skipHooks = False, sc_resourcesFilter = None,
        sc_prune = False, sc_replace = False, sc_serverSideApply = False, sc_serverSideApplyManager = '''',
        sc_pruneLast = False, sc_prunePropagationPolicy = None, sc_pruneConfirmed = False,
        sc_clientSideApplyMigrationManager = DefaultClientSideApplyMigrationManager,
        sc_enableClientSideApplyMigration = True, sc_syncRes = [], sc_startedAt = now,
        sc_revision = revision, sc_phase = OperationEmpty, sc_message = '''', sc_syncNamespace = None,
        sc_syncWaveHook = None, sc_applyOutOfSyncOnly = False, sc_modificationResult = []\<rparr> opts"

section \<open>Small operations\<close>

definition setOperationPhase :: "OperationPhase \<Rightarrow> string \<Rightarrow> 'a syncContext_scheme \<Rightarrow> 'a syncContext_scheme" where
  "setOperationPhase phase message st = st\<lparr>sc_phase := phase, sc_message := message\<rparr>"

definition setRunningPhase :: "syncTask list \<Rightarrow> bool \<Rightarrow> 'a syncContext_scheme \<Rightarrow> 'a syncContext_scheme" where
  "setRunningPhase tasks isPendingDeletion st =
     (if 0 < length tasks then
        (let firstTask = hd tasks;
             andMore = (if isHook firstTask then ''hooks'' else ''resources'');
             waitingFor = (if isPendingDeletion then ''deletion of''
               else if isHook firstTask then ''completion of hook'' else ''healthy state of'');
             message = ''waiting for '' @ waitingFor @ '' '' @ tgroup firstTask @ ''/'' @ tkind firstTask @
               ''/'' @ tname firstTask;
             moreTasks = length tasks - 1
         in setOperationPhase OperationRunning
              (if 0 < moreTasks then message @ '' and '' @ show_nat moreTasks @ '' more '' @ andMore else message) st)
      else st)"

definition started :: "'a syncContext_scheme \<Rightarrow> bool" where
  "started st \<longleftrightarrow> 0 < length (sc_syncRes st)"

definition containsResource :: "'a syncContext_scheme \<Rightarrow> reconciledResource \<Rightarrow> bool" where
  "containsResource st r =
     (case sc_resourcesFilter st of None \<Rightarrow> True | Some f \<Rightarrow> f (key r) (rTarget r) (rLive r))"

definition GetState :: "'a syncContext_scheme \<Rightarrow> OperationPhase \<times> string \<times> ResourceSyncResult list" where
  "GetState st = (sc_phase st, sc_message st,
     sort_Sort (\<lambda>a b. resOrder a < resOrder b) (map snd (sc_syncRes st)))"

definition getDeleteOptions :: "'a syncContext_scheme \<Rightarrow> string" where
  "getDeleteOptions st = (case sc_prunePropagationPolicy st of Some p \<Rightarrow> p | None \<Rightarrow> ''Foreground'')"

definition targetObjs :: "'a syncContext_scheme \<Rightarrow> unstructured list" where
  "targetObjs st = sc_hooks st @ List.map_filter (\<lambda>(k, r). rTarget r) (sc_resources st)"

definition isCRDOfGroupKind :: "string \<Rightarrow> string \<Rightarrow> unstructured \<Rightarrow> bool" where
  "isCRDOfGroupKind g kind obj =
     (if IsCRD obj then
        (case NestedString obj [''spec'', ''group''] of
           None \<Rightarrow> False
         | Some crdGroup \<Rightarrow>
             (case NestedString obj [''spec'', ''names'', ''kind''] of
                None \<Rightarrow> False
              | Some crdKind \<Rightarrow> g = crdGroup \<and> crdKind = kind))
      else False)"

definition hasCRDOfGroupKind :: "'a syncContext_scheme \<Rightarrow> string \<Rightarrow> string \<Rightarrow> bool" where
  "hasCRDOfGroupKind st g kind = list_ex (isCRDOfGroupKind g kind) (targetObjs st)"

fun find_live :: "(ResourceKey \<times> reconciledResource) list \<Rightarrow> unstructured \<Rightarrow> unstructured option" where
  "find_live [] obj = None"
| "find_live ((k, r) # rest) obj =
     (if Group k = gvkGroup (GVK obj) \<and> Kind k = GetKind obj \<and>
         (Namespace k = '''' \<or> Namespace k = GetNamespace obj) \<and> Name k = GetName obj
      then rLive r else find_live rest obj)"

definition sc_liveObj :: "'a syncContext_scheme \<Rightarrow> unstructured \<Rightarrow> unstructured option" where
  "sc_liveObj st obj = find_live (sc_resources st) obj"

definition isNamespaceKind :: "unstructured option \<Rightarrow> bool" where
  "isNamespaceKind res =
     (case res of None \<Rightarrow> False | Some r \<Rightarrow> gvkGroup (GVK r) = '''' \<and> GetKind r = NamespaceKind)"

definition isNamespaceWithName :: "unstructured option \<Rightarrow> string \<Rightarrow> bool" where
  "isNamespaceWithName res ns \<longleftrightarrow> isNamespaceKind res \<and> GetName (deref res) = ns"

section \<open>Results\<close>

definition new_result :: "syncTask \<Rightarrow> ResourceSyncResult" where
  "new_result t = \<lparr>resKey = GetResourceKey (task_obj t), resImages = GetResourceImages (task_obj t),
     resVersion = tversion t, resOrder = 0, resStatus = syncStatus t, resMessage = tmessage t,
     resHookType = thookType t, resHookPhase = operationState t, resSyncPhase = tphase t\<rparr>"

definition store_result :: "syncTask \<Rightarrow> (string \<times> ResourceSyncResult) list \<Rightarrow> (string \<times> ResourceSyncResult) list" where
  "store_result t m =
     (let res = new_result t in
      case map_of m (resultKey t) of
        Some existing \<Rightarrow>
          (if resStatus res \<noteq> resStatus existing \<or> resHookPhase res \<noteq> resHookPhase existing \<or>
              resMessage res \<noteq> resMessage existing
           then map_put (resultKey t) (existing\<lparr>resStatus := resStatus res, resHookPhase := resHookPhase res,
                  resMessage := resMessage res\<rparr>) m
           else map_put (resultKey t) existing m)
      | None \<Rightarrow> map_put (resultKey t) (res\<lparr>resOrder := int (length m) + 1\<rparr>) m)"

definition with_result :: "ResultCode \<Rightarrow> OperationPhase \<Rightarrow> string \<Rightarrow> syncTask \<Rightarrow> syncTask" where
  "with_result status opState message t =
     (let t' = t\<lparr>syncStatus := status, operationState := opState\<rparr>
      in if message \<noteq> '''' then t'\<lparr>tmessage := message\<rparr> else t')"

text \<open>
  \<open>setResourceResult\<close> for a task that the caller holds as a value (before the tasks are shared), and for
  a task pointer.
\<close>

definition setResourceResult_value ::
  "ResultCode \<Rightarrow> OperationPhase \<Rightarrow> string \<Rightarrow> syncTask \<Rightarrow> 'a syncContext_scheme \<Rightarrow> syncTask \<times> 'a syncContext_scheme" where
  "setResourceResult_value status opState message t st =
     (let t' = with_result status opState message t
      in (t', st\<lparr>sc_syncRes := store_result t' (sc_syncRes st)\<rparr>))"

definition task_at :: "sync_state \<Rightarrow> nat \<Rightarrow> syncTask" where
  "task_at st r = store st ! r"

definition setResourceResult :: "nat \<Rightarrow> ResultCode \<Rightarrow> OperationPhase \<Rightarrow> string \<Rightarrow> sync_state \<Rightarrow> sync_state" where
  "setResourceResult r status opState message st =
     (let (t', st') = setResourceResult_value status opState message (task_at st r) st
      in st'\<lparr>store := (store st')[r := t']\<rparr>)"

section \<open>Calling out\<close>

definition call :: "api_call \<Rightarrow> sync_state \<Rightarrow> sync_state" where
  "call c st = st\<lparr>trace := c # trace st\<rparr>"

definition discover ::
  "cluster \<Rightarrow> GroupVersionKind \<Rightarrow> string \<Rightarrow> sync_state \<Rightarrow> (go_error + APIResource) \<times> sync_state" where
  "discover env gvk verb st =
     (let st' = call (CallDiscover (GroupVersion_String gvk)) st
      in (ServerResourceForGroupVersionKind (api_msgs env) (\<lambda>_. answer_resources env (trace st')) gvk verb, st'))"

text \<open>\<open>retry.DefaultRetry\<close>: at most five attempts, that is, four retries.\<close>

abbreviation "DefaultRetry \<equiv> 4 :: nat"

text \<open>An update in place of the object behind a pointer, seen by all its holders.\<close>

definition mutate_obj :: "nat \<Rightarrow> (unstructured \<Rightarrow> unstructured) \<Rightarrow> unstructured option \<Rightarrow> unstructured option" where
  "mutate_obj p f o' = map_option (\<lambda>x. if Ptr x = p then f x else x) o'"

definition mutate :: "nat \<Rightarrow> (unstructured \<Rightarrow> unstructured) \<Rightarrow> sync_state \<Rightarrow> sync_state" where
  "mutate p f st = st\<lparr>
     store := map (\<lambda>t. t\<lparr>liveObj := mutate_obj p f (liveObj t), targetObj := mutate_obj p f (targetObj t)\<rparr>) (store st),
     sc_resources := map (\<lambda>(k, r). (k, r\<lparr>rTarget := mutate_obj p f (rTarget r), rLive := mutate_obj p f (rLive r)\<rparr>))
       (sc_resources st),
     sc_hooks := map (\<lambda>x. if Ptr x = p then f x else x) (sc_hooks st)\<rparr>"

text \<open>A new object: \<open>DeepCopy\<close>, or an object decoded from an answer.\<close>

definition fresh_obj :: "unstructured \<Rightarrow> sync_state \<Rightarrow> unstructured \<times> sync_state" where
  "fresh_obj o' st = (o'\<lparr>Ptr := nextPtr st\<rparr>, st\<lparr>nextPtr := Suc (nextPtr st)\<rparr>)"

section \<open>Groups of goroutines\<close>

datatype runState = successful | pending | failed

primrec rs_rank :: "runState \<Rightarrow> nat" where
  "rs_rank successful = 0"
| "rs_rank pending = 1"
| "rs_rank failed = 2"

instantiation runState :: linorder
begin

definition less_eq_runState :: "runState \<Rightarrow> runState \<Rightarrow> bool" where
  "a \<le> b \<longleftrightarrow> rs_rank a \<le> rs_rank b"

definition less_runState :: "runState \<Rightarrow> runState \<Rightarrow> bool" where
  "a < b \<longleftrightarrow> rs_rank a < rs_rank b"

instance
proof
  fix a b :: runState
  show "a \<le> b \<Longrightarrow> b \<le> a \<Longrightarrow> a = b"
    by (cases a; cases b; simp add: less_eq_runState_def)
qed (auto simp: less_eq_runState_def less_runState_def)

end

definition Wait_step :: "runState \<Rightarrow> runState \<Rightarrow> runState" where
  "Wait_step res result =
     (case res of
        failed \<Rightarrow> res
      | pending \<Rightarrow> (if result = failed then failed else res)
      | successful \<Rightarrow> (if result = pending \<or> result = failed then result else res))"

definition Wait :: "runState \<Rightarrow> runState list \<Rightarrow> runState" where
  "Wait currentState results = foldl Wait_step currentState results"

text \<open>The order that the scheduler chooses: any permutation of the group.\<close>

definition in_order :: "cluster \<Rightarrow> sync_state \<Rightarrow> nat list \<Rightarrow> nat list" where
  "in_order env st tasks =
     (let order = schedule env (trace st) tasks in if mset order = mset tasks then order else tasks)"

fun run_each :: "(nat \<Rightarrow> sync_state \<Rightarrow> runState \<times> sync_state) \<Rightarrow> nat list \<Rightarrow> sync_state \<Rightarrow> runState list \<times> sync_state" where
  "run_each f [] st = ([], st)"
| "run_each f (t # ts) st =
     (let (r, st1) = f t st; (rs, st2) = run_each f ts st1 in (r # rs, st2))"

definition Go_Wait ::
  "cluster \<Rightarrow> runState \<Rightarrow> (runState \<Rightarrow> nat \<Rightarrow> sync_state \<Rightarrow> runState \<times> sync_state) \<Rightarrow> nat list \<Rightarrow>
     sync_state \<Rightarrow> runState \<times> sync_state" where
  "Go_Wait env currentState f tasks st =
     (let (results, st') = run_each (f currentState) (in_order env st tasks) st
      in (Wait currentState results, st'))"

end
