(* ===== verification/SyncTasksGen.thy ===== *)
theory SyncTasksGen
  imports SyncState
begin

text \<open>
  The list of tasks of one synchronization step, \<open>getSyncTasks\<close> of \<open>pkg/sync/sync_context.go\<close>, loop by
  loop: tasks of resources and hooks, the namespace to create, live objects, permissions, waves of
  pruned objects, sorting, results of earlier steps. Until the function returns no one else holds the
  tasks, so the loops work on task values; at the end they are placed in the store.
\<close>

section \<open>Tasks of resources and hooks\<close>

definition resourceTasks :: "'a syncContext_scheme \<Rightarrow> syncTask list" where
  "resourceTasks st = concat (map (\<lambda>(k, r).
     if \<not> containsResource st r then []
     else let o' = deref (obj_or (rTarget r) (rLive r)) in
       if IsHook o' then []
       else map (\<lambda>phase. new_task phase (rTarget r) (rLive r)) (syncPhases o')) (sc_resources st))"

definition hook_postfix :: "'a syncContext_scheme \<Rightarrow> SyncPhase \<Rightarrow> string" where
  "hook_postfix st phase =
     (let syncRevision = (if 8 \<le> length (sc_revision st) then take 7 (sc_revision st) else sc_revision st)
      in ToLower (syncRevision @ ''-'' @ SyncPhase_string phase @ ''-'' @ show_int (sc_startedAt st)))"

definition hook_target :: "'a syncContext_scheme \<Rightarrow> unstructured \<Rightarrow> SyncPhase \<Rightarrow> unstructured" where
  "hook_target st obj phase =
     (let named = (if GetName obj = '''' then obj\<lparr>GetName := GetGenerateName obj @ hook_postfix st phase\<rparr> else obj)
      in if \<not> HasHookFinalizer named
         then named\<lparr>GetFinalizers := GetFinalizers named @ [HookFinalizer]\<rparr> else named)"

fun hook_phase_tasks :: "unstructured \<Rightarrow> SyncPhase list \<Rightarrow> sync_state \<Rightarrow> syncTask list \<times> sync_state" where
  "hook_phase_tasks obj [] st = ([], st)"
| "hook_phase_tasks obj (phase # phases) st =
     (let (copy, st1) = fresh_obj obj st;
          t = new_task phase (Some (hook_target st copy phase)) None;
          (ts, st2) = hook_phase_tasks obj phases st1
      in (t # ts, st2))"

fun hookTasks :: "unstructured list \<Rightarrow> sync_state \<Rightarrow> syncTask list \<times> sync_state" where
  "hookTasks [] st = ([], st)"
| "hookTasks (obj # objs) st =
     (let (ts, st1) = hook_phase_tasks obj (syncPhases obj) st; (ts', st2) = hookTasks objs st1
      in (ts @ ts', st2))"

text \<open>A target without a namespace is copied and gets the namespace of the application.\<close>

fun enrich_namespace :: "syncTask list \<Rightarrow> sync_state \<Rightarrow> syncTask list \<times> sync_state" where
  "enrich_namespace [] st = ([], st)"
| "enrich_namespace (t # ts) st =
     (case targetObj t of
        Some target \<Rightarrow>
          (if GetNamespace target = '''' then
             let (copy, st1) = fresh_obj target st; (ts', st2) = enrich_namespace ts st1
             in (t\<lparr>targetObj := Some (copy\<lparr>GetNamespace := sc_namespace st\<rparr>)\<rparr> # ts', st2)
           else let (ts', st2) = enrich_namespace ts st in (t # ts', st2))
      | None \<Rightarrow> let (ts', st2) = enrich_namespace ts st in (t # ts', st2))"

section \<open>The namespace of the application\<close>

definition appendFailedNsTask ::
  "syncTask list \<Rightarrow> unstructured \<Rightarrow> go_error \<Rightarrow> sync_state \<Rightarrow> syncTask list \<times> sync_state" where
  "appendFailedNsTask tasks obj e st =
     (let (t, st') = setResourceResult_value ResultCodeSyncFailed OperationError (err_text e)
            (new_task SyncPhasePreSync (Some obj) None) st
      in (tasks @ [t], st'))"

text \<open>The task holds the same two objects as the call of the modifier, so it sees their changes.\<close>

definition appendNsTask ::
  "namespace_modifier \<Rightarrow> syncTask list \<Rightarrow> unstructured \<Rightarrow> unstructured option \<Rightarrow> sync_state \<Rightarrow>
     syncTask list \<times> sync_state" where
  "appendNsTask syncNamespace tasks managedNs liveNs st =
     (case syncNamespace managedNs liveNs of
        (managed', live', Inl e) \<Rightarrow> appendFailedNsTask tasks managed' (wrap_err ''namespaceModifier error'' e) st
      | (managed', live', Inr True) \<Rightarrow> (tasks @ [new_task SyncPhasePreSync (Some managed') live'], st)
      | (managed', live', Inr False) \<Rightarrow> (tasks, st))"

text \<open>
  \<open>copy(allObjs, sc.hooks)\<close> copies into a nil slice, that is nothing: only the targets are searched.
\<close>

definition autoCreateNamespace ::
  "cluster \<Rightarrow> namespace_modifier \<Rightarrow> syncTask list \<Rightarrow> sync_state \<Rightarrow> syncTask list \<times> sync_state" where
  "autoCreateNamespace env syncNamespace tasks st =
     (let allObjs = map (\<lambda>(k, r). rTarget r) (sc_resources st);
          isNamespaceCreationNeeded = \<not> list_ex (\<lambda>res. isNamespaceWithName res (sc_namespace st)) allObjs
      in if isNamespaceCreationNeeded then
           (case namespaceObject env (sc_namespace st) of
              Inr ns \<Rightarrow>
                (let (managedNs, st1) = fresh_obj ns st;
                     st2 = call (CallGet (GVK managedNs) (GetName managedNs) '''') st1
                 in case answer_object env (trace st2) of
                      Inr live \<Rightarrow>
                        (let (liveObj', st3) = fresh_obj live st2
                         in appendNsTask syncNamespace tasks managedNs (Some liveObj') st3)
                    | Inl e \<Rightarrow>
                        (if IsNotFound e then appendNsTask syncNamespace tasks managedNs None st2
                         else appendFailedNsTask tasks managedNs (wrap_err ''namespace auto creation failed'' e) st2))
            | Inl e \<Rightarrow> (tasks, setOperationPhase OperationFailed
                         (''namespace auto creation failed: '' @ err_text e) st))
         else (tasks, st))"

section \<open>Live objects and permissions\<close>

definition enrich_live :: "'a syncContext_scheme \<Rightarrow> syncTask \<Rightarrow> syncTask" where
  "enrich_live st t =
     (case targetObj t of
        Some target \<Rightarrow> (if liveObj t = None then t\<lparr>liveObj := sc_liveObj st target\<rparr> else t)
      | None \<Rightarrow> t)"

definition has_sync_option :: "unstructured \<Rightarrow> string \<Rightarrow> bool" where
  "has_sync_option o' val = HasAnnotationOption o' AnnotationSyncOptions val"

definition shouldSkipDryRunOnMissingResource :: "'a syncContext_scheme \<Rightarrow> syncTask \<Rightarrow> bool" where
  "shouldSkipDryRunOnMissingResource st t \<longleftrightarrow>
     sc_skipDryRunOnMissingResource st \<or>
     (case targetObj t of Some target \<Rightarrow> has_sync_option target SyncOptionSkipDryRunOnMissingResource | None \<Rightarrow> False) \<or>
     hasCRDOfGroupKind st (tgroup t) (tkind t)"

type_synonym res_cache = "(GroupVersionKind \<times> APIResource) list"

definition check_permission ::
  "cluster \<Rightarrow> syncTask \<Rightarrow> res_cache \<Rightarrow> sync_state \<Rightarrow> syncTask \<times> bool \<times> res_cache \<times> sync_state" where
  "check_permission env t serverResCache st =
     (let (answer, st1) =
        (case map_of serverResCache (groupVersionKind t) of
           Some val \<Rightarrow> (Inr val, st)
         | None \<Rightarrow> OnError DefaultRetry IsUnauthorized (discover env (groupVersionKind t) ''get'') st)
      in case answer of
           Inl e \<Rightarrow>
             (if IsNotFound e \<and> shouldSkipDryRunOnMissingResource st1 t
              then (t\<lparr>skipDryRun := True\<rparr>, True, serverResCache, st1)
              else (let (t', st2) = setResourceResult_value ResultCodeSyncFailed OperationEmpty (err_text e) t st1
                    in (t', False, serverResCache, st2)))
         | Inr serverRes \<Rightarrow>
             (let cache = map_put (groupVersionKind t) serverRes serverResCache
              in case sc_permissionValidator st1 (task_obj t) serverRes of
                   Some e \<Rightarrow>
                     (let (t', st2) = setResourceResult_value ResultCodeSyncFailed OperationEmpty (err_text e) t st1
                      in (t', False, cache, st2))
                 | None \<Rightarrow> (t, True, cache, st1)))"

fun check_permissions ::
  "cluster \<Rightarrow> syncTask list \<Rightarrow> res_cache \<Rightarrow> sync_state \<Rightarrow> syncTask list \<times> bool \<times> sync_state" where
  "check_permissions env [] cache st = ([], True, st)"
| "check_permissions env (t # ts) cache st =
     (let (t', ok, cache', st1) = check_permission env t cache st;
          (ts', oks, st2) = check_permissions env ts cache' st1
      in (t' # ts', ok \<and> oks, st2))"

section \<open>Waves of pruned objects\<close>

definition uniquePruneWaves :: "syncTask list \<Rightarrow> int list" where
  "uniquePruneWaves tasks = sort (remdups (map wave (filter isPrune tasks)))"

text \<open>
  The loop over the first half of the waves: \<open>pruneTasks\<close>, the tasks by their original wave, is fixed
  before it starts.
\<close>

definition swap_waves :: "(nat \<Rightarrow> int) \<Rightarrow> int list \<Rightarrow> nat \<Rightarrow> nat list \<Rightarrow> (nat \<Rightarrow> int option) \<Rightarrow> (nat \<Rightarrow> int option)" where
  "swap_waves orig us n is ov = foldl (\<lambda>ov i.
     let startWave = us ! i; endWave = us ! (n - 1 - i)
     in (\<lambda>t. if orig t = endWave then Some startWave else if orig t = startWave then Some endWave else ov t)) ov is"

definition swap_prune_waves :: "syncTask list \<Rightarrow> syncTask list" where
  "swap_prune_waves tasks =
     (let us = uniquePruneWaves tasks; n = length us;
          ov = swap_waves (\<lambda>i. wave (tasks ! i)) us n [0..<n div 2] (\<lambda>i. waveOverride (tasks ! i))
      in map (\<lambda>i. let t = tasks ! i in if isPrune t then t\<lparr>waveOverride := ov i\<rparr> else t) [0..<length tasks])"

definition syncPhaseLastWave :: "syncTask list \<Rightarrow> int" where
  "syncPhaseLastWave tasks =
     wrap64 (foldl (\<lambda>w t. if tphase t = SyncPhaseSync \<and> wave t > w then wave t else w) 0 tasks + 1)"

definition prune_last :: "'a syncContext_scheme \<Rightarrow> int \<Rightarrow> syncTask \<Rightarrow> syncTask" where
  "prune_last st w t =
     (if isPrune t \<and> (sc_pruneLast st \<or> has_sync_option (deref (liveObj t)) SyncOptionPruneLast)
      then t\<lparr>waveOverride := Some w\<rparr> else t)"

definition enrich_result :: "'a syncContext_scheme \<Rightarrow> syncTask \<Rightarrow> syncTask" where
  "enrich_result st t =
     (case map_of (sc_syncRes st) (resultKey t) of
        Some r \<Rightarrow> t\<lparr>syncStatus := resStatus r, operationState := resHookPhase r, tmessage := resMessage r\<rparr>
      | None \<Rightarrow> t)"

section \<open>All of it\<close>

definition order_tasks :: "'a syncContext_scheme \<Rightarrow> syncTask list \<Rightarrow> syncTask list" where
  "order_tasks st tasks =
     (let swapped = swap_prune_waves tasks
      in Sort (map (prune_last st (syncPhaseLastWave swapped)) swapped))"

definition getSyncTasks :: "cluster \<Rightarrow> sync_state \<Rightarrow> nat list \<times> bool \<times> sync_state" where
  "getSyncTasks env st =
     (let (hooks, st1) = (if sc_skipHooks st then ([], st) else hookTasks (sc_hooks st) st);
          (tasks, st2) = enrich_namespace (resourceTasks st @ hooks) st1;
          (tasks, st3) =
            (case sc_syncNamespace st2 of
               Some syncNamespace \<Rightarrow>
                 (if sc_namespace st2 \<noteq> '''' then autoCreateNamespace env syncNamespace tasks st2 else (tasks, st2))
             | None \<Rightarrow> (tasks, st2));
          tasks = map (enrich_live st3) tasks;
          (tasks, ok, st4) = check_permissions env tasks [] st3;
          tasks = map (enrich_result st4) (order_tasks st4 tasks)
      in ([0..<length tasks], ok, st4\<lparr>store := tasks\<rparr>))"

end
