(* ===== verification/Waves.thy ===== *)
theory Waves
  imports SyncTasksGen
begin

text \<open>
  The waves that \<open>getSyncTasks\<close> gives to pruned objects, and the two other choices it makes before the
  tasks are sorted: which resources become tasks and when the namespace is created.
\<close>

section \<open>Waves of pruned objects\<close>

lemma sorted_distinct_nth_less:
  fixes us :: "int list"
  assumes "sorted us" "distinct us" "i < length us" "j < length us"
  shows "us ! i < us ! j \<longleftrightarrow> i < j"
  using assms by (metis linorder_neqE_nat not_less_iff_gr_or_eq sorted_wrt_nth_less strict_sorted_iff)

lemma swap_waves_prefix:
  assumes "distinct us" "n = length us" "k < n" "orig t = us ! k" "m \<le> n div 2"
  shows "swap_waves orig us n [0..<m] ov t = (if k < m \<or> n - 1 - k < m then Some (us ! (n - 1 - k)) else ov t)"
  using assms(5)
proof (induction m)
  case 0
  then show ?case by (simp add: swap_waves_def)
next
  case (Suc m)
  have m: "m < n" "n - 1 - m < n" "m \<noteq> n - 1 - m" using Suc.prems by linarith+
  have IH: "swap_waves orig us n [0..<m] ov t = (if k < m \<or> n - 1 - k < m then Some (us ! (n - 1 - k)) else ov t)"
    using Suc by simp
  have eq: "us ! k = us ! m \<longleftrightarrow> k = m" "us ! k = us ! (n - 1 - m) \<longleftrightarrow> k = n - 1 - m"
    using assms(1-3) m by (simp_all add: nth_eq_iff_index_eq)
  have "swap_waves orig us n [0..<Suc m] ov t =
      (if k = n - 1 - m then Some (us ! m) else if k = m then Some (us ! (n - 1 - m))
       else swap_waves orig us n [0..<m] ov t)"
    using eq assms(4) by (simp add: swap_waves_def Let_def)
  then show ?case using IH m assms(3) by auto
qed

lemma uniquePruneWaves:
  "sorted (uniquePruneWaves ts)" "distinct (uniquePruneWaves ts)"
  "set (uniquePruneWaves ts) = wave ` {t \<in> set ts. isPrune t}"
  by (auto simp: uniquePruneWaves_def)

lemma swap_prune_waves_nth:
  assumes "i < length ts"
  shows "swap_prune_waves ts ! i =
    (if isPrune (ts ! i) then (ts ! i)\<lparr>waveOverride :=
        swap_waves (\<lambda>i. wave (ts ! i)) (uniquePruneWaves ts) (length (uniquePruneWaves ts))
          [0..<length (uniquePruneWaves ts) div 2] (\<lambda>i. waveOverride (ts ! i)) i\<rparr> else ts ! i)"
  using assms by (simp add: swap_prune_waves_def Let_def)

lemma swap_prune_waves_wave:
  assumes "i < length ts" "isPrune (ts ! i)" "k < length (uniquePruneWaves ts)"
    and "wave (ts ! i) = uniquePruneWaves ts ! k"
  shows "wave (swap_prune_waves ts ! i) = uniquePruneWaves ts ! (length (uniquePruneWaves ts) - 1 - k)"
proof -
  let ?us = "uniquePruneWaves ts"
  let ?n = "length ?us"
  have sw: "swap_waves (\<lambda>i. wave (ts ! i)) ?us ?n [0..<?n div 2] (\<lambda>i. waveOverride (ts ! i)) i =
      (if k < ?n div 2 \<or> ?n - 1 - k < ?n div 2 then Some (?us ! (?n - 1 - k)) else waveOverride (ts ! i))"
    by (rule swap_waves_prefix) (use assms uniquePruneWaves in auto)
  show ?thesis
  proof (cases "k < ?n div 2 \<or> ?n - 1 - k < ?n div 2")
    case True
    then show ?thesis using sw assms by (simp add: swap_prune_waves_nth wave_def)
  next
    case False
    then have "k = ?n - 1 - k" using assms(3) by linarith
    moreover have "wave ((ts ! i)\<lparr>waveOverride := waveOverride (ts ! i)\<rparr>) = wave (ts ! i)" by simp
    ultimately show ?thesis
      using sw False assms(1,2,4) by (simp add: swap_prune_waves_nth)
  qed
qed

text \<open>
  Objects are pruned in the reverse order of their creation: the symmetric swap of waves inverts the
  order of the waves of the pruned tasks (a strictly earlier wave becomes a strictly later one, equal
  waves stay equal), uses only waves that the pruned tasks had before, and changes no other task.
\<close>
theorem prune_waves_reversed:
  assumes "i < length ts" "j < length ts" "isPrune (ts ! i)" "isPrune (ts ! j)"
  shows "(wave (swap_prune_waves ts ! i) < wave (swap_prune_waves ts ! j) \<longleftrightarrow> wave (ts ! j) < wave (ts ! i)) \<and>
    wave (swap_prune_waves ts ! i) \<in> set (uniquePruneWaves ts) \<and>
    filter (\<lambda>t. \<not> isPrune t) (swap_prune_waves ts) = filter (\<lambda>t. \<not> isPrune t) ts"
proof -
  let ?us = "uniquePruneWaves ts"
  let ?n = "length ?us"
  have ex: "\<exists>k < ?n. wave (ts ! x) = ?us ! k" if "x < length ts" "isPrune (ts ! x)" for x
    using that uniquePruneWaves(3) [of ts] by (metis (mono_tags, lifting) imageI in_set_conv_nth mem_Collect_eq nth_mem)
  obtain k l where k: "k < ?n" "wave (ts ! i) = ?us ! k" and l: "l < ?n" "wave (ts ! j) = ?us ! l"
    using ex assms by metis
  have new: "wave (swap_prune_waves ts ! i) = ?us ! (?n - 1 - k)" "wave (swap_prune_waves ts ! j) = ?us ! (?n - 1 - l)"
    using swap_prune_waves_wave assms k l by blast+
  have lt: "?us ! a < ?us ! b \<longleftrightarrow> a < b" if "a < ?n" "b < ?n" for a b
    using sorted_distinct_nth_less uniquePruneWaves that by blast
  have len: "length (swap_prune_waves ts) = length ts" by (simp add: swap_prune_waves_def Let_def)
  have "filter (\<lambda>t. \<not> isPrune t) (swap_prune_waves ts) = filter (\<lambda>t. \<not> isPrune t) ts"
    by (rule filter_pointwise) (auto simp: len swap_prune_waves_nth isPrune_def)
  moreover have "?us ! (?n - 1 - k) < ?us ! (?n - 1 - l) \<longleftrightarrow> ?us ! l < ?us ! k"
    using lt [of "?n - 1 - k" "?n - 1 - l"] lt [of l k] k l by auto
  moreover have "?us ! (?n - 1 - k) \<in> set ?us" using k by simp
  ultimately show ?thesis using new k l by simp
qed

definition wave_tasks :: "syncTask list" where
  "wave_tasks = map (\<lambda>w. (new_task SyncPhaseSync None (Some blank))\<lparr>waveOverride := Some w\<rparr>) [0, 5, 2]"

lemma prune_waves_reversed_witness: "wave (swap_prune_waves wave_tasks ! 1) < wave (swap_prune_waves wave_tasks ! 0)"
proof -
  have "length wave_tasks = 3" "isPrune (wave_tasks ! 0)" "isPrune (wave_tasks ! 1)"
    "wave (wave_tasks ! 0) < wave (wave_tasks ! 1)"
    by (simp_all add: wave_tasks_def isPrune_def new_task_def wave_def)
  then show ?thesis using prune_waves_reversed [of 1 wave_tasks 0] by simp
qed

section \<open>The namespace of the application\<close>

text \<open>
  Whether the namespace is created does not depend on the hooks: \<open>copy(allObjs, sc.hooks)\<close> into an
  empty slice copies nothing, so a Namespace that the repository declares as a hook does not stop
  \<open>autoCreateNamespace\<close> from adding a second task for it.
\<close>
theorem autoCreateNamespace_ignores_hooks:
  "fst (autoCreateNamespace env f tasks (st\<lparr>sc_hooks := hooks\<rparr>)) = fst (autoCreateNamespace env f tasks st)"
  by (simp add: autoCreateNamespace_def appendNsTask_def appendFailedNsTask_def setResourceResult_value_def
      Let_def call_def fresh_obj_def setOperationPhase_def split: sum.split prod.split bool.split)

end
