(* ===== verification/SyncRun.thy ===== *)
theory SyncRun
  imports SyncTasksGen
begin

text \<open>
  Running tasks, \<open>pkg/sync/sync_context.go\<close>: the finalizers of hooks, applying, pruning, deleting, and
  \<open>runTasks\<close> with its groups of goroutines. Every call to the cluster is recorded.
\<close>

section \<open>Calls on the resource of a task\<close>

definition getResourceIf ::
  "cluster \<Rightarrow> nat \<Rightarrow> string \<Rightarrow> sync_state \<Rightarrow> (go_error + gvr \<times> string option) \<times> sync_state" where
  "getResourceIf env r verb st =
     (let t = task_at st r in
      case discover env (groupVersionKind t) verb st of
        (Inl e, st') \<Rightarrow> (Inl (wrap_err ''failed to get api resource'' e), st')
      | (Inr apiResource, st') \<Rightarrow>
          (Inr ((GroupVersion_String (groupVersionKind t), apiName apiResource),
             if apiNamespaced apiResource then Some (tnamespace t) else None), st'))"

definition getResource :: "cluster \<Rightarrow> nat \<Rightarrow> sync_state \<Rightarrow> (go_error + unstructured) \<times> sync_state" where
  "getResource env r st =
     (case getResourceIf env r ''get'' st of
        (Inl e, st1) \<Rightarrow> (Inl e, st1)
      | (Inr (res, ns), st1) \<Rightarrow>
          (let st2 = call (CallDynGet res ns (tname (task_at st1 r))) st1
           in case answer_object env (trace st2) of
                Inl e \<Rightarrow> (Inl (wrap_err ''failed to get resource'' e), st2)
              | Inr o' \<Rightarrow> (let (live, st3) = fresh_obj o' st2 in (Inr live, st3))))"

definition updateResource :: "cluster \<Rightarrow> nat \<Rightarrow> sync_state \<Rightarrow> go_error option \<times> sync_state" where
  "updateResource env r st =
     (case getResourceIf env r ''update'' st of
        (Inl e, st1) \<Rightarrow> (Some e, st1)
      | (Inr (res, ns), st1) \<Rightarrow>
          (let st2 = call (CallDynUpdate res ns (deref (liveObj (task_at st1 r)))) st1
           in case answer_done env (trace st2) of
                Some e \<Rightarrow> (Some (wrap_err ''failed to update resource'' e), st2)
              | None \<Rightarrow> (None, st2)))"

definition deleteResource :: "cluster \<Rightarrow> nat \<Rightarrow> sync_state \<Rightarrow> go_error option \<times> sync_state" where
  "deleteResource env r st =
     (case getResourceIf env r ''delete'' st of
        (Inl e, st1) \<Rightarrow> (Some e, st1)
      | (Inr (res, ns), st1) \<Rightarrow>
          (let st2 = call (CallDynDelete res ns (tname (task_at st1 r)) (getDeleteOptions st1)) st1
           in case answer_done env (trace st2) of
                Some e \<Rightarrow> (Some (wrap_err ''failed to delete resource'' e), st2)
              | None \<Rightarrow> (None, st2)))"

section \<open>Removing the finalizer of a hook\<close>

text \<open>\<open>removeFinalizerMutation\<close>: the first occurrence is cut out of the live object, in place.\<close>

definition set_live :: "nat \<Rightarrow> unstructured option \<Rightarrow> sync_state \<Rightarrow> sync_state" where
  "set_live r live st = st\<lparr>store := (store st)[r := (task_at st r)\<lparr>liveObj := live\<rparr>]\<rparr>"

definition after_update :: "cluster \<Rightarrow> nat \<Rightarrow> go_error option \<Rightarrow> sync_state \<Rightarrow> (go_error + unit) \<times> sync_state" where
  "after_update env r updateErr st =
     (case updateErr of
        None \<Rightarrow> (Inr (), st)
      | Some e \<Rightarrow>
          (if IsConflict e then
             (case getResource env r st of
                (Inl e', st1) \<Rightarrow>
                  (if IsNotFound e' then (Inr (), st1) else (Inl (wrap_err ''failed to get resource'' e'), st1))
              | (Inr live, st1) \<Rightarrow> (Inl (wrap_err ''failed to update resource'' e), set_live r (Some live) st1))
           else if IsNotFound e then (Inr (), st)
           else (Inl (wrap_err ''failed to update resource'' e), st)))"

definition remove_finalizer_attempt :: "cluster \<Rightarrow> nat \<Rightarrow> sync_state \<Rightarrow> (go_error + unit) \<times> sync_state" where
  "remove_finalizer_attempt env r st =
     (let live = deref (liveObj (task_at st r)) in
      if HookFinalizer \<notin> set (GetFinalizers live) then (Inr (), st)
      else
        let (updateErr, st1) = updateResource env r
              (mutate (Ptr live) (\<lambda>x. x\<lparr>GetFinalizers := remove1 HookFinalizer (GetFinalizers x)\<rparr>) st)
        in after_update env r updateErr st1)"

definition removeHookFinalizer :: "cluster \<Rightarrow> nat \<Rightarrow> sync_state \<Rightarrow> go_error option \<times> sync_state" where
  "removeHookFinalizer env r st =
     (if liveObj (task_at st r) = None then (None, st)
      else case OnError DefaultRetry IsConflict (remove_finalizer_attempt env r) st of
             (Inl e, st') \<Rightarrow> (Some e, st')
           | (Inr _, st') \<Rightarrow> (None, st'))"

fun deleteHooks :: "cluster \<Rightarrow> nat list \<Rightarrow> sync_state \<Rightarrow> sync_state" where
  "deleteHooks env [] st = st"
| "deleteHooks env (r # rs) st =
     (case deleteResource env r st of
        (Some e, st1) \<Rightarrow>
          deleteHooks env rs
            (if \<not> IsNotFound e
             then setResourceResult r ResultCodeEmpty OperationError (''failed to delete resource: '' @ err_text e) st1
             else st1)
      | (None, st1) \<Rightarrow> deleteHooks env rs st1)"

section \<open>Applying\<close>

fun poll_crd :: "cluster \<Rightarrow> string \<Rightarrow> nat \<Rightarrow> sync_state \<Rightarrow> go_error option \<times> sync_state" where
  "poll_crd env name 0 st = (Some (Err ReasonOther ''context deadline exceeded''), st)"
| "poll_crd env name (Suc n) st =
     (let st1 = call (CallGetCRD name) st in
      case answer_conditions env (trace st1) of
        Inl e \<Rightarrow> (Some e, st1)
      | Inr conditions \<Rightarrow>
          (case find (\<lambda>c. fst c = ''Established'') conditions of
             Some c \<Rightarrow> (if snd c = ''True'' then (None, st1) else poll_crd env name n st1)
           | None \<Rightarrow> poll_crd env name n st1))"

definition ensureCRDReady :: "cluster \<Rightarrow> string \<Rightarrow> sync_state \<Rightarrow> go_error option \<times> sync_state" where
  "ensureCRDReady env name st =
     (case poll_crd env name (crd_polls env (trace st)) st of
        (Some e, st1) \<Rightarrow> (Some (wrap_err ''failed to ensure CRD ready'' e), st1)
      | (None, st1) \<Rightarrow> (None, st1))"

definition shouldUseServerSideApply :: "'a syncContext_scheme \<Rightarrow> unstructured \<Rightarrow> bool \<Rightarrow> bool" where
  "shouldUseServerSideApply st target dryRun =
     (if sc_dryRun st \<or> dryRun then False
      else if has_sync_option target SyncOptionDisableServerSideApply then False
      else sc_serverSideApply st \<or> has_sync_option target SyncOptionServerSideApply)"

definition needsClientSideApplyMigration :: "unstructured option \<Rightarrow> string \<Rightarrow> bool" where
  "needsClientSideApplyMigration live fieldManager =
     (case live of
        None \<Rightarrow> False
      | Some o' \<Rightarrow> if fieldManager = '''' then False else list_ex (\<lambda>m. m = fieldManager) (GetManagers o'))"

definition performClientSideApplyMigration ::
  "cluster \<Rightarrow> unstructured \<Rightarrow> string \<Rightarrow> sync_state \<Rightarrow> go_error option \<times> sync_state" where
  "performClientSideApplyMigration env target fieldManager st =
     (let st1 = call (CallApply target DryRunNone False False False fieldManager) st in
      case answer_text env (trace st1) of
        Inl e \<Rightarrow> (Some (wrap_err (''failed to perform client-side apply migration on manager '' @ fieldManager) e), st1)
      | Inr _ \<Rightarrow> (None, st1))"

definition migrate ::
  "cluster \<Rightarrow> syncTask \<Rightarrow> bool \<Rightarrow> bool \<Rightarrow> sync_state \<Rightarrow> go_error option \<times> sync_state" where
  "migrate env t serverSideApply dryRun st =
     (if serverSideApply \<and> \<not> dryRun \<and> sc_enableClientSideApplyMigration st \<and>
         needsClientSideApplyMigration (liveObj t) (sc_clientSideApplyMigrationManager st)
      then performClientSideApplyMigration env (deref (targetObj t)) (sc_clientSideApplyMigrationManager st) st
      else (None, st))"

text \<open>The one call that applies a target: update, replace, create or apply.\<close>

definition apply_call ::
  "cluster \<Rightarrow> syncTask \<Rightarrow> dry_run_strategy \<Rightarrow> bool \<Rightarrow> bool \<Rightarrow> bool \<Rightarrow> bool \<Rightarrow> sync_state \<Rightarrow>
     (go_error + string) \<times> sync_state" where
  "apply_call env t strategy shouldReplace force validate serverSideApply st =
     (let target = deref (targetObj t) in
      if shouldReplace then
        (case liveObj t of
           Some live \<Rightarrow>
             (if IsCRD target \<or> GetKind target = NamespaceKind then
                (let (copy, st1) = fresh_obj target st;
                     st2 = call (CallUpdate (copy\<lparr>GetResourceVersion := GetResourceVersion live\<rparr>) strategy) st1
                 in case answer_done env (trace st2) of
                      None \<Rightarrow> (Inr (GetKind target @ ''/'' @ GetName target @ '' updated''), st2)
                    | Some e \<Rightarrow> (Inl e, st2))
              else let st1 = call (CallReplace target strategy force) st in (answer_text env (trace st1), st1))
         | None \<Rightarrow> let st1 = call (CallCreate target strategy validate) st in (answer_text env (trace st1), st1))
      else
        let st1 = call (CallApply target strategy force validate serverSideApply (sc_serverSideApplyManager st)) st
        in (answer_text env (trace st1), st1))"

definition applyObject ::
  "cluster \<Rightarrow> syncTask \<Rightarrow> bool \<Rightarrow> bool \<Rightarrow> sync_state \<Rightarrow> ResultCode \<times> string \<times> sync_state" where
  "applyObject env t dryRun validate st =
     (let target = deref (targetObj t);
          strategy = (if dryRun then DryRunClient else DryRunNone);
          shouldReplace = sc_replace st \<or> has_sync_option target SyncOptionReplace;
          force = sc_force st \<or> has_sync_option target SyncOptionForce;
          serverSideApply = shouldUseServerSideApply st target dryRun
      in case migrate env t serverSideApply dryRun st of
           (Some e, st1) \<Rightarrow>
             (ResultCodeSyncFailed, ''Failed to perform client-side apply migration: '' @ err_text e, st1)
         | (None, st1) \<Rightarrow>
             (case apply_call env t strategy shouldReplace force validate serverSideApply st1 of
                (Inl e, st2) \<Rightarrow> (ResultCodeSyncFailed, err_text e, st2)
              | (Inr message, st2) \<Rightarrow>
                  (ResultCodeSynced, message,
                   if IsCRD target \<and> \<not> dryRun then snd (ensureCRDReady env (GetName target) st2) else st2)))"

text \<open>\<open>IsZero\<close> of a deletion timestamp: Go's zero time, in seconds of Unix time.\<close>

definition zero_time :: int where
  "zero_time = -62135596800"

definition pruneObject ::
  "cluster \<Rightarrow> unstructured \<Rightarrow> bool \<Rightarrow> bool \<Rightarrow> sync_state \<Rightarrow> ResultCode \<times> string \<times> sync_state" where
  "pruneObject env live prune dryRun st =
     (if \<not> prune then (ResultCodePruneSkipped, ''ignored (requires pruning)'', st)
      else if has_sync_option live SyncOptionDisablePrune then (ResultCodePruneSkipped, ''ignored (no prune)'', st)
      else if dryRun then (ResultCodePruned, ''pruned (dry run)'', st)
      else if GetDeletionTimestamp live = None \<or> GetDeletionTimestamp live = Some zero_time then
        (let st1 = call (CallDelete (GVK live) (GetName live) (GetNamespace live) (getDeleteOptions st)) st
         in case answer_done env (trace st1) of
              Some e \<Rightarrow> (ResultCodeSyncFailed, err_text e, st1)
            | None \<Rightarrow> (ResultCodePruned, ''pruned'', st1))
      else (ResultCodePruned, ''pruned'', st))"

section \<open>The goroutines\<close>

fun operationPhases :: "ResultCode \<Rightarrow> OperationPhase" where
  "operationPhases ResultCodeSynced = OperationRunning"
| "operationPhases ResultCodeSyncFailed = OperationFailed"
| "operationPhases ResultCodePruned = OperationSucceeded"
| "operationPhases ResultCodePruneSkipped = OperationSucceeded"
| "operationPhases ResultCodeEmpty = OperationEmpty"

definition go_finalizer :: "cluster \<Rightarrow> bool \<Rightarrow> runState \<Rightarrow> nat \<Rightarrow> sync_state \<Rightarrow> runState \<times> sync_state" where
  "go_finalizer env dryRun state r st =
     (if dryRun then (state, st)
      else case removeHookFinalizer env r st of
             (Some e, st1) \<Rightarrow>
               (failed, setResourceResult r (syncStatus (task_at st1 r)) OperationError
                  (''failed to remove hook finalizer: '' @ err_text e) st1)
           | (None, st1) \<Rightarrow> (state, st1))"

definition go_prune :: "cluster \<Rightarrow> bool \<Rightarrow> runState \<Rightarrow> nat \<Rightarrow> sync_state \<Rightarrow> runState \<times> sync_state" where
  "go_prune env dryRun state r st =
     (let (result, message, st1) = pruneObject env (deref (liveObj (task_at st r))) (sc_prune st) dryRun st;
          state' = (if result = ResultCodeSyncFailed then failed else state)
      in (state', if \<not> dryRun \<or> sc_dryRun st \<or> result = ResultCodeSyncFailed
                  then setResourceResult r result (operationPhases result) message st1 else st1))"

definition go_delete :: "cluster \<Rightarrow> bool \<Rightarrow> runState \<Rightarrow> nat \<Rightarrow> sync_state \<Rightarrow> runState \<times> sync_state" where
  "go_delete env dryRun state r st =
     (if dryRun then (state, st)
      else case deleteResource env r st of
             (Some e, st1) \<Rightarrow>
               (if \<not> IsNotFound e
                then (failed, setResourceResult r (syncStatus (task_at st1 r)) OperationError
                        (''failed to delete resource: '' @ err_text e) st1)
                else (state, set_live r None st1))
           | (None, st1) \<Rightarrow> (pending, st1))"

definition go_create :: "cluster \<Rightarrow> bool \<Rightarrow> runState \<Rightarrow> nat \<Rightarrow> sync_state \<Rightarrow> runState \<times> sync_state" where
  "go_create env dryRun state r st =
     (let t = task_at st r;
          validate = (sc_validate st \<and> \<not> has_sync_option (deref (targetObj t)) SyncOptionsDisableValidation);
          (result, message, st1) = applyObject env t dryRun validate st;
          state' = (if result = ResultCodeSyncFailed then failed else state);
          phase = (if sc_dryRun st \<and> operationPhases result = OperationRunning then OperationSucceeded
                   else operationPhases result)
      in (state', if \<not> dryRun \<or> sc_dryRun st \<or> result = ResultCodeSyncFailed
                  then setResourceResult r result phase message st1 else st1))"

section \<open>runTasks\<close>

definition processCreateTasks ::
  "cluster \<Rightarrow> runState \<Rightarrow> nat list \<Rightarrow> bool \<Rightarrow> sync_state \<Rightarrow> runState \<times> sync_state" where
  "processCreateTasks env state tasks dryRun st =
     Go_Wait env state (go_create env dryRun)
       (Filter (\<lambda>r. \<not> (dryRun \<and> skipDryRun (task_at st r))) tasks) st"

text \<open>\<open>tasksGroup\<close> is the group collected so far; a task of another kind closes it.\<close>

fun create_groups ::
  "cluster \<Rightarrow> bool \<Rightarrow> runState \<Rightarrow> nat list \<Rightarrow> nat list \<Rightarrow> sync_state \<Rightarrow> runState \<times> sync_state" where
  "create_groups env dryRun state tasksGroup [] st =
     (if 0 < length tasksGroup then processCreateTasks env state tasksGroup dryRun st else (state, st))"
| "create_groups env dryRun state tasksGroup (r # rs) st =
     (if 0 < length tasksGroup \<and>
         GetKind (deref (targetObj (task_at st (hd tasksGroup)))) \<noteq> tkind (task_at st r)
      then (let (state', st1) = processCreateTasks env state tasksGroup dryRun st
            in create_groups env dryRun state' [r] rs st1)
      else create_groups env dryRun state (tasksGroup @ [r]) rs st)"

definition confirm_resources :: "sync_state \<Rightarrow> nat list \<Rightarrow> string list" where
  "confirm_resources st pruneTasks =
     map (\<lambda>r. let t = task_at st r in
            GetAPIVersion (task_obj t) @ ''/'' @ GetKind (task_obj t) @ ''/'' @ tname t)
       (Filter (\<lambda>r. has_sync_option (deref (liveObj (task_at st r))) SyncOptionPruneRequireConfirm) pruneTasks)"

definition confirm_message :: "string list \<Rightarrow> string" where
  "confirm_message resources =
     ''Waiting for pruning confirmation of '' @ hd resources @
     (if 1 < length resources then '' and '' @ show_nat (length resources - 1) @ '' more resources'' else '''')"

definition runTasks :: "cluster \<Rightarrow> nat list \<Rightarrow> bool \<Rightarrow> sync_state \<Rightarrow> runState \<times> sync_state" where
  "runTasks env tasks dry st =
     (let dryRun = (dry \<or> sc_dryRun st);
          pruneTasks = Filter (\<lambda>r. isPrune (task_at st r)) tasks;
          createTasks = Filter (\<lambda>r. \<not> isPrune (task_at st r)) tasks;
          existingHooks = Filter (\<lambda>r. let t = task_at st r in isHook t \<and> tpending t \<and> liveObj t \<noteq> None) tasks;
          (state1, st1) = Go_Wait env successful (go_finalizer env dryRun) existingHooks st
      in if state1 \<noteq> successful then (state1, st1)
         else if \<not> sc_pruneConfirmed st1 \<and> 0 < length (confirm_resources st1 pruneTasks)
         then (pending, st1\<lparr>sc_message := confirm_message (confirm_resources st1 pruneTasks)\<rparr>)
         else
           let (state2, st2) = Go_Wait env state1 (go_prune env dryRun) pruneTasks st1
           in if state2 \<noteq> successful then (state2, st2)
              else
                let (state3, st3) = Go_Wait env state2 (go_delete env dryRun)
                      (Filter (\<lambda>r. deleteBeforeCreation (task_at st2 r)) createTasks) st2
                in if state3 \<noteq> successful then (state3, st3)
                   else create_groups env dryRun state3 [] createTasks st3)"

end
