(* ===== verification/SyncOp.thy ===== *)
theory SyncOp
  imports SyncRun
begin

text \<open>
  One step of the synchronization, \<open>Sync\<close>, and \<open>Terminate\<close>, \<open>pkg/sync/sync_context.go\<close>. \<open>Sync\<close> is
  written as the sequence of its parts: the dry run before anything starts, the update of running
  tasks, the checks that end the step early, and the run of the next wave. A part that may return from
  \<open>Sync\<close> gives an option: None is a return.
\<close>

section \<open>Health of a hook\<close>

definition getOperationPhase ::
  "cluster \<Rightarrow> 'a syncContext_scheme \<Rightarrow> unstructured \<Rightarrow> go_error + (OperationPhase \<times> string)" where
  "getOperationPhase env st obj =
     (case GetResourceHealth (healths env) obj (sc_healthOverride st) of
        (_, Some e) \<Rightarrow> Inl (wrap_err ''failed to get resource health'' e)
      | (None, None) \<Rightarrow> Inr (OperationSucceeded, GetName obj @ '' created'')
      | (Some h, None) \<Rightarrow>
          (if Status h = HealthStatusUnknown \<or> Status h = HealthStatusDegraded then Inr (OperationFailed, Message h)
           else if Status h = HealthStatusProgressing \<or> Status h = HealthStatusSuspended
             then Inr (OperationRunning, Message h)
           else if Status h = HealthStatusHealthy then Inr (OperationSucceeded, Message h)
           else Inr (OperationSucceeded, GetName obj @ '' created'')))"

section \<open>Parts of Sync\<close>

definition filterOutOfSyncTasks :: "sync_state \<Rightarrow> nat list \<Rightarrow> nat list" where
  "filterOutOfSyncTasks st tasks =
     Filter (\<lambda>r. let t = task_at st r in
       if isHook t then True
       else \<not> (map_of (sc_modificationResult st) (task_resourceKey t) = Some False \<and>
               targetObj t \<noteq> None \<and> liveObj t \<noteq> None)) tasks"

definition getNamespaceCreationTask :: "sync_state \<Rightarrow> nat list \<Rightarrow> nat option" where
  "getNamespaceCreationTask st tasks =
     (let creationTasks = Filter (\<lambda>r. let t = task_at st r in
            liveObj t = None \<and> isNamespaceWithName (targetObj t) (sc_namespace st)) tasks
      in if 0 < length creationTasks then Some (hd creationTasks) else None)"

definition errorMessage :: "sync_state \<Rightarrow> nat list \<Rightarrow> string \<Rightarrow> string" where
  "errorMessage st tasks message =
     (let messages = MapTasks (\<lambda>r. tmessage (task_at st r)) tasks
      in if 0 < length messages then message @ '', reason: '' @ Join messages '','' else message)"

definition setOperationFailed ::
  "cluster \<Rightarrow> nat list \<Rightarrow> nat list \<Rightarrow> string \<Rightarrow> sync_state \<Rightarrow> sync_state" where
  "setOperationFailed env syncFailTasks syncFailedTasks message st =
     (let msg = errorMessage st syncFailedTasks message in
      if 0 < length syncFailTasks then
        (if All (\<lambda>r. tcompleted (task_at st r)) syncFailTasks then setOperationPhase OperationFailed msg st
         else
           let (state, st1) = runTasks env syncFailTasks False st
           in if state = failed then
                setOperationPhase OperationFailed
                  (msg @ ''\<newline>'' @ errorMessage st1
                     (Filter (\<lambda>r. syncStatus (task_at st1 r) = ResultCodeSyncFailed) syncFailTasks)
                     ''one or more SyncFail hooks failed'') st1
              else st1)
      else setOperationPhase OperationFailed msg st)"

text \<open>The dry run of an operation that has no results yet.\<close>

definition create_namespace :: "cluster \<Rightarrow> nat list \<Rightarrow> sync_state \<Rightarrow> nat list option \<times> sync_state" where
  "create_namespace env tasks st =
     (case getNamespaceCreationTask st tasks of
        None \<Rightarrow> (Some tasks, st)
      | Some ns \<Rightarrow>
          (let (state, st1) = runTasks env [ns] False st
           in if state = failed
              then (None, setOperationFailed env [] [ns] ''the namespace failed to apply'' st1)
              else (Some (Filter (\<lambda>r. r \<noteq> ns) tasks), st1)))"

definition validate_tasks :: "cluster \<Rightarrow> nat list \<Rightarrow> sync_state \<Rightarrow> bool \<times> sync_state" where
  "validate_tasks env tasks st =
     (let dryRunTasks = (if sc_applyOutOfSyncOnly st then filterOutOfSyncTasks st tasks else tasks);
          (state, st1) = runTasks env dryRunTasks True st
      in if state = failed
         then (False, setOperationPhase OperationFailed ''one or more objects failed to apply (dry run)'' st1)
         else (True, st1))"

definition dry_run_part :: "cluster \<Rightarrow> nat list \<Rightarrow> sync_state \<Rightarrow> bool \<times> sync_state" where
  "dry_run_part env tasks st =
     (case create_namespace env tasks st of
        (None, st1) \<Rightarrow> (False, st1)
      | (Some dryRunTasks, st1) \<Rightarrow> validate_tasks env dryRunTasks st1)"

definition update_running :: "cluster \<Rightarrow> nat \<Rightarrow> sync_state \<Rightarrow> sync_state" where
  "update_running env r st =
     (let t = task_at st r; live = deref (liveObj t) in
      if isHook t then
        (case getOperationPhase env st live of
           Inl e \<Rightarrow> setResourceResult r ResultCodeEmpty OperationError
             (''failed to get resource health: '' @ err_text e) st
         | Inr (opState, message) \<Rightarrow> setResourceResult r ResultCodeEmpty opState message st)
      else
        (case GetResourceHealth (healths env) live (sc_healthOverride st) of
           (_, Some _) \<Rightarrow> st
         | (None, None) \<Rightarrow> setResourceResult r (syncStatus t) OperationSucceeded (tmessage t) st
         | (Some h, None) \<Rightarrow>
             (if Status h = HealthStatusHealthy
              then setResourceResult r (syncStatus t) OperationSucceeded (Message h) st
              else if Status h = HealthStatusDegraded
              then setResourceResult r (syncStatus t) OperationFailed (Message h) st
              else st)))"

fun remove_finalizers :: "cluster \<Rightarrow> nat list \<Rightarrow> sync_state \<Rightarrow> sync_state" where
  "remove_finalizers env [] st = st"
| "remove_finalizers env (r # rs) st =
     (case removeHookFinalizer env r st of
        (Some e, st1) \<Rightarrow> remove_finalizers env rs
          (setResourceResult r (syncStatus (task_at st1 r)) OperationError
             (''Failed to remove hook finalizer: '' @ err_text e) st1)
      | (None, st1) \<Rightarrow> remove_finalizers env rs st1)"

text \<open>\<open>multiStep\<close>, \<open>phase\<close> and the like on lists of task pointers.\<close>

definition values_at :: "sync_state \<Rightarrow> nat list \<Rightarrow> syncTask list" where
  "values_at st rs = map (task_at st) rs"

definition finish_wave ::
  "cluster \<Rightarrow> runState \<Rightarrow> nat list \<Rightarrow> nat list \<Rightarrow> nat list \<Rightarrow> nat list \<Rightarrow> nat list \<Rightarrow> sync_state \<Rightarrow> sync_state" where
  "finish_wave env state tasks remainingTasks syncFailTasks okHooks failHooks st =
     (case state of
        failed \<Rightarrow>
          (let syncFailedTasks = Filter (\<lambda>r. syncStatus (task_at st r) = ResultCodeSyncFailed) tasks
           in setOperationFailed env syncFailTasks syncFailedTasks ''one or more objects failed to apply''
                (deleteHooks env failHooks st))
      | successful \<Rightarrow>
          (if length remainingTasks = 0
           then setOperationPhase OperationSucceeded ''successfully synced (all tasks run)'' (deleteHooks env okHooks st)
           else setRunningPhase (values_at st remainingTasks) False st)
      | pending \<Rightarrow>
          setRunningPhase (values_at st (Filter (\<lambda>r. deleteOnPhaseCompletion (task_at st r)) tasks)) True st)"

definition after_wave ::
  "cluster \<Rightarrow> SyncPhase \<Rightarrow> int \<Rightarrow> bool \<Rightarrow> runState \<Rightarrow> nat list \<Rightarrow> nat list \<Rightarrow> nat list \<Rightarrow> nat list \<Rightarrow> nat list \<Rightarrow>
     sync_state \<Rightarrow> sync_state" where
  "after_wave env phase w finalWave state waveTasks remainingTasks syncFailTasks okHooks failHooks st =
     (case sc_syncWaveHook st of
        Some waveHook \<Rightarrow>
          (if state \<noteq> failed then
             (let st1 = call (CallWaveHook phase w finalWave) st
              in case waveHook (trace st1) of
                   Some e \<Rightarrow> setOperationPhase OperationFailed (''SyncWaveHook failed: '' @ err_text e)
                     (deleteHooks env failHooks st1)
                 | None \<Rightarrow> finish_wave env state waveTasks remainingTasks syncFailTasks okHooks failHooks st1)
           else finish_wave env state waveTasks remainingTasks syncFailTasks okHooks failHooks st)
      | None \<Rightarrow> finish_wave env state waveTasks remainingTasks syncFailTasks okHooks failHooks st)"

definition run_wave ::
  "cluster \<Rightarrow> nat list \<Rightarrow> nat list \<Rightarrow> nat list \<Rightarrow> nat list \<Rightarrow> sync_state \<Rightarrow> sync_state" where
  "run_wave env tasks syncFailTasks okHooks failHooks st =
     (let ts = values_at st tasks;
          phase = tasks_phase ts; w = tasks_wave ts;
          finalWave = (phase = lastPhase ts \<and> w = lastWave ts);
          remainingTasks = Filter (\<lambda>r. let t = task_at st r in tphase t \<noteq> phase \<or> w \<noteq> wave t \<or> isHook t) tasks;
          waveTasks = Filter (\<lambda>r. let t = task_at st r in tphase t = phase \<and> wave t = w) tasks;
          (state, st1) = runTasks env waveTasks False
            (setOperationPhase OperationRunning ''one or more tasks are running'' st)
      in after_wave env phase w finalWave state waveTasks remainingTasks syncFailTasks okHooks failHooks st1)"

text \<open>From the completed hooks on: nothing is running any more.\<close>

definition next_wave :: "cluster \<Rightarrow> nat list \<Rightarrow> sync_state \<Rightarrow> sync_state" where
  "next_wave env tasks st =
     (let st1 = remove_finalizers env (Filter (\<lambda>r. isHook (task_at st r) \<and> tcompleted (task_at st r)) tasks) st;
          okHooks = Filter (\<lambda>r. let t = task_at st1 r in
            isHook t \<and> liveObj t \<noteq> None \<and> \<not> trunning t \<and> deleteOnPhaseSuccessful t) tasks;
          failHooks = Filter (\<lambda>r. let t = task_at st1 r in
            isHook t \<and> liveObj t \<noteq> None \<and> \<not> trunning t \<and> deleteOnPhaseFailed t) tasks;
          (syncFailTasks, tasks) = SplitTasks (\<lambda>r. tphase (task_at st1 r) = SyncPhaseSyncFail) tasks;
          syncFailedTasks = Filter (\<lambda>r. syncStatus (task_at st1 r) = ResultCodeSyncFailed) tasks
      in if Any (\<lambda>r. tcompleted (task_at st1 r) \<and> \<not> tsuccessful (task_at st1 r)) tasks then
           setOperationFailed env syncFailTasks syncFailedTasks
             ''one or more synchronization tasks completed unsuccessfully'' (deleteHooks env failHooks st1)
         else
           let tasks = Filter (\<lambda>r. tpending (task_at st1 r)) tasks;
               tasks = (if sc_applyOutOfSyncOnly st1 then filterOutOfSyncTasks st1 tasks else tasks)
           in if length tasks = 0
              then setOperationPhase OperationSucceeded ''successfully synced (no more tasks)'' (deleteHooks env okHooks st1)
              else run_wave env tasks syncFailTasks okHooks failHooks st1)"

section \<open>Sync and Terminate\<close>

definition sync_step :: "cluster \<Rightarrow> nat list \<Rightarrow> sync_state \<Rightarrow> sync_state" where
  "sync_step env tasks st =
     (let st1 = foldl (\<lambda>s r. update_running env r s) st
            (Filter (\<lambda>r. trunning (task_at st r) \<and> liveObj (task_at st r) \<noteq> None) tasks);
          multi = multiStep (values_at st1 tasks);
          runningTasks = Filter (\<lambda>r. (multi \<or> isHook (task_at st1 r)) \<and> trunning (task_at st1 r)) tasks;
          deleting = Filter (\<lambda>r. let t = task_at st1 r in
            tpruned t \<and> liveObj t \<noteq> None \<and> GetDeletionTimestamp (deref (liveObj t)) \<noteq> None) tasks
      in if 0 < length runningTasks then setRunningPhase (values_at st1 runningTasks) False st1
         else if 0 < length deleting then setRunningPhase (values_at st1 deleting) True st1
         else next_wave env tasks st1)"

definition Sync :: "cluster \<Rightarrow> sync_state \<Rightarrow> sync_state" where
  "Sync env st =
     (let (tasks, ok, st1) = getSyncTasks env st in
      if \<not> ok then setOperationPhase OperationFailed ''one or more synchronization tasks are not valid'' st1
      else if started st1 then sync_step env tasks st1
      else case dry_run_part env tasks st1 of
             (False, st2) \<Rightarrow> st2
           | (True, st2) \<Rightarrow> sync_step env tasks st2)"

text \<open>The loop of \<open>Terminate\<close>: None when the health of a hook cannot be read, which returns at once.\<close>

fun terminate_loop :: "cluster \<Rightarrow> nat list \<Rightarrow> bool \<Rightarrow> sync_state \<Rightarrow> bool option \<times> sync_state" where
  "terminate_loop env [] terminateSuccessful st = (Some terminateSuccessful, st)"
| "terminate_loop env (r # rs) terminateSuccessful st =
     (if \<not> isHook (task_at st r) \<or> liveObj (task_at st r) = None then terminate_loop env rs terminateSuccessful st
      else case removeHookFinalizer env r st of
             (Some e, st1) \<Rightarrow>
               terminate_loop env rs False
                 (setResourceResult r (syncStatus (task_at st1 r)) OperationError
                    (''Failed to remove hook finalizer: '' @ err_text e) st1)
           | (None, st1) \<Rightarrow>
               (case getOperationPhase env st1 (deref (liveObj (task_at st1 r))) of
                  Inl e \<Rightarrow> (None, setOperationPhase OperationError (''Failed to get hook health: '' @ err_text e) st1)
                | Inr (phase, msg) \<Rightarrow>
                    (if phase = OperationRunning then
                       (let (result, st2) = deleteResource env r st1
                        in case result of
                             Some e \<Rightarrow>
                               (if \<not> IsNotFound e
                                then terminate_loop env rs False
                                  (setResourceResult r ResultCodeEmpty OperationFailed
                                     (''Failed to delete: '' @ err_text e) st2)
                                else terminate_loop env rs terminateSuccessful
                                  (setResourceResult r ResultCodeEmpty OperationSucceeded ''Deleted'' st2))
                           | None \<Rightarrow> terminate_loop env rs terminateSuccessful
                               (setResourceResult r ResultCodeEmpty OperationSucceeded ''Deleted'' st2))
                     else terminate_loop env rs terminateSuccessful
                       (setResourceResult r ResultCodeEmpty phase msg st1))))"

definition Terminate :: "cluster \<Rightarrow> sync_state \<Rightarrow> sync_state" where
  "Terminate env st =
     (let (tasks, ok, st1) = getSyncTasks env st in
      case terminate_loop env tasks True st1 of
        (None, st2) \<Rightarrow> st2
      | (Some True, st2) \<Rightarrow> setOperationPhase OperationFailed ''Operation terminated'' st2
      | (Some False, st2) \<Rightarrow> setOperationPhase OperationError ''Operation termination had errors'' st2)"

end
