(* ===== verification/SyncFacts.thy ===== *)
theory SyncFacts
  imports SyncOp
begin

text \<open>
  What the operations of a synchronization leave alone and which calls they make. A contract on a step is
  a reflexive and transitive relation between the states before and after; the locale
  \<open>step_relation\<close> lifts a contract from one goroutine to a group, from one attempt to a retried call and
  from one task to a list, whatever the schedule. Its interpretations are the contracts used by the
  properties: which calls are issued (\<open>issues\<close>), how the results change (\<open>keeps_results\<close>), and what
  happens to other tasks (\<open>keeps_task\<close>).
\<close>

section \<open>Contracts\<close>

locale step_relation =
  fixes R :: "'s \<Rightarrow> 's \<Rightarrow> bool"
  assumes R_refl: "R s s"
    and R_trans: "R s t \<Longrightarrow> R t u \<Longrightarrow> R s u"
begin

lemma R_retry: "(\<And>s. R s (snd (act s))) \<Longrightarrow> R s (snd (OnError n retriable act s))"
proof (induction n arbitrary: s)
  case 0
  then show ?case by simp
next
  case (Suc n)
  have step: "R s (snd (act s))" by (rule Suc.prems)
  show ?case
  proof (cases "act s")
    case (Pair x s')
    with step have "R s s'" by simp
    moreover have "R s' (snd (OnError n retriable act s'))" by (rule Suc.IH) (rule Suc.prems)
    ultimately show ?thesis using Pair by (cases x) (auto intro: R_trans)
  qed
qed

text \<open>The steps of a list may rely on having started from a state related to the first one.\<close>

lemma R_foldl:
  assumes "\<And>u x. R s u \<Longrightarrow> x \<in> set xs \<Longrightarrow> R u (f u x)"
  shows "R s (foldl f s xs)"
  using assms
proof (induction xs rule: rev_induct)
  case (snoc x xs)
  then have "R s (foldl f s xs)" by simp
  with snoc.prems show ?case by (auto intro: R_trans)
qed (simp add: R_refl)

end

lemma set_in_order [simp]: "set (in_order env st tasks) = set tasks"
  by (auto simp: in_order_def Let_def dest: mset_eq_setD)

lemma mset_in_order [simp]: "mset (in_order env st tasks) = mset tasks"
  by (simp add: in_order_def Let_def)

locale sync_relation = step_relation R for R :: "sync_state \<Rightarrow> sync_state \<Rightarrow> bool"
begin

lemma R_run_each:
  assumes "\<And>u r. R s u \<Longrightarrow> r \<in> set ts \<Longrightarrow> R u (snd (f r u))"
  shows "R s (snd (run_each f ts s))"
  using assms
proof (induction ts arbitrary: s)
  case (Cons t ts)
  have "R s (snd (f t s))" using Cons.prems R_refl by simp
  moreover from this have "R (snd (f t s)) (snd (run_each f ts (snd (f t s))))"
    using Cons.prems by (intro Cons.IH) (auto intro: R_trans)
  ultimately show ?case by (auto simp: split_beta Let_def intro: R_trans)
qed (simp add: R_refl)

lemma R_Go_Wait:
  assumes "\<And>u r. R s u \<Longrightarrow> r \<in> set ts \<Longrightarrow> R u (snd (f cur r u))"
  shows "R s (snd (Go_Wait env cur f ts s))"
  using R_run_each [of s "in_order env s ts" "f cur"] assms by (simp add: Go_Wait_def split_beta Let_def)

end

section \<open>The calls that are issued\<close>

text \<open>
  The settings of an operation: what no step ever changes. \<open>issues P\<close>: settings and number of tasks stay,
  and the calls added to the trace satisfy P.
\<close>

definition same_settings :: "sync_state \<Rightarrow> sync_state \<Rightarrow> bool" where
  "same_settings s t \<longleftrightarrow> sc_dryRun t = sc_dryRun s \<and> sc_prune t = sc_prune s \<and>
     sc_pruneConfirmed t = sc_pruneConfirmed s \<and> sc_prunePropagationPolicy t = sc_prunePropagationPolicy s \<and>
     sc_namespace t = sc_namespace s \<and> length (store t) = length (store s)"

definition issues :: "api_call set \<Rightarrow> sync_state \<Rightarrow> sync_state \<Rightarrow> bool" where
  "issues S s t \<longleftrightarrow> same_settings s t \<and> (\<exists>new. trace t = new @ trace s \<and> set new \<subseteq> S)"

lemma issues_refl [simp, intro]: "issues S s s"
  by (simp add: issues_def same_settings_def)

lemma issues_trans: "issues S s t \<Longrightarrow> issues S t u \<Longrightarrow> issues S s u"
  by (fastforce simp: issues_def same_settings_def)

interpretation calls: sync_relation "issues S" for S
  by unfold_locales (auto intro: issues_trans)

lemma issues_mono: "issues S s t \<Longrightarrow> S \<subseteq> S' \<Longrightarrow> issues S' s t"
  by (auto simp: issues_def)

lemma issues_settings: "issues S s t \<Longrightarrow> same_settings s t"
  by (simp add: issues_def)

lemma issues_trace: "issues S s t \<Longrightarrow> c \<in> set (trace t) \<Longrightarrow> c \<in> S \<or> c \<in> set (trace s)"
  by (auto simp: issues_def)

lemma same_settings_sym: "same_settings s t \<Longrightarrow> same_settings t s"
  by (simp add: same_settings_def)

lemma issues_call [simp]: "c \<in> S \<Longrightarrow> issues S s t \<Longrightarrow> issues S s (call c t)"
  by (auto simp: issues_def same_settings_def call_def)

lemma issues_setOperationPhase [simp]: "issues S s (setOperationPhase ph m t) = issues S s t"
  by (simp add: issues_def same_settings_def setOperationPhase_def)

lemma issues_setRunningPhase [simp]: "issues S s (setRunningPhase ts b t) = issues S s t"
  by (auto simp: setRunningPhase_def Let_def)

lemma issues_message [simp]: "issues S s (t\<lparr>sc_message := m\<rparr>) = issues S s t"
  by (simp add: issues_def same_settings_def)

lemma issues_setResourceResult [simp]: "issues S s (setResourceResult r c p m t) = issues S s t"
  by (simp add: issues_def same_settings_def setResourceResult_def setResourceResult_value_def Let_def)

lemma issues_setResourceResult_value [simp]:
  "issues S s (snd (setResourceResult_value c p m x t)) = issues S s t"
  by (simp add: issues_def same_settings_def setResourceResult_value_def Let_def)

lemma issues_set_live [simp]: "issues S s (set_live r l t) = issues S s t"
  by (simp add: issues_def same_settings_def set_live_def)

lemma issues_mutate [simp]: "issues S s (mutate p f t) = issues S s t"
  by (simp add: issues_def same_settings_def mutate_def)

lemma issues_fresh [simp]: "issues S s (snd (fresh_obj o' t)) = issues S s t"
  by (simp add: issues_def same_settings_def fresh_obj_def)

lemma issues_nextPtr [simp]: "issues S s (t\<lparr>nextPtr := n\<rparr>) = issues S s t"
  by (simp add: issues_def same_settings_def)

text \<open>The kinds of calls.\<close>

fun reading :: "api_call \<Rightarrow> bool" where
  "reading (CallDiscover _) = True"
| "reading (CallGet _ _ _) = True"
| "reading (CallDynGet _ _ _) = True"
| "reading (CallGetCRD _) = True"
| "reading _ = False"

abbreviation "reads \<equiv> {c. reading c}"
abbreviation "updates \<equiv> {c. \<exists>g ns x. c = CallDynUpdate g ns x}"
abbreviation "deletes \<equiv> {c. \<exists>g ns n p. c = CallDynDelete g ns n p}"
abbreviation "prunes \<equiv> {c. \<exists>g n ns p. c = CallDelete g n ns p}"

fun applying :: "api_call \<Rightarrow> bool" where
  "applying (CallApply _ _ _ _ _ _) = True"
| "applying (CallReplace _ _ _) = True"
| "applying (CallCreate _ _ _) = True"
| "applying (CallUpdate _ _) = True"
| "applying _ = False"

abbreviation "applies \<equiv> {c. applying c}"
abbreviation "safe \<equiv> {c. \<not> mutating c}"

lemma reading_not_mutating [simp]: "reading c \<Longrightarrow> \<not> mutating c"
  by (cases c) auto

lemma issues_safe: "issues reads s t \<Longrightarrow> issues safe s t"
  by (erule issues_mono) auto

section \<open>Calls of each operation\<close>

text \<open>Every contract is first stated with its smallest set, then used through \<open>issues_mono\<close>.\<close>

lemma issues_discover: "issues reads s (snd (discover env gvk verb s))"
  by (simp add: discover_def Let_def)

lemma issues_getResourceIf: "issues reads s (snd (getResourceIf env r verb s))"
  using issues_discover [of s env "groupVersionKind (task_at s r)" verb]
  by (auto simp: getResourceIf_def Let_def split: prod.splits sum.splits)

lemma issues_getResource: "issues reads s (snd (getResource env r s))"
  using issues_getResourceIf [of s env r "''get''"]
  by (auto simp: getResource_def Let_def fresh_obj_def split: prod.splits sum.splits)

lemma issues_updateResource: "issues (reads \<union> updates) s (snd (updateResource env r s))"
  using issues_mono [OF issues_getResourceIf [of s env r "''update''"], of "reads \<union> updates"]
  by (auto simp: updateResource_def Let_def split: prod.splits sum.splits option.splits)

lemma issues_deleteResource: "issues (reads \<union> deletes) s (snd (deleteResource env r s))"
  using issues_mono [OF issues_getResourceIf [of s env r "''delete''"], of "reads \<union> deletes"]
  by (auto simp: deleteResource_def Let_def split: prod.splits sum.splits option.splits)

lemma issues_after_update: "issues (reads \<union> updates) s (snd (after_update env r e s))"
  using issues_mono [OF issues_getResource [of s env r], of "reads \<union> updates"]
  by (simp add: after_update_def split_beta split: sum.split option.split)

lemma issues_remove_finalizer_attempt:
  "issues (reads \<union> updates) s (snd (remove_finalizer_attempt env r s))"
proof -
  have "issues (reads \<union> updates) s (snd (updateResource env r (mutate p f s)))" for p f
    by (rule issues_trans [OF _ issues_updateResource]) simp
  note issues_trans [OF this issues_after_update]
  then show ?thesis
    by (simp add: remove_finalizer_attempt_def Let_def split_beta)
qed

lemma issues_removeHookFinalizer: "issues (reads \<union> updates) s (snd (removeHookFinalizer env r s))"
proof -
  have "issues (reads \<union> updates) s (snd (OnError DefaultRetry IsConflict (remove_finalizer_attempt env r) s))"
    by (rule calls.R_retry) (rule issues_remove_finalizer_attempt)
  then show ?thesis
    by (auto simp: removeHookFinalizer_def split: prod.splits sum.splits)
qed

lemma deleteHooks_foldl:
  "deleteHooks env rs s = foldl (\<lambda>s r. deleteHooks env [r] s) s rs"
  by (induction rs arbitrary: s) (simp_all split: prod.splits option.splits)

lemma issues_deleteHooks: "issues (reads \<union> deletes) s (deleteHooks env rs s)"
proof -
  have "issues (reads \<union> deletes) s (deleteHooks env [r] s)" for r s
    using issues_deleteResource [of s env r] by (auto split: prod.splits option.splits)
  then show ?thesis by (subst deleteHooks_foldl) (rule calls.R_foldl)
qed

lemma issues_poll_crd: "issues reads s (snd (poll_crd env name n s))"
proof (induction n arbitrary: s)
  case (Suc n)
  have "issues reads s (snd (poll_crd env name n (call (CallGetCRD name) s)))"
    by (rule issues_trans [OF _ Suc.IH]) simp
  then show ?case by (simp add: Let_def split: sum.split option.split)
qed simp

lemma issues_ensureCRDReady: "issues reads s (snd (ensureCRDReady env name s))"
  using issues_poll_crd [of s env name "crd_polls env (trace s)"]
  by (auto simp: ensureCRDReady_def split: prod.splits option.splits)

lemma issues_migrate:
  "issues applies s (snd (migrate env t ssa dry s))"
  by (simp add: migrate_def performClientSideApplyMigration_def Let_def split: sum.split)

lemma migrate_dry [simp]: "migrate env t ssa True s = (None, s)"
  by (simp add: migrate_def)

definition strategy_calls :: "dry_run_strategy \<Rightarrow> api_call set" where
  "strategy_calls strategy = {c. applying c \<and> (mutating c \<longleftrightarrow> strategy = DryRunNone)}"

lemma issues_apply_call:
  "issues (strategy_calls strategy) s (snd (apply_call env t strategy rep force val ssa s))"
  by (simp add: apply_call_def Let_def fresh_obj_def strategy_calls_def split: option.split)

lemma strategy_calls_subset:
  "strategy_calls strategy \<subseteq> applies" "strategy_calls DryRunClient \<subseteq> safe"
  by (auto simp: strategy_calls_def)

lemma issues_applyObject:
  assumes S: "reads \<union> strategy_calls (if dryRun then DryRunClient else DryRunNone) \<subseteq> S"
    and "\<not> dryRun \<Longrightarrow> applies \<subseteq> S"
  shows "issues S s (snd (snd (applyObject env t dryRun validate s)))"
proof -
  let ?strategy = "if dryRun then DryRunClient else DryRunNone"
  let ?m = "migrate env t (shouldUseServerSideApply s (deref (targetObj t)) dryRun) dryRun s"
  have m: "issues S s (snd ?m)"
    using issues_mono [OF issues_migrate] assms(2) by (cases dryRun) auto
  have app: "issues S u (snd (apply_call env t ?strategy rep force val ssa u))" for rep force val ssa u
    by (rule issues_mono [OF issues_apply_call]) (use S in auto)
  have crd: "issues S u (snd (ensureCRDReady env n u))" for n u
    by (rule issues_mono [OF issues_ensureCRDReady]) (use S in auto)
  have all: "issues S s (snd (ensureCRDReady env n (snd (apply_call env t ?strategy rep force val ssa (snd ?m)))))"
    "issues S s (snd (apply_call env t ?strategy rep force val ssa (snd ?m)))" for n rep force val ssa
    by (rule issues_trans [OF m], rule issues_trans [OF app crd], rule issues_trans [OF m app])
  show ?thesis
    unfolding applyObject_def Let_def
    using m all by (cases dryRun) (simp_all add: split_beta split: sum.split option.split)
qed

lemma issues_pruneObject:
  "issues (if prune \<and> \<not> dryRun then prunes else {}) s (snd (snd (pruneObject env live prune dryRun s)))"
  by (simp add: pruneObject_def Let_def split: option.split)

section \<open>Calls of a group and of runTasks\<close>

lemma issues_go_finalizer:
  "issues (if dryRun then {} else reads \<union> updates) s (snd (go_finalizer env dryRun cur r s))"
  using issues_removeHookFinalizer [of s env r]
  by (auto simp: go_finalizer_def split: prod.splits option.splits)

lemma issues_go_prune:
  "issues (if sc_prune s \<and> \<not> dryRun then prunes else {}) s (snd (go_prune env dryRun cur r s))"
  using issues_pruneObject [of "sc_prune s" dryRun s env "deref (liveObj (task_at s r))"]
  by (auto simp: go_prune_def Let_def split: prod.splits)

lemma issues_go_delete:
  "issues (if dryRun then {} else reads \<union> deletes) s (snd (go_delete env dryRun cur r s))"
  using issues_deleteResource [of s env r]
  by (auto simp: go_delete_def split: prod.splits option.splits)

lemma issues_go_create:
  "issues (if dryRun then safe else reads \<union> applies) s (snd (go_create env dryRun cur r s))"
proof -
  have "issues (if dryRun then safe else reads \<union> applies) s (snd (snd (applyObject env t dryRun v s)))" for t v
    by (rule issues_applyObject) (auto simp: strategy_calls_def)
  then show ?thesis
    by (cases dryRun) (simp_all add: go_create_def Let_def split_beta)
qed

text \<open>What a run may call: in a dry run nothing that changes the cluster; deletions of live objects only with pruning on.\<close>

definition run_calls :: "bool \<Rightarrow> bool \<Rightarrow> api_call set" where
  "run_calls dryRun prune =
     (if dryRun then safe else reads \<union> updates \<union> deletes \<union> applies \<union> (if prune then prunes else {}))"

lemma issues_processCreateTasks:
  "issues (run_calls dryRun prune) s (snd (processCreateTasks env state tasks dryRun s))"
  unfolding processCreateTasks_def
proof (rule calls.R_Go_Wait)
  fix u r
  show "issues (run_calls dryRun prune) u (snd (go_create env dryRun state r u))"
    by (rule issues_mono [OF issues_go_create]) (auto simp: run_calls_def)
qed

lemma issues_create_groups:
  "issues (run_calls dryRun prune) s (snd (create_groups env dryRun state grp tasks s))"
proof (induction tasks arbitrary: state grp s)
  case Nil
  show ?case using issues_processCreateTasks by simp
next
  case (Cons r tasks)
  have "issues (run_calls dryRun prune) s
      (snd (create_groups env dryRun state' [r] tasks (snd (processCreateTasks env state grp dryRun s))))" for state'
    by (rule issues_trans [OF issues_processCreateTasks Cons.IH])
  then show ?case using Cons.IH by (simp add: split_beta Let_def)
qed

lemma issues_finalizer_group:
  "issues (run_calls dryRun prune) s (snd (Go_Wait env cur (go_finalizer env dryRun) tasks s))"
proof (rule calls.R_Go_Wait)
  fix u r
  show "issues (run_calls dryRun prune) u (snd (go_finalizer env dryRun cur r u))"
    by (rule issues_mono [OF issues_go_finalizer]) (auto simp: run_calls_def)
qed

lemma issues_prune_group:
  assumes "sc_prune s = prune"
  shows "issues (run_calls dryRun prune) s (snd (Go_Wait env cur (go_prune env dryRun) tasks s))"
proof (rule calls.R_Go_Wait)
  fix u r assume "issues (run_calls dryRun prune) s u"
  then have "sc_prune u = prune" using assms by (simp add: issues_def same_settings_def)
  then show "issues (run_calls dryRun prune) u (snd (go_prune env dryRun cur r u))"
    by (intro issues_mono [OF issues_go_prune]) (auto simp: run_calls_def)
qed

lemma issues_delete_group:
  "issues (run_calls dryRun prune) s (snd (Go_Wait env cur (go_delete env dryRun) tasks s))"
proof (rule calls.R_Go_Wait)
  fix u r
  show "issues (run_calls dryRun prune) u (snd (go_delete env dryRun cur r u))"
    by (rule issues_mono [OF issues_go_delete]) (auto simp: run_calls_def)
qed

lemma issues_runTasks:
  assumes "dryRun = (dry \<or> sc_dryRun s)" "sc_prune s = prune"
  shows "issues (run_calls dryRun prune) s (snd (runTasks env tasks dry s))"
proof -
  let ?C = "run_calls dryRun prune"
  have fin: "issues ?C s (snd (Go_Wait env successful (go_finalizer env dryRun) ts s))" for ts
    by (rule issues_finalizer_group)
  have pr: "issues ?C s (snd (Go_Wait env c (go_prune env dryRun) ts u))" if "issues ?C s u" for c ts u
    using that assms(2)
    by (intro issues_trans [OF that] issues_prune_group) (auto simp: issues_def same_settings_def)
  have de: "issues ?C s (snd (Go_Wait env c (go_delete env dryRun) ts u))" if "issues ?C s u" for c ts u
    by (rule issues_trans [OF that issues_delete_group])
  have cr: "issues ?C s (snd (create_groups env dryRun c g ts u))" if "issues ?C s u" for c g ts u
    by (rule issues_trans [OF that issues_create_groups])
  show ?thesis
    unfolding runTasks_def Let_def split_beta assms(1) [symmetric]
    by (auto intro: fin pr de cr)
qed

end
