(* ===== verification/SyncContracts.thy ===== *)
theory SyncContracts
  imports SyncFacts
begin

text \<open>
  Contracts that hold because every operation is built from a few primitive updates of the state: a call,
  a stored result, a new live object, an update in place. \<open>sync_contract\<close> asks a relation to hold for
  the primitives, on the tasks of a set A, and gives it for every operation up to \<open>runTasks\<close> on tasks of
  A; \<open>sync_contract_all\<close> carries it to \<open>Sync\<close> and \<open>Terminate\<close>.
\<close>

text \<open>
  What a step may call: an object is applied for real only outside a dry run, and a live object is
  deleted only outside a dry run and with pruning on. Everything else is harmless in this sense; the
  updates and deletions of hooks are among it.
\<close>

definition is_prune :: "api_call \<Rightarrow> bool" where
  "is_prune c = (case c of CallDelete _ _ _ _ \<Rightarrow> True | _ \<Rightarrow> False)"

definition is_apply :: "api_call \<Rightarrow> bool" where
  "is_apply c \<longleftrightarrow> applying c \<and> mutating c"

definition allowed :: "bool \<Rightarrow> bool \<Rightarrow> api_call \<Rightarrow> bool" where
  "allowed dryRun prune c \<longleftrightarrow> (is_apply c \<longrightarrow> \<not> dryRun) \<and> (is_prune c \<longrightarrow> prune \<and> \<not> dryRun)"

locale sync_contract = sync_relation R for R :: "sync_state \<Rightarrow> sync_state \<Rightarrow> bool" +
  fixes A :: "nat set"
  assumes c_settings: "R s t \<Longrightarrow> sc_dryRun t = sc_dryRun s \<and> sc_prune t = sc_prune s"
    and c_allowed: "allowed (sc_dryRun s) (sc_prune s) c \<Longrightarrow> R s (call c s)"
    and c_result: "r \<in> A \<Longrightarrow> R s (setResourceResult r code ph m s)"
    and c_live: "r \<in> A \<Longrightarrow> R s (set_live r live s)"
    and c_mutate: "R s (mutate p (\<lambda>x. x\<lparr>GetFinalizers := remove1 HookFinalizer (GetFinalizers x)\<rparr>) s)"
    and c_fresh: "R s (snd (fresh_obj o' s))"
    and c_phase: "R s (setOperationPhase oph m s)"
    and c_message: "R s (s\<lparr>sc_message := m\<rparr>)"
begin

lemma c_call: "\<not> is_apply c \<Longrightarrow> \<not> is_prune c \<Longrightarrow> R s (call c s)"
  by (rule c_allowed) (simp add: allowed_def)

lemma c_setRunningPhase: "R s (setRunningPhase ts b s)"
  by (simp add: setRunningPhase_def Let_def c_phase R_refl)

lemma c_discover: "R s (snd (discover env gvk verb s))"
  by (simp add: discover_def Let_def c_call is_apply_def is_prune_def)

lemma c_getResourceIf: "R s (snd (getResourceIf env r verb s))"
  using c_discover [of s env "groupVersionKind (task_at s r)" verb]
  by (simp add: getResourceIf_def Let_def split_beta split: sum.split)

lemma c_getResource: "R s (snd (getResource env r s))"
proof -
  let ?u = "snd (getResourceIf env r ''get'' s)"
  have 1: "R s ?u" by (rule c_getResourceIf)
  have 2: "R s (call c ?u)" if "\<not> is_apply c" "\<not> is_prune c" for c by (rule R_trans [OF 1 c_call [OF that]])
  have 3: "R s (snd (fresh_obj o' (call c ?u)))" if "\<not> is_apply c" "\<not> is_prune c" for o' c
    by (rule R_trans [OF 2 [OF that] c_fresh])
  show ?thesis
    using 1 2 3 by (simp add: getResource_def Let_def split_beta is_apply_def is_prune_def split: sum.split)
qed

lemma c_updateResource: "R s (snd (updateResource env r s))"
proof -
  let ?u = "snd (getResourceIf env r ''update'' s)"
  have 1: "R s ?u" by (rule c_getResourceIf)
  have 2: "R s (call c ?u)" if "\<not> is_apply c" "\<not> is_prune c" for c by (rule R_trans [OF 1 c_call [OF that]])
  show ?thesis
    using 1 2 by (simp add: updateResource_def Let_def split_beta is_apply_def is_prune_def split: sum.split option.split)
qed

lemma c_deleteResource: "R s (snd (deleteResource env r s))"
proof -
  let ?u = "snd (getResourceIf env r ''delete'' s)"
  have 1: "R s ?u" by (rule c_getResourceIf)
  have 2: "R s (call c ?u)" if "\<not> is_apply c" "\<not> is_prune c" for c by (rule R_trans [OF 1 c_call [OF that]])
  show ?thesis
    using 1 2 by (simp add: deleteResource_def Let_def split_beta is_apply_def is_prune_def split: sum.split option.split)
qed

lemma c_after_update:
  assumes "r \<in> A" shows "R s (snd (after_update env r e s))"
  using R_trans [OF c_getResource c_live [OF assms]] c_getResource [of s env r]
  by (simp add: after_update_def split_beta R_refl split: sum.split option.split)

lemma c_remove_finalizer_attempt:
  assumes "r \<in> A" shows "R s (snd (remove_finalizer_attempt env r s))"
  using R_trans [OF R_trans [OF c_mutate c_updateResource] c_after_update [OF assms]]
  by (simp add: remove_finalizer_attempt_def Let_def split_beta R_refl)

lemma c_removeHookFinalizer: "r \<in> A \<Longrightarrow> R s (snd (removeHookFinalizer env r s))"
  using R_retry [of "remove_finalizer_attempt env r" s DefaultRetry IsConflict] c_remove_finalizer_attempt [of r]
  by (simp add: removeHookFinalizer_def split_beta R_refl split: sum.split)

lemma c_deleteHooks:
  assumes "set rs \<subseteq> A" shows "R s (deleteHooks env rs s)"
proof (subst deleteHooks_foldl, rule R_foldl)
  fix u r assume "r \<in> set rs"
  with assms have r: "r \<in> A" by auto
  have "R u (setResourceResult r code ph m (snd (deleteResource env r u)))" for code ph m
    by (rule R_trans [OF c_deleteResource c_result [OF r]])
  then show "R u (deleteHooks env [r] u)"
    using c_deleteResource [of u env r] by (simp add: split_beta split: option.split)
qed

lemma c_poll_crd: "R s (snd (poll_crd env name n s))"
proof (induction n arbitrary: s)
  case (Suc n)
  have "R s (snd (poll_crd env name n (call (CallGetCRD name) s)))"
    by (rule R_trans [OF c_call Suc.IH]) (simp_all add: is_apply_def is_prune_def)
  then show ?case by (simp add: Let_def c_call is_apply_def is_prune_def split: sum.split option.split)
qed (simp add: R_refl)

lemma c_ensureCRDReady: "R s (snd (ensureCRDReady env name s))"
  using c_poll_crd [of s env name "crd_polls env (trace s)"]
  by (simp add: ensureCRDReady_def split_beta split: option.split)

lemma c_migrate: "(\<not> dry \<Longrightarrow> \<not> sc_dryRun s) \<Longrightarrow> R s (snd (migrate env t ssa dry s))"
  by (simp add: migrate_def performClientSideApplyMigration_def Let_def c_allowed allowed_def is_prune_def
      R_refl split: sum.split)

lemma c_apply_call:
  assumes "strategy = DryRunNone \<Longrightarrow> \<not> sc_dryRun s"
  shows "R s (snd (apply_call env t strategy rep force val ssa s))"
proof -
  have 1: "R s (call c s)" if "c \<in> strategy_calls strategy" for c
    using that assms by (intro c_allowed) (auto simp: allowed_def is_apply_def is_prune_def strategy_calls_def split: api_call.split)
  have fr: "R s (snd (fresh_obj o' s))" for o' by (rule c_fresh)
  have 2: "R s (call c (snd (fresh_obj o' s)))" if "c \<in> strategy_calls strategy" for c o'
    by (rule R_trans [OF fr [of o'] c_allowed])
      (use that assms c_settings [OF fr [of o']] in \<open>auto simp: allowed_def is_apply_def is_prune_def strategy_calls_def split: api_call.split\<close>)
  show ?thesis
    by (simp add: apply_call_def Let_def split_beta 1 2 strategy_calls_def split: option.split)
qed

lemma c_applyObject:
  assumes "\<not> dryRun \<Longrightarrow> \<not> sc_dryRun s"
  shows "R s (snd (snd (applyObject env t dryRun validate s)))"
proof -
  let ?m = "snd (migrate env t (shouldUseServerSideApply s (deref (targetObj t)) dryRun) dryRun s)"
  let ?strategy = "if dryRun then DryRunClient else DryRunNone"
  have 1: "R s ?m" using assms by (rule c_migrate)
  have 2: "R s (snd (apply_call env t ?strategy rep force val ssa ?m))" for rep force val ssa
    by (rule R_trans [OF 1 c_apply_call]) (use assms c_settings [OF 1] in \<open>auto split: if_splits\<close>)
  have 3: "R s (snd (ensureCRDReady env n (snd (apply_call env t ?strategy rep force val ssa ?m))))"
    for n rep force val ssa by (rule R_trans [OF 2 c_ensureCRDReady])
  show ?thesis
    unfolding applyObject_def Let_def
    using 1 2 3 by (cases dryRun) (simp_all add: split_beta split: sum.split option.split)
qed

lemma c_pruneObject:
  assumes "prune \<and> \<not> dryRun \<Longrightarrow> sc_prune s \<and> \<not> sc_dryRun s"
  shows "R s (snd (snd (pruneObject env live prune dryRun s)))"
  using assms
  by (auto simp: pruneObject_def Let_def allowed_def is_apply_def R_refl intro!: c_allowed split: option.split)

lemma c_go_finalizer: "r \<in> A \<Longrightarrow> R s (snd (go_finalizer env dryRun cur r s))"
  using c_removeHookFinalizer [of r s env] R_trans [OF c_removeHookFinalizer c_result]
  by (simp add: go_finalizer_def split_beta R_refl split: option.split)

lemma c_go_prune: "r \<in> A \<Longrightarrow> (\<not> dryRun \<Longrightarrow> \<not> sc_dryRun s) \<Longrightarrow> R s (snd (go_prune env dryRun cur r s))"
  using c_pruneObject [of "sc_prune s" dryRun s env "deref (liveObj (task_at s r))"]
  by (cases dryRun) (simp_all add: go_prune_def Let_def split_beta R_trans [OF _ c_result])

lemma c_go_delete:
  assumes "r \<in> A" shows "R s (snd (go_delete env dryRun cur r s))"
proof -
  let ?u = "snd (deleteResource env r s)"
  have 1: "R s ?u" by (rule c_deleteResource)
  have 2: "R s (setResourceResult r c p m ?u)" "R s (set_live r l ?u)" for c p m l
    by (rule R_trans [OF 1 c_result [OF assms]], rule R_trans [OF 1 c_live [OF assms]])
  show ?thesis using 1 2 by (simp add: go_delete_def split_beta R_refl split: option.split)
qed

lemma c_go_create:
  assumes "r \<in> A" "\<not> dryRun \<Longrightarrow> \<not> sc_dryRun s"
  shows "R s (snd (go_create env dryRun cur r s))"
proof -
  have 1: "R s (snd (snd (applyObject env t dryRun v s)))" for t v
    using assms(2) by (rule c_applyObject)
  have 2: "R s (setResourceResult r c p m (snd (snd (applyObject env t dryRun v s))))" for c p m t v
    by (rule R_trans [OF 1 c_result [OF assms(1)]])
  show ?thesis
    unfolding go_create_def Let_def using 1 2 by (cases dryRun) (simp_all add: split_beta)
qed

lemma c_processCreateTasks:
  assumes "set tasks \<subseteq> A" "\<not> dryRun \<Longrightarrow> \<not> sc_dryRun s"
  shows "R s (snd (processCreateTasks env state tasks dryRun s))"
  unfolding processCreateTasks_def
proof (rule R_Go_Wait)
  fix u r assume "R s u" "r \<in> set (Filter (\<lambda>r. \<not> (dryRun \<and> skipDryRun (task_at s r))) tasks)"
  then show "R u (snd (go_create env dryRun state r u))"
    using assms c_settings [of s u] by (intro c_go_create) auto
qed

lemma c_create_groups:
  "set grp \<subseteq> A \<Longrightarrow> set tasks \<subseteq> A \<Longrightarrow> (\<not> dryRun \<Longrightarrow> \<not> sc_dryRun s) \<Longrightarrow>
     R s (snd (create_groups env dryRun state grp tasks s))"
proof (induction tasks arbitrary: state grp s)
  case Nil
  then show ?case using c_processCreateTasks by (simp add: R_refl)
next
  case (Cons r tasks)
  have grp: "R s (snd (processCreateTasks env state grp dryRun s))"
    using Cons.prems by (intro c_processCreateTasks) auto
  have "R s (snd (create_groups env dryRun state' [r] tasks (snd (processCreateTasks env state grp dryRun s))))"
    for state'
    by (rule R_trans [OF grp Cons.IH]) (use Cons.prems c_settings [OF grp] in auto)
  moreover have "R s (snd (create_groups env dryRun state (grp @ [r]) tasks s))"
    using Cons.prems by (intro Cons.IH) auto
  ultimately show ?case by (simp add: split_beta Let_def)
qed

lemma c_runTasks:
  assumes "set tasks \<subseteq> A" shows "R s (snd (runTasks env tasks dry s))"
proof -
  let ?d = "dry \<or> sc_dryRun s"
  have dry: "\<not> ?d \<Longrightarrow> \<not> sc_dryRun u" if "R s u" for u using c_settings [OF that] by simp
  have fin: "R s (snd (Go_Wait env c (go_finalizer env ?d) ts s))" if "set ts \<subseteq> set tasks" for c ts
    using assms that by (intro R_Go_Wait c_go_finalizer) auto
  have pr: "R s (snd (Go_Wait env c (go_prune env ?d) ts u))" if "R s u" "set ts \<subseteq> set tasks" for c ts u
    by (rule R_trans [OF that(1)]) (intro R_Go_Wait c_go_prune; use assms that(2) dry R_trans [OF that(1)] in blast)
  have de: "R s (snd (Go_Wait env c (go_delete env ?d) ts u))" if "R s u" "set ts \<subseteq> set tasks" for c ts u
    by (rule R_trans [OF that(1)]) (intro R_Go_Wait c_go_delete; use assms that(2) in auto)
  have cr: "R s (snd (create_groups env ?d c [] ts u))" if "R s u" "set ts \<subseteq> set tasks" for c ts u
    by (rule R_trans [OF that(1)]) (intro c_create_groups; use assms that(2) dry [OF that(1)] in auto)
  show ?thesis
    unfolding runTasks_def Let_def split_beta Filter_filter
    by (auto intro!: fin pr de cr R_trans [OF _ c_message])
qed

lemma c_setOperationFailed:
  assumes "set syncFailTasks \<subseteq> A"
  shows "R s (setOperationFailed env syncFailTasks failedTasks m s)"
  using c_runTasks [OF assms, of s env False] R_trans [OF c_runTasks [OF assms] c_phase]
  by (simp add: setOperationFailed_def Let_def split_beta c_phase)

lemma c_create_namespace:
  assumes "set tasks \<subseteq> A" shows "R s (snd (create_namespace env tasks s))"
proof (cases "getNamespaceCreationTask s tasks")
  case (Some ns)
  then have "ns \<in> set tasks"
    by (auto simp: getNamespaceCreationTask_def Let_def split: if_splits)
      (metis (no_types, lifting) filter_is_subset hd_in_set subsetD)
  with assms have "R s (snd (runTasks env [ns] False s))" by (intro c_runTasks) auto
  moreover from this have "R s (setOperationFailed env [] fs m (snd (runTasks env [ns] False s)))" for fs m
    by (rule R_trans) (simp add: c_setOperationFailed)
  ultimately show ?thesis using Some by (simp add: create_namespace_def split_beta)
qed (simp add: create_namespace_def R_refl)

lemma create_namespace_subset: "fst (create_namespace env tasks s) = Some ts \<Longrightarrow> set ts \<subseteq> set tasks"
  by (auto simp: create_namespace_def split_beta split: option.splits if_splits)

lemma filterOutOfSyncTasks_subset: "set (filterOutOfSyncTasks s ts) \<subseteq> set ts"
  by (auto simp: filterOutOfSyncTasks_def)

lemma c_validate_tasks:
  assumes "set tasks \<subseteq> A" shows "R s (snd (validate_tasks env tasks s))"
proof -
  have "R s (snd (runTasks env (if sc_applyOutOfSyncOnly s then filterOutOfSyncTasks s tasks else tasks) True s))"
    using assms filterOutOfSyncTasks_subset by (intro c_runTasks) auto
  then show ?thesis
    unfolding validate_tasks_def Let_def split_beta by (auto intro: R_trans [OF _ c_phase])
qed

lemma c_dry_run_part:
  assumes "set tasks \<subseteq> A" shows "R s (snd (dry_run_part env tasks s))"
  using c_create_namespace [OF assms, of s env] create_namespace_subset [of env tasks s] assms
  by (auto simp: dry_run_part_def split_beta split: option.split intro!: R_trans [OF _ c_validate_tasks])

lemma c_update_running: "r \<in> A \<Longrightarrow> R s (update_running env r s)"
  by (simp add: update_running_def Let_def c_result R_refl split_beta split: sum.split option.split)

lemma c_remove_finalizers:
  "set rs \<subseteq> A \<Longrightarrow> R s (remove_finalizers env rs s)"
proof (induction rs arbitrary: s)
  case (Cons r rs)
  then have r: "r \<in> A" by simp
  have 1: "R s (remove_finalizers env rs (snd (removeHookFinalizer env r s)))"
    by (rule R_trans [OF c_removeHookFinalizer [OF r]]) (use Cons in auto)
  have 2: "R s (remove_finalizers env rs (setResourceResult r c p m (snd (removeHookFinalizer env r s))))" for c p m
    by (rule R_trans [OF R_trans [OF c_removeHookFinalizer [OF r] c_result [OF r]]]) (use Cons in auto)
  show ?case using 1 2 by (simp add: split_beta split: option.split)
qed (simp add: R_refl)

lemma c_finish_wave:
  assumes "set failTasks \<subseteq> A" "set okHooks \<subseteq> A" "set failHooks \<subseteq> A"
  shows "R s (finish_wave env state tasks remaining failTasks okHooks failHooks s)"
proof -
  have "R s (setOperationFailed env failTasks fs m (deleteHooks env failHooks s))" for fs m
    by (rule R_trans [OF c_deleteHooks c_setOperationFailed]) (use assms in auto)
  moreover have "R s (setOperationPhase ph m (deleteHooks env okHooks s))" for ph m
    by (rule R_trans [OF c_deleteHooks c_phase]) (use assms in auto)
  ultimately show ?thesis
    by (simp add: finish_wave_def Let_def c_setRunningPhase split: runState.split)
qed

lemma c_after_wave:
  assumes sub: "set failTasks \<subseteq> A" "set okHooks \<subseteq> A" "set failHooks \<subseteq> A"
  shows "R s (after_wave env phase w fin state ts rem failTasks okHooks failHooks s)"
  using R_trans [OF c_call c_finish_wave [OF sub]] c_finish_wave [OF sub]
    R_trans [OF R_trans [OF c_call c_deleteHooks [OF sub(3)]] c_phase]
  by (simp add: after_wave_def Let_def is_apply_def is_prune_def split: option.split)

lemma c_run_wave:
  assumes "set tasks \<subseteq> A" "set failTasks \<subseteq> A" "set okHooks \<subseteq> A" "set failHooks \<subseteq> A"
  shows "R s (run_wave env tasks failTasks okHooks failHooks s)"
  unfolding run_wave_def Let_def split_beta Filter_filter
  by (rule R_trans [OF R_trans [OF c_phase c_runTasks] c_after_wave]) (use assms in auto)

lemma c_next_wave:
  assumes "set tasks \<subseteq> A" shows "R s (next_wave env tasks s)"
proof -
  let ?u = "remove_finalizers env (filter (\<lambda>r. isHook (task_at s r) \<and> tcompleted (task_at s r)) tasks) s"
  have 1: "R s ?u" using assms by (intro c_remove_finalizers) auto
  have 2: "R s (setOperationFailed env (filter P tasks) fs m (deleteHooks env (filter Q tasks) ?u))" for P Q fs m
    by (rule R_trans [OF 1 R_trans [OF c_deleteHooks c_setOperationFailed]]) (use assms in auto)
  have 3: "R s (setOperationPhase ph m (deleteHooks env (filter Q tasks) ?u))" for Q ph m
    by (rule R_trans [OF 1 R_trans [OF c_deleteHooks c_phase]]) (use assms in auto)
  have 4: "R s (run_wave env ts (filter P tasks) (filter Q tasks) (filter Q' tasks) ?u)" if "set ts \<subseteq> set tasks" for ts P Q Q'
    by (rule R_trans [OF 1 c_run_wave]) (use assms that in auto)
  have sub: "set (filterOutOfSyncTasks u ts) \<subseteq> set tasks" if "set ts \<subseteq> set tasks" for u ts
    using that by (auto simp: filterOutOfSyncTasks_def)
  show ?thesis
    unfolding next_wave_def Let_def Filter_filter SplitTasks_partition prod.case
    by (simp add: 2 3) (intro conjI impI 4 sub; auto)
qed

lemma c_sync_step:
  assumes "set tasks \<subseteq> A" shows "R s (sync_step env tasks s)"
proof -
  let ?u = "foldl (\<lambda>s r. update_running env r s) s
    (filter (\<lambda>r. trunning (task_at s r) \<and> liveObj (task_at s r) \<noteq> None) tasks)"
  have 1: "R s ?u" using assms by (intro R_foldl c_update_running) auto
  show ?thesis
    unfolding sync_step_def Let_def Filter_filter
    using R_trans [OF 1 c_setRunningPhase] R_trans [OF 1 c_next_wave [OF assms]] by simp
qed

end

section \<open>Sync and Terminate\<close>

locale sync_contract_all = sync_contract R UNIV for R +
  assumes c_store: "R s (s\<lparr>store := ts\<rparr>)"
    and c_value: "R s (snd (setResourceResult_value code ph m t s))"
begin

lemma c_hook_phase_tasks: "R s (snd (hook_phase_tasks obj phases s))"
proof (induction phases arbitrary: s)
  case (Cons phase phases)
  show ?case using R_trans [OF c_fresh Cons.IH] by (simp add: Let_def split_beta)
qed (simp add: R_refl)

lemma c_hookTasks: "R s (snd (hookTasks objs s))"
proof (induction objs arbitrary: s)
  case (Cons obj objs)
  show ?case using R_trans [OF c_hook_phase_tasks Cons.IH] by (simp add: Let_def split_beta)
qed (simp add: R_refl)

lemma c_enrich_namespace: "R s (snd (enrich_namespace ts s))"
proof (induction ts arbitrary: s)
  case (Cons t ts)
  show ?case using R_trans [OF c_fresh Cons.IH] Cons.IH by (simp add: Let_def split_beta split: option.split)
qed (simp add: R_refl)

lemma c_appendFailedNsTask: "R s (snd (appendFailedNsTask ts obj e s))"
  by (simp add: appendFailedNsTask_def split_beta c_value)

lemma c_appendNsTask: "R s (snd (appendNsTask f ts ns live s))"
  by (auto simp: appendNsTask_def c_appendFailedNsTask R_refl split: prod.split sum.split bool.split)

lemma c_autoCreateNamespace: "R s (snd (autoCreateNamespace env f ts s))"
proof -
  have call2: "R s (call c (snd (fresh_obj o' s)))" if "\<not> is_apply c" "\<not> is_prune c" for c o'
    by (rule R_trans [OF c_fresh c_call [OF that]])
  show ?thesis
    unfolding autoCreateNamespace_def Let_def
    using R_trans [OF call2 c_appendNsTask] R_trans [OF call2 c_appendFailedNsTask]
      R_trans [OF call2 R_trans [OF c_fresh c_appendNsTask]]
    by (simp add: split_beta c_phase R_refl is_apply_def is_prune_def split: sum.split)
qed

lemma c_check_permission: "R s (snd (snd (snd (check_permission env t cache s))))"
proof -
  have "R s (snd (OnError DefaultRetry IsUnauthorized (discover env gvk v) s))" for gvk v
    by (rule R_retry) (rule c_discover)
  note d = this R_trans [OF this c_value]
  show ?thesis
    unfolding check_permission_def Let_def
    using d by (simp add: split_beta R_refl c_value split: option.split sum.split)
qed

lemma c_check_permissions: "R s (snd (snd (check_permissions env ts cache s)))"
proof (induction ts arbitrary: cache s)
  case (Cons t ts)
  show ?case using R_trans [OF c_check_permission Cons.IH] by (simp add: Let_def split_beta)
qed (simp add: R_refl)

lemma c_getSyncTasks: "R s (snd (snd (getSyncTasks env s)))"
proof -
  have 1: "R s (snd (if sc_skipHooks s then ([], s) else hookTasks (sc_hooks s) s))"
    by (simp add: R_refl c_hookTasks)
  note 2 = R_trans [OF 1 c_enrich_namespace]
  note 3 = R_trans [OF 2 c_autoCreateNamespace]
  note 4 = R_trans [OF R_trans [OF 2 c_check_permissions] c_store] R_trans [OF R_trans [OF 3 c_check_permissions] c_store]
  show ?thesis
    unfolding getSyncTasks_def Let_def
    using 4 by (cases "sc_skipHooks s") (simp_all add: split_beta split: option.split)
qed

lemma c_terminate_loop: "R s (snd (terminate_loop env rs ok s))"
proof (induction rs arbitrary: ok s)
  case (Cons r rs)
  let ?u = "snd (removeHookFinalizer env r s)"
  have 1: "R s ?u" by (rule c_removeHookFinalizer) simp
  have 2: "R s (snd (terminate_loop env rs ok' (setResourceResult r c p m ?u)))" for ok' c p m
    by (rule R_trans [OF R_trans [OF 1 c_result] Cons.IH]) simp
  have 3: "R s (snd (terminate_loop env rs ok' (setResourceResult r c p m (snd (deleteResource env r ?u)))))"
    for ok' c p m
    by (rule R_trans [OF R_trans [OF R_trans [OF 1 c_deleteResource] c_result] Cons.IH]) simp
  have 4: "R s (setOperationPhase ph m ?u)" for ph m by (rule R_trans [OF 1 c_phase])
  show ?case
    using Cons.IH 2 3 4 by (simp add: split_beta Let_def split: option.split sum.split)
qed (simp add: R_refl)

lemma c_Sync: "R s (Sync env s)"
proof -
  let ?u = "snd (snd (getSyncTasks env s))"
  have 1: "R s ?u" by (rule c_getSyncTasks)
  have 2: "R s (sync_step env ts ?u)" for ts by (rule R_trans [OF 1 c_sync_step]) simp
  have 3: "R s (snd (dry_run_part env ts ?u))" for ts by (rule R_trans [OF 1 c_dry_run_part]) simp
  have 4: "R s (sync_step env ts (snd (dry_run_part env ts ?u)))" for ts
    by (rule R_trans [OF 3 c_sync_step]) simp
  show ?thesis
    unfolding Sync_def using R_trans [OF 1 c_phase] 2 3 4
    by (simp add: split_beta Let_def split: bool.split)
qed

lemma c_Terminate: "R s (Terminate env s)"
proof -
  have 1: "R s (snd (terminate_loop env ts b (snd (snd (getSyncTasks env s)))))" for ts b
    by (rule R_trans [OF c_getSyncTasks c_terminate_loop])
  show ?thesis
    unfolding Terminate_def using 1 R_trans [OF 1 c_phase]
    by (simp add: split_beta Let_def split: option.split bool.split)
qed

end

end
