(* ===== verification/SyncProps.thy ===== *)
theory SyncProps
  imports SyncContracts
begin

text \<open>
  Properties of a synchronization: its results, what it may do to the cluster, what success of a run
  means, confirmation of pruning, the state of a group of goroutines. Each property reads off a contract of
  \<open>SyncContracts\<close>, interpreted on a relation between states.
\<close>

section \<open>The state of a group\<close>

lemma Wait_step_max: "Wait_step a b = max a b"
  by (cases a; cases b; simp add: Wait_step_def max_def less_eq_runState_def)

lemma Wait_Max: "Wait cur rs = Max (insert cur (set rs))"
proof (induction rs arbitrary: cur)
  case (Cons r rs)
  have "Wait cur (r # rs) = Max (insert (max cur r) (set rs))"
    using Cons.IH [of "max cur r"] by (simp add: Wait_def Wait_step_max)
  also have "\<dots> = Max (insert cur (set (r # rs)))"
    by (cases "rs = []") (simp_all add: max.assoc)
  finally show ?case .
qed (simp add: Wait_def)

lemma runState_le [simp]: "a \<le> runState.failed" "successful \<le> a"
  by (cases a; simp add: less_eq_runState_def)+

lemma Wait_successful: "Wait cur rs = successful \<longleftrightarrow> cur = successful \<and> set rs \<subseteq> {successful}"
proof
  assume "Wait cur rs = successful"
  then have "a \<le> successful" if "a \<in> insert cur (set rs)" for a
    using Max_ge [of "insert cur (set rs)" a] that unfolding Wait_Max by simp
  then show "cur = successful \<and> set rs \<subseteq> {successful}"
    by (auto intro: order.antisym)
next
  assume "cur = successful \<and> set rs \<subseteq> {successful}"
  then have "cur = successful" and e: "insert successful (set rs) = {successful}" by auto
  then show "Wait cur rs = successful" by (simp only: Wait_Max e Max_singleton)
qed

text \<open>
  The state of a group of goroutines is the worst of its start state and of the states that the
  goroutines send (successful before pending before failed), so it depends neither on the order in which
  they finish nor on repetitions, and failed is final.
\<close>
theorem Wait_worst:
  "Wait cur rs = Max (insert cur (set rs)) \<and> Wait runState.failed rs = runState.failed \<and>
   (Wait successful rs = successful \<longleftrightarrow> set rs \<subseteq> {successful})"
proof -
  have "Max (insert runState.failed (set rs)) = runState.failed" by (rule Max_eqI) auto
  then show ?thesis by (simp add: Wait_Max [of runState.failed] Wait_successful) (rule Wait_Max)
qed

section \<open>Results\<close>

text \<open>
  The results map: its keys are distinct, each is the key of its result, and the results are numbered
  from 1 in the order in which they were first recorded.
\<close>

definition results_wf :: "(string \<times> ResourceSyncResult) list \<Rightarrow> bool" where
  "results_wf m \<longleftrightarrow> map_wf m \<and> map (\<lambda>e. resOrder (snd e)) m = map int [1..<Suc (length m)] \<and>
     (\<forall>e\<in>set m. fst e = resourceResultKey (resKey (snd e)) (resSyncPhase (snd e)))"

definition result_id :: "string \<times> ResourceSyncResult \<Rightarrow> string \<times> ResourceSyncResult" where
  "result_id e = (fst e, (snd e)\<lparr>resStatus := ResultCodeEmpty, resHookPhase := OperationEmpty, resMessage := ''''\<rparr>)"

lemma map_put_same:
  assumes "map_of m k = Some old" "f (k, v) = f (k, old)"
  shows "map f (map_put k v m) = map f m"
  using assms by (induction m) (auto split: if_splits)

lemma store_result_cases:
  obtains (old) r v where "map_of m (resultKey t) = Some r" "store_result t m = map_put (resultKey t) v m"
      "result_id (resultKey t, v) = result_id (resultKey t, r)"
  | (new) "map_of m (resultKey t) = None"
      "store_result t m = m @ [(resultKey t, (new_result t)\<lparr>resOrder := int (length m) + 1\<rparr>)]"
proof (cases "map_of m (resultKey t)")
  case None
  then show ?thesis using new by (simp add: store_result_def map_put_new)
next
  case (Some r)
  let ?res = "new_result t"
  let ?v = "if resStatus ?res \<noteq> resStatus r \<or> resHookPhase ?res \<noteq> resHookPhase r \<or> resMessage ?res \<noteq> resMessage r
    then r\<lparr>resStatus := resStatus ?res, resHookPhase := resHookPhase ?res, resMessage := resMessage ?res\<rparr> else r"
  show ?thesis
    by (rule old [OF Some, of ?v]) (auto simp: store_result_def Some result_id_def Let_def)
qed

lemma result_id_eq:
  assumes "result_id (k, v) = result_id (k, r)"
  shows "resOrder v = resOrder r" "resKey v = resKey r" "resSyncPhase v = resSyncPhase r"
  using assms by (cases v; cases r; simp add: result_id_def)+

lemma store_result_grows: "\<exists>ext. map result_id (store_result t m) = map result_id m @ ext"
proof (rule store_result_cases [of m t])
  fix r v assume "map_of m (resultKey t) = Some r" "store_result t m = map_put (resultKey t) v m"
    "result_id (resultKey t, v) = result_id (resultKey t, r)"
  then show ?thesis using map_put_same [of m "resultKey t" r result_id v] by simp
qed simp

lemma store_result_wf: "results_wf m \<Longrightarrow> results_wf (store_result t m)"
proof (rule store_result_cases [of m t])
  fix r v assume wf: "results_wf m" and r: "map_of m (resultKey t) = Some r"
    and st: "store_result t m = map_put (resultKey t) v m"
    and id: "result_id (resultKey t, v) = result_id (resultKey t, r)"
  have "map (\<lambda>e. resOrder (snd e)) (map_put (resultKey t) v m) = map (\<lambda>e. resOrder (snd e)) m"
    using r result_id_eq(1) [OF id] by (intro map_put_same) auto
  moreover have "length (map_put (resultKey t) v m) = length m"
    using r by (force simp: length_put dest: map_of_SomeD)
  moreover have "(resultKey t, r) \<in> set m" using r by (rule map_of_SomeD)
  ultimately show "results_wf (store_result t m)"
    using wf result_id_eq(2,3) [OF id] by (fastforce simp: results_wf_def st dest: subsetD [OF set_map_put])
next
  assume wf: "results_wf m" and new: "map_of m (resultKey t) = None"
    and st: "store_result t m = m @ [(resultKey t, (new_result t)\<lparr>resOrder := int (length m) + 1\<rparr>)]"
  have "resultKey t \<notin> fst ` set m" using new by (simp add: map_of_eq_None_iff)
  then show "results_wf (store_result t m)"
    using wf by (auto simp: results_wf_def st map_wf_def resultKey_def new_result_def)
qed

definition keeps_results :: "sync_state \<Rightarrow> sync_state \<Rightarrow> bool" where
  "keeps_results s t \<longleftrightarrow> sc_dryRun t = sc_dryRun s \<and> sc_prune t = sc_prune s \<and>
     (results_wf (sc_syncRes s) \<longrightarrow> results_wf (sc_syncRes t)) \<and>
     (\<exists>ext. map result_id (sc_syncRes t) = map result_id (sc_syncRes s) @ ext)"

lemma keeps_results_same:
  "sc_dryRun t = sc_dryRun s \<Longrightarrow> sc_prune t = sc_prune s \<Longrightarrow> sc_syncRes t = sc_syncRes s \<Longrightarrow> keeps_results s t"
  by (simp add: keeps_results_def)

lemma keeps_results_trans: "keeps_results s t \<Longrightarrow> keeps_results t u \<Longrightarrow> keeps_results s u"
  by (fastforce simp: keeps_results_def)

interpretation results: sync_contract_all keeps_results
proof unfold_locales
  show "keeps_results s t \<Longrightarrow> keeps_results t u \<Longrightarrow> keeps_results s u" for s t u
    by (rule keeps_results_trans)
  show "keeps_results s (setResourceResult r code ph m s)" for r s code ph m
    using store_result_wf store_result_grows
    by (simp add: keeps_results_def setResourceResult_def setResourceResult_value_def Let_def)
  show "keeps_results s (snd (setResourceResult_value code ph m t s))" for code ph m t s
    using store_result_wf store_result_grows
    by (simp add: keeps_results_def setResourceResult_value_def Let_def)
qed (simp_all add: keeps_results_def call_def set_live_def mutate_def fresh_obj_def setOperationPhase_def)

section \<open>Calls\<close>

definition guarded :: "sync_state \<Rightarrow> sync_state \<Rightarrow> bool" where
  "guarded s t \<longleftrightarrow> sc_dryRun t = sc_dryRun s \<and> sc_prune t = sc_prune s \<and>
     (\<exists>new. trace t = new @ trace s \<and> list_all (allowed (sc_dryRun s) (sc_prune s)) new)"

lemma guarded_trans: "guarded s t \<Longrightarrow> guarded t u \<Longrightarrow> guarded s u"
  by (fastforce simp: guarded_def)

interpretation guard: sync_contract_all guarded
proof unfold_locales
  show "guarded s t \<Longrightarrow> guarded t u \<Longrightarrow> guarded s u" for s t u by (rule guarded_trans)
qed (simp_all add: guarded_def call_def set_live_def mutate_def fresh_obj_def setOperationPhase_def
    setResourceResult_def setResourceResult_value_def Let_def)

section \<open>Other tasks\<close>

text \<open>What an operation on other tasks leaves of the task at \<open>r\<close>.\<close>

definition keeps_task :: "nat \<Rightarrow> sync_state \<Rightarrow> sync_state \<Rightarrow> bool" where
  "keeps_task r s t \<longleftrightarrow> sc_dryRun t = sc_dryRun s \<and> sc_prune t = sc_prune s \<and>
     sc_pruneConfirmed t = sc_pruneConfirmed s \<and> length (store t) = length (store s) \<and>
     (r < length (store s) \<longrightarrow>
       syncStatus (task_at t r) = syncStatus (task_at s r) \<and>
       map_option GetAnnotations (liveObj (task_at t r)) = map_option GetAnnotations (liveObj (task_at s r)))"

lemma keeps_task_trans: "keeps_task r s t \<Longrightarrow> keeps_task r t u \<Longrightarrow> keeps_task r s u"
  by (auto simp: keeps_task_def)

interpretation task: sync_contract "keeps_task r" "- {r}" for r
proof unfold_locales
  show "keeps_task r s t \<Longrightarrow> keeps_task r t u \<Longrightarrow> keeps_task r s u" for s t u by (rule keeps_task_trans)
  show "keeps_task r s (mutate p (\<lambda>x. x\<lparr>GetFinalizers := remove1 HookFinalizer (GetFinalizers x)\<rparr>) s)" for s p
    by (auto simp: keeps_task_def mutate_def task_at_def mutate_obj_def option.map_comp comp_def
        intro!: map_option_cong)
qed (auto simp: keeps_task_def call_def set_live_def fresh_obj_def setOperationPhase_def task_at_def
    setResourceResult_def setResourceResult_value_def Let_def)

section \<open>Results of an operation over its steps\<close>

text \<open>
  The life of an operation: a context without results; a step; a termination; and a new context for the
  same operation, which is given the state that \<open>GetState\<close> returned (\<open>WithInitialState\<close>), whatever else
  changes in the repository, the cluster and the settings.
\<close>

inductive reachable :: "sync_state \<Rightarrow> bool" where
  reachable_new: "sc_syncRes st = [] \<Longrightarrow> reachable st"
| reachable_Sync: "reachable st \<Longrightarrow> reachable (Sync env st)"
| reachable_Terminate: "reachable st \<Longrightarrow> reachable (Terminate env st)"
| reachable_restart: "reachable st \<Longrightarrow>
    sc_syncRes st' = sc_syncRes (WithInitialState ph m (snd (snd (GetState st))) now ctx) \<Longrightarrow> reachable st'"

lemma sort_insert_last:
  assumes "\<And>y. y \<in> set ys \<Longrightarrow> \<not> lt x y"
  shows "sort_insert lt x ys = ys @ [x]"
  using assms by (induction ys) auto

lemma sort_Sort_sorted:
  assumes "sorted_wrt (\<lambda>a b. \<not> lt b a) xs"
  shows "sort_Sort lt xs = xs"
proof -
  have "foldl (\<lambda>acc x. sort_insert lt x acc) acc xs = acc @ xs"
    if "sorted_wrt (\<lambda>a b. \<not> lt b a) (acc @ xs)" for acc
    using that
  proof (induction xs arbitrary: acc)
    case (Cons x xs)
    then show ?case by (simp add: sort_insert_last sorted_wrt_append)
  qed simp
  from this [of "[]"] assms show ?thesis by (simp add: sort_Sort_def)
qed

lemma results_wf_sorted:
  assumes "results_wf m"
  shows "sort_Sort (\<lambda>a b. resOrder a < resOrder b) (map snd m) = map snd m"
proof (rule sort_Sort_sorted)
  have "map (\<lambda>e. resOrder (snd e)) m = map int [1..<Suc (length m)]"
    using assms by (simp add: results_wf_def)
  then have "sorted (map resOrder (map snd m))"
    by (simp add: comp_def sorted_map sorted_wrt_map del: upt_Suc)
  then show "sorted_wrt (\<lambda>a b. \<not> resOrder b < resOrder a) (map snd m)"
    by (simp add: sorted_wrt_map linorder_not_less)
qed

lemma restart_results:
  assumes "results_wf m"
  shows "foldl (\<lambda>m r. map_put (resourceResultKey (resKey r) (resSyncPhase r)) r m) [] (map snd m) = m"
proof -
  have "foldl (\<lambda>m r. map_put (resourceResultKey (resKey r) (resSyncPhase r)) r m) pre (map snd m) = pre @ m"
    if "distinct (map fst (pre @ m))" "\<forall>e\<in>set m. fst e = resourceResultKey (resKey (snd e)) (resSyncPhase (snd e))" for pre
    using that
  proof (induction m arbitrary: pre)
    case (Cons e m)
    obtain k r where e: "e = (k, r)" by (cases e)
    have "map_of pre k = None" using Cons.prems(1) by (auto simp: e map_of_eq_None_iff)
    then show ?case using Cons.IH [of "pre @ [e]"] Cons.prems by (simp add: e map_put_new)
  qed simp
  from this [of "[]"] assms show ?thesis by (simp add: results_wf_def map_wf_def)
qed

lemma reachable_results: "reachable st \<Longrightarrow> results_wf (sc_syncRes st)"
proof (induction rule: reachable.induct)
  case (reachable_new st)
  then show ?case by (simp add: results_wf_def)
next
  case (reachable_Sync st env)
  then show ?case using results.c_Sync [of st env] by (simp add: keeps_results_def)
next
  case (reachable_Terminate st env)
  then show ?case using results.c_Terminate [of st env] by (simp add: keeps_results_def)
next
  case (reachable_restart st st' ph m now ctx)
  then show ?case
    by (simp add: WithInitialState_def GetState_def results_wf_sorted restart_results)
qed

text \<open>A cluster that answers every call with success, and an empty context.\<close>

definition no_typed :: "unstructured \<Rightarrow> go_error + 'a" where
  "no_typed o' = Inl (Err ReasonOther ''not convertible'')"

definition demo_healths :: health_env where
  "demo_healths = \<lparr>toDeployment = no_typed, toReplicaSet = no_typed, toDaemonSet = no_typed,
     toStatefulSet = no_typed, toJob = no_typed, toPod = no_typed, toService = no_typed, toPVC = no_typed,
     toHPA = no_typed, toAPIService = no_typed, unmarshalConditions = (\<lambda>_. Inr []), GVK_String = gvkKind\<rparr>"

definition demo_env :: cluster where
  "demo_env = \<lparr>answer_text = (\<lambda>_. Inr ''applied''), answer_object = (\<lambda>_. Inl (Err ReasonNotFound ''not found'')),
     answer_done = (\<lambda>_. None),
     answer_resources = (\<lambda>_. Inr [\<lparr>apiName = ''jobs'', apiKind = JobKind, apiNamespaced = True,
        apiVerbs = [''get'', ''update'', ''delete'']\<rparr>]),
     answer_conditions = (\<lambda>_. Inr []), crd_polls = (\<lambda>_. 0), schedule = (\<lambda>_ ts. ts),
     namespaceObject = (\<lambda>n. Inr (mk_obj '''' NamespaceKind '''' n)),
     api_msgs = \<lparr>NotFoundText = (\<lambda>_. ''''), MethodNotSupportedText = (\<lambda>_ _. '''')\<rparr>,
     healths = demo_healths\<rparr>"

definition sync_base :: sync_state where
  "sync_base = syncContext.extend (NewSyncContext ''rev'' \<lparr>Live = [], Target = [], Hooks = []\<rparr> ''ns'' 0 [])
     (sync_state.fields [] [] 1)"

lemma sync_base_fields [simp]:
  "sc_syncRes sync_base = []" "store sync_base = []" "trace sync_base = []" "sc_resources sync_base = []"
  "sc_hooks sync_base = []" "sc_namespace sync_base = ''ns''" "sc_dryRun sync_base = False"
  "sc_prune sync_base = False" "sc_pruneConfirmed sync_base = False" "sc_syncNamespace sync_base = None"
  "sc_skipHooks sync_base = False" "sc_resourcesFilter sync_base = None" "sc_pruneLast sync_base = False"
  "sc_healthOverride sync_base = None" "sc_revision sync_base = ''rev''" "sc_startedAt sync_base = 0"
  "sc_validate sync_base = True" "sc_replace sync_base = False" "sc_force sync_base = False"
  "sc_serverSideApply sync_base = False" "sc_serverSideApplyManager sync_base = ''''"
  "sc_syncWaveHook sync_base = None" "sc_applyOutOfSyncOnly sync_base = False" "nextPtr sync_base = 1"
  "sc_skipDryRunOnMissingResource sync_base = False" "sc_permissionValidator sync_base = (\<lambda>_ _. None)"
  "sc_prunePropagationPolicy sync_base = None" "sc_enableClientSideApplyMigration sync_base = True"
  by (simp_all add: sync_base_def syncContext.defs sync_state.defs NewSyncContext_def groupResources_def)



text \<open>
  No step forgets, reorders or relabels a result: after \<open>Sync\<close> or \<open>Terminate\<close> the earlier results are
  still there, in their places, with the same resource, images, version, hook type and number; only
  status, hook phase and message can have changed, and new results come at the end.
\<close>
theorem results_grow:
  "\<exists>ext ext'. map result_id (sc_syncRes (Sync env st)) = map result_id (sc_syncRes st) @ ext \<and>
     map result_id (sc_syncRes (Terminate env st)) = map result_id (sc_syncRes st) @ ext'"
  using results.c_Sync [of st env] results.c_Terminate [of st env] by (auto simp: keeps_results_def)

section \<open>Dry runs and pruning\<close>

text \<open>
  A dry run of tasks changes nothing: whatever the tasks, the settings and the answers of the cluster,
  \<open>runTasks\<close> with the dry-run flag (or in a dry-run operation) adds only calls to the trace that do not
  change the cluster.
\<close>
theorem runTasks_dry_run:
  "(\<exists>new. trace (snd (runTasks env tasks True st)) = new @ trace st \<and> list_all (\<lambda>c. \<not> mutating c) new) \<and>
   (\<exists>new. trace (snd (runTasks env tasks dry (st\<lparr>sc_dryRun := True\<rparr>))) = new @ trace st \<and>
      list_all (\<lambda>c. \<not> mutating c) new)"
  using issues_runTasks [of True True st "sc_prune st" env tasks]
    issues_runTasks [of True dry "st\<lparr>sc_dryRun := True\<rparr>" "sc_prune st" env tasks]
  by (fastforce simp: issues_def run_calls_def list_all_iff)


end
