(* ===== verification/SyncOutcome.thy ===== *)
theory SyncOutcome
  imports SyncProps
begin

text \<open>
  What the outcome of a run says: a successful run has applied or pruned every task, a run that needs
  confirmation has touched nothing but finalizers, an operation that does not pass its checks has changed
  nothing. And two places where the code does not do what it means to.
\<close>

section \<open>One task of a group\<close>

lemma run_each_append:
  "run_each f (xs @ ys) s =
     (let (a, s1) = run_each f xs s; (b, s2) = run_each f ys s1 in (a @ b, s2))"
  by (induction xs arbitrary: s) (simp_all add: Let_def split_beta)

text \<open>
  In a group of distinct tasks that leave each other alone, the state of one task at the end is the state
  its own goroutine left it in.
\<close>

definition same_shape :: "sync_state \<Rightarrow> sync_state \<Rightarrow> bool" where
  "same_shape s t \<longleftrightarrow> sc_dryRun t = sc_dryRun s \<and> length (store t) = length (store s)"

lemma keeps_shape: "keeps_task r s t \<Longrightarrow> same_shape s t"
  by (simp add: keeps_task_def same_shape_def)

lemma same_shape_trans: "same_shape s t \<Longrightarrow> same_shape t u \<Longrightarrow> same_shape s u"
  by (simp add: same_shape_def)

lemma run_each_one:
  assumes "distinct ts" "r \<in> set ts"
    and keep: "\<And>u x. same_shape s u \<Longrightarrow> x \<noteq> r \<Longrightarrow> keeps_task r u (snd (f x u))"
    and own: "\<And>u. same_shape s u \<Longrightarrow> same_shape u (snd (f r u))"
  shows "\<exists>u. keeps_task r s u \<and> fst (f r u) \<in> set (fst (run_each f ts s)) \<and>
    keeps_task r (snd (f r u)) (snd (run_each f ts s))"
proof -
  from assms(2) obtain xs ys where ts: "ts = xs @ r # ys" by (meson split_list)
  have r: "r \<notin> set xs" "r \<notin> set ys" using assms(1) ts by auto
  let ?u = "snd (run_each f xs s)"
  have 1: "keeps_task r s ?u"
  proof (rule task.R_run_each)
    fix u x assume "keeps_task r s u" "x \<in> set xs"
    then show "keeps_task r u (snd (f x u))" using r by (intro keep keeps_shape) auto
  qed
  moreover have "keeps_task r (snd (f r ?u)) (snd (run_each f ys (snd (f r ?u))))"
  proof (rule task.R_run_each)
    fix u x assume "keeps_task r (snd (f r ?u)) u" "x \<in> set ys"
    then show "keeps_task r u (snd (f x u))"
      using r own [OF keeps_shape [OF 1]] keeps_shape [OF 1]
      by (intro keep) (auto intro: same_shape_trans keeps_shape)
  qed
  ultimately show ?thesis
    by (intro exI [of _ ?u]) (simp add: ts run_each_append Let_def split_beta)
qed

lemma group_one:
  assumes "Go_Wait env successful f ts s = (successful, t)" "distinct ts" "r \<in> set ts"
    and "\<And>u x. same_shape s u \<Longrightarrow> x \<noteq> r \<Longrightarrow> keeps_task r u (snd (f successful x u))"
    and "\<And>u. same_shape s u \<Longrightarrow> same_shape u (snd (f successful r u))"
  shows "\<exists>u. keeps_task r s u \<and> fst (f successful r u) = successful \<and> keeps_task r (snd (f successful r u)) t"
proof -
  let ?ts = "in_order env s ts"
  have "distinct ?ts" using assms(2) mset_in_order [of env s ts] mset_eq_imp_distinct_iff by blast
  then obtain u where "keeps_task r s u" "fst (f successful r u) \<in> set (fst (run_each (f successful) ?ts s))"
    "keeps_task r (snd (f successful r u)) (snd (run_each (f successful) ?ts s))"
    using run_each_one [of ?ts r s "f successful"] assms(3-5) by auto
  moreover have "Wait successful (fst (run_each (f successful) ?ts s)) = successful"
    "t = snd (run_each (f successful) ?ts s)"
    using assms(1) by (auto simp: Go_Wait_def split_beta)
  ultimately show ?thesis by (auto simp: Wait_successful)
qed

lemma shape_by_fresh:
  assumes "\<And>r. r \<notin> set ts \<Longrightarrow> keeps_task r s t"
  shows "same_shape s t"
proof -
  obtain r where "r \<notin> set ts" using ex_new_if_finite [OF infinite_UNIV_nat finite_set] by blast
  then show ?thesis by (intro keeps_shape assms)
qed

lemma keeps_bounds:
  "keeps_task r s u \<Longrightarrow> r < length (store s) \<Longrightarrow> r < length (store u)"
  "keeps_task r s u \<Longrightarrow> sc_dryRun u = sc_dryRun s"
  by (simp_all add: keeps_task_def)

lemma keeps_status:
  "keeps_task r s u \<Longrightarrow> r < length (store s) \<Longrightarrow> syncStatus (task_at u r) = syncStatus (task_at s r)"
  by (simp add: keeps_task_def)

lemma setResourceResult_status:
  "r < length (store s) \<Longrightarrow> syncStatus (task_at (setResourceResult r c p m s) r) = c"
  by (simp add: setResourceResult_def setResourceResult_value_def with_result_def task_at_def Let_def)

section \<open>Applied and pruned\<close>

lemma applyObject_codes: "fst (applyObject env t d v s) \<in> {ResultCodeSynced, ResultCodeSyncFailed}"
  by (simp add: applyObject_def Let_def split_beta split: option.split sum.split)

lemma pruneObject_codes:
  "fst (pruneObject env l p d s) \<in> {ResultCodePruned, ResultCodePruneSkipped, ResultCodeSyncFailed}"
  by (simp add: pruneObject_def Let_def split: option.split)

lemma go_create_status:
  assumes "fst (go_create env False successful r u) = successful" "r < length (store u)" "\<not> sc_dryRun u"
  shows "syncStatus (task_at (snd (go_create env False successful r u)) r) = ResultCodeSynced"
proof -
  let ?v = "sc_validate u \<and> \<not> has_sync_option (deref (targetObj (task_at u r))) SyncOptionsDisableValidation"
  let ?a = "applyObject env (task_at u r) False ?v u"
  have "fst ?a = ResultCodeSynced"
    using assms(1) applyObject_codes [of env "task_at u r" False ?v u]
    by (auto simp: go_create_def Let_def split_beta split: if_splits)
  moreover have "r < length (store (snd (snd ?a)))"
    using keeps_bounds(1) [OF task.c_applyObject assms(2)] assms(3) by blast
  ultimately show ?thesis
    by (simp add: go_create_def Let_def split_beta setResourceResult_status)
qed

lemma go_prune_status:
  assumes "fst (go_prune env False successful r u) = successful" "r < length (store u)" "\<not> sc_dryRun u"
  shows "syncStatus (task_at (snd (go_prune env False successful r u)) r) \<in> {ResultCodePruned, ResultCodePruneSkipped}"
proof -
  let ?a = "pruneObject env (deref (liveObj (task_at u r))) (sc_prune u) False u"
  have "fst ?a \<in> {ResultCodePruned, ResultCodePruneSkipped}"
    using assms(1) pruneObject_codes [of env "deref (liveObj (task_at u r))" "sc_prune u" False u]
    by (auto simp: go_prune_def Let_def split_beta split: if_splits)
  moreover have "keeps_task r u (snd (snd ?a))"
    using assms(3) by (intro task.c_pruneObject) simp
  then have "r < length (store (snd (snd ?a)))" using assms(2) by (rule keeps_bounds(1))
  ultimately show ?thesis
    by (simp add: go_prune_def Let_def split_beta setResourceResult_status)
qed

lemma processCreateTasks_state:
  "fst (processCreateTasks env cur ts d s) = successful \<Longrightarrow> cur = successful"
  by (simp add: processCreateTasks_def Go_Wait_def split_beta Wait_successful)

lemma create_groups_state:
  "fst (create_groups env d cur grp ts s) = successful \<Longrightarrow> cur = successful"
proof (induction ts arbitrary: cur grp s)
  case Nil
  then show ?case by (auto split: if_splits dest: processCreateTasks_state)
next
  case (Cons r ts)
  show ?case
  proof (cases "0 < length grp \<and> GetKind (deref (targetObj (task_at s (hd grp)))) \<noteq> tkind (task_at s r)")
    case True
    with Cons.prems Cons.IH have "fst (processCreateTasks env cur grp d s) = successful"
      by (simp add: split_beta Let_def)
    then show ?thesis by (rule processCreateTasks_state)
  next
    case False
    with Cons.prems have "fst (create_groups env d cur (grp @ [r]) ts s) = successful"
      unfolding create_groups.simps if_not_P [OF False] by simp
    then show ?thesis by (rule Cons.IH)
  qed
qed

lemma create_keeps:
  assumes "\<not> sc_dryRun s" "same_shape s u" "x \<noteq> r"
  shows "keeps_task r u (snd (go_create env False cur x u))"
  using assms by (intro task.c_go_create) (auto simp: same_shape_def)

lemma create_shape:
  assumes "\<not> sc_dryRun s" "same_shape s u"
  shows "same_shape u (snd (go_create env False cur x u))"
  using create_keeps [OF assms, of x "Suc x"] by (auto intro: keeps_shape)

lemma processCreateTasks_status:
  assumes "processCreateTasks env successful ts False s = (successful, t)" "distinct ts" "r \<in> set ts"
    and "r < length (store s)" "\<not> sc_dryRun s"
  shows "syncStatus (task_at t r) = ResultCodeSynced"
proof -
  have "Go_Wait env successful (go_create env False) ts s = (successful, t)"
    using assms(1) by (simp add: processCreateTasks_def)
  then obtain u where u: "keeps_task r s u" "fst (go_create env False successful r u) = successful"
    "keeps_task r (snd (go_create env False successful r u)) t"
    using group_one [OF _ assms(2,3)] create_keeps [OF assms(5)] create_shape [OF assms(5)] by blast
  have u': "r < length (store u)" "\<not> sc_dryRun u" using keeps_bounds [OF u(1)] assms(4,5) by auto
  then have "syncStatus (task_at (snd (go_create env False successful r u)) r) = ResultCodeSynced"
    by (intro go_create_status u(2))
  moreover have "r < length (store (snd (go_create env False successful r u)))"
    using u' create_shape [of u u env successful r] by (simp add: same_shape_def)
  ultimately show ?thesis using keeps_status [OF u(3)] by simp
qed

lemma create_groups_status:
  assumes "create_groups env False successful grp ts s = (successful, t)" "distinct (grp @ ts)"
    and "r \<in> set (grp @ ts)" "r < length (store s)" "\<not> sc_dryRun s"
  shows "syncStatus (task_at t r) = ResultCodeSynced"
  using assms
proof (induction ts arbitrary: grp s)
  case Nil
  then show ?case by (auto intro: processCreateTasks_status split: if_splits)
next
  case (Cons x ts)
  show ?case
  proof (cases "0 < length grp \<and> GetKind (deref (targetObj (task_at s (hd grp)))) \<noteq> tkind (task_at s x)")
    case True
    define s1 where "s1 = snd (processCreateTasks env successful grp False s)"
    define c where "c = fst (processCreateTasks env successful grp False s)"
    have rest: "create_groups env False c [x] ts s1 = (successful, t)"
      using Cons.prems(1) True by (simp add: split_beta Let_def s1_def c_def)
    then have c: "c = successful" by (metis create_groups_state fst_conv)
    have shape: "same_shape s s1"
      unfolding s1_def
      by (rule shape_by_fresh [of grp], rule task.c_processCreateTasks) (use Cons.prems(5) in auto)
    show ?thesis
    proof (cases "r \<in> set grp")
      case True
      have "syncStatus (task_at s1 r) = ResultCodeSynced"
        using Cons.prems c True by (intro processCreateTasks_status [of env grp s]) (auto simp: s1_def c_def prod_eq_iff)
      moreover have "keeps_task r s1 (snd (create_groups env False c [x] ts s1))"
        by (rule task.c_create_groups) (use Cons.prems(2,5) True shape in \<open>auto simp: same_shape_def\<close>)
      ultimately show ?thesis
        using rest keeps_status shape Cons.prems(4) by (simp add: same_shape_def)
    next
      case False
      then show ?thesis
        using Cons.prems rest c shape by (intro Cons.IH [of "[x]" s1]) (auto simp: same_shape_def)
    qed
  next
    case False
    have "create_groups env False successful (grp @ [x]) ts s = (successful, t)"
      using Cons.prems(1) unfolding create_groups.simps if_not_P [OF False] .
    then show ?thesis using Cons.prems(2-5) by (intro Cons.IH [of "grp @ [x]" s]) auto
  qed
qed

section \<open>runTasks\<close>

definition prune_tasks :: "sync_state \<Rightarrow> nat list \<Rightarrow> nat list" where
  "prune_tasks st tasks = filter (\<lambda>r. isPrune (task_at st r)) tasks"

definition finalizer_group :: "cluster \<Rightarrow> bool \<Rightarrow> nat list \<Rightarrow> sync_state \<Rightarrow> runState \<times> sync_state" where
  "finalizer_group env d tasks st = Go_Wait env successful (go_finalizer env d)
     (filter (\<lambda>r. isHook (task_at st r) \<and> tpending (task_at st r) \<and> liveObj (task_at st r) \<noteq> None) tasks) st"

text \<open>How a successful run went: the four groups, each successful.\<close>

lemma runTasks_successful:
  assumes "runTasks env tasks dry st = (successful, st')" "d = (dry \<or> sc_dryRun st)"
  obtains st1 st2 st3 del where "finalizer_group env d tasks st = (successful, st1)"
    "Go_Wait env successful (go_prune env d) (prune_tasks st tasks) st1 = (successful, st2)"
    "Go_Wait env successful (go_delete env d) del st2 = (successful, st3)"
    "set del \<subseteq> set (filter (\<lambda>r. \<not> isPrune (task_at st r)) tasks)"
    "create_groups env d successful [] (filter (\<lambda>r. \<not> isPrune (task_at st r)) tasks) st3 = (successful, st')"
proof -
  let ?cre = "filter (\<lambda>r. \<not> isPrune (task_at st r)) tasks"
  obtain c1 st1 where 1: "finalizer_group env d tasks st = (c1, st1)" by fastforce
  obtain c2 st2 where 2: "Go_Wait env c1 (go_prune env d) (prune_tasks st tasks) st1 = (c2, st2)" by fastforce
  let ?del = "filter (\<lambda>r. deleteBeforeCreation (task_at st2 r)) ?cre"
  obtain c3 st3 where 3: "Go_Wait env c2 (go_delete env d) ?del st2 = (c3, st3)" by fastforce
  from assms 1 2 3 have "c1 = successful" "c2 = successful" "c3 = successful"
    "create_groups env d successful [] ?cre st3 = (successful, st')"
    by (auto simp: runTasks_def finalizer_group_def prune_tasks_def Let_def split: if_splits)
  with 1 2 3 that [of st1 st2 ?del st3] show ?thesis by auto
qed

lemma keeps_finalizer_group:
  assumes "\<not> isHook (task_at st r)"
  shows "keeps_task r st (snd (finalizer_group env d tasks st))"
  unfolding finalizer_group_def
  by (rule task.R_Go_Wait, rule task.c_go_finalizer) (use assms in auto)

lemma finalizer_group_shape: "same_shape st (snd (finalizer_group env d tasks st))"
  unfolding finalizer_group_def
  by (rule shape_by_fresh [of tasks], rule task.R_Go_Wait, rule task.c_go_finalizer) auto

lemma prune_group_keeps:
  assumes "\<not> sc_dryRun s" "r \<notin> set ts"
  shows "keeps_task r s (snd (Go_Wait env c (go_prune env False) ts s))"
proof (rule task.R_Go_Wait)
  fix u x assume "keeps_task r s u" "x \<in> set ts"
  then show "keeps_task r u (snd (go_prune env False c x u))"
    using assms keeps_bounds(2) [of r s u] by (intro task.c_go_prune) auto
qed

lemma delete_group_keeps:
  assumes "r \<notin> set ts"
  shows "keeps_task r s (snd (Go_Wait env c (go_delete env d) ts s))"
  by (rule task.R_Go_Wait, rule task.c_go_delete) (use assms in auto)

lemma prune_group_status:
  assumes "Go_Wait env successful (go_prune env False) ts s = (successful, t)" "distinct ts" "r \<in> set ts"
    and "r < length (store s)" "\<not> sc_dryRun s"
  shows "syncStatus (task_at t r) \<in> {ResultCodePruned, ResultCodePruneSkipped}"
proof -
  have keep: "keeps_task r' u (snd (go_prune env False successful x u))" if "same_shape s u" "x \<noteq> r'" for r' u x
    using that assms(5) by (intro task.c_go_prune) (auto simp: same_shape_def)
  have shape: "same_shape u (snd (go_prune env False successful r u))" if "same_shape s u" for u
    using keep [OF that, of r "Suc r"] by (auto intro: keeps_shape)
  obtain u where u: "keeps_task r s u" "fst (go_prune env False successful r u) = successful"
    "keeps_task r (snd (go_prune env False successful r u)) t"
    using group_one [OF assms(1-3)] keep shape by blast
  have u': "r < length (store u)" "\<not> sc_dryRun u" using keeps_bounds [OF u(1)] assms(4,5) by auto
  have "syncStatus (task_at (snd (go_prune env False successful r u)) r) \<in> {ResultCodePruned, ResultCodePruneSkipped}"
    by (rule go_prune_status [OF u(2) u'])
  moreover have "r < length (store (snd (go_prune env False successful r u)))"
    using u' shape [OF keeps_shape [OF u(1)]] by (simp add: same_shape_def)
  ultimately show ?thesis using keeps_status [OF u(3)] by simp
qed

text \<open>
  C1. Success means that everything was done: when \<open>runTasks\<close> outside a dry run returns successful, every
  task it was given has a result, a target that was synced, and a task without target that was pruned or
  deliberately left (pruning off or forbidden by annotation); no failure is ever lost among the groups of
  goroutines, whatever order they run in.
\<close>
theorem runTasks_success:
  assumes "runTasks env tasks False st = (successful, st')" "\<not> sc_dryRun st" "distinct tasks"
    and "r \<in> set tasks" "r < length (store st)"
  shows "syncStatus (task_at st' r) \<in>
    (if isPrune (task_at st r) then {ResultCodePruned, ResultCodePruneSkipped} else {ResultCodeSynced})"
proof -
  let ?cre = "filter (\<lambda>r. \<not> isPrune (task_at st r)) tasks"
  obtain st1 st2 st3 del where g: "finalizer_group env False tasks st = (successful, st1)"
    "Go_Wait env successful (go_prune env False) (prune_tasks st tasks) st1 = (successful, st2)"
    "Go_Wait env successful (go_delete env False) del st2 = (successful, st3)" "set del \<subseteq> set ?cre"
    "create_groups env False successful [] ?cre st3 = (successful, st')"
    by (rule runTasks_successful [OF assms(1), of False]) (use assms(2) in simp)
  have s1: "same_shape st st1" using finalizer_group_shape [of st env False tasks] g(1) by simp
  then have dry1: "\<not> sc_dryRun st1" "r < length (store st1)" using assms(2,5) by (simp_all add: same_shape_def)
  have s2: "same_shape st1 st2"
    by (rule shape_by_fresh [of "prune_tasks st tasks"])
      (use prune_group_keeps [OF dry1(1)] g(2) in \<open>metis snd_conv\<close>)
  have s3: "same_shape st2 st3"
    by (rule shape_by_fresh [of del]) (use delete_group_keeps g(3) in \<open>metis snd_conv\<close>)
  have dry3: "\<not> sc_dryRun st3" "r < length (store st3)" "r < length (store st2)"
    using dry1 s2 s3 by (simp_all add: same_shape_def)
  show ?thesis
  proof (cases "isPrune (task_at st r)")
    case True
    have "syncStatus (task_at st2 r) \<in> {ResultCodePruned, ResultCodePruneSkipped}"
      by (rule prune_group_status [OF g(2)]) (use assms True dry1 in \<open>auto simp: prune_tasks_def\<close>)
    moreover have "keeps_task r st2 st3"
      using delete_group_keeps [of r del st2 env successful False] g(3,4) True by auto
    moreover have "keeps_task r st3 (snd (create_groups env False successful [] ?cre st3))"
      by (rule task.c_create_groups) (use True dry3 in auto)
    ultimately show ?thesis
      using True g(5) keeps_status dry3 by simp
  next
    case False
    then show ?thesis
      using create_groups_status [OF g(5), of r] assms dry3 by simp
  qed
qed

section \<open>An example\<close>

text \<open>A cluster that answers every call with success, and one object to apply, one to prune.\<close>

definition demo_tasks :: "syncTask list" where
  "demo_tasks = [new_task SyncPhaseSync None (Some (mk_obj '''' ''ConfigMap'' ''ns'' ''old'')),
     new_task SyncPhaseSync (Some (mk_obj '''' ''ConfigMap'' ''ns'' ''new'')) None]"

definition demo_state :: sync_state where
  "demo_state = sync_base\<lparr>store := demo_tasks, sc_prune := True\<rparr>"

lemma mk_obj_simps [simp]:
  "GetAnnotations (mk_obj g k ns n) = Map.empty" "GetKind (mk_obj g k ns n) = k"
  "GVK (mk_obj g k ns n) = \<lparr>gvkGroup = g, gvkVersion = ''v1'', gvkKind = k\<rparr>"
  "GetName (mk_obj g k ns n) = n" "GetNamespace (mk_obj g k ns n) = ns"
  "GetDeletionTimestamp (mk_obj g k ns n) = None" "GetFinalizers (mk_obj g k ns n) = []"
  "GetManagers (mk_obj g k ns n) = []"
  by (simp_all add: mk_obj_def blank_def)

lemma has_sync_option_none [simp]: "GetAnnotations o' AnnotationSyncOptions = None \<Longrightarrow> \<not> has_sync_option o' v"
  by (simp add: has_sync_option_def HasAnnotationOption_iff)

lemma not_hook [simp]:
  "GetAnnotations o' AnnotationKeyHook = None \<Longrightarrow> GetAnnotations o' ''helm.sh/hook'' = None \<Longrightarrow> \<not> IsHook o'"
  by (simp add: IsHook_def helm_IsHook_def)

lemma demo_at [simp]:
  "task_at (s\<lparr>store := ts\<rparr>) r = ts ! r" "task_at (s\<lparr>sc_prune := b\<rparr>) r = task_at s r"
  "task_at (s\<lparr>trace := c\<rparr>) r = task_at s r" "task_at (s\<lparr>sc_syncRes := m\<rparr>) r = task_at s r"
  "task_at (s\<lparr>sc_message := y\<rparr>) r = task_at s r"
  by (simp_all add: task_at_def)

lemmas demo_defs = demo_state_def demo_tasks_def demo_env_def new_task_def task_obj_def obj_or_def deref_def
  isPrune_def isHook_def thookType_def tkind_def groupVersionKind_def

lemma demo_run:
  "runTasks demo_env [0, 1] False demo_state = (successful, snd (runTasks demo_env [0, 1] False demo_state))"
  by (simp add: runTasks_def Go_Wait_def in_order_def Wait_def Wait_step_def Let_def confirm_resources_def
      go_prune_def pruneObject_def call_def setResourceResult_def setResourceResult_value_def with_result_def
      go_create_def applyObject_def apply_call_def migrate_def shouldUseServerSideApply_def
      needsClientSideApplyMigration_def IsCRD_def IsCRDGroupVersionKind_def deleteBeforeCreation_def
      processCreateTasks_def demo_defs)

lemma runTasks_success_witness:
  "syncStatus (task_at (snd (runTasks demo_env [0, 1] False demo_state)) 1) = ResultCodeSynced"
  using runTasks_success [OF demo_run, of 1] by (simp add: demo_defs)

section \<open>Confirmation of pruning\<close>

definition finalizer_call :: "api_call \<Rightarrow> bool" where
  "finalizer_call c \<longleftrightarrow> reading c \<or> (case c of CallDynUpdate _ _ _ \<Rightarrow> True | _ \<Rightarrow> False)"

lemma has_sync_option_cong:
  "map_option GetAnnotations a = map_option GetAnnotations b \<Longrightarrow>
     has_sync_option (deref a) v = has_sync_option (deref b) v"
  by (cases a; cases b)
    (simp_all add: deref_def has_sync_option_def HasAnnotationOption_def GetAnnotationCSVs_def annotation_or_empty_def)

lemma finalizer_group_calls:
  "\<exists>new. trace (snd (finalizer_group env d tasks st)) = new @ trace st \<and> list_all finalizer_call new"
proof -
  have "issues (reads \<union> updates) st (snd (finalizer_group env d tasks st))"
    unfolding finalizer_group_def
    by (rule calls.R_Go_Wait, rule issues_mono [OF issues_go_finalizer]) (simp split: if_split)
  then show ?thesis by (fastforce simp: issues_def list_all_iff finalizer_call_def)
qed

text \<open>
  C2. Pruning that needs confirmation blocks the run: if pruning is not confirmed and one of the tasks
  would delete an object that asks for confirmation, then the run does not succeed, and nothing at all is
  applied, pruned or deleted, not even by the other tasks; only finalizers of hooks may have been removed.
\<close>
theorem prune_needs_confirmation:
  assumes "\<not> sc_pruneConfirmed st" "r \<in> set tasks" "isPrune (task_at st r)" "\<not> isHook (task_at st r)"
    and "r < length (store st)"
    and "has_sync_option (deref (liveObj (task_at st r))) SyncOptionPruneRequireConfirm"
  shows "fst (runTasks env tasks dry st) \<noteq> successful \<and>
    (\<exists>new. trace (snd (runTasks env tasks dry st)) = new @ trace st \<and> list_all finalizer_call new)"
proof -
  let ?d = "dry \<or> sc_dryRun st"
  obtain c1 st1 where f: "finalizer_group env ?d tasks st = (c1, st1)" by fastforce
  have keep: "keeps_task r st st1" using keeps_finalizer_group [OF assms(4), of env ?d tasks] f by simp
  then have "has_sync_option (deref (liveObj (task_at st1 r))) SyncOptionPruneRequireConfirm"
    using assms(5,6) has_sync_option_cong [of "liveObj (task_at st1 r)"] by (simp add: keeps_task_def)
  then have "confirm_resources st1 (prune_tasks st tasks) \<noteq> []"
    using assms(2,3) by (auto simp: confirm_resources_def prune_tasks_def filter_empty_conv)
  moreover have "\<not> sc_pruneConfirmed st1" using keep assms(1) by (simp add: keeps_task_def)
  ultimately have "fst (runTasks env tasks dry st) \<noteq> successful \<and> trace (snd (runTasks env tasks dry st)) = trace st1"
    using f by (auto simp: runTasks_def finalizer_group_def prune_tasks_def Let_def)
  then show ?thesis using finalizer_group_calls [of env ?d tasks st] f by auto
qed

definition confirm_state :: sync_state where
  "confirm_state = sync_base\<lparr>store := [new_task SyncPhaseSync None
     (Some ((mk_obj '''' ''ConfigMap'' ''ns'' ''old'')\<lparr>GetAnnotations := [AnnotationSyncOptions \<mapsto> ''Prune=confirm'']\<rparr>))]\<rparr>"

lemma prune_needs_confirmation_witness:
  "fst (runTasks demo_env [0] False confirm_state) \<noteq> successful"
proof -
  have a: "\<not> sc_pruneConfirmed confirm_state" by (simp add: confirm_state_def)
  have b: "isPrune (task_at confirm_state 0)" "\<not> isHook (task_at confirm_state 0)"
    "0 < length (store confirm_state)"
    by (simp_all add: confirm_state_def demo_defs)
  have c: "has_sync_option (deref (liveObj (task_at confirm_state 0))) SyncOptionPruneRequireConfirm"
    by code_simp
  show ?thesis
    using prune_needs_confirmation [OF a _ b c, of "[0]" demo_env False] by simp
qed

section \<open>Checks before anything is changed\<close>

definition reads_only :: "sync_state \<Rightarrow> sync_state \<Rightarrow> bool" where
  "reads_only s t \<longleftrightarrow> (\<exists>new. trace t = new @ trace s \<and> list_all reading new)"

lemma reads_only_same: "trace t = trace s \<Longrightarrow> reads_only s t"
  by (simp add: reads_only_def)

lemma reads_only_trans: "reads_only s t \<Longrightarrow> reads_only t u \<Longrightarrow> reads_only s u"
  by (fastforce simp: reads_only_def)

interpretation ro: step_relation reads_only
  by unfold_locales (auto simp: reads_only_same intro: reads_only_trans)

lemma reads_only_mutating: "reads_only s t \<Longrightarrow> filter mutating (trace t) = filter mutating (trace s)"
  by (auto simp: reads_only_def list_all_iff filter_empty_conv dest: reading_not_mutating)

lemma ro_hook_phase_tasks: "trace (snd (hook_phase_tasks obj ps s)) = trace s"
  by (induction ps arbitrary: s) (simp_all add: Let_def split_beta fresh_obj_def)

lemma ro_hookTasks: "trace (snd (hookTasks objs s)) = trace s"
  by (induction objs arbitrary: s) (simp_all add: Let_def split_beta ro_hook_phase_tasks)

lemma ro_enrich_namespace: "trace (snd (enrich_namespace ts s)) = trace s"
  by (induction ts arbitrary: s) (simp_all add: Let_def split_beta fresh_obj_def split: option.split)

lemma ro_appendNsTask: "trace (snd (appendNsTask f ts ns live s)) = trace s"
  by (simp add: appendNsTask_def appendFailedNsTask_def setResourceResult_value_def Let_def
      split: prod.split sum.split bool.split)

lemma ro_autoCreateNamespace: "reads_only s (snd (autoCreateNamespace env f ts s))"
  by (simp add: autoCreateNamespace_def Let_def split_beta fresh_obj_def call_def reads_only_def ro_appendNsTask
      appendFailedNsTask_def setResourceResult_value_def setOperationPhase_def split: sum.split)

lemma ro_check_permission: "reads_only s (snd (snd (snd (check_permission env t cache s))))"
proof -
  have "reads_only s (snd (OnError DefaultRetry IsUnauthorized (discover env gvk v) s))" for gvk v
    by (rule ro.R_retry) (simp add: discover_def Let_def call_def reads_only_def)
  then show ?thesis
    by (simp add: check_permission_def Let_def split_beta setResourceResult_value_def reads_only_def
        split: option.split sum.split)
qed

lemma ro_check_permissions: "reads_only s (snd (snd (check_permissions env ts cache s)))"
proof (induction ts arbitrary: cache s)
  case (Cons t ts)
  show ?case using reads_only_trans [OF ro_check_permission Cons.IH] by (simp add: Let_def split_beta)
qed (simp add: reads_only_same)

lemma ro_getSyncTasks: "reads_only s (snd (snd (getSyncTasks env s)))"
proof -
  define h where "h = (if sc_skipHooks s then ([], s) else hookTasks (sc_hooks s) s)"
  define e where "e = enrich_namespace (resourceTasks s @ fst h) (snd h)"
  have e: "reads_only s (snd e)"
    by (rule reads_only_same) (simp add: e_def h_def ro_enrich_namespace ro_hookTasks)
  have 1: "reads_only s (snd (autoCreateNamespace env f ts (snd e)))" for f ts
    by (rule reads_only_trans [OF e ro_autoCreateNamespace])
  have 2: "reads_only s ((snd (snd (check_permissions env ts [] u)))\<lparr>store := x\<rparr>)" if "reads_only s u" for u ts x
    using reads_only_trans [OF that ro_check_permissions [of u env ts "[]"]] by (simp add: reads_only_def)
  show ?thesis
    unfolding getSyncTasks_def Let_def h_def [symmetric] split_beta e_def [symmetric]
    by (auto intro!: 2 e 1 split: option.split)
qed


definition invalid_env :: cluster where
  "invalid_env = demo_env\<lparr>answer_resources := (\<lambda>_. Inr [])\<rparr>"

definition invalid_state :: sync_state where
  "invalid_state = sync_base\<lparr>sc_resources :=
     [(GetResourceKey (mk_obj ''batch'' JobKind ''ns'' ''new''),
       \<lparr>rTarget = Some (mk_obj ''batch'' JobKind ''ns'' ''new''), rLive = None\<rparr>)]\<rparr>"

lemma invalid_tasks: "fst (snd (getSyncTasks invalid_env invalid_state)) = False"
  by code_simp


section \<open>A dry run that deletes\<close>

definition old_hook :: unstructured where
  "old_hook = (mk_obj ''batch'' JobKind ''ns'' ''migrate'')
     \<lparr>Ptr := 7, GetFinalizers := [HookFinalizer],
      GetAnnotations := [AnnotationKeyHook \<mapsto> ''Sync'', AnnotationKeyHookDeletePolicy \<mapsto> ''HookSucceeded'']\<rparr>"

definition dry_state :: sync_state where
  "dry_state = sync_base\<lparr>sc_dryRun := True, sc_hooks := [old_hook\<lparr>Ptr := 8, GetFinalizers := []\<rparr>],
     sc_resources := [(GetResourceKey old_hook, \<lparr>rTarget = None, rLive = Some old_hook\<rparr>)]\<rparr>"

definition deletes_hook :: "api_call \<Rightarrow> bool" where
  "deletes_hook c = (case c of CallDynDelete _ _ n _ \<Rightarrow> n = ''migrate'' | _ \<Rightarrow> False)"

text \<open>
  A dry-run operation can delete: the dry run records the hook as succeeded, after which \<open>Sync\<close> goes
  on, takes the hook for completed, removes its finalizer and deletes it under its HookSucceeded policy.
  Here the live object of a hook left from an earlier operation is deleted by the first step of an
  operation that is a dry run.
\<close>
theorem dry_run_deletes_hook:
  "sc_dryRun dry_state \<and> \<not> list_ex mutating (trace dry_state) \<and> list_ex deletes_hook (trace (Sync demo_env dry_state))"
  by code_simp

end
