(* ===== verification/CacheResource.thy ===== *)
theory CacheResource
  imports KubeTypes
begin

text \<open>
  One cached resource: \<open>pkg/cache/resource.go\<close>, the owner references that the cache infers
  (\<open>references.go\<close>) and the predicates of \<open>predicates.go\<close>.

  \<open>Info\<close> is of the client's type (\<open>any\<close> in the source, a type variable here) and \<open>Resource\<close> is
  the manifest, both absent when the pointer is nil. The traversal of the owner graph is in theory
  CacheGraph.
\<close>

record 'i Resource =
  ResourceVersion :: string
  Ref :: ObjectReference
  OwnerRefs :: "OwnerReference list"
  CreationTimestamp :: "int option"
  Info :: "'i option"
  Resource :: "unstructured option"
  isInferredParentOf :: "(ResourceKey \<Rightarrow> bool) option"

definition ResourceKey_of :: "'i Resource \<Rightarrow> ResourceKey" where
  "ResourceKey_of r = NewResourceKey (gvkGroup (RefGVK (Ref r))) (RefKind (Ref r)) (RefNamespace (Ref r)) (RefName (Ref r))"

section \<open>Owner references\<close>

text \<open>
  \<open>isParentOf\<close> walks the child's owner references; an inferred reference (empty UID) to this resource
  gets its UID, so the child is returned updated.
\<close>

definition inferred_ref_to :: "'i Resource \<Rightarrow> OwnerReference \<Rightarrow> bool" where
  "inferred_ref_to r ownerRef \<longleftrightarrow>
     ownerUID ownerRef = '''' \<and> RefKind (Ref r) = ownerKind ownerRef \<and>
     RefAPIVersion (Ref r) = ownerAPIVersion ownerRef \<and> RefName (Ref r) = ownerName ownerRef"

fun parent_scan :: "'i Resource \<Rightarrow> OwnerReference list \<Rightarrow> bool \<times> OwnerReference list" where
  "parent_scan r [] = (False, [])"
| "parent_scan r (ownerRef # refs) =
     (if inferred_ref_to r ownerRef then (True, ownerRef\<lparr>ownerUID := RefUID (Ref r)\<rparr> # refs)
      else if RefUID (Ref r) = ownerUID ownerRef then (True, ownerRef # refs)
      else (let (found, refs') = parent_scan r refs in (found, ownerRef # refs')))"

definition isParentOf :: "'i Resource \<Rightarrow> 'i Resource \<Rightarrow> bool \<times> 'i Resource" where
  "isParentOf r child = (let (found, refs) = parent_scan r (OwnerRefs child) in (found, child\<lparr>OwnerRefs := refs\<rparr>))"

text \<open>\<open>setOwnerRef\<close>: the index of the first reference with that UID, then an append or a cut.\<close>

fun uid_index :: "string \<Rightarrow> OwnerReference list \<Rightarrow> nat option" where
  "uid_index uid [] = None"
| "uid_index uid (item # items) =
     (if ownerUID item = uid then Some 0 else map_option Suc (uid_index uid items))"

definition setOwnerRef :: "'i Resource \<Rightarrow> OwnerReference \<Rightarrow> bool \<Rightarrow> 'i Resource" where
  "setOwnerRef r ref add =
     (case uid_index (ownerUID ref) (OwnerRefs r) of
        None \<Rightarrow> if add then r\<lparr>OwnerRefs := OwnerRefs r @ [ref]\<rparr> else r
      | Some index \<Rightarrow> if add then r
          else r\<lparr>OwnerRefs := take index (OwnerRefs r) @ drop (index + 1) (OwnerRefs r)\<rparr>)"

definition toOwnerRef :: "'i Resource \<Rightarrow> OwnerReference" where
  "toOwnerRef r = \<lparr>ownerAPIVersion = RefAPIVersion (Ref r), ownerKind = RefKind (Ref r),
     ownerName = RefName (Ref r), ownerUID = RefUID (Ref r)\<rparr>"

section \<open>Inferred owners\<close>

definition mightHaveInferredOwner :: "'i Resource \<Rightarrow> bool" where
  "mightHaveInferredOwner r \<longleftrightarrow>
     gvkGroup (RefGVK (Ref r)) = '''' \<and> RefKind (Ref r) = PersistentVolumeClaimKind"

text \<open>
  The regular expression of \<open>isStatefulSetChild\<close> is a template name, a dash, the name of the
  StatefulSet, a dash, and digits up to the end of the text. It is not anchored at the start. The
  characters of a Kubernetes name are letters, digits, dashes and dots; of these only the dot
  is special in a regular expression (it matches any character but a newline).
\<close>

definition is_digit :: "char \<Rightarrow> bool" where
  "is_digit c \<longleftrightarrow> digit_val c \<noteq> None"

fun pattern_digits :: "string \<Rightarrow> string \<Rightarrow> bool" where
  "pattern_digits [] s \<longleftrightarrow> s \<noteq> [] \<and> list_all is_digit s"
| "pattern_digits (p # ps) [] \<longleftrightarrow> False"
| "pattern_digits (p # ps) (c # cs) \<longleftrightarrow>
     (p = c \<or> p = CHR ''.'' \<and> c \<noteq> CHR 0x0A) \<and> pattern_digits ps cs"

fun match_anywhere :: "string \<Rightarrow> string \<Rightarrow> bool" where
  "match_anywhere ps [] \<longleftrightarrow> pattern_digits ps []"
| "match_anywhere ps (c # cs) \<longleftrightarrow> pattern_digits ps (c # cs) \<or> match_anywhere ps cs"

definition claim_pattern :: "string \<Rightarrow> string \<Rightarrow> string" where
  "claim_pattern templ name = templ @ ''-'' @ name @ ''-''"

text \<open>
  \<open>isStatefulSetChild\<close>: the conversion to the typed StatefulSet is library code; \<open>templates\<close> answers
  with the names of its volume claim templates, or an error.
\<close>

definition isStatefulSetChild ::
  "(unstructured \<Rightarrow> go_error + string list) \<Rightarrow> unstructured \<Rightarrow> go_error + (ResourceKey \<Rightarrow> bool)" where
  "isStatefulSetChild templates un =
     (case templates un of
        Inl e \<Rightarrow> Inl e
      | Inr names \<Rightarrow> Inr (\<lambda>key. Kind key = PersistentVolumeClaimKind \<and> fst (ResourceKey_GroupKind key) = '''' \<and>
          list_ex (\<lambda>templ. match_anywhere (claim_pattern templ (GetName un)) (Name key)) names))"

definition annotation :: "unstructured \<Rightarrow> string \<Rightarrow> string" where
  "annotation un key = (case GetAnnotations un key of Some v \<Rightarrow> v | None \<Rightarrow> '''')"

definition isServiceAccountTokenSecret :: "unstructured \<Rightarrow> bool \<times> OwnerReference" where
  "isServiceAccountTokenSecret un =
     (let ref = \<lparr>ownerAPIVersion = ''v1'', ownerKind = ServiceAccountKind, ownerName = '''', ownerUID = ''''\<rparr> in
      if NestedString un [''type''] \<noteq> Some ''kubernetes.io/service-account-token'' then (False, ref)
      else case (GetAnnotations un ''kubernetes.io/service-account.uid'',
                 GetAnnotations un ''kubernetes.io/service-account.name'') of
             (Some uid, Some name) \<Rightarrow>
               (name \<noteq> '''' \<and> uid \<noteq> '''', ref\<lparr>ownerName := name, ownerUID := uid\<rparr>)
           | _ \<Rightarrow> (False, ref))"

definition resolveResourceReferences ::
  "(unstructured \<Rightarrow> go_error + string list) \<Rightarrow> unstructured \<Rightarrow>
     OwnerReference list \<times> (ResourceKey \<Rightarrow> bool) option" where
  "resolveResourceReferences templates un =
     (let ownerRefs = GetOwnerReferences un; gvk = GVK un in
      if gvkGroup gvk = '''' \<and> gvkKind gvk = EndpointsKind \<and> ownerRefs = [] then
        (ownerRefs @ [\<lparr>ownerAPIVersion = ''v1'', ownerKind = ServiceKind, ownerName = GetName un,
                       ownerUID = ''''\<rparr>], None)
      else if gvkGroup gvk = ''operators.coreos.com'' \<and> gvkKind gvk = ''ClusterServiceVersion'' then
        (if annotation un ''olm.operatorGroup'' \<noteq> '''' then
           ownerRefs @ [\<lparr>ownerAPIVersion = ''operators.coreos.com/v1'', ownerKind = ''OperatorGroup'',
                         ownerName = annotation un ''olm.operatorGroup'', ownerUID = ''''\<rparr>]
         else ownerRefs, None)
      else if gvkKind gvk = SecretKind \<and> gvkGroup gvk = '''' then
        (case isServiceAccountTokenSecret un of
           (True, ref) \<Rightarrow> (ownerRefs @ [ref], None) | (False, _) \<Rightarrow> (ownerRefs, None))
      else if (gvkGroup gvk = ''apps'' \<or> gvkGroup gvk = ''extensions'') \<and> gvkKind gvk = StatefulSetKind then
        (case isStatefulSetChild templates un of
           Inl _ \<Rightarrow> (ownerRefs, None) | Inr refs \<Rightarrow> (ownerRefs, Some refs))
      else (ownerRefs, None))"

section \<open>Predicates\<close>

definition TopLevelResource :: "'i Resource \<Rightarrow> bool" where
  "TopLevelResource r \<longleftrightarrow> length (OwnerRefs r) = 0"

definition ResourceOfGroupKind :: "string \<Rightarrow> string \<Rightarrow> 'i Resource \<Rightarrow> bool" where
  "ResourceOfGroupKind g kind r \<longleftrightarrow> (let k = ResourceKey_of r in Group k = g \<and> Kind k = kind)"

section \<open>Facts\<close>

lemma setOwnerRef_ref [simp]: "Ref (setOwnerRef r ref add) = Ref r"
  by (simp add: setOwnerRef_def split: option.split)

lemma setOwnerRef_inferred [simp]: "isInferredParentOf (setOwnerRef r ref add) = isInferredParentOf r"
  by (simp add: setOwnerRef_def split: option.split)

lemma setOwnerRef_other [simp]:
  "Resource (setOwnerRef r ref add) = Resource r" "ResourceVersion (setOwnerRef r ref add) = ResourceVersion r"
  "Info (setOwnerRef r ref add) = Info r" "CreationTimestamp (setOwnerRef r ref add) = CreationTimestamp r"
  by (simp_all add: setOwnerRef_def split: option.split)

lemma ResourceKey_of_cong: "Ref r = Ref r' \<Longrightarrow> ResourceKey_of r = ResourceKey_of r'"
  by (simp add: ResourceKey_of_def)

lemma setOwnerRef_key [simp]: "ResourceKey_of (setOwnerRef r ref add) = ResourceKey_of r"
  by (rule ResourceKey_of_cong) simp

lemma mightHaveInferredOwner_cong: "Ref r = Ref r' \<Longrightarrow> mightHaveInferredOwner r = mightHaveInferredOwner r'"
  by (simp add: mightHaveInferredOwner_def)

lemma setOwnerRef_might [simp]: "mightHaveInferredOwner (setOwnerRef r ref add) = mightHaveInferredOwner r"
  by (rule mightHaveInferredOwner_cong) simp

lemma toOwnerRef_cong: "Ref r = Ref r' \<Longrightarrow> toOwnerRef r = toOwnerRef r'"
  by (simp add: toOwnerRef_def)

lemma toOwnerRef_set [simp]: "toOwnerRef (setOwnerRef r ref add) = toOwnerRef r"
  by (rule toOwnerRef_cong) simp

lemma toOwnerRef_uid [simp]: "ownerUID (toOwnerRef r) = RefUID (Ref r)"
  by (simp add: toOwnerRef_def)

lemma uid_index_None: "uid_index uid refs = None \<longleftrightarrow> uid \<notin> ownerUID ` set refs"
  by (induction refs) auto

text \<open>The UIDs among a resource's owner references, and how \<open>setOwnerRef\<close> changes them.\<close>

definition owner_uids :: "'i Resource \<Rightarrow> string set" where
  "owner_uids r = ownerUID ` set (OwnerRefs r)"

lemma uid_index_Some:
  "uid_index uid refs = Some i \<Longrightarrow> i < length refs \<and> ownerUID (refs ! i) = uid \<and> (\<forall>j<i. ownerUID (refs ! j) \<noteq> uid)"
proof (induction refs arbitrary: i)
  case (Cons r refs)
  then show ?case by (cases i) (auto simp: less_Suc_eq_0_disj split: if_splits)
qed simp

lemma setOwnerRef_add: "owner_uids (setOwnerRef r ref True) = insert (ownerUID ref) (owner_uids r)"
proof (cases "uid_index (ownerUID ref) (OwnerRefs r)")
  case (Some i)
  then have "i < length (OwnerRefs r)" "ownerUID (OwnerRefs r ! i) = ownerUID ref"
    using uid_index_Some by blast+
  then have "ownerUID ref \<in> ownerUID ` set (OwnerRefs r)"
    by (metis image_eqI nth_mem)
  with Some show ?thesis by (auto simp: setOwnerRef_def owner_uids_def)
qed (simp add: setOwnerRef_def owner_uids_def)

text \<open>A list of references in which no UID occurs twice: then a removal removes the UID.\<close>

definition distinct_owners :: "'i Resource \<Rightarrow> bool" where
  "distinct_owners r \<longleftrightarrow> distinct (map ownerUID (OwnerRefs r))"

lemma distinct_cut:
  assumes "distinct xs" "i < length xs"
  shows "set (take i xs @ drop (i + 1) xs) = set xs - {xs ! i}" and "distinct (take i xs @ drop (i + 1) xs)"
proof -
  have "xs = take i xs @ xs ! i # drop (i + 1) xs" using assms(2) by (simp add: id_take_nth_drop)
  then have d: "distinct (take i xs @ xs ! i # drop (i + 1) xs)" and s: "set xs = set (take i xs @ xs ! i # drop (i + 1) xs)"
    using assms(1) by metis+
  from d s show "set (take i xs @ drop (i + 1) xs) = set xs - {xs ! i}" by auto
  from d show "distinct (take i xs @ drop (i + 1) xs)" by auto
qed

lemma setOwnerRef_del:
  assumes "distinct_owners r"
  shows "owner_uids (setOwnerRef r ref False) = owner_uids r - {ownerUID ref}"
proof (cases "uid_index (ownerUID ref) (OwnerRefs r)")
  case None
  with uid_index_None [THEN iffD1, OF None] show ?thesis by (auto simp: setOwnerRef_def owner_uids_def)
next
  case (Some i)
  from uid_index_Some [OF Some] have i: "i < length (map ownerUID (OwnerRefs r))"
    "map ownerUID (OwnerRefs r) ! i = ownerUID ref" by auto
  from distinct_cut(1) [OF assms [unfolded distinct_owners_def] i(1)] i(2) Some show ?thesis
    by (simp add: setOwnerRef_def owner_uids_def take_map drop_map image_Un)
qed

lemma setOwnerRef_distinct:
  assumes "distinct_owners r"
  shows "distinct_owners (setOwnerRef r ref add)"
proof (cases "uid_index (ownerUID ref) (OwnerRefs r)")
  case None
  with assms uid_index_None [THEN iffD1, OF None] show ?thesis
    by (auto simp: setOwnerRef_def distinct_owners_def)
next
  case (Some i)
  from uid_index_Some [OF Some] have i: "i < length (map ownerUID (OwnerRefs r))" by auto
  from distinct_cut(2) [OF assms [unfolded distinct_owners_def] i] assms Some show ?thesis
    by (simp add: setOwnerRef_def distinct_owners_def take_map drop_map)
qed

lemma isParentOf_iff:
  "fst (isParentOf r child) \<longleftrightarrow>
     (\<exists>ref\<in>set (OwnerRefs child). inferred_ref_to r ref \<or> ownerUID ref = RefUID (Ref r))"
proof -
  have "fst (parent_scan r refs) \<longleftrightarrow> (\<exists>ref\<in>set refs. inferred_ref_to r ref \<or> ownerUID ref = RefUID (Ref r))"
    for refs
    by (induction refs) (auto split: prod.splits)
  then show ?thesis by (simp add: isParentOf_def split: prod.split) (metis fst_conv)
qed

text \<open>The unanchored pattern: a claim that ends as a claim of this set does is taken for one.\<close>

lemma match_anywhere_suffix: "pattern_digits ps s \<Longrightarrow> match_anywhere ps (pre @ s)"
proof (induction pre)
  case Nil
  then show ?case by (cases s) auto
qed simp

end
