(* ===== verification/CacheGraph.thy ===== *)
theory CacheGraph
  imports CacheResource
begin

text \<open>
  The owner graph of a namespace and its traversal: \<open>buildGraph\<close> and \<open>IterateHierarchyV2\<close> of
  \<open>pkg/cache/cluster.go\<close>, \<open>iterateChildrenV2\<close> of \<open>pkg/cache/resource.go\<close>.

  The cache shares its resources by pointer: a pointer is an index into the heap, a list of resources.
  The nodes of a namespace are an association list from keys to pointers (one iteration order of the
  Go map). The graph maps a parent's key to its children by UID. \<open>parse_group\<close> stands for
  \<open>schema.ParseGroupVersion\<close> of k8s.io/apimachinery: the group of an API version, or nothing when
  that text is invalid.
\<close>

type_synonym 'i heap = "'i Resource list"
type_synonym nodes = "(ResourceKey \<times> nat) list"
type_synonym graph = "(ResourceKey \<times> (string \<times> nat) list) list"

definition node_key :: "'i heap \<Rightarrow> nat \<Rightarrow> ResourceKey" where
  "node_key h p = ResourceKey_of (h ! p)"

definition node_uid :: "'i heap \<Rightarrow> nat \<Rightarrow> string" where
  "node_uid h p = RefUID (Ref (h ! p))"

section \<open>buildGraph\<close>

definition nodesByUID :: "'i heap \<Rightarrow> nodes \<Rightarrow> string \<Rightarrow> nat list" where
  "nodesByUID h nsNodes uid = filter (\<lambda>p. node_uid h p = uid) (map snd nsNodes)"

text \<open>
  The reference with its UID filled in, or nothing when the loop goes on to the next reference.
\<close>

definition backfill ::
  "(string \<Rightarrow> string option) \<Rightarrow> 'i heap \<Rightarrow> nodes \<Rightarrow> nat \<Rightarrow> OwnerReference \<Rightarrow> OwnerReference option" where
  "backfill parse_group h nsNodes childNode ownerRef =
     (if ownerUID ownerRef = '''' then
        (case parse_group (ownerAPIVersion ownerRef) of
           None \<Rightarrow> None
         | Some g \<Rightarrow>
             (case map_of nsNodes (NewResourceKey g (ownerKind ownerRef)
                      (RefNamespace (Ref (h ! childNode))) (ownerName ownerRef)) of
                None \<Rightarrow> None
              | Some graphKeyNode \<Rightarrow> Some (ownerRef\<lparr>ownerUID := node_uid h graphKeyNode\<rparr>)))
      else Some ownerRef)"

definition children_of :: "graph \<Rightarrow> ResourceKey \<Rightarrow> (string \<times> nat) list" where
  "children_of g k = (case map_of g k of None \<Rightarrow> [] | Some cs \<Rightarrow> cs)"

text \<open>
  One owner gets one child. Of two children with the same UID the one with the smaller key is kept.
\<close>

definition add_child :: "'i heap \<Rightarrow> nat \<Rightarrow> graph \<Rightarrow> nat \<Rightarrow> graph" where
  "add_child h childNode g uidNode =
     (let key = node_key h uidNode; children = children_of g key; uid = node_uid h childNode in
      case map_of children uid of
        None \<Rightarrow> map_put key (map_put uid childNode children) g
      | Some r \<Rightarrow>
          if str_less (ResourceKey_String (node_key h childNode)) (ResourceKey_String (node_key h r))
          then map_put key (map_put uid childNode children) g else map_put key children g)"

definition link_ref :: "'i heap \<Rightarrow> nodes \<Rightarrow> nat \<Rightarrow> graph \<Rightarrow> OwnerReference \<Rightarrow> graph" where
  "link_ref h nsNodes childNode g ownerRef =
     foldl (add_child h childNode) g (nodesByUID h nsNodes (ownerUID ownerRef))"

fun link_refs ::
  "(string \<Rightarrow> string option) \<Rightarrow> 'i heap \<Rightarrow> nodes \<Rightarrow> nat \<Rightarrow> OwnerReference list \<Rightarrow> graph \<Rightarrow>
     OwnerReference list \<times> graph" where
  "link_refs parse_group h nsNodes childNode [] g = ([], g)"
| "link_refs parse_group h nsNodes childNode (ownerRef # refs) g =
     (case backfill parse_group h nsNodes childNode ownerRef of
        None \<Rightarrow> (let (refs', g') = link_refs parse_group h nsNodes childNode refs g in (ownerRef # refs', g'))
      | Some ref' \<Rightarrow>
          (let (refs', g') = link_refs parse_group h nsNodes childNode refs (link_ref h nsNodes childNode g ref')
           in (ref' # refs', g')))"

text \<open>The loop over the nodes; the backfilled references are written to the child in the heap.\<close>

fun link_nodes ::
  "(string \<Rightarrow> string option) \<Rightarrow> nodes \<Rightarrow> nodes \<Rightarrow> 'i heap \<Rightarrow> graph \<Rightarrow> 'i heap \<times> graph" where
  "link_nodes parse_group nsNodes [] h g = (h, g)"
| "link_nodes parse_group nsNodes ((k, childNode) # rest) h g =
     (let (refs, g') = link_refs parse_group h nsNodes childNode (OwnerRefs (h ! childNode)) g
      in link_nodes parse_group nsNodes rest (h[childNode := (h ! childNode)\<lparr>OwnerRefs := refs\<rparr>]) g')"

definition buildGraph :: "(string \<Rightarrow> string option) \<Rightarrow> nodes \<Rightarrow> 'i heap \<Rightarrow> 'i heap \<times> graph" where
  "buildGraph parse_group nsNodes h = link_nodes parse_group nsNodes nsNodes h []"

section \<open>Depth-first traversal\<close>

text \<open>
  The callback of the traversal may be any closure: it is a function of its own state \<open>'s\<close>, of the error
  and of the child (absent for a nil pointer), and returns whether to go on. \<open>None\<close> as the outcome is a nil
  dereference or the end of the fuel; \<open>visited\<close> has the source's values 0, 1 and 2.
\<close>

type_synonym visits = "ResourceKey \<Rightarrow> nat"
type_synonym 's action = "string option \<Rightarrow> nat option \<Rightarrow> 's \<Rightarrow> bool \<times> 's"

definition circular_error :: "ResourceKey \<Rightarrow> ResourceKey \<Rightarrow> string" where
  "circular_error childKey key = ''circular dependency detected. '' @ ResourceKey_String childKey @
     '' is child and parent of '' @ ResourceKey_String key"

fun visit_children ::
  "(nat \<Rightarrow> visits \<times> 's \<Rightarrow> (visits \<times> 's) option) \<Rightarrow> 'i heap \<Rightarrow> nodes \<Rightarrow> 's action \<Rightarrow> ResourceKey \<Rightarrow>
     (string \<times> nat) list \<Rightarrow> visits \<times> 's \<Rightarrow> (visits \<times> 's) option" where
  "visit_children recurse h ns act key [] s = Some s"
| "visit_children recurse h ns act key ((uid, c) # cs) (visited, st) =
     (let childKey = node_key h c; child = map_of ns childKey in
      if visited childKey = 1 then
        visit_children recurse h ns act key cs (visited, snd (act (Some (circular_error childKey key)) child st))
      else if visited childKey = 0 then
        (case act None child st of
           (True, st') \<Rightarrow>
             (case child of
                None \<Rightarrow> None
              | Some p \<Rightarrow> (case recurse p (visited, st') of
                             None \<Rightarrow> None
                           | Some s' \<Rightarrow> visit_children recurse h ns act key cs s'))
         | (False, st') \<Rightarrow> visit_children recurse h ns act key cs (visited, st'))
      else visit_children recurse h ns act key cs (visited, st))"

fun iterateChildrenV2 ::
  "nat \<Rightarrow> 'i heap \<Rightarrow> graph \<Rightarrow> nodes \<Rightarrow> 's action \<Rightarrow> nat \<Rightarrow> visits \<times> 's \<Rightarrow> (visits \<times> 's) option" where
  "iterateChildrenV2 0 h g ns act r s = None"
| "iterateChildrenV2 (Suc fuel) h g ns act r (visited, st) =
     (let key = node_key h r in
      if visited key = 2 then Some (visited, st)
      else
        (case map_of g key of
           None \<Rightarrow> Some (visited(key := 2), st)
         | Some children \<Rightarrow>
             (case visit_children (iterateChildrenV2 fuel h g ns act) h ns act key children
                     (visited(key := 1), st) of
                None \<Rightarrow> None
              | Some (visited', st') \<Rightarrow> Some (visited'(key := 2), st'))))"

text \<open>
  \<open>IterateHierarchyV2\<close> hands its own callback on: it keeps the errors to itself (they are logged) and
  stops there. The callback gets the resource and the nodes of the namespace.
\<close>

type_synonym 's callback = "nat option \<Rightarrow> nodes \<Rightarrow> 's \<Rightarrow> bool \<times> 's"

definition child_action :: "'s callback \<Rightarrow> nodes \<Rightarrow> 's action" where
  "child_action action nsNodes err child st = (if err \<noteq> None then (False, st) else action child nsNodes st)"

fun visit_top_children ::
  "nat \<Rightarrow> 'i heap \<Rightarrow> graph \<Rightarrow> nodes \<Rightarrow> 's callback \<Rightarrow> (string \<times> nat) list \<Rightarrow> visits \<times> 's \<Rightarrow>
     (visits \<times> 's) option" where
  "visit_top_children fuel h g ns action [] s = Some s"
| "visit_top_children fuel h g ns action ((uid, child) # cs) (visited, st) =
     (if visited (node_key h child) = 0 then
        (case action (Some child) ns st of
           (True, st') \<Rightarrow>
             (case iterateChildrenV2 fuel h g ns (child_action action ns) child (visited, st') of
                None \<Rightarrow> None
              | Some s' \<Rightarrow> visit_top_children fuel h g ns action cs s')
         | (False, st') \<Rightarrow> visit_top_children fuel h g ns action cs (visited, st'))
      else visit_top_children fuel h g ns action cs (visited, st))"

fun visit_roots ::
  "nat \<Rightarrow> 'i heap \<Rightarrow> graph \<Rightarrow> nodes \<Rightarrow> (ResourceKey \<Rightarrow> nat option) \<Rightarrow> 's callback \<Rightarrow> ResourceKey list \<Rightarrow>
     visits \<times> 's \<Rightarrow> (visits \<times> 's) option" where
  "visit_roots fuel h g ns resources action [] s = Some s"
| "visit_roots fuel h g ns resources action (key # keys) (visited, st) =
     (if visited key = 2 then visit_roots fuel h g ns resources action keys (visited, st)
      else
        (case action (resources key) ns st of
           (False, st') \<Rightarrow> visit_roots fuel h g ns resources action keys (visited, st')
         | (True, st') \<Rightarrow>
             (case visit_top_children fuel h g ns action (children_of g key) (visited(key := 1), st') of
                None \<Rightarrow> None
              | Some (visited', st'') \<Rightarrow>
                  visit_roots fuel h g ns resources action keys (visited'(key := 2), st''))))"

definition append_key :: "(string \<times> ResourceKey list) list \<Rightarrow> ResourceKey \<Rightarrow> (string \<times> ResourceKey list) list" where
  "append_key m key = map_put (Namespace key)
     ((case map_of m (Namespace key) of None \<Rightarrow> [] | Some ks \<Rightarrow> ks) @ [key]) m"

definition keysPerNamespace :: "(ResourceKey \<Rightarrow> nat option) \<Rightarrow> ResourceKey list \<Rightarrow> (string \<times> ResourceKey list) list" where
  "keysPerNamespace resources keys = foldl append_key [] (filter (\<lambda>key. resources key \<noteq> None) keys)"

text \<open>The loop over the namespaces. \<open>nsIndex\<close> answers with no nodes for a namespace it does not hold.\<close>

fun iterate_namespaces ::
  "(string \<Rightarrow> string option) \<Rightarrow> (ResourceKey \<Rightarrow> nat option) \<Rightarrow> (string \<Rightarrow> nodes) \<Rightarrow> 's callback \<Rightarrow>
     (string \<times> ResourceKey list) list \<Rightarrow> 'i heap \<times> 's \<Rightarrow> ('i heap \<times> 's) option" where
  "iterate_namespaces parse_group resources nsIndex action [] s = Some s"
| "iterate_namespaces parse_group resources nsIndex action ((namespace, namespaceKeys) # rest) (h, st) =
     (let nsNodes = nsIndex namespace; (h', g) = buildGraph parse_group nsNodes h in
      case visit_roots (Suc (length nsNodes)) h' g nsNodes resources action namespaceKeys ((\<lambda>_. 0), st) of
        None \<Rightarrow> None
      | Some (_, st') \<Rightarrow> iterate_namespaces parse_group resources nsIndex action rest (h', st'))"

section \<open>The graph that is built\<close>

text \<open>
  The loops only write owner references, so the identity of every resource (\<open>Ref\<close>) stays; the
  graph they build is that of the list of owner/child pairs in the order they are met.
\<close>

definition same_refs :: "'i heap \<Rightarrow> 'i heap \<Rightarrow> bool" where
  "same_refs h h' \<longleftrightarrow> map Ref h = map Ref h'"

lemma same_refs_refl [simp]: "same_refs h h"
  by (simp add: same_refs_def)

lemma same_refs_trans: "same_refs h h' \<Longrightarrow> same_refs h' h'' \<Longrightarrow> same_refs h h''"
  by (simp add: same_refs_def)

lemma same_refs_length: "same_refs h h' \<Longrightarrow> length h' = length h"
  by (metis same_refs_def length_map)

lemma same_refs_nth: "same_refs h h' \<Longrightarrow> p < length h \<Longrightarrow> Ref (h' ! p) = Ref (h ! p)"
  by (metis same_refs_def length_map nth_map)

lemma same_refs_update: "p < length h \<Longrightarrow> Ref r = Ref (h ! p) \<Longrightarrow> same_refs h (h[p := r])"
  by (auto simp: same_refs_def map_update list_update_id' )

definition nodes_ok :: "'i heap \<Rightarrow> nodes \<Rightarrow> bool" where
  "nodes_ok h ns \<longleftrightarrow> distinct (map fst ns) \<and> (\<forall>(k, p) \<in> set ns. p < length h \<and> node_key h p = k)"

lemma nodes_okD:
  assumes "nodes_ok h ns"
  shows "distinct (map fst ns)" and "(k, p) \<in> set ns \<Longrightarrow> p < length h" and "(k, p) \<in> set ns \<Longrightarrow> node_key h p = k"
  using assms by (auto simp: nodes_ok_def)

lemma nodes_ok_lookup: "nodes_ok h ns \<Longrightarrow> p \<in> snd ` set ns \<Longrightarrow> map_of ns (node_key h p) = Some p"
  by (auto simp: nodes_ok_def intro!: map_of_is_SomeI)

lemma nodes_ok_distinct: "nodes_ok h ns \<Longrightarrow> distinct (map snd ns)"
proof -
  assume ok: "nodes_ok h ns"
  then have "map fst ns = map (node_key h) (map snd ns)" by (auto simp: nodes_ok_def)
  with ok show ?thesis by (metis nodes_okD(1) distinct_map)
qed

lemma same_refs_key: "same_refs h h' \<Longrightarrow> p < length h \<Longrightarrow> node_key h' p = node_key h p"
  by (simp add: node_key_def ResourceKey_of_def same_refs_nth)

lemma same_refs_uid: "same_refs h h' \<Longrightarrow> p < length h \<Longrightarrow> node_uid h' p = node_uid h p"
  by (simp add: node_uid_def same_refs_nth)

lemma nodes_ok_same: "same_refs h h' \<Longrightarrow> nodes_ok h ns \<Longrightarrow> nodes_ok h' ns"
  unfolding nodes_ok_def using same_refs_key [of h h'] same_refs_length [of h h'] by (metis (mono_tags, lifting) case_prodE case_prodI2' case_prod_conv)

lemma nodesByUID_same: "same_refs h h' \<Longrightarrow> nodes_ok h ns \<Longrightarrow> nodesByUID h' ns uid = nodesByUID h ns uid"
  unfolding nodesByUID_def by (rule filter_cong) (auto dest!: nodes_okD(2) simp: same_refs_uid)

lemma backfill_same:
  assumes "same_refs h h'" "nodes_ok h ns" "c < length h"
  shows "backfill pg h' ns c ref = backfill pg h ns c ref"
  using assms
  by (auto simp: backfill_def same_refs_nth same_refs_uid dest!: map_of_SomeD nodes_okD(2) split: option.split)

text \<open>The owners that one child is added to, in order.\<close>

definition owners_of :: "(string \<Rightarrow> string option) \<Rightarrow> 'i heap \<Rightarrow> nodes \<Rightarrow> nat \<Rightarrow> OwnerReference list \<Rightarrow> nat list" where
  "owners_of pg h ns c refs =
     concat (map (\<lambda>ref. case backfill pg h ns c ref of None \<Rightarrow> [] | Some r \<Rightarrow> nodesByUID h ns (ownerUID r)) refs)"

lemma link_refs_owners:
  "snd (link_refs pg h ns c refs g) = foldl (add_child h c) g (owners_of pg h ns c refs)"
  by (induction refs arbitrary: g)
    (simp_all add: owners_of_def link_ref_def split_beta split: option.split)

lemma link_refs_fst:
  "fst (link_refs pg h ns c refs g) = map (\<lambda>r. case backfill pg h ns c r of None \<Rightarrow> r | Some r' \<Rightarrow> r') refs"
  by (induction refs arbitrary: g) (simp_all add: split_beta split: option.split)

lemma owners_of_node: "p \<in> set (owners_of pg h ns c refs) \<Longrightarrow> p \<in> snd ` set ns"
  by (auto simp: owners_of_def nodesByUID_def split: option.splits)

definition add_pair :: "'i heap \<Rightarrow> graph \<Rightarrow> nat \<times> nat \<Rightarrow> graph" where
  "add_pair h g pc = add_child h (snd pc) g (fst pc)"

definition owner_pairs :: "(string \<Rightarrow> string option) \<Rightarrow> 'i heap \<Rightarrow> nodes \<Rightarrow> nodes \<Rightarrow> (nat \<times> nat) list" where
  "owner_pairs pg h ns todo =
     concat (map (\<lambda>(k, c). map (\<lambda>p. (p, c)) (owners_of pg h ns c (OwnerRefs (h ! c)))) todo)"

lemma foldl_add_pair: "foldl (add_child h c) g ps = foldl (add_pair h) g (map (\<lambda>p. (p, c)) ps)"
  by (induction ps arbitrary: g) (simp_all add: add_pair_def)

lemma add_child_same:
  assumes "same_refs h h'" "c < length h" "p < length h" "\<forall>x\<in>snd ` set (children_of g (node_key h p)). x < length h"
  shows "add_child h' c g p = add_child h c g p"
  using assms
  by (auto simp: add_child_def Let_def same_refs_key same_refs_uid dest!: map_of_SomeD split: option.split)

text \<open>Every pointer of a graph is in the heap.\<close>

definition graph_in :: "nat set \<Rightarrow> graph \<Rightarrow> bool" where
  "graph_in P g \<longleftrightarrow> (\<forall>k. snd ` set (children_of g k) \<subseteq> P)"

lemma graph_in_Nil [simp]: "graph_in P []"
  by (simp add: graph_in_def children_of_def)

lemma children_of_put: "children_of (map_put k cs g) k' = (if k' = k then cs else children_of g k')"
  by (simp add: children_of_def)

lemma graph_in_add:
  assumes "graph_in P g" "c \<in> P"
  shows "graph_in P (add_child h c g p)"
  using assms set_map_put [of "node_uid h c" c "children_of g (node_key h p)"]
  by (fastforce simp: graph_in_def add_child_def Let_def children_of_put split: option.split)

lemma graph_in_foldl:
  "graph_in P g \<Longrightarrow> c \<in> P \<Longrightarrow> graph_in P (foldl (add_child h c) g ps)"
  by (induction ps arbitrary: g) (simp_all add: graph_in_add)

lemma foldl_add_child_same:
  assumes "same_refs h h'" "graph_in P g" "c \<in> P" "set ps \<subseteq> P" "\<And>x. x \<in> P \<Longrightarrow> x < length h"
  shows "foldl (add_child h' c) g ps = foldl (add_child h c) g ps"
  using assms(2,4)
proof (induction ps arbitrary: g)
  case (Cons p ps)
  from Cons.prems assms(3,5) have "\<forall>x\<in>snd ` set (children_of g (node_key h p)). x < length h"
    by (auto simp: graph_in_def)
  with Cons.prems assms have "add_child h' c g p = add_child h c g p"
    by (intro add_child_same) auto
  with Cons show ?case by (simp add: graph_in_add assms(3))
qed simp

lemma owners_of_same:
  assumes "same_refs h h'" "nodes_ok h ns" "c < length h"
  shows "owners_of pg h' ns c refs = owners_of pg h ns c refs"
  unfolding owners_of_def by (simp only: backfill_same [OF assms] nodesByUID_same [OF assms(1,2)])

lemma link_nodes_pairs:
  assumes "same_refs h h'" "nodes_ok h ns" "set todo \<subseteq> set ns" "distinct (map snd todo)"
    and "\<And>c. c \<in> snd ` set todo \<Longrightarrow> h' ! c = h ! c" "graph_in (snd ` set ns) g"
  shows "snd (link_nodes pg ns todo h' g) = foldl (add_pair h) g (owner_pairs pg h ns todo) \<and>
     same_refs h (fst (link_nodes pg ns todo h' g))"
  using assms(1,3-)
proof (induction todo arbitrary: h' g)
  case (Cons kc todo)
  obtain k c where kc: "kc = (k, c)" by (cases kc)
  with Cons.prems(2) have c: "c \<in> snd ` set ns" "c < length h"
    using nodes_okD(2) [OF assms(2), of k c] by (auto simp: rev_image_eqI)
  have P: "x < length h" if "x \<in> snd ` set ns" for x
    using that nodes_okD(2) [OF assms(2)] by force
  obtain refs g' where lr: "link_refs pg h' ns c (OwnerRefs (h' ! c)) g = (refs, g')" by fastforce
  let ?h = "h'[c := (h' ! c)\<lparr>OwnerRefs := refs\<rparr>]"
  let ?ps = "owners_of pg h ns c (OwnerRefs (h ! c))"
  have "set ?ps \<subseteq> snd ` set ns" using owners_of_node [of _ pg h ns c] by blast
  then have "foldl (add_child h' c) g ?ps = foldl (add_child h c) g ?ps"
    using P c(1) by (intro foldl_add_child_same [OF Cons.prems(1) Cons.prems(5)]) auto
  moreover have "h' ! c = h ! c" using Cons.prems(4) [of c] kc by simp
  ultimately have g': "g' = foldl (add_child h c) g ?ps"
    using link_refs_owners [of pg h' ns c "OwnerRefs (h' ! c)" g]
    using lr by (simp add: owners_of_same [OF Cons.prems(1) assms(2) c(2)])
  have "same_refs h ?h"
    by (rule same_refs_trans [OF Cons.prems(1) same_refs_update])
      (use c(2) same_refs_length [OF Cons.prems(1)] in auto)
  moreover have "?h ! x = h ! x" if "x \<in> snd ` set todo" for x
  proof -
    from that Cons.prems(3) kc have "x \<noteq> c" by auto
    with that show ?thesis using Cons.prems(4) [of x] by simp
  qed
  ultimately have "snd (link_nodes pg ns todo ?h g') = foldl (add_pair h) g' (owner_pairs pg h ns todo) \<and>
      same_refs h (fst (link_nodes pg ns todo ?h g'))"
    using Cons.prems(2,3) c(1) kc g' graph_in_foldl [OF Cons.prems(5) c(1)] by (intro Cons.IH) auto
  then show ?case by (simp add: kc lr g' owner_pairs_def foldl_add_pair)
qed (simp add: owner_pairs_def)

lemma buildGraph_pairs:
  assumes "nodes_ok h ns"
  shows "snd (buildGraph pg ns h) = foldl (add_pair h) [] (owner_pairs pg h ns ns)"
    and "same_refs h (fst (buildGraph pg ns h))"
  using link_nodes_pairs [OF same_refs_refl assms order_refl nodes_ok_distinct [OF assms] refl graph_in_Nil, of pg]
  by (simp_all add: buildGraph_def)

text \<open>Which child a graph holds for an owner and a UID: the best of the pairs, in order.\<close>

definition better :: "'i heap \<Rightarrow> nat \<Rightarrow> nat \<Rightarrow> nat" where
  "better h r c =
     (if str_less (ResourceKey_String (node_key h c)) (ResourceKey_String (node_key h r)) then c else r)"

definition candidates :: "'i heap \<Rightarrow> ResourceKey \<Rightarrow> string \<Rightarrow> (nat \<times> nat) list \<Rightarrow> nat list" where
  "candidates h k uid pairs = map snd (filter (\<lambda>(p, c). node_key h p = k \<and> node_uid h c = uid) pairs)"

definition best :: "'i heap \<Rightarrow> nat list \<Rightarrow> nat option" where
  "best h cs = (case cs of [] \<Rightarrow> None | c # cs \<Rightarrow> Some (foldl (better h) c cs))"

lemma best_snoc: "best h (cs @ [c]) = Some (case best h cs of None \<Rightarrow> c | Some r \<Rightarrow> better h r c)"
  by (cases cs) (simp_all add: best_def)

lemma graph_lookup:
  "map_of (children_of (foldl (add_pair h) [] pairs) k) uid = best h (candidates h k uid pairs)"
proof (induction pairs rule: rev_induct)
  case Nil
  then show ?case by (simp add: children_of_def candidates_def best_def)
next
  case (snoc pc pairs)
  obtain p c where pc: "pc = (p, c)" by (cases pc)
  show ?case
  proof (cases "node_key h p = k \<and> node_uid h c = uid")
    case True
    with snoc show ?thesis
      by (simp add: pc candidates_def add_pair_def add_child_def Let_def children_of_put best_snoc better_def
          split: option.split)
  next
    case False
    with snoc show ?thesis
      by (auto simp: pc candidates_def add_pair_def add_child_def Let_def children_of_put split: option.split)
  qed
qed

lemma better_in: "foldl (better h) c cs \<in> set (c # cs)"
proof (induction cs arbitrary: c)
  case (Cons x cs)
  have "better h c x \<in> {c, x}" by (simp add: better_def)
  with Cons [of "better h c x"] show ?case by auto
qed simp

definition key_le :: "'i heap \<Rightarrow> nat \<Rightarrow> nat \<Rightarrow> bool" where
  "key_le h a b \<longleftrightarrow> \<not> str_less (ResourceKey_String (node_key h b)) (ResourceKey_String (node_key h a))"

lemma key_le_trans: "key_le h a b \<Longrightarrow> key_le h b c \<Longrightarrow> key_le h a c"
  unfolding key_le_def using str_less_linear str_less_trans by metis

lemma better_le: "key_le h (better h r c) r" "key_le h (better h r c) c"
  by (auto simp: better_def key_le_def dest: str_less_asym)

lemma better_least: "x \<in> set (c # cs) \<Longrightarrow> key_le h (foldl (better h) c cs) x"
proof (induction cs arbitrary: c x)
  case Nil
  then show ?case by (simp add: key_le_def)
next
  case (Cons y cs)
  show ?case
  proof (cases "x \<in> set cs")
    case True
    then show ?thesis using Cons.IH [of x "better h c y"] by simp
  next
    case False
    with Cons.prems have "key_le h (better h c y) x" using better_le by auto
    moreover have "key_le h (foldl (better h) (better h c y) cs) (better h c y)"
      by (rule Cons.IH) simp
    ultimately show ?thesis using key_le_trans by fastforce
  qed
qed

lemma best_None: "best h cs = None \<longleftrightarrow> cs = []"
  by (simp add: best_def split: list.split)

lemma best_Some: "best h cs = Some c \<Longrightarrow> c \<in> set cs \<and> (\<forall>x\<in>set cs. key_le h c x)"
proof (cases cs)
  case (Cons a l)
  assume "best h cs = Some c"
  with Cons show ?thesis
    using better_in [of h a l] better_least [of _ a l h] by (simp add: best_def del: set_simps)
qed (simp add: best_def)

section \<open>The graph does not depend on the iteration order\<close>

text \<open>A node of the namespace is an owner of another when one of the other's references resolves to its UID.\<close>

definition is_owner :: "(string \<Rightarrow> string option) \<Rightarrow> 'i heap \<Rightarrow> nodes \<Rightarrow> nat \<Rightarrow> nat \<Rightarrow> bool" where
  "is_owner pg h ns p c \<longleftrightarrow>
     p \<in> snd ` set ns \<and> c \<in> snd ` set ns \<and>
     (\<exists>ref\<in>set (OwnerRefs (h ! c)). \<exists>r. backfill pg h ns c ref = Some r \<and> ownerUID r = node_uid h p)"

lemma owner_pairs_iff: "(p, c) \<in> set (owner_pairs pg h ns ns) \<longleftrightarrow> is_owner pg h ns p c"
  by (force simp: owner_pairs_def owners_of_def nodesByUID_def is_owner_def split: option.splits)

definition is_child :: "(string \<Rightarrow> string option) \<Rightarrow> 'i heap \<Rightarrow> nodes \<Rightarrow> ResourceKey \<Rightarrow> string \<Rightarrow> nat \<Rightarrow> bool" where
  "is_child pg h ns k uid c \<longleftrightarrow> (\<exists>p. is_owner pg h ns p c \<and> node_key h p = k \<and> node_uid h c = uid)"

lemma candidates_iff: "set (candidates h k uid (owner_pairs pg h ns ns)) = {c. is_child pg h ns k uid c}"
  using owner_pairs_iff [of _ _ pg h ns] by (force simp: candidates_def is_child_def)

text \<open>The keys of a namespace's nodes are free of slashes, as Kubernetes names are.\<close>

definition nodes_named :: "nodes \<Rightarrow> bool" where
  "nodes_named ns \<longleftrightarrow> list_all (\<lambda>(k, p). slash_free k) ns"

lemma key_le_unique:
  assumes "nodes_ok h ns" "nodes_named ns" "a \<in> snd ` set ns" "b \<in> snd ` set ns" "key_le h a b" "key_le h b a"
  shows "a = b"
proof -
  have sf: "slash_free (node_key h x)" if "x \<in> snd ` set ns" for x
    using that assms(2) nodes_okD(3) [OF assms(1)] by (fastforce simp: nodes_named_def list_all_iff)
  have "ResourceKey_String (node_key h a) = ResourceKey_String (node_key h b)"
    using assms(5,6) str_less_linear unfolding key_le_def by blast
  then have "node_key h a = node_key h b" using sf assms(3,4) by (intro ResourceKey_String_inj) auto
  then show ?thesis using nodes_ok_lookup [OF assms(1)] assms(3,4) by (metis option.inject)
qed

lemma is_child_node: "is_child pg h ns k uid c \<Longrightarrow> c \<in> snd ` set ns"
  by (auto simp: is_child_def is_owner_def)

lemma buildGraph_lookup:
  assumes "nodes_ok h ns" "nodes_named ns"
  shows "map_of (children_of (snd (buildGraph pg ns h)) k) uid = Some c \<longleftrightarrow>
     is_child pg h ns k uid c \<and> (\<forall>c'. is_child pg h ns k uid c' \<longrightarrow> key_le h c c')"
    (is "?L = Some c \<longleftrightarrow> ?R c")
proof -
  let ?cs = "candidates h k uid (owner_pairs pg h ns ns)"
  have L: "?L = best h ?cs" by (simp only: buildGraph_pairs(1) [OF assms(1)] graph_lookup)
  show ?thesis
  proof
    assume "?L = Some c"
    then show "?R c" using best_Some [of h ?cs c] L by (simp add: candidates_iff)
  next
    assume R: "?R c"
    then have "?cs \<noteq> []" using candidates_iff by force
    then obtain d where d: "best h ?cs = Some d" using best_None by blast
    then have "is_child pg h ns k uid d \<and> key_le h d c" "key_le h c d"
      using best_Some [OF d] R by (simp_all add: candidates_iff)
    then have "c = d" using key_le_unique [OF assms] R is_child_node by metis
    with d L show "?L = Some c" by simp
  qed
qed

lemma map_of_perm: "distinct (map fst ns) \<Longrightarrow> mset ns' = mset ns \<Longrightarrow> map_of ns' = map_of ns"
  by (metis map_of_eqI mset_eq_setD mset_map set_map mset_eq_imp_distinct_iff map_of_inject_set)

lemma nodes_ok_perm: "nodes_ok h ns \<Longrightarrow> mset ns' = mset ns \<Longrightarrow> nodes_ok h ns'"
  using mset_eq_setD [of ns' ns] mset_eq_imp_distinct_iff [of "map fst ns'" "map fst ns"]
  by (simp add: nodes_ok_def)

lemma backfill_perm:
  assumes "nodes_ok h ns" "mset ns' = mset ns"
  shows "backfill pg h ns' = backfill pg h ns"
  by (intro ext) (unfold backfill_def map_of_perm [OF nodes_okD(1) [OF assms(1)] assms(2)], rule refl)

lemma is_child_perm:
  assumes "nodes_ok h ns" "mset ns' = mset ns"
  shows "is_child pg h ns' = is_child pg h ns"
  using backfill_perm [OF assms] mset_eq_setD [OF assms(2)] by (simp add: is_child_def is_owner_def fun_eq_iff)

text \<open>The heap after the loops: every node has its references filled in.\<close>

definition filled :: "(string \<Rightarrow> string option) \<Rightarrow> 'i heap \<Rightarrow> nodes \<Rightarrow> nat \<Rightarrow> 'i Resource" where
  "filled pg h ns c = (h ! c)\<lparr>OwnerRefs :=
     map (\<lambda>r. case backfill pg h ns c r of None \<Rightarrow> r | Some r' \<Rightarrow> r') (OwnerRefs (h ! c))\<rparr>"

lemma link_nodes_heap:
  assumes "same_refs h h'" "nodes_ok h ns" "set todo \<subseteq> set ns" "distinct (map snd todo)"
    and "\<And>c. c \<in> snd ` set todo \<Longrightarrow> h' ! c = h ! c" "p < length h"
  shows "fst (link_nodes pg ns todo h' g) ! p = (if p \<in> snd ` set todo then filled pg h ns p else h' ! p)"
  using assms(1,3-5)
proof (induction todo arbitrary: h' g)
  case (Cons kc todo)
  obtain k c where kc: "kc = (k, c)" by (cases kc)
  with Cons.prems(2) have c: "c < length h" "c < length h'"
    using nodes_okD(2) [OF assms(2), of k c] same_refs_length [OF Cons.prems(1)] by auto
  obtain refs g' where lr: "link_refs pg h' ns c (OwnerRefs (h' ! c)) g = (refs, g')" by fastforce
  let ?h = "h'[c := (h' ! c)\<lparr>OwnerRefs := refs\<rparr>]"
  have hc: "h' ! c = h ! c" using Cons.prems(4) [of c] kc by simp
  then have refs: "(h' ! c)\<lparr>OwnerRefs := refs\<rparr> = filled pg h ns c"
    using link_refs_fst [of pg h' ns c "OwnerRefs (h' ! c)" g]
    using lr by (simp add: filled_def backfill_same [OF Cons.prems(1) assms(2) c(1)])
  have "same_refs h ?h"
    by (rule same_refs_trans [OF Cons.prems(1) same_refs_update]) (use c in auto)
  moreover have c_notin: "c \<notin> snd ` set todo" using Cons.prems(3) kc by auto
  moreover from c_notin have "?h ! x = h ! x" if "x \<in> snd ` set todo" for x
    using that Cons.prems(4) [of x] by (cases "x = c") auto
  ultimately have "fst (link_nodes pg ns todo ?h g') ! p =
      (if p \<in> snd ` set todo then filled pg h ns p else ?h ! p)"
    using Cons.prems(2,3) by (intro Cons.IH) auto
  then show ?case using c c_notin by (auto simp: kc lr refs)
qed simp

lemma buildGraph_heap:
  assumes "nodes_ok h ns" "p < length h"
  shows "fst (buildGraph pg ns h) ! p = (if p \<in> snd ` set ns then filled pg h ns p else h ! p)"
  unfolding buildGraph_def
  by (rule link_nodes_heap [OF same_refs_refl assms(1) order_refl nodes_ok_distinct [OF assms(1)] refl assms(2)])

lemma buildGraph_length: "nodes_ok h ns \<Longrightarrow> length (fst (buildGraph pg ns h)) = length h"
  by (rule same_refs_length [OF buildGraph_pairs(2)])

lemma buildGraph_heap_perm:
  assumes "nodes_ok h ns" "mset ns' = mset ns"
  shows "fst (buildGraph pg ns' h) = fst (buildGraph pg ns h)"
proof -
  note ok' = nodes_ok_perm [OF assms]
  have "filled pg h ns' = filled pg h ns" by (simp add: filled_def backfill_perm [OF assms] fun_eq_iff)
  then show ?thesis
    using mset_eq_setD [OF assms(2)]
    by (intro nth_equalityI) (simp_all add: buildGraph_heap [OF assms(1)] buildGraph_heap [OF ok']
        buildGraph_length [OF assms(1)] buildGraph_length [OF ok'])
qed

lemma nodes_named_perm: "mset ns' = mset ns \<Longrightarrow> nodes_named ns' = nodes_named ns"
  using mset_eq_setD [of ns' ns] by (simp add: nodes_named_def list_all_iff)

text \<open>
  C27. buildGraph does not depend on the iteration order of the Go map: any permutation of the nodes gives the
  same backfilled references and the same child for every owner and child UID, namely the child with
  the least key among the nodes with that UID that have a reference resolving to the owner.
\<close>

theorem buildGraph_deterministic:
  assumes "nodes_ok h ns" "nodes_named ns" "mset ns' = mset ns"
  shows "fst (buildGraph pg ns' h) = fst (buildGraph pg ns h) \<and>
     map_of (children_of (snd (buildGraph pg ns' h)) k) uid = map_of (children_of (snd (buildGraph pg ns h)) k) uid \<and>
     (map_of (children_of (snd (buildGraph pg ns h)) k) uid = Some c \<longleftrightarrow>
        is_child pg h ns k uid c \<and> (\<forall>c'. is_child pg h ns k uid c' \<longrightarrow> key_le h c c'))"
proof (intro conjI)
  have ok': "nodes_ok h ns'" "nodes_named ns'" using nodes_ok_perm assms nodes_named_perm by metis+
  have "map_of (children_of (snd (buildGraph pg ns' h)) k) uid = Some c \<longleftrightarrow>
      map_of (children_of (snd (buildGraph pg ns h)) k) uid = Some c" for c
    by (simp only: buildGraph_lookup [OF assms(1,2)] buildGraph_lookup [OF ok'] is_child_perm [OF assms(1,3)])
  then show "map_of (children_of (snd (buildGraph pg ns' h)) k) uid = map_of (children_of (snd (buildGraph pg ns h)) k) uid"
    by (metis not_Some_eq)
qed (rule buildGraph_heap_perm [OF assms(1,3)], rule buildGraph_lookup [OF assms(1,2)])

text \<open>Two objects with one UID (the groups apps and extensions) under one owner.\<close>

definition demo_node :: "string \<Rightarrow> string \<Rightarrow> string \<Rightarrow> string list \<Rightarrow> unit Resource" where
  "demo_node g kind uid owners = \<lparr>ResourceVersion = ''1'', Ref = GetObjectRef ((mk_obj g kind ''prod'' ''web'')\<lparr>GetUID := uid\<rparr>),
     OwnerRefs = map (\<lambda>u. \<lparr>ownerAPIVersion = ''apps/v1'', ownerKind = ''Deployment'', ownerName = ''web'', ownerUID = u\<rparr>) owners,
     CreationTimestamp = None, Info = None, Resource = None, isInferredParentOf = None\<rparr>"

definition demo_heap :: "unit heap" where
  "demo_heap = [demo_node ''apps'' ''Deployment'' ''d'' [], demo_node ''extensions'' ''ReplicaSet'' ''r'' [''''],
     demo_node ''apps'' ''ReplicaSet'' ''r'' [''d'']]"

definition demo_nodes :: nodes where
  "demo_nodes = map (\<lambda>p. (node_key demo_heap p, p)) [0, 1, 2]"

lemma buildGraph_deterministic_witness:
  "map_of (children_of (snd (buildGraph (\<lambda>_. Some ''apps'') (rev demo_nodes) demo_heap)) (node_key demo_heap 0)) ''r'' =
     map_of (children_of (snd (buildGraph (\<lambda>_. Some ''apps'') demo_nodes demo_heap)) (node_key demo_heap 0)) ''r'' \<and>
   map_of (children_of (snd (buildGraph (\<lambda>_. Some ''apps'') demo_nodes demo_heap)) (node_key demo_heap 0)) ''r'' = Some 2"
proof -
  have "nodes_ok demo_heap demo_nodes" "nodes_named demo_nodes" unfolding nodes_ok_def by code_simp+
  then have "map_of (children_of (snd (buildGraph (\<lambda>_. Some ''apps'') (rev demo_nodes) demo_heap)) (node_key demo_heap 0)) ''r'' =
      map_of (children_of (snd (buildGraph (\<lambda>_. Some ''apps'') demo_nodes demo_heap)) (node_key demo_heap 0)) ''r''"
    using buildGraph_deterministic [of demo_heap demo_nodes "rev demo_nodes"] by (metis mset_rev)
  then show ?thesis by (rule conjI) code_simp
qed

end
