(* ===== verification/CacheTraversal.thy ===== *)
theory CacheTraversal
  imports CacheGraph
begin

text \<open>
  The traversal of CacheGraph ends, and it visits what is reachable. The locale \<open>traversal\<close> states
  what a relation between traversal states has to satisfy at each step of \<open>iterateChildrenV2\<close>; inside it
  the traversal is shown to return, with fuel as large as the number of nodes not yet visited, a state
  in that relation. It is interpreted twice on the model: with the trivial relation, for every callback
  (termination), and with the relation \<open>explored\<close>, for the callback that never stops (reachability).
\<close>

definition succs :: "'i heap \<Rightarrow> graph \<Rightarrow> ResourceKey \<Rightarrow> ResourceKey set" where
  "succs h g k = node_key h ` snd ` set (children_of g k)"

definition graph_ok :: "'i heap \<Rightarrow> nodes \<Rightarrow> graph \<Rightarrow> bool" where
  "graph_ok h ns g \<longleftrightarrow> nodes_ok h ns \<and> graph_in (snd ` set ns) g"

definition grows :: "visits \<Rightarrow> visits \<Rightarrow> bool" where
  "grows v v' \<longleftrightarrow> (\<forall>k. v k \<noteq> 0 \<longrightarrow> v' k \<noteq> 0)"

definition zeros :: "nodes \<Rightarrow> visits \<Rightarrow> ResourceKey set" where
  "zeros ns v = {k \<in> fst ` set ns. v k = 0}"

lemma grows_refl [simp]: "grows v v"
  by (simp add: grows_def)

lemma grows_trans: "grows v v' \<Longrightarrow> grows v' v'' \<Longrightarrow> grows v v''"
  by (simp add: grows_def)

lemma zeros_finite [simp]: "finite (zeros ns v)"
  by (simp add: zeros_def)

lemma zeros_grows: "grows v v' \<Longrightarrow> card (zeros ns v') \<le> card (zeros ns v)"
  by (rule card_mono) (auto simp: zeros_def grows_def)

lemma zeros_mark: "k \<in> fst ` set ns \<Longrightarrow> v k = 0 \<Longrightarrow> Suc (card (zeros ns (v(k := 1)))) = card (zeros ns v)"
proof -
  assume "k \<in> fst ` set ns" "v k = 0"
  then have "k \<in> zeros ns v" "zeros ns (v(k := 1)) = zeros ns v - {k}" by (auto simp: zeros_def)
  then show ?thesis by (metis card_Suc_Diff1 zeros_finite)
qed

lemma nodes_ok_key: "nodes_ok h ns \<Longrightarrow> p \<in> snd ` set ns \<Longrightarrow> node_key h p \<in> fst ` set ns"
  by (force simp: nodes_ok_def)

lemma iterate_unvisited:
  "v (node_key h r) \<noteq> 2 \<Longrightarrow>
   iterateChildrenV2 (Suc fuel) h g ns act r (v, st) =
     (case visit_children (iterateChildrenV2 fuel h g ns act) h ns act (node_key h r)
            (children_of g (node_key h r)) (v(node_key h r := 1), st) of
        None \<Rightarrow> None | Some (v', st') \<Rightarrow> Some (v'(node_key h r := 2), st'))"
  by (simp add: children_of_def Let_def split: option.split)

lemma graph_ok_lookup: "graph_ok h ns g \<Longrightarrow> c \<in> snd ` set ns \<Longrightarrow> map_of ns (node_key h c) = Some c"
  by (simp add: graph_ok_def nodes_ok_lookup)

lemma graph_ok_key: "graph_ok h ns g \<Longrightarrow> p \<in> snd ` set ns \<Longrightarrow> node_key h p \<in> fst ` set ns"
  by (simp add: graph_ok_def nodes_ok_key)

lemma graph_ok_children: "graph_ok h ns g \<Longrightarrow> snd ` set (children_of g k) \<subseteq> snd ` set ns"
  by (simp add: graph_ok_def graph_in_def)

locale traversal =
  fixes h :: "'i heap" and g :: graph and ns :: nodes and act :: "'s action"
    and R :: "ResourceKey set" and Rel :: "visits \<times> 's \<Rightarrow> visits \<times> 's \<Rightarrow> bool"
  assumes closed: "k \<in> R \<Longrightarrow> succs h g k \<subseteq> R"
    and rel_refl: "Rel s s"
    and rel_trans: "Rel s s' \<Longrightarrow> Rel s' s'' \<Longrightarrow> Rel s s''"
    and rel_circular: "Rel (v, st) (v, snd (act (Some e) child st))"
    and rel_stop: "act None child st = (False, st') \<Longrightarrow> Rel (v, st) (v, st')"
    and rel_visit: "graph_ok h ns g \<Longrightarrow> node_key h p \<in> R \<Longrightarrow> p \<in> snd ` set ns \<Longrightarrow> v (node_key h p) = 0 \<Longrightarrow> act None (Some p) st = (True, st1) \<Longrightarrow>
      Rel (v(node_key h p := 1), st1) (v2, st2) \<Longrightarrow> grows (v(node_key h p := 1)) v2 \<Longrightarrow>
      ((\<And>c st. fst (act None c st)) \<Longrightarrow> \<forall>k\<in>succs h g (node_key h p). v2 k \<noteq> 0) \<Longrightarrow>
      Rel (v, st) (v2(node_key h p := 2), st2)"
begin

definition returns :: "nat \<Rightarrow> bool" where
  "returns n \<longleftrightarrow> (\<forall>p v st st1. node_key h p \<in> R \<longrightarrow> p \<in> snd ` set ns \<longrightarrow> v (node_key h p) = 0 \<longrightarrow> card (zeros ns v) \<le> n \<longrightarrow>
     act None (Some p) st = (True, st1) \<longrightarrow>
     (\<exists>v2 st2. iterateChildrenV2 n h g ns act p (v, st1) = Some (v2, st2) \<and> grows v v2 \<and>
        v2 (node_key h p) \<noteq> 0 \<and> Rel (v, st) (v2, st2)))"

lemma returnsD:
  assumes "returns n" "node_key h p \<in> R" "p \<in> snd ` set ns" "v (node_key h p) = 0" "card (zeros ns v) \<le> n" "act None (Some p) st = (True, st1)"
  obtains v2 st2 where "iterateChildrenV2 n h g ns act p (v, st1) = Some (v2, st2)" "grows v v2"
    "v2 (node_key h p) \<noteq> 0" "Rel (v, st) (v2, st2)"
  using assms unfolding returns_def by blast

lemma visit_children_returns:
  assumes "returns n" "node_key h ` snd ` set cs \<subseteq> R" "snd ` set cs \<subseteq> snd ` set ns" "card (zeros ns v) \<le> n"
    and wf: "graph_ok h ns g"
  shows "\<exists>v2 st2. visit_children (iterateChildrenV2 n h g ns act) h ns act key cs (v, st) = Some (v2, st2) \<and>
     grows v v2 \<and> Rel (v, st) (v2, st2) \<and>
     ((\<forall>c st. fst (act None c st)) \<longrightarrow> (\<forall>c\<in>snd ` set cs. v2 (node_key h c) \<noteq> 0))"
  using assms(2,3,4)
proof (induction cs arbitrary: v st)
  case (Cons uc cs)
  obtain u c where uc: "uc = (u, c)" by (cases uc)
  with Cons.prems(1,2) have R: "node_key h c \<in> R" "node_key h ` snd ` set cs \<subseteq> R"
    and c: "c \<in> snd ` set ns" "snd ` set cs \<subseteq> snd ` set ns" by auto
  have step: ?case if "grows v v1" "Rel (v, st) (v1, st1)"
    "visit_children (iterateChildrenV2 n h g ns act) h ns act key (uc # cs) (v, st) =
       visit_children (iterateChildrenV2 n h g ns act) h ns act key cs (v1, st1)"
    "(\<forall>c st. fst (act None c st)) \<longrightarrow> v1 (node_key h c) \<noteq> 0" for v1 st1
  proof -
    from zeros_grows [OF that(1), of ns] Cons.prems(3) have "card (zeros ns v1) \<le> n" by simp
    from Cons.IH [OF R(2) c(2) this, of st1] obtain v2 st2 where
      "visit_children (iterateChildrenV2 n h g ns act) h ns act key cs (v1, st1) = Some (v2, st2)"
      "grows v1 v2" "Rel (v1, st1) (v2, st2)"
      "(\<forall>c st. fst (act None c st)) \<longrightarrow> (\<forall>c\<in>snd ` set cs. v2 (node_key h c) \<noteq> 0)" by blast
    with that show ?thesis
      using rel_trans grows_trans by (auto simp: uc grows_def)
  qed
  consider "v (node_key h c) = 1" | "v (node_key h c) = 0" | "v (node_key h c) \<noteq> 0" "v (node_key h c) \<noteq> 1" by blast
  then show ?case
  proof cases
    case 1
    then show ?thesis
      by (intro step [OF grows_refl rel_circular [of v st "circular_error (node_key h c) key" "Some c"]])
        (simp_all add: uc graph_ok_lookup [OF wf] c Let_def)
  next
    case 2
    show ?thesis
    proof (cases "act None (Some c) st")
      case (Pair b st1)
      show ?thesis
      proof (cases b)
        case True
        with Pair have "act None (Some c) st = (True, st1)" by simp
        from returnsD [OF assms(1) R(1) c(1) 2 Cons.prems(3) this] obtain v1 st2 where
          "iterateChildrenV2 n h g ns act c (v, st1) = Some (v1, st2)" "grows v v1"
          "v1 (node_key h c) \<noteq> 0" "Rel (v, st) (v1, st2)" .
        with True Pair 2 c show ?thesis
          by (intro step [of v1 st2]) (simp_all add: uc graph_ok_lookup [OF wf] Let_def)
      next
        case False
        with Pair 2 c show ?thesis
          by (intro step [OF grows_refl rel_stop [of "Some c" st st1]])
            (auto simp: uc graph_ok_lookup [OF wf] Let_def intro!: exI [of _ "Some c"] exI [of _ st])
      qed
    qed
  next
    case 3
    then show ?thesis by (intro step [OF grows_refl rel_refl]) (simp_all add: uc Let_def)
  qed
qed (simp add: rel_refl)

lemma iterate_returns:
  assumes wf: "graph_ok h ns g"
  shows "returns n"
proof (induction n)
  case 0
  show ?case
    unfolding returns_def
  proof (intro allI impI)
    fix p and v :: visits assume "p \<in> snd ` set ns" "v (node_key h p) = 0" "card (zeros ns v) \<le> 0"
    then have "node_key h p \<in> zeros ns v" "zeros ns v = {}"
      using graph_ok_key [OF wf] by (simp_all add: zeros_def)
    then show "\<exists>v2 st2. iterateChildrenV2 0 h g ns act p (v, st1) = Some (v2, st2) \<and> grows v v2 \<and>
        v2 (node_key h p) \<noteq> 0 \<and> Rel (v, st) (v2, st2)" for st st1 by simp
  qed
next
  case (Suc n)
  show ?case
    unfolding returns_def
  proof (intro allI impI)
    fix p v st st1
    assume R: "node_key h p \<in> R" and p: "p \<in> snd ` set ns" "v (node_key h p) = 0" and fuel: "card (zeros ns v) \<le> Suc n"
      and act: "act None (Some p) st = (True, st1)"
    let ?k = "node_key h p"
    have "?k \<in> fst ` set ns" by (rule graph_ok_key [OF wf p(1)])
    then have card: "card (zeros ns (v(?k := 1))) \<le> n" using zeros_mark [of ?k ns v] p(2) fuel by simp
    have "node_key h ` snd ` set (children_of g ?k) \<subseteq> R" using closed [OF R] by (simp add: succs_def)
    from visit_children_returns [OF Suc this graph_ok_children [OF wf, of ?k] card wf, of ?k st1] obtain v2 st2 where v2:
      "visit_children (iterateChildrenV2 n h g ns act) h ns act ?k (children_of g ?k) (v(?k := 1), st1) = Some (v2, st2)"
      "grows (v(?k := 1)) v2" "Rel (v(?k := 1), st1) (v2, st2)"
      "(\<forall>c st. fst (act None c st)) \<longrightarrow> (\<forall>c\<in>snd ` set (children_of g ?k). v2 (node_key h c) \<noteq> 0)"
      by blast
    have "Rel (v, st) (v2(?k := 2), st2)"
    proof (rule rel_visit [OF wf R p act v2(3) v2(2)])
      assume "\<And>c st. fst (act None c st)"
      with v2(4) show "\<forall>k\<in>succs h g ?k. v2 k \<noteq> 0" by (simp add: succs_def)
    qed
    moreover have "iterateChildrenV2 (Suc n) h g ns act p (v, st1) = Some (v2(?k := 2), st2)"
      using p(2) v2(1) by (simp add: iterate_unvisited del: iterateChildrenV2.simps)
    moreover have "grows v (v2(?k := 2))" using v2(2) by (auto simp: grows_def)
    ultimately show "\<exists>v2 st2. iterateChildrenV2 (Suc n) h g ns act p (v, st1) = Some (v2, st2) \<and> grows v v2 \<and>
        v2 ?k \<noteq> 0 \<and> Rel (v, st) (v2, st2)" by fastforce
  qed
qed

lemma children_return:
  assumes "graph_ok h ns g" "node_key h ` snd ` set cs \<subseteq> R" "snd ` set cs \<subseteq> snd ` set ns"
    "card (zeros ns v) \<le> n"
  obtains v2 st2 where "visit_children (iterateChildrenV2 n h g ns act) h ns act key cs (v, st) = Some (v2, st2)"
    "grows v v2" "Rel (v, st) (v2, st2)"
    "(\<forall>c st. fst (act None c st)) \<longrightarrow> (\<forall>c\<in>snd ` set cs. v2 (node_key h c) \<noteq> 0)"
  using visit_children_returns [OF iterate_returns [OF assms(1)] assms(2-4,1), of key st] by blast

end

section \<open>Termination, for every callback\<close>

interpretation any_callback: traversal h g ns act UNIV "\<lambda>_ _. True" for h g ns act
  by unfold_locales auto

lemma child_action_simps [simp]:
  "child_action action ns None child st = action child ns st"
  "child_action action ns (Some e) child st = (False, st)"
  by (simp_all add: child_action_def)

lemma top_children:
  assumes "graph_ok h ns g" "snd ` set cs \<subseteq> snd ` set ns"
  shows "visit_top_children fuel h g ns action cs s =
    visit_children (iterateChildrenV2 fuel h g ns (child_action action ns)) h ns (child_action action ns) key cs s"
  using assms(2)
proof (induction cs arbitrary: s)
  case (Cons uc cs)
  obtain u c v st where "uc = (u, c)" "s = (v, st)" by (cases uc; cases s)
  moreover from this Cons.prems have "map_of ns (node_key h c) = Some c"
    by (intro graph_ok_lookup [OF assms(1)]) auto
  ultimately show ?case
    using Cons by (simp add: Let_def split: prod.split bool.split option.split)
qed simp

lemma roots_return:
  assumes "graph_ok h ns g" "length ns < fuel"
  shows "\<exists>s'. visit_roots fuel h g ns resources action keys s = Some s'"
proof (induction keys arbitrary: s)
  case (Cons key keys)
  obtain v st where s: "s = (v, st)" by (cases s)
  obtain b st1 where a: "action (resources key) ns st = (b, st1)" by fastforce
  have "card (zeros ns (v(key := 1))) \<le> card (set ns)"
    by (rule order_trans [OF card_mono card_image_le]) (auto simp: zeros_def)
  then have "card (zeros ns (v(key := 1))) \<le> fuel" using assms(2) card_length [of ns] by linarith
  from any_callback.children_return [OF assms(1) subset_UNIV graph_ok_children [OF assms(1)] this]
  obtain v2 st2 where "visit_top_children fuel h g ns action (children_of g key) (v(key := 1), st1) = Some (v2, st2)"
    unfolding top_children [OF assms(1) graph_ok_children [OF assms(1)], of fuel action key _ key] by metis
  then show ?case using Cons.IH a by (cases b) (simp_all add: s)
qed simp

lemma graph_in_pairs:
  assumes "graph_in P g" "\<forall>(p, c)\<in>set pairs. c \<in> P"
  shows "graph_in P (foldl (add_pair h) g pairs)"
  using assms
proof (induction pairs arbitrary: g)
  case (Cons pc pairs)
  then have "graph_in P (add_pair h g pc)" by (simp add: add_pair_def graph_in_add split_beta)
  with Cons show ?case by simp
qed simp

lemma buildGraph_ok:
  assumes "nodes_ok h ns"
  shows "graph_ok (fst (buildGraph pg ns h)) ns (snd (buildGraph pg ns h))"
proof -
  have "graph_in (snd ` set ns) (foldl (add_pair h) [] (owner_pairs pg h ns ns))"
    by (rule graph_in_pairs [OF graph_in_Nil]) (use owner_pairs_iff [of _ _ pg h ns] in \<open>auto simp: is_owner_def\<close>)
  then show ?thesis
    by (simp add: graph_ok_def nodes_ok_same [OF buildGraph_pairs(2) assms] assms buildGraph_pairs(1))
qed

lemma namespaces_return:
  assumes "\<And>n. nodes_ok h (nsIndex n)"
  shows "\<exists>s'. iterate_namespaces pg resources nsIndex action groups (h, st) = Some s'"
  using assms
proof (induction groups arbitrary: h st)
  case (Cons nk groups)
  obtain n keys where nk: "nk = (n, keys)" by (cases nk)
  obtain h' g where hg: "buildGraph pg (nsIndex n) h = (h', g)" by fastforce
  with buildGraph_ok [OF Cons.prems [of n], of pg] have "graph_ok h' (nsIndex n) g" by simp
  from roots_return [OF this lessI] obtain v st' where
    "visit_roots (Suc (length (nsIndex n))) h' g (nsIndex n) resources action keys (\<lambda>_. 0, st) = Some (v, st')"
    by fastforce
  moreover have "same_refs h h'" using buildGraph_pairs(2) [OF Cons.prems, of pg n] hg by simp
  then have "nodes_ok h' (nsIndex m)" for m by (rule nodes_ok_same [OF _ Cons.prems])
  ultimately show ?case using Cons.IH [of h' st'] by (simp add: nk hg Let_def)
qed simp

section \<open>Reachability\<close>

text \<open>
  The callback that never stops and records the resources it is given. \<open>explored\<close> relates two states
  of its traversal: what is visited in between stays within a given closed set, has its successors visited,
  and is recorded once.
\<close>

definition record_all :: "nat option list callback" where
  "record_all child nsNodes st = (True, st @ [child])"

definition fresh_visits :: "visits \<Rightarrow> visits \<Rightarrow> ResourceKey set" where
  "fresh_visits v v' = {k. v k = 0 \<and> v' k \<noteq> 0}"

definition explored ::
  "'i heap \<Rightarrow> graph \<Rightarrow> nodes \<Rightarrow> ResourceKey set \<Rightarrow> visits \<times> nat option list \<Rightarrow> visits \<times> nat option list \<Rightarrow> bool" where
  "explored h g ns R s s' \<longleftrightarrow>
     (\<forall>k. fst s k \<noteq> 0 \<longrightarrow> fst s' k = fst s k) \<and>
     (\<forall>k\<in>fresh_visits (fst s) (fst s'). fst s' k = 2) \<and>
     (\<forall>k\<in>fresh_visits (fst s) (fst s'). \<forall>k'\<in>succs h g k. fst s' k' \<noteq> 0) \<and>
     fresh_visits (fst s) (fst s') \<subseteq> R \<and>
     (\<exists>L. snd s' = snd s @ map Some L \<and> set L \<subseteq> snd ` set ns \<and> distinct (map (node_key h) L) \<and>
        node_key h ` set L = fresh_visits (fst s) (fst s'))"

lemma fresh_visits_refl [simp]: "fresh_visits v v = {}"
  by (auto simp: fresh_visits_def)

lemma exploredI:
  assumes "\<And>k. v k \<noteq> 0 \<Longrightarrow> v' k = v k" "\<And>k. k \<in> fresh_visits v v' \<Longrightarrow> v' k = 2"
    "\<And>k k'. k \<in> fresh_visits v v' \<Longrightarrow> k' \<in> succs h g k \<Longrightarrow> v' k' \<noteq> 0" "fresh_visits v v' \<subseteq> R"
    "st' = st @ map Some L" "set L \<subseteq> snd ` set ns" "distinct (map (node_key h) L)"
    "node_key h ` set L = fresh_visits v v'"
  shows "explored h g ns R (v, st) (v', st')"
  unfolding explored_def fst_conv snd_conv by (intro conjI allI impI ballI exI [of _ L] assms)

lemma exploredD:
  assumes "explored h g ns R (v, st) (v', st')"
  shows "v k \<noteq> 0 \<Longrightarrow> v' k = v k" and "k \<in> fresh_visits v v' \<Longrightarrow> v' k = 2"
    and "k \<in> fresh_visits v v' \<Longrightarrow> k' \<in> succs h g k \<Longrightarrow> v' k' \<noteq> 0" and "fresh_visits v v' \<subseteq> R"
    and "\<exists>L. st' = st @ map Some L \<and> set L \<subseteq> snd ` set ns \<and> distinct (map (node_key h) L) \<and> node_key h ` set L = fresh_visits v v'"
  using assms unfolding explored_def fst_conv snd_conv by blast+

lemma explored_refl: "explored h g ns R s s"
proof -
  obtain v st where s: "s = (v, st)" by (cases s)
  show ?thesis unfolding s by (rule exploredI [where L = "[]"]) simp_all
qed

lemma explored_grows: "explored h g ns R (v, st) (v', st') \<Longrightarrow> grows v v'"
  by (simp add: grows_def exploredD(1))

lemma fresh_visits_split:
  assumes "grows v v1" "grows v1 v2"
  shows "fresh_visits v v2 = fresh_visits v v1 \<union> fresh_visits v1 v2" "fresh_visits v v1 \<inter> fresh_visits v1 v2 = {}"
  using assms by (auto simp: fresh_visits_def grows_def)

lemma explored_trans:
  assumes "explored h g ns R s s'" "explored h g ns R s' s''"
  shows "explored h g ns R s s''"
proof -
  obtain v st where s: "s = (v, st)" by (cases s)
  obtain v1 st1 where s1: "s' = (v1, st1)" by (cases s')
  obtain v2 st2 where s2: "s'' = (v2, st2)" by (cases s'')
  note a = assms(1) [unfolded s s1] and b = assms(2) [unfolded s1 s2]
  from exploredD(5) [OF a] obtain L where L: "st1 = st @ map Some L" "set L \<subseteq> snd ` set ns" "distinct (map (node_key h) L)"
    "node_key h ` set L = fresh_visits v v1" by blast
  from exploredD(5) [OF b] obtain M where M: "st2 = st1 @ map Some M" "set M \<subseteq> snd ` set ns" "distinct (map (node_key h) M)"
    "node_key h ` set M = fresh_visits v1 v2" by blast
  note split = fresh_visits_split [OF explored_grows [OF a] explored_grows [OF b]]
  show ?thesis
    unfolding s s2
  proof (rule exploredI [where L = "L @ M"])
    show "v2 k = v k" if "v k \<noteq> 0" for k
      using exploredD(1) [OF a that] exploredD(1) [OF b, of k] that by simp
    show "v2 k = 2" if "k \<in> fresh_visits v v2" for k
    proof (cases "k \<in> fresh_visits v v1")
      case True
      with exploredD(2) [OF a this] exploredD(1) [OF b, of k] show ?thesis by simp
    next
      case False
      with that split show ?thesis by (intro exploredD(2) [OF b]) simp
    qed
    show "v2 k' \<noteq> 0" if "k \<in> fresh_visits v v2" "k' \<in> succs h g k" for k k'
    proof (cases "k \<in> fresh_visits v v1")
      case True
      with exploredD(3) [OF a this that(2)] exploredD(1) [OF b, of k'] show ?thesis by simp
    next
      case False
      with that split show ?thesis by (intro exploredD(3) [OF b _ that(2)]) simp
    qed
    show "fresh_visits v v2 \<subseteq> R" using exploredD(4) [OF a] exploredD(4) [OF b] split(1) by simp
    show "distinct (map (node_key h) (L @ M))" using L M split(2) by simp
  qed (use L M split(1) in \<open>simp_all add: image_Un\<close>)
qed

text \<open>Visiting one more node: it is recorded, its subtree explored, and it is marked as finished.\<close>

lemma explored_visit:
  assumes closed: "\<And>k. k \<in> R \<Longrightarrow> succs h g k \<subseteq> R" and key: "node_key h p \<in> R" "v (node_key h p) = 0"
    and sub: "explored h g ns R (v(node_key h p := 1), st @ [Some p]) (v2, st2)"
    and succ: "\<forall>k\<in>succs h g (node_key h p). v2 k \<noteq> 0" and node: "p \<in> snd ` set ns"
  shows "explored h g ns R (v, st) (v2(node_key h p := 2), st2)"
proof -
  let ?k = "node_key h p"
  let ?v2 = "v2(?k := 2)"
  from exploredD(5) [OF sub] obtain L where L: "st2 = (st @ [Some p]) @ map Some L" "set L \<subseteq> snd ` set ns" "distinct (map (node_key h) L)"
    "node_key h ` set L = fresh_visits (v(?k := 1)) v2" by blast
  have fresh: "fresh_visits v ?v2 = insert ?k (fresh_visits (v(?k := 1)) v2)" "?k \<notin> fresh_visits (v(?k := 1)) v2"
    using key(2) by (auto simp: fresh_visits_def split: if_splits)
  show ?thesis
  proof (rule exploredI [where L = "p # L"])
    show "?v2 k = v k" if "v k \<noteq> 0" for k
      using exploredD(1) [OF sub, of k] that key(2) by (cases "k = ?k") simp_all
    show "?v2 k = 2" if "k \<in> fresh_visits v ?v2" for k
      using exploredD(2) [OF sub, of k] that fresh(1) by (cases "k = ?k") simp_all
    show "?v2 k' \<noteq> 0" if "k \<in> fresh_visits v ?v2" "k' \<in> succs h g k" for k k'
    proof (cases "k = ?k")
      case True
      with succ that(2) show ?thesis by simp
    next
      case False
      with that fresh(1) exploredD(3) [OF sub, of k k'] show ?thesis by simp
    qed
    show "fresh_visits v ?v2 \<subseteq> R" using exploredD(4) [OF sub] key(1) fresh(1) by simp
    show "distinct (map (node_key h) (p # L))" using L fresh(2) by auto
  qed (use L fresh(1) node in simp_all)
qed

definition owner_edges :: "'i heap \<Rightarrow> graph \<Rightarrow> (ResourceKey \<times> ResourceKey) set" where
  "owner_edges h g = {(k, k'). k' \<in> succs h g k}"

definition reachable_keys :: "'i heap \<Rightarrow> graph \<Rightarrow> ResourceKey set \<Rightarrow> ResourceKey set" where
  "reachable_keys h g K = (owner_edges h g)\<^sup>* `` K"

lemma reachable_closed: "k \<in> reachable_keys h g K \<Longrightarrow> succs h g k \<subseteq> reachable_keys h g K"
  by (auto simp: reachable_keys_def owner_edges_def intro: rtrancl_into_rtrancl)

lemma reachable_base: "K \<subseteq> reachable_keys h g K"
  by (auto simp: reachable_keys_def)

lemma reachable_least:
  assumes "K \<subseteq> S" "\<And>k k'. k \<in> S \<Longrightarrow> k' \<in> succs h g k \<Longrightarrow> k' \<in> S"
  shows "reachable_keys h g K \<subseteq> S"
proof
  fix k assume "k \<in> reachable_keys h g K"
  then obtain k0 where "k0 \<in> S" "(k0, k) \<in> (owner_edges h g)\<^sup>*" using assms(1) by (auto simp: reachable_keys_def)
  from this(2,1) show "k \<in> S" by induction (use assms(2) in \<open>auto simp: owner_edges_def\<close>)
qed

interpretation recording: traversal h g ns "child_action record_all ns" "reachable_keys h g K"
  "explored h g ns (reachable_keys h g K)" for h g ns K
proof unfold_locales
  fix p v st st1 v2 st2
  assume "node_key h p \<in> reachable_keys h g K" "p \<in> snd ` set ns" "v (node_key h p) = 0"
    "child_action record_all ns None (Some p) st = (True, st1)"
    "explored h g ns (reachable_keys h g K) (v(node_key h p := 1), st1) (v2, st2)"
    "(\<And>c st. fst (child_action record_all ns None c st)) \<Longrightarrow> \<forall>k\<in>succs h g (node_key h p). v2 k \<noteq> 0"
  then show "explored h g ns (reachable_keys h g K) (v, st) (v2(node_key h p := 2), st2)"
    by (intro explored_visit reachable_closed) (auto simp: record_all_def)
qed (auto simp: reachable_closed [THEN subsetD] explored_refl record_all_def intro: explored_trans)

text \<open>The loop over the roots: each root is recorded once and everything below it is explored.\<close>

lemma roots_explored:
  assumes ok: "graph_ok h ns g" and fuel: "length ns < fuel"
    and "set keys \<subseteq> reachable_keys h g K" "\<And>key. key \<in> set keys \<Longrightarrow> \<exists>p. resources key = Some p \<and> (key, p) \<in> set ns"
    and "\<And>k. v k \<noteq> 0 \<Longrightarrow> v k = 2"
  shows "\<exists>v' st'. visit_roots fuel h g ns resources record_all keys (v, st) = Some (v', st') \<and>
     explored h g ns (reachable_keys h g K) (v, st) (v', st') \<and> (\<forall>key\<in>set keys. v' key \<noteq> 0)"
  using assms(3-5)
proof (induction keys arbitrary: v st)
  case (Cons key keys)
  let ?R = "reachable_keys h g K"
  have keys: "set keys \<subseteq> ?R" "\<And>key. key \<in> set keys \<Longrightarrow> \<exists>p. resources key = Some p \<and> (key, p) \<in> set ns"
    using Cons.prems by auto
  have step: ?case if "explored h g ns ?R (v, st) (v1, st1)" "v1 key \<noteq> 0"
    "visit_roots fuel h g ns resources record_all (key # keys) (v, st) =
       visit_roots fuel h g ns resources record_all keys (v1, st1)" for v1 st1
  proof -
    have two: "v1 k = 2" if "v1 k \<noteq> 0" for k
    proof (cases "v k = 0")
      case True
      with that show ?thesis
        by (intro exploredD(2) [OF \<open>explored h g ns ?R (v, st) (v1, st1)\<close>]) (simp add: fresh_visits_def)
    qed (use exploredD(1) [OF \<open>explored h g ns ?R (v, st) (v1, st1)\<close>] Cons.prems(3) in simp)
    have "\<exists>v' st'. visit_roots fuel h g ns resources record_all keys (v1, st1) = Some (v', st') \<and>
        explored h g ns ?R (v1, st1) (v', st') \<and> (\<forall>key\<in>set keys. v' key \<noteq> 0)"
      by (rule Cons.IH) (use keys two in simp_all)
    then obtain v2 st2 where
      v2: "visit_roots fuel h g ns resources record_all keys (v1, st1) = Some (v2, st2)"
      "explored h g ns ?R (v1, st1) (v2, st2)" "\<forall>key\<in>set keys. v2 key \<noteq> 0" by blast
    moreover have "v2 key \<noteq> 0" using exploredD(1) [OF v2(2) that(2)] that(2) by simp
    ultimately show ?thesis using that(3) explored_trans [OF that(1) v2(2)] by auto
  qed
  show ?case
  proof (cases "v key = 0")
    case True
    from Cons.prems(2) [of key] obtain p where p: "resources key = Some p" "(key, p) \<in> set ns" by auto
    then have pk: "node_key h p = key" using ok by (auto simp: graph_ok_def dest: nodes_okD(3))
    have keyR: "key \<in> ?R" using Cons.prems(1) by simp
    have "card (zeros ns (v(key := 1))) \<le> card (set ns)"
      by (rule order_trans [OF card_mono card_image_le]) (auto simp: zeros_def)
    then have card: "card (zeros ns (v(key := 1))) \<le> fuel" using fuel card_length [of ns] by linarith
    have "node_key h ` snd ` set (children_of g key) \<subseteq> ?R" using reachable_closed [OF keyR] by (simp add: succs_def)
    from recording.children_return [OF ok this graph_ok_children [OF ok] card, of key "st @ [Some p]"]
    obtain v2 st2 where v2: "visit_children (iterateChildrenV2 fuel h g ns (child_action record_all ns)) h ns
        (child_action record_all ns) key (children_of g key) (v(key := 1), st @ [Some p]) = Some (v2, st2)"
      "grows (v(key := 1)) v2" "explored h g ns ?R (v(key := 1), st @ [Some p]) (v2, st2)"
      "(\<forall>c st. fst (child_action record_all ns None c st)) \<longrightarrow>
         (\<forall>c\<in>snd ` set (children_of g key). v2 (node_key h c) \<noteq> 0)" .
    from v2(4) have "\<forall>k\<in>succs h g key. v2 k \<noteq> 0" by (simp add: record_all_def succs_def)
    note succ = this
    have "explored h g ns ?R (v, st) (v2(key := 2), st2)"
      by (rule explored_visit [where p = p and h = h, unfolded pk, OF _ keyR True v2(3) succ]) (rule reachable_closed, assumption, use p in force)
    moreover have "visit_top_children fuel h g ns record_all (children_of g key) (v(key := 1), st @ [Some p]) = Some (v2, st2)"
      using v2(1) by (simp add: top_children [OF ok graph_ok_children [OF ok], of _ _ _ _ key])
    ultimately show ?thesis
      by (intro step [of "v2(key := 2)" st2]) (use True p in \<open>simp_all add: record_all_def\<close>)
  next
    case False
    then show ?thesis by (intro step [OF explored_refl]) (use Cons.prems(3) [of key] in simp_all)
  qed
qed (simp add: explored_refl)

lemma roots_reachable:
  assumes ok: "graph_ok h ns g" and "length ns < fuel"
    and "\<And>key. key \<in> set keys \<Longrightarrow> \<exists>p. resources key = Some p \<and> (key, p) \<in> set ns"
  shows "\<exists>v L. visit_roots fuel h g ns resources record_all keys (\<lambda>_. 0, st) = Some (v, st @ map Some L) \<and>
     set L \<subseteq> snd ` set ns \<and> distinct (map (node_key h) L) \<and> node_key h ` set L = reachable_keys h g (set keys)"
proof -
  let ?R = "reachable_keys h g (set keys)"
  from roots_explored [where keys = keys and K = "set keys" and v = "\<lambda>_. 0" and st = st, OF assms(1,2) reachable_base assms(3)]
  obtain v st' where
    v: "visit_roots fuel h g ns resources record_all keys (\<lambda>_. 0, st) = Some (v, st')"
      "explored h g ns ?R (\<lambda>_. 0, st) (v, st')" "\<forall>key\<in>set keys. v key \<noteq> 0" by auto
  have fresh: "fresh_visits (\<lambda>_. 0) v = {k. v k \<noteq> 0}" by (simp add: fresh_visits_def)
  have "?R \<subseteq> {k. v k \<noteq> 0}"
    using v(3) exploredD(3) [OF v(2)] by (intro reachable_least) (auto simp: fresh)
  with exploredD(4) [OF v(2)] fresh have "fresh_visits (\<lambda>_. 0) v = ?R" by simp
  with exploredD(5) [OF v(2)] v(1) show ?thesis by metis
qed

end
