(* ===== verification/CacheState.thy ===== *)
theory CacheState
  imports CacheTraversal
begin

text \<open>
  The state of the cluster cache (\<open>clusterCache\<close> of \<open>pkg/cache/cluster.go\<close>), its settings
  (\<open>settings.go\<close>), the registration of handlers, the list of API resources and the read operations.

  \<open>cc_resources\<close> and \<open>cc_nsIndex\<close> share the resources by pointer, as in the source; \<open>cc_heap\<close> is the
  memory they point into. A handler is a client's function: the cache stores its identity, and what it
  is called with goes to the log \<open>cc_calls\<close>. A watch is the identity of its context; \<open>cc_watches\<close> lists
  the watches that were started and \<open>cc_cancelled\<close> the contexts that were cancelled. Times and durations
  are nanoseconds. Locks and the logger are left out: each operation below is one that
  the source runs under the lock of the cache, so it is one step.
\<close>

section \<open>Types\<close>

record GroupVersionResource =
  gvrGroup :: string
  gvrVersion :: string
  gvrResource :: string

record APIResourceInfo =
  infoGroupKind :: GroupKind
  infoGVR :: GroupVersionResource
  infoMeta :: APIResource

datatype WatchEvent = Added | Modified_event | Deleted

record eventMeta =
  ev_event :: WatchEvent
  ev_un :: unstructured

record apiMeta =
  am_namespaced :: bool
  am_watch :: nat

datatype handler_call =
    ResourceUpdated (handler_id: nat) (newRes: "nat option") (oldRes: "nat option") (nsResources: nodes)
  | EventSeen (handler_id: nat) WatchEvent unstructured
  | EventsProcessed (handler_id: nat) nat

definition RespectRbacDisabled :: int where "RespectRbacDisabled = 0"
definition RespectRbacNormal :: int where "RespectRbacNormal = 1"
definition RespectRbacStrict :: int where "RespectRbacStrict = 2"

record 'i clusterCache =
  cc_heap :: "'i heap"
  cc_resources :: nodes
  cc_nsIndex :: "(string \<times> nodes) list"
  cc_syncTime :: "int option"
  cc_syncError :: "go_error option"
  cc_resyncTimeout :: int
  cc_apisMeta :: "(GroupKind \<times> apiMeta) list option"
  cc_namespacedResources :: "(GroupKind \<times> bool) list"
  cc_apiResources :: "APIResourceInfo list"
  cc_serverVersion :: string
  cc_openAPISchema :: string
  cc_gvkParser :: "string option"
  cc_batchEventsProcessing :: bool
  cc_eventMetaCh :: "eventMeta list option"
  cc_watchResyncTimeout :: int
  cc_clusterSyncRetryTimeout :: int
  cc_eventProcessingInterval :: int
  cc_listPageSize :: int
  cc_listPageBufferSize :: int
  cc_listSemaphore :: int
  cc_listRetryLimit :: int
  cc_listRetryUseBackoff :: bool
  cc_listRetryFunc :: "go_error \<Rightarrow> bool"
  cc_host :: string
  cc_namespaces :: "string list"
  cc_clusterResources :: bool
  cc_excluded :: "string \<Rightarrow> string \<Rightarrow> string \<Rightarrow> bool"
  cc_respectRBAC :: int
  cc_populateResourceInfo :: "(unstructured \<Rightarrow> bool \<Rightarrow> 'i option \<times> bool) option"
  cc_handlerKey :: nat
  cc_resourceUpdatedHandlers :: "(nat \<times> nat) list"
  cc_eventHandlers :: "(nat \<times> nat) list"
  cc_processEventsHandlers :: "(nat \<times> nat) list"
  cc_calls :: "handler_call list"
  cc_nextWatch :: nat
  cc_cancelled :: "nat list"
  cc_watches :: "(nat \<times> APIResourceInfo \<times> string \<times> string) list"

abbreviation "second \<equiv> (1000000000 :: int)"

section \<open>Construction and settings\<close>

definition ListRetryFuncNever :: "go_error \<Rightarrow> bool" where
  "ListRetryFuncNever _ = False"

definition ListRetryFuncAlways :: "go_error \<Rightarrow> bool" where
  "ListRetryFuncAlways _ = True"

text \<open>The settings \<open>noopSettings\<close> exclude no resource and give no health of their own.\<close>

definition IsExcludedResource :: "string \<Rightarrow> string \<Rightarrow> string \<Rightarrow> bool" where
  "IsExcludedResource _ _ _ = False"

type_synonym 'i UpdateSettingsFunc = "'i clusterCache \<Rightarrow> 'i clusterCache"

definition empty_cache :: "string \<Rightarrow> 'i clusterCache" where
  "empty_cache host = \<lparr>cc_heap = [], cc_resources = [], cc_nsIndex = [], cc_syncTime = None, cc_syncError = None,
     cc_resyncTimeout = 24 * 60 * 60 * second, cc_apisMeta = Some [], cc_namespacedResources = [],
     cc_apiResources = [], cc_serverVersion = '''', cc_openAPISchema = '''', cc_gvkParser = None,
     cc_batchEventsProcessing = False, cc_eventMetaCh = None, cc_watchResyncTimeout = 10 * 60 * second,
     cc_clusterSyncRetryTimeout = 10 * second, cc_eventProcessingInterval = 100000000,
     cc_listPageSize = 500, cc_listPageBufferSize = 1, cc_listSemaphore = 50, cc_listRetryLimit = 1,
     cc_listRetryUseBackoff = False, cc_listRetryFunc = ListRetryFuncNever, cc_host = host,
     cc_namespaces = [], cc_clusterResources = False, cc_excluded = IsExcludedResource, cc_respectRBAC = 0,
     cc_populateResourceInfo = None, cc_handlerKey = 0, cc_resourceUpdatedHandlers = [],
     cc_eventHandlers = [], cc_processEventsHandlers = [], cc_calls = [], cc_nextWatch = 0,
     cc_cancelled = [], cc_watches = []\<rparr>"

definition NewClusterCache :: "string \<Rightarrow> 'i UpdateSettingsFunc list \<Rightarrow> 'i clusterCache" where
  "NewClusterCache host opts = foldl (\<lambda>c opt. opt c) (empty_cache host) opts"

definition SetPopulateResourceInfoHandler :: "(unstructured \<Rightarrow> bool \<Rightarrow> 'i option \<times> bool) \<Rightarrow> 'i UpdateSettingsFunc" where
  "SetPopulateResourceInfoHandler handler c = c\<lparr>cc_populateResourceInfo := Some handler\<rparr>"

definition SetSettings :: "(string \<Rightarrow> string \<Rightarrow> string \<Rightarrow> bool) \<Rightarrow> 'i UpdateSettingsFunc" where
  "SetSettings excluded c = c\<lparr>cc_excluded := excluded\<rparr>"

definition SetNamespaces :: "string list \<Rightarrow> 'i UpdateSettingsFunc" where
  "SetNamespaces namespaces c = c\<lparr>cc_namespaces := namespaces\<rparr>"

definition SetClusterResources :: "bool \<Rightarrow> 'i UpdateSettingsFunc" where
  "SetClusterResources val c = c\<lparr>cc_clusterResources := val\<rparr>"

definition SetConfig :: "string \<Rightarrow> 'i UpdateSettingsFunc" where
  "SetConfig host c = c\<lparr>cc_host := host\<rparr>"

definition SetListPageSize :: "int \<Rightarrow> 'i UpdateSettingsFunc" where
  "SetListPageSize listPageSize c = c\<lparr>cc_listPageSize := listPageSize\<rparr>"

definition SetListPageBufferSize :: "int \<Rightarrow> 'i UpdateSettingsFunc" where
  "SetListPageBufferSize listPageBufferSize c = c\<lparr>cc_listPageBufferSize := listPageBufferSize\<rparr>"

definition SetListSemaphore :: "int \<Rightarrow> 'i UpdateSettingsFunc" where
  "SetListSemaphore listSemaphore c = c\<lparr>cc_listSemaphore := listSemaphore\<rparr>"

definition SetResyncTimeout :: "int \<Rightarrow> 'i UpdateSettingsFunc" where
  "SetResyncTimeout timeout c = c\<lparr>cc_resyncTimeout := timeout\<rparr>"

definition SetWatchResyncTimeout :: "int \<Rightarrow> 'i UpdateSettingsFunc" where
  "SetWatchResyncTimeout timeout c = c\<lparr>cc_watchResyncTimeout := timeout\<rparr>"

definition SetClusterSyncRetryTimeout :: "int \<Rightarrow> 'i UpdateSettingsFunc" where
  "SetClusterSyncRetryTimeout timeout c = c\<lparr>cc_clusterSyncRetryTimeout := timeout\<rparr>"

definition SetRetryOptions :: "int \<Rightarrow> bool \<Rightarrow> (go_error \<Rightarrow> bool) \<Rightarrow> 'i UpdateSettingsFunc" where
  "SetRetryOptions maxRetries useBackoff retryFunc c =
     c\<lparr>cc_listRetryLimit := (if maxRetries < 1 then 1 else maxRetries),
       cc_listRetryUseBackoff := useBackoff, cc_listRetryFunc := retryFunc\<rparr>"

definition SetRespectRBAC :: "int \<Rightarrow> 'i UpdateSettingsFunc" where
  "SetRespectRBAC respectRBAC c =
     (if respectRBAC < RespectRbacDisabled \<or> respectRBAC > RespectRbacStrict
      then c\<lparr>cc_respectRBAC := RespectRbacDisabled\<rparr> else c\<lparr>cc_respectRBAC := respectRBAC\<rparr>)"

definition SetBatchEventsProcessing :: "bool \<Rightarrow> 'i UpdateSettingsFunc" where
  "SetBatchEventsProcessing batchProcessing c = c\<lparr>cc_batchEventsProcessing := batchProcessing\<rparr>"

definition SetEventProcessingInterval :: "int \<Rightarrow> 'i UpdateSettingsFunc" where
  "SetEventProcessingInterval interval c = c\<lparr>cc_eventProcessingInterval := interval\<rparr>"

section \<open>Handlers\<close>

text \<open>A registration returns the key that its \<open>Unsubscribe\<close> function deletes.\<close>

definition OnResourceUpdated :: "nat \<Rightarrow> 'i clusterCache \<Rightarrow> nat \<times> 'i clusterCache" where
  "OnResourceUpdated handler c = (cc_handlerKey c, c\<lparr>cc_handlerKey := Suc (cc_handlerKey c),
     cc_resourceUpdatedHandlers := map_put (cc_handlerKey c) handler (cc_resourceUpdatedHandlers c)\<rparr>)"

definition UnsubscribeResourceUpdated :: "nat \<Rightarrow> 'i clusterCache \<Rightarrow> 'i clusterCache" where
  "UnsubscribeResourceUpdated key c = c\<lparr>cc_resourceUpdatedHandlers := map_del key (cc_resourceUpdatedHandlers c)\<rparr>"

definition getResourceUpdatedHandlers :: "'i clusterCache \<Rightarrow> nat list" where
  "getResourceUpdatedHandlers c = map snd (cc_resourceUpdatedHandlers c)"

definition OnEvent :: "nat \<Rightarrow> 'i clusterCache \<Rightarrow> nat \<times> 'i clusterCache" where
  "OnEvent handler c = (cc_handlerKey c, c\<lparr>cc_handlerKey := Suc (cc_handlerKey c),
     cc_eventHandlers := map_put (cc_handlerKey c) handler (cc_eventHandlers c)\<rparr>)"

definition UnsubscribeEvent :: "nat \<Rightarrow> 'i clusterCache \<Rightarrow> 'i clusterCache" where
  "UnsubscribeEvent key c = c\<lparr>cc_eventHandlers := map_del key (cc_eventHandlers c)\<rparr>"

definition getEventHandlers :: "'i clusterCache \<Rightarrow> nat list" where
  "getEventHandlers c = map snd (cc_eventHandlers c)"

definition OnProcessEventsHandler :: "nat \<Rightarrow> 'i clusterCache \<Rightarrow> nat \<times> 'i clusterCache" where
  "OnProcessEventsHandler handler c = (cc_handlerKey c, c\<lparr>cc_handlerKey := Suc (cc_handlerKey c),
     cc_processEventsHandlers := map_put (cc_handlerKey c) handler (cc_processEventsHandlers c)\<rparr>)"

definition UnsubscribeProcessEvents :: "nat \<Rightarrow> 'i clusterCache \<Rightarrow> 'i clusterCache" where
  "UnsubscribeProcessEvents key c = c\<lparr>cc_processEventsHandlers := map_del key (cc_processEventsHandlers c)\<rparr>"

definition getProcessEventsHandlers :: "'i clusterCache \<Rightarrow> nat list" where
  "getProcessEventsHandlers c = map snd (cc_processEventsHandlers c)"

definition log_calls :: "(nat \<Rightarrow> handler_call) \<Rightarrow> nat list \<Rightarrow> 'i clusterCache \<Rightarrow> 'i clusterCache" where
  "log_calls call handlers c = c\<lparr>cc_calls := cc_calls c @ map call handlers\<rparr>"

section \<open>API resources\<close>

definition same_api :: "APIResourceInfo \<Rightarrow> APIResourceInfo \<Rightarrow> bool" where
  "same_api a b \<longleftrightarrow> infoGroupKind a = infoGroupKind b \<and> gvrVersion (infoGVR a) = gvrVersion (infoGVR b)"

definition appendAPIResource :: "APIResourceInfo \<Rightarrow> 'i clusterCache \<Rightarrow> 'i clusterCache" where
  "appendAPIResource info c =
     (if list_ex (\<lambda>a. same_api a info) (cc_apiResources c) then c
      else c\<lparr>cc_apiResources := cc_apiResources c @ [info]\<rparr>)"

text \<open>The first entry of that kind and version is overwritten by the last one, which is cut off.\<close>

fun api_index :: "APIResourceInfo \<Rightarrow> APIResourceInfo list \<Rightarrow> nat option" where
  "api_index info [] = None"
| "api_index info (a # as) = (if same_api a info then Some 0 else map_option Suc (api_index info as))"

definition deleteAPIResource :: "APIResourceInfo \<Rightarrow> 'i clusterCache \<Rightarrow> 'i clusterCache" where
  "deleteAPIResource info c =
     (case api_index info (cc_apiResources c) of
        None \<Rightarrow> c
      | Some i \<Rightarrow> c\<lparr>cc_apiResources := butlast ((cc_apiResources c)[i := last (cc_apiResources c)])\<rparr>)"

definition GetAPIResources :: "'i clusterCache \<Rightarrow> APIResourceInfo list" where
  "GetAPIResources c = cc_apiResources c"

definition GetServerVersion :: "'i clusterCache \<Rightarrow> string" where
  "GetServerVersion c = cc_serverVersion c"

definition GetOpenAPISchema :: "'i clusterCache \<Rightarrow> string" where
  "GetOpenAPISchema c = cc_openAPISchema c"

definition GetGVKParser :: "'i clusterCache \<Rightarrow> string option" where
  "GetGVKParser c = cc_gvkParser c"

section \<open>Read operations\<close>

definition IsNamespaced :: "(GroupKind \<Rightarrow> string) \<Rightarrow> GroupKind \<Rightarrow> 'i clusterCache \<Rightarrow> go_error + bool" where
  "IsNamespaced notFoundText gk c =
     (case map_of (cc_namespacedResources c) gk of
        Some namespaced \<Rightarrow> Inr namespaced | None \<Rightarrow> Inl (Err ReasonNotFound (notFoundText gk)))"

definition managesNamespace :: "string \<Rightarrow> 'i clusterCache \<Rightarrow> bool" where
  "managesNamespace namespace c = list_ex (\<lambda>ns. ns = namespace) (cc_namespaces c)"

definition nsNodes :: "'i clusterCache \<Rightarrow> string \<Rightarrow> nodes" where
  "nsNodes c namespace = (case map_of (cc_nsIndex c) namespace of None \<Rightarrow> [] | Some ns \<Rightarrow> ns)"

definition FindResources :: "string \<Rightarrow> ('i Resource \<Rightarrow> bool) list \<Rightarrow> 'i clusterCache \<Rightarrow> nodes" where
  "FindResources namespace predicates c =
     filter (\<lambda>(k, p). list_all (\<lambda>pred. pred (cc_heap c ! p)) predicates)
       (if namespace \<noteq> '''' then nsNodes c namespace else cc_resources c)"

text \<open>
  \<open>IterateHierarchyV2\<close>. The backfill of the graph is written to the resources of the cache, under the
  read lock. The outcome is None only if the traversal does not return.
\<close>

definition IterateHierarchyV2 ::
  "(string \<Rightarrow> string option) \<Rightarrow> ResourceKey list \<Rightarrow> 's callback \<Rightarrow> 's \<Rightarrow> 'i clusterCache \<Rightarrow>
     ('s \<times> 'i clusterCache) option" where
  "IterateHierarchyV2 parse_group keys action st c =
     (case iterate_namespaces parse_group (map_of (cc_resources c)) (nsNodes c) action
             (keysPerNamespace (map_of (cc_resources c)) keys) (cc_heap c, st) of
        None \<Rightarrow> None | Some (h, st') \<Rightarrow> Some (st', c\<lparr>cc_heap := h\<rparr>))"

record ClusterInfo =
  ci_APIsCount :: nat
  ci_K8SVersion :: string
  ci_ResourcesCount :: nat
  ci_Server :: string
  ci_LastCacheSyncTime :: "int option"
  ci_SyncError :: "go_error option"
  ci_APIResources :: "APIResourceInfo list"

definition GetClusterInfo :: "'i clusterCache \<Rightarrow> ClusterInfo" where
  "GetClusterInfo c = \<lparr>ci_APIsCount = (case cc_apisMeta c of None \<Rightarrow> 0 | Some m \<Rightarrow> length m),
     ci_K8SVersion = cc_serverVersion c, ci_ResourcesCount = length (cc_resources c), ci_Server = cc_host c,
     ci_LastCacheSyncTime = cc_syncTime c, ci_SyncError = cc_syncError c, ci_APIResources = cc_apiResources c\<rparr>"

end
