(* ===== verification/CacheIndex.thy ===== *)
theory CacheIndex
  imports CacheState
begin

text \<open>
  The nodes of the cache and the index by namespace: \<open>newResource\<close>, \<open>setNode\<close>, \<open>onNodeUpdated\<close>,
  \<open>onNodeRemoved\<close>, \<open>replaceResourceCache\<close> and the processing of events of \<open>pkg/cache/cluster.go\<close>.

  The locale \<open>node_store\<close> is the interface that the relisting of a kind relies on: what an update and a
  removal do to the content of the store. It is interpreted on \<open>onNodeUpdated\<close> and \<open>onNodeRemoved\<close>. The
  invariant \<open>index_ok\<close> says that the index holds the nodes of the cache split by namespace; \<open>index_covers\<close>
  is what is left of it after a resync.
\<close>

section \<open>Operations\<close>

text \<open>A new resource is allocated; the result is its pointer.\<close>

definition alloc :: "'i Resource \<Rightarrow> 'i clusterCache \<Rightarrow> nat \<times> 'i clusterCache" where
  "alloc r c = (length (cc_heap c), c\<lparr>cc_heap := cc_heap c @ [r]\<rparr>)"

definition resource_of ::
  "(unstructured \<Rightarrow> go_error + string list) \<Rightarrow> unstructured \<Rightarrow> 'i clusterCache \<Rightarrow> 'i Resource" where
  "resource_of templates un c =
     (let (ownerRefs, isInferredParentOf) = resolveResourceReferences templates un;
          (info, cacheManifest) = (case cc_populateResourceInfo c of
             None \<Rightarrow> (None, False) | Some handler \<Rightarrow> handler un (length ownerRefs = 0))
      in \<lparr>ResourceVersion = GetResourceVersion un, Ref = GetObjectRef un, OwnerRefs = ownerRefs,
          CreationTimestamp = GetCreationTimestamp un, Info = info,
          Resource = (if cacheManifest then Some un else None), isInferredParentOf = isInferredParentOf\<rparr>)"

definition newResource ::
  "(unstructured \<Rightarrow> go_error + string list) \<Rightarrow> unstructured \<Rightarrow> 'i clusterCache \<Rightarrow> nat \<times> 'i clusterCache" where
  "newResource templates un c = alloc (resource_of templates un c) c"

text \<open>
  The loop of \<open>setNode\<close> over the namespace, the new node itself included: claims get or lose the owner
  reference of the new StatefulSet, and a new claim those of the StatefulSets.
\<close>

definition inferred_by :: "'i Resource \<Rightarrow> ResourceKey \<Rightarrow> bool" where
  "inferred_by r k = (case isInferredParentOf r of None \<Rightarrow> False | Some f \<Rightarrow> f k)"

fun infer_step :: "nat \<Rightarrow> 'i heap \<Rightarrow> ResourceKey \<times> nat \<Rightarrow> 'i heap" where
  "infer_step n h (k, v) =
     (let h1 = (if isInferredParentOf (h ! n) \<noteq> None \<and> mightHaveInferredOwner (h ! v)
                then h[v := setOwnerRef (h ! v) (toOwnerRef (h ! n)) (inferred_by (h ! n) k)] else h)
      in if mightHaveInferredOwner (h1 ! n) \<and> isInferredParentOf (h1 ! v) \<noteq> None
         then h1[n := setOwnerRef (h1 ! n) (toOwnerRef (h1 ! v)) (inferred_by (h1 ! v) (node_key h1 n))]
         else h1)"

definition setNode :: "nat \<Rightarrow> 'i clusterCache \<Rightarrow> 'i clusterCache" where
  "setNode n c =
     (let h = cc_heap c; key = node_key h n; ns = map_put key n (nsNodes c (Namespace key)) in
      c\<lparr>cc_resources := map_put key n (cc_resources c),
        cc_nsIndex := map_put (Namespace key) ns (cc_nsIndex c),
        cc_heap := (if isInferredParentOf (h ! n) \<noteq> None \<or> mightHaveInferredOwner (h ! n)
                    then foldl (infer_step n) h ns else h)\<rparr>)"

definition onNodeUpdated :: "nat option \<Rightarrow> nat \<Rightarrow> 'i clusterCache \<Rightarrow> 'i clusterCache" where
  "onNodeUpdated old new c =
     (let c1 = setNode new c; ns = nsNodes c1 (RefNamespace (Ref (cc_heap c1 ! new))) in
      log_calls (\<lambda>h. ResourceUpdated h (Some new) old ns) (getResourceUpdatedHandlers c1) c1)"

definition forget_owner :: "nat \<Rightarrow> 'i heap \<Rightarrow> ResourceKey \<times> nat \<Rightarrow> 'i heap" where
  "forget_owner existing h kv =
     (if mightHaveInferredOwner (h ! snd kv) \<and> inferred_by (h ! existing) (fst kv)
      then h[snd kv := setOwnerRef (h ! snd kv) (toOwnerRef (h ! existing)) False] else h)"

definition onNodeRemoved :: "ResourceKey \<Rightarrow> 'i clusterCache \<Rightarrow> 'i clusterCache" where
  "onNodeRemoved key c =
     (case map_of (cc_resources c) key of
        None \<Rightarrow> c
      | Some existing \<Rightarrow>
          (let c1 = c\<lparr>cc_resources := map_del key (cc_resources c)\<rparr>;
               (ns, c2) = (case map_of (cc_nsIndex c1) (Namespace key) of
                  None \<Rightarrow> ([], c1)
                | Some ns0 \<Rightarrow>
                    (let ns = map_del key ns0 in
                     (ns, c1\<lparr>cc_nsIndex := (if length ns = 0 then map_del (Namespace key) (cc_nsIndex c1)
                               else map_put (Namespace key) ns (cc_nsIndex c1)),
                             cc_heap := (if isInferredParentOf (cc_heap c1 ! existing) \<noteq> None
                               then foldl (forget_owner existing) (cc_heap c1) ns else cc_heap c1)\<rparr>)))
           in log_calls (\<lambda>h. ResourceUpdated h None (Some existing) ns) (getResourceUpdatedHandlers c2) c2))"

text \<open>\<open>replaceResourceCache\<close>: the update loop over the listed resources, then the removal loop.\<close>

definition update_listed :: "'i clusterCache \<Rightarrow> nat \<Rightarrow> 'i clusterCache" where
  "update_listed c res =
     (let oldRes = map_of (cc_resources c) (node_key (cc_heap c) res) in
      if (case oldRes of None \<Rightarrow> True
          | Some old \<Rightarrow> ResourceVersion (cc_heap c ! old) \<noteq> ResourceVersion (cc_heap c ! res))
      then onNodeUpdated oldRes res c else c)"

definition in_listing :: "GroupKind \<Rightarrow> string \<Rightarrow> ResourceKey \<Rightarrow> bool" where
  "in_listing gk ns key \<longleftrightarrow> \<not> (Kind key \<noteq> snd gk \<or> Group key \<noteq> fst gk \<or> ns \<noteq> '''' \<and> Namespace key \<noteq> ns)"

definition objByKey :: "'i heap \<Rightarrow> nat list \<Rightarrow> ResourceKey \<Rightarrow> nat option" where
  "objByKey h res = map_of (rev (map (\<lambda>n. (node_key h n, n)) res))"

definition remove_unlisted ::
  "GroupKind \<Rightarrow> string \<Rightarrow> (ResourceKey \<Rightarrow> nat option) \<Rightarrow> 'i clusterCache \<Rightarrow> ResourceKey \<Rightarrow> 'i clusterCache" where
  "remove_unlisted gk ns listed c key =
     (if in_listing gk ns key \<and> listed key = None then onNodeRemoved key c else c)"

definition replaceResourceCache :: "GroupKind \<Rightarrow> nat list \<Rightarrow> string \<Rightarrow> 'i clusterCache \<Rightarrow> 'i clusterCache" where
  "replaceResourceCache gk res ns c =
     (let listed = objByKey (cc_heap c) res; c1 = foldl update_listed c res in
      foldl (remove_unlisted gk ns listed) c1 (map fst (cc_resources c1)))"

section \<open>Events\<close>

definition ignoredRefreshResources :: "string \<Rightarrow> bool" where
  "ignoredRefreshResources gk \<longleftrightarrow> gk = ''/'' @ EndpointsKind"

definition skipAppRequeuing :: "ResourceKey \<Rightarrow> bool" where
  "skipAppRequeuing key = ignoredRefreshResources (Group key @ ''/'' @ Kind key)"

definition processEvent ::
  "(unstructured \<Rightarrow> go_error + string list) \<Rightarrow> ResourceKey \<Rightarrow> eventMeta \<Rightarrow> 'i clusterCache \<Rightarrow> 'i clusterCache" where
  "processEvent templates key evMeta c =
     (let existingNode = map_of (cc_resources c) key in
      if ev_event evMeta = Deleted then (if existingNode \<noteq> None then onNodeRemoved key c else c)
      else (let (new, c1) = newResource templates (ev_un evMeta) c in onNodeUpdated existingNode new c1))"

definition processEventsBatch ::
  "(unstructured \<Rightarrow> go_error + string list) \<Rightarrow> eventMeta list \<Rightarrow> 'i clusterCache \<Rightarrow> 'i clusterCache" where
  "processEventsBatch templates eventMetas c =
     (let c1 = foldl (\<lambda>c evMeta. processEvent templates (GetResourceKey (ev_un evMeta)) evMeta c) c eventMetas in
      log_calls (\<lambda>h. EventsProcessed h (length eventMetas)) (getProcessEventsHandlers c1) c1)"

text \<open>
  \<open>recordEvent\<close>: None when the send does not return (the channel is nil: the cache was invalidated).
  The channel is unbuffered and its reader collects the events until the next tick; \<open>cc_eventMetaCh\<close> holds
  what was sent and not yet processed.
\<close>

definition recordEvent ::
  "(unstructured \<Rightarrow> go_error + string list) \<Rightarrow> WatchEvent \<Rightarrow> unstructured \<Rightarrow> 'i clusterCache \<Rightarrow>
     'i clusterCache option" where
  "recordEvent templates event un c =
     (let c1 = log_calls (\<lambda>h. EventSeen h event un) (getEventHandlers c) c; key = GetResourceKey un in
      if event = Modified_event \<and> skipAppRequeuing key then Some c1
      else if cc_batchEventsProcessing c1 then
        (case cc_eventMetaCh c1 of
           None \<Rightarrow> None
         | Some sent \<Rightarrow> Some (c1\<lparr>cc_eventMetaCh := Some (sent @ [\<lparr>ev_event = event, ev_un = un\<rparr>])\<rparr>))
      else Some (processEvent templates key \<lparr>ev_event = event, ev_un = un\<rparr> c1))"

text \<open>One tick of \<open>processEvents\<close>.\<close>

definition processEvents_tick ::
  "(unstructured \<Rightarrow> go_error + string list) \<Rightarrow> 'i clusterCache \<Rightarrow> 'i clusterCache" where
  "processEvents_tick templates c =
     (case cc_eventMetaCh c of
        None \<Rightarrow> c
      | Some eventMetas \<Rightarrow>
          if length eventMetas > 0
          then (processEventsBatch templates eventMetas c)\<lparr>cc_eventMetaCh := Some []\<rparr> else c)"

definition invalidateEventMeta :: "'i clusterCache \<Rightarrow> 'i clusterCache" where
  "invalidateEventMeta c = (if cc_eventMetaCh c \<noteq> None then c\<lparr>cc_eventMetaCh := None\<rparr> else c)"

definition cancel_watches :: "'i clusterCache \<Rightarrow> 'i clusterCache" where
  "cancel_watches c = c\<lparr>cc_cancelled := cc_cancelled c @
     (case cc_apisMeta c of None \<Rightarrow> [] | Some m \<Rightarrow> map (am_watch \<circ> snd) m)\<rparr>"

definition Invalidate :: "'i UpdateSettingsFunc list \<Rightarrow> 'i clusterCache \<Rightarrow> 'i clusterCache" where
  "Invalidate opts c =
     (let c1 = cancel_watches (c\<lparr>cc_syncTime := None\<rparr>);
          c2 = foldl (\<lambda>c opt. opt c) c1 opts;
          c3 = (if cc_batchEventsProcessing c2 then invalidateEventMeta c2 else c2)
      in c3\<lparr>cc_apisMeta := None, cc_namespacedResources := []\<rparr>)"

definition stopWatching :: "GroupKind \<Rightarrow> string \<Rightarrow> 'i clusterCache \<Rightarrow> 'i clusterCache" where
  "stopWatching gk ns c =
     (case cc_apisMeta c of
        None \<Rightarrow> c
      | Some m \<Rightarrow>
          (case map_of m gk of
             None \<Rightarrow> c
           | Some info \<Rightarrow> replaceResourceCache gk [] ns
               (c\<lparr>cc_cancelled := cc_cancelled c @ [am_watch info], cc_apisMeta := Some (map_del gk m)\<rparr>)))"

section \<open>What the loops over the heap keep\<close>

text \<open>The loops write owner references only.\<close>

definition same_meta :: "'i heap \<Rightarrow> 'i heap \<Rightarrow> bool" where
  "same_meta h h' \<longleftrightarrow> length h' = length h \<and>
     (\<forall>p. Ref (h' ! p) = Ref (h ! p) \<and> ResourceVersion (h' ! p) = ResourceVersion (h ! p) \<and>
        Resource (h' ! p) = Resource (h ! p) \<and> Info (h' ! p) = Info (h ! p) \<and>
        isInferredParentOf (h' ! p) = isInferredParentOf (h ! p))"

lemma same_meta_refl [simp]: "same_meta h h"
  by (simp add: same_meta_def)

lemma same_meta_trans: "same_meta h h' \<Longrightarrow> same_meta h' h'' \<Longrightarrow> same_meta h h''"
  by (simp add: same_meta_def)

lemma same_metaD:
  assumes "same_meta h h'"
  shows "length h' = length h" "Ref (h' ! p) = Ref (h ! p)" "ResourceVersion (h' ! p) = ResourceVersion (h ! p)"
    "Resource (h' ! p) = Resource (h ! p)" "isInferredParentOf (h' ! p) = isInferredParentOf (h ! p)"
    "node_key h' p = node_key h p" "Info (h' ! p) = Info (h ! p)"
  using assms by (simp_all add: same_meta_def node_key_def ResourceKey_of_def)

lemma same_meta_setOwnerRef: "same_meta h (h[v := setOwnerRef (h ! v) ref add])"
proof -
  have "h[v := setOwnerRef (h ! v) ref add] ! p = (if p = v \<and> v < length h then setOwnerRef (h ! v) ref add else h ! p)" for p
    by (cases "p = v"; cases "v < length h") (simp_all add: list_update_beyond)
  then show ?thesis by (simp add: same_meta_def)
qed

lemma same_meta_infer: "same_meta h (infer_step n h kv)"
proof (cases kv)
  case (Pair k v)
  define h1 where "h1 = (if isInferredParentOf (h ! n) \<noteq> None \<and> mightHaveInferredOwner (h ! v)
    then h[v := setOwnerRef (h ! v) (toOwnerRef (h ! n)) (inferred_by (h ! n) k)] else h)"
  have "same_meta h h1" by (simp add: h1_def same_meta_setOwnerRef)
  moreover have "same_meta h1 (infer_step n h kv)"
    by (simp only: Pair infer_step.simps h1_def [symmetric] Let_def) (simp add: same_meta_setOwnerRef)
  ultimately show ?thesis by (rule same_meta_trans)
qed

lemma same_meta_forget: "same_meta h (forget_owner e h kv)"
  by (simp add: forget_owner_def same_meta_setOwnerRef)

lemma same_meta_foldl: "(\<And>h x. same_meta h (f h x)) \<Longrightarrow> same_meta h (foldl f h xs)"
  by (induction xs arbitrary: h) (auto intro: same_meta_trans)

lemma setNode_heap: "same_meta (cc_heap c) (cc_heap (setNode n c))"
  by (simp add: setNode_def Let_def same_meta_foldl same_meta_infer)

lemma onNodeUpdated_simps [simp]:
  "cc_heap (onNodeUpdated old n c) = cc_heap (setNode n c)"
  "cc_resources (onNodeUpdated old n c) = cc_resources (setNode n c)"
  "cc_nsIndex (onNodeUpdated old n c) = cc_nsIndex (setNode n c)"
  by (simp_all add: onNodeUpdated_def Let_def log_calls_def)

lemma setNode_resources: "cc_resources (setNode n c) = map_put (node_key (cc_heap c) n) n (cc_resources c)"
  by (simp add: setNode_def Let_def)

lemma setNode_nsNodes:
  "nsNodes (setNode n c) ns = (if ns = Namespace (node_key (cc_heap c) n)
     then map_put (node_key (cc_heap c) n) n (nsNodes c ns) else nsNodes c ns)"
  by (simp add: nsNodes_def setNode_def Let_def)

lemma onNodeRemoved_heap: "same_meta (cc_heap c) (cc_heap (onNodeRemoved key c))"
  by (simp add: onNodeRemoved_def Let_def log_calls_def same_meta_foldl same_meta_forget split: option.split)

lemma onNodeRemoved_resources: "cc_resources (onNodeRemoved key c) = (if key \<in> fst ` set (cc_resources c)
    then map_del key (cc_resources c) else cc_resources c)"
  by (auto simp: onNodeRemoved_def Let_def log_calls_def map_of_eq_None_iff split: option.split
      dest!: map_of_SomeD intro: rev_image_eqI)

lemma onNodeRemoved_nsNodes:
  "nsNodes (onNodeRemoved key c) ns = (if key \<in> fst ` set (cc_resources c) \<and> ns = Namespace key
     then map_del key (nsNodes c ns) else nsNodes c ns)"
proof (cases "map_of (cc_resources c) key")
  case None
  moreover from None have "key \<notin> fst ` set (cc_resources c)" by (simp add: map_of_eq_None_iff)
  ultimately show ?thesis by (simp add: onNodeRemoved_def)
next
  case (Some e)
  then have "key \<in> fst ` set (cc_resources c)" by (force dest: map_of_SomeD)
  with Some show ?thesis
    by (cases "map_of (cc_nsIndex c) (Namespace key)")
      (auto simp: onNodeRemoved_def nsNodes_def Let_def log_calls_def)
qed

section \<open>The interface of the relisting\<close>

text \<open>
  A store of nodes under two operations: \<open>upd old n\<close> puts a node under its key, \<open>rem key\<close> takes a key
  out. Neither changes the key or the version of a node that exists.
\<close>

locale node_store =
  fixes content :: "'c \<Rightarrow> 'k \<Rightarrow> 'p option" and key_of :: "'c \<Rightarrow> 'p \<Rightarrow> 'k" and version :: "'c \<Rightarrow> 'p \<Rightarrow> 'v"
    and upd :: "'p option \<Rightarrow> 'p \<Rightarrow> 'c \<Rightarrow> 'c" and rem :: "'k \<Rightarrow> 'c \<Rightarrow> 'c"
  assumes upd_content: "content (upd old n c) = (content c)(key_of c n \<mapsto> n)"
    and rem_content: "content (rem k c) = (content c)(k := None)"
    and upd_stable: "key_of (upd old n c) = key_of c" "version (upd old n c) = version c"
    and rem_stable: "key_of (rem k c) = key_of c" "version (rem k c) = version c"
begin

definition stale :: "'c \<Rightarrow> 'p \<Rightarrow> bool" where
  "stale c n \<longleftrightarrow> (case content c (key_of c n) of None \<Rightarrow> True | Some old \<Rightarrow> version c old \<noteq> version c n)"

definition update :: "'c \<Rightarrow> 'p \<Rightarrow> 'c" where
  "update c n = (if stale c n then upd (content c (key_of c n)) n c else c)"

lemma update_stable [simp]: "key_of (update c n) = key_of c" "version (update c n) = version c"
  by (simp_all add: update_def upd_stable)

lemma updates_stable [simp]: "key_of (foldl update c ns) = key_of c" "version (foldl update c ns) = version c"
  by (induction ns arbitrary: c) simp_all

lemma update_content:
  "k \<noteq> key_of c n \<Longrightarrow> content (update c n) k = content c k"
  "\<exists>p. content (update c n) (key_of c n) = Some p \<and> version c p = version c n"
  by (auto simp: update_def stale_def upd_content split: option.splits)

text \<open>After the updates every listed key holds a node of the version listed last for it.\<close>

lemma updates_content:
  "case map_of (rev (map (\<lambda>n. (key_of c n, n)) ns)) k of
     None \<Rightarrow> content (foldl update c ns) k = content c k
   | Some n \<Rightarrow> \<exists>p. content (foldl update c ns) k = Some p \<and> version c p = version c n"
proof (induction ns rule: rev_induct)
  case (snoc n ns)
  show ?case
  proof (cases "k = key_of c n")
    case True
    with update_content(2) [of "foldl update c ns" n] show ?thesis by simp
  next
    case False
    with update_content(1) [of k "foldl update c ns" n]
    have "content (foldl update c (ns @ [n])) k = content (foldl update c ns) k" by simp
    moreover from False have "map_of (rev (map (\<lambda>n. (key_of c n, n)) (ns @ [n]))) k = map_of (rev (map (\<lambda>n. (key_of c n, n)) ns)) k"
      by simp
    ultimately show ?thesis using snoc by (simp only:)
  qed
qed simp

text \<open>A removal loop removes the keys that satisfy its condition.\<close>

lemma removals_content:
  "content (foldl (\<lambda>c k. if P k then rem k c else c) c ks) k = (if k \<in> set ks \<and> P k then None else content c k)"
  by (induction ks arbitrary: c) (auto simp: rem_content)

lemma removals_stable:
  "key_of (foldl (\<lambda>c k. if P k then rem k c else c) c ks) = key_of c"
  "version (foldl (\<lambda>c k. if P k then rem k c else c) c ks) = version c"
  by (induction ks arbitrary: c) (simp_all add: rem_stable)

end

abbreviation "node_version c p \<equiv> ResourceVersion (cc_heap c ! p)"

interpretation cache_nodes: node_store "\<lambda>c. map_of (cc_resources c)" "\<lambda>c. node_key (cc_heap c)"
  "\<lambda>c. node_version c" onNodeUpdated onNodeRemoved
  by unfold_locales
    (auto simp: setNode_resources onNodeRemoved_resources fun_eq_iff map_of_eq_None_iff
      same_metaD [OF setNode_heap] same_metaD [OF onNodeRemoved_heap])

lemma update_listed_eq: "update_listed = cache_nodes.update"
  by (intro ext) (simp add: update_listed_def cache_nodes.update_def cache_nodes.stale_def Let_def)

lemma remove_unlisted_eq:
  "remove_unlisted gk ns listed = (\<lambda>c k. if in_listing gk ns k \<and> listed k = None then onNodeRemoved k c else c)"
  by (intro ext) (simp add: remove_unlisted_def)

lemma replaceResourceCache_content:
  "map_of (cc_resources (replaceResourceCache gk res ns c)) k =
     (if in_listing gk ns k \<and> objByKey (cc_heap c) res k = None then None
      else map_of (cc_resources (foldl update_listed c res)) k)"
  unfolding replaceResourceCache_def Let_def remove_unlisted_eq cache_nodes.removals_content
  by (auto simp: map_of_eq_None_iff)

lemma replaceResourceCache_version:
  "node_version (replaceResourceCache gk res ns c) p = node_version c p"
  unfolding replaceResourceCache_def Let_def remove_unlisted_eq update_listed_eq
    fun_cong [OF cache_nodes.removals_stable(2)] fun_cong [OF cache_nodes.updates_stable(2)] ..

lemma in_listing_alt: "in_listing gk ns k \<longleftrightarrow> Kind k = snd gk \<and> Group k = fst gk \<and> (ns = '''' \<or> Namespace k = ns)"
  by (auto simp: in_listing_def)

lemma replace_agrees:
  "case objByKey (cc_heap c) res k of
     Some n \<Rightarrow> (\<exists>p. map_of (cc_resources (replaceResourceCache gk res ns c)) k = Some p \<and>
        node_version (replaceResourceCache gk res ns c) p = node_version c n)
   | None \<Rightarrow> map_of (cc_resources (replaceResourceCache gk res ns c)) k =
        (if in_listing gk ns k then None else map_of (cc_resources c) k)"
  using cache_nodes.updates_content [of c res k]
  by (simp add: replaceResourceCache_content replaceResourceCache_version update_listed_eq Let_def objByKey_def
      split: option.splits)

text \<open>
  C20. Relisting a kind makes the cache agree with the listing. For every key: if the listing has it, the
  cache then holds a node of the version that was listed (last) for it; if the listing does not have it
  and it belongs to the kind and namespace that were listed, it is gone; every other key is untouched.
\<close>

theorem replaceResourceCache_agrees:
  "case objByKey (cc_heap c) res k of
     Some n \<Rightarrow> (\<exists>p. map_of (cc_resources (replaceResourceCache gk res ns c)) k = Some p \<and>
        node_version (replaceResourceCache gk res ns c) p = node_version c n)
   | None \<Rightarrow> map_of (cc_resources (replaceResourceCache gk res ns c)) k =
        (if Kind k = snd gk \<and> Group k = fst gk \<and> (ns = '''' \<or> Namespace k = ns) then None
         else map_of (cc_resources c) k)"
  by (rule replace_agrees [unfolded in_listing_alt])

section \<open>The index by namespace\<close>

definition index_ok :: "'i clusterCache \<Rightarrow> bool" where
  "index_ok c \<longleftrightarrow> nodes_ok (cc_heap c) (cc_resources c) \<and> map_wf (cc_nsIndex c) \<and>
     (\<forall>(ns, nodes) \<in> set (cc_nsIndex c). nodes \<noteq> [] \<and> map_wf nodes) \<and>
     (\<forall>ns k. map_of (nsNodes c ns) k = (if Namespace k = ns then map_of (cc_resources c) k else None))"

definition index_covers :: "'i clusterCache \<Rightarrow> bool" where
  "index_covers c \<longleftrightarrow> nodes_ok (cc_heap c) (cc_resources c) \<and> map_wf (cc_nsIndex c) \<and>
     (\<forall>ns. nodes_ok (cc_heap c) (nsNodes c ns) \<and> (\<forall>k. map_of (nsNodes c ns) k \<noteq> None \<longrightarrow> Namespace k = ns)) \<and>
     (\<forall>k. map_of (cc_resources c) k \<noteq> None \<longrightarrow> map_of (nsNodes c (Namespace k)) k = map_of (cc_resources c) k)"

lemma nodes_ok_iff: "nodes_ok h ns \<longleftrightarrow> map_wf ns \<and> (\<forall>k p. map_of ns k = Some p \<longrightarrow> p < length h \<and> node_key h p = k)"
  by (auto simp: nodes_ok_def map_wf_def)

lemma nodes_ok_meta: "same_meta h h' \<Longrightarrow> nodes_ok h' ns \<longleftrightarrow> nodes_ok h ns"
  by (simp add: nodes_ok_def same_metaD)

lemma nodes_ok_alloc: "nodes_ok h ns \<Longrightarrow> nodes_ok (h @ rs) ns"
  by (auto simp: nodes_ok_def node_key_def nth_append)

lemma nodes_ok_put: "nodes_ok h ns \<Longrightarrow> n < length h \<Longrightarrow> nodes_ok h (map_put (node_key h n) n ns)"
  by (auto simp: nodes_ok_iff)

lemma nodes_ok_del: "nodes_ok h ns \<Longrightarrow> nodes_ok h (map_del k ns)"
  by (auto simp: nodes_ok_iff)

lemma nodes_ok_Nil [simp]: "nodes_ok h []"
  by (simp add: nodes_ok_def)

lemma index_ok_covers:
  assumes "index_ok c"
  shows "index_covers c"
proof -
  have wf: "map_wf (nsNodes c ns)" for ns
    using assms by (auto simp: index_ok_def nsNodes_def dest!: map_of_SomeD split: option.split)
  from assms have n: "map_of (nsNodes c ns) k = (if Namespace k = ns then map_of (cc_resources c) k else None)" for ns k
    by (simp add: index_ok_def)
  from assms have r: "nodes_ok (cc_heap c) (cc_resources c)" and w: "map_wf (cc_nsIndex c)" by (simp_all add: index_ok_def)
  from r wf have "nodes_ok (cc_heap c) (nsNodes c ns)" for ns by (auto simp: nodes_ok_iff n split: if_splits)
  then show ?thesis using r w by (auto simp: index_covers_def n split: if_splits)
qed

text \<open>
  An invariant of the nodes that every primitive operation keeps is kept by every operation of the
  cache that is composed of them. The tables are the parts of the state that hold nodes, and the handler
  that gives a node its info; a setting may replace the handler and leaves the nodes alone.
\<close>

definition same_nodes :: "'i clusterCache \<Rightarrow> 'i clusterCache \<Rightarrow> bool" where
  "same_nodes c c' \<longleftrightarrow> cc_resources c' = cc_resources c \<and> cc_nsIndex c' = cc_nsIndex c \<and> same_meta (cc_heap c) (cc_heap c')"

definition setting :: "'i UpdateSettingsFunc \<Rightarrow> bool" where
  "setting opt \<longleftrightarrow> (\<forall>c. same_nodes c (opt c))"

definition same_tables :: "'i clusterCache \<Rightarrow> 'i clusterCache \<Rightarrow> bool" where
  "same_tables c c' \<longleftrightarrow> cc_resources c' = cc_resources c \<and> cc_nsIndex c' = cc_nsIndex c \<and>
     same_meta (cc_heap c) (cc_heap c') \<and> cc_populateResourceInfo c' = cc_populateResourceInfo c"

lemma same_tables_nodes: "same_tables c c' \<Longrightarrow> same_nodes c c'"
  by (simp add: same_tables_def same_nodes_def)

lemma foldl_nodes: "list_all setting opts \<Longrightarrow> same_nodes c (foldl (\<lambda>c opt. opt c) c opts)"
proof (induction opts arbitrary: c)
  case (Cons opt opts)
  then have "same_nodes c (opt c)" "same_nodes (opt c) (foldl (\<lambda>c opt. opt c) (opt c) opts)"
    by (simp_all add: setting_def)
  then show ?case by (auto simp: same_nodes_def intro: same_meta_trans)
qed (simp add: same_nodes_def)

lemma same_tables_refl [simp]: "same_tables c c"
  by (simp add: same_tables_def)

lemma same_tables_trans: "same_tables c c' \<Longrightarrow> same_tables c' c'' \<Longrightarrow> same_tables c c''"
  by (auto simp: same_tables_def intro: same_meta_trans)

lemma same_tables_log [simp]: "same_tables c (log_calls f hs c)"
  by (simp add: same_tables_def log_calls_def)

locale cache_invariant =
  fixes I :: "'i clusterCache \<Rightarrow> bool" and S :: "'i UpdateSettingsFunc \<Rightarrow> bool"
  assumes frame: "I c \<Longrightarrow> same_tables c c' \<Longrightarrow> I c'"
    and changed: "S opt \<Longrightarrow> I c \<Longrightarrow> I (opt c)"
    and alloc: "I c \<Longrightarrow> I (snd (alloc (resource_of templates un c) c))"
    and setNode: "I c \<Longrightarrow> n < length (cc_heap c) \<Longrightarrow> I (setNode n c)"
    and removed: "I c \<Longrightarrow> I (onNodeRemoved key c)"
begin

lemma foldl_kept: "list_all S opts \<Longrightarrow> I c \<Longrightarrow> I (foldl (\<lambda>c opt. opt c) c opts)"
  by (induction opts arbitrary: c) (simp_all add: changed)

lemma updated: "I c \<Longrightarrow> n < length (cc_heap c) \<Longrightarrow> I (onNodeUpdated old n c)"
  by (auto simp: onNodeUpdated_def Let_def intro: frame setNode)

lemma new_updated:
  assumes "I c"
  shows "newResource templates un c = (n, c1) \<Longrightarrow> I (onNodeUpdated old n c1)"
    and "newResource templates un c = (n, c1) \<Longrightarrow> I (setNode n c1)"
  using assms alloc [of c] by (auto simp: newResource_def alloc_def intro!: updated setNode)

lemma event: "I c \<Longrightarrow> I (processEvent templates key e c)"
  by (auto simp: processEvent_def Let_def removed new_updated split: prod.split)

lemma batch: "I c \<Longrightarrow> I (processEventsBatch templates es c)"
proof -
  assume "I c"
  then have "I (foldl (\<lambda>c e. processEvent templates (GetResourceKey (ev_un e)) e c) c es)"
    by (induction es arbitrary: c) (simp_all add: event)
  then show ?thesis by (auto simp: processEventsBatch_def Let_def intro: frame)
qed

lemma recorded:
  assumes "I c" "recordEvent templates e un c = Some c'"
  shows "I c'"
proof -
  let ?c1 = "log_calls (\<lambda>h. EventSeen h e un) (getEventHandlers c) c"
  have c1: "I ?c1" by (rule frame [OF assms(1)]) simp
  have "I (?c1\<lparr>cc_eventMetaCh := ch\<rparr>)" for ch by (rule frame [OF c1]) (simp add: same_tables_def)
  with c1 assms(2) event [OF c1] show ?thesis
    unfolding recordEvent_def Let_def by (auto split: if_splits option.splits)
qed

lemma tick:
  assumes "I c"
  shows "I (processEvents_tick templates c)"
proof -
  have "I ((processEventsBatch templates es c)\<lparr>cc_eventMetaCh := ch\<rparr>)" for es ch
    by (rule frame [OF batch [OF assms, of templates es]]) (simp add: same_tables_def)
  with assms show ?thesis by (simp add: processEvents_tick_def split: option.split)
qed

lemma updates:
  assumes "I c" "\<And>n. n \<in> set ns \<Longrightarrow> n < length (cc_heap c)"
  shows "I (foldl update_listed c ns)"
  using assms
proof (induction ns arbitrary: c)
  case (Cons n ns)
  have "length (cc_heap (update_listed c n)) = length (cc_heap c)"
    by (simp add: update_listed_def Let_def same_metaD [OF setNode_heap])
  moreover have "I (update_listed c n)" using Cons.prems by (simp add: update_listed_def Let_def updated)
  ultimately show ?case using Cons by simp
qed simp

lemma replaced:
  assumes "I c" "\<And>n. n \<in> set ns \<Longrightarrow> n < length (cc_heap c)"
  shows "I (replaceResourceCache gk ns namespace c)"
proof -
  have "I (foldl (remove_unlisted gk namespace listed) c' ks)" if "I c'" for listed c' ks
    using that by (induction ks arbitrary: c') (simp_all add: remove_unlisted_def removed)
  then show ?thesis using updates [OF assms] by (simp add: replaceResourceCache_def Let_def)
qed

lemma stopped:
  assumes "I c"
  shows "I (stopWatching gk ns c)"
proof -
  have "I (c\<lparr>cc_cancelled := xs, cc_apisMeta := m\<rparr>)" for xs m
    by (rule frame [OF assms]) (simp add: same_tables_def)
  then have "I (replaceResourceCache gk [] ns (c\<lparr>cc_cancelled := xs, cc_apisMeta := m\<rparr>))" for xs m
    by (rule replaced) simp
  then show ?thesis using assms by (simp add: stopWatching_def split: option.split)
qed

lemma invalidated:
  assumes "I c" "list_all S opts"
  shows "I (Invalidate opts c)"
proof -
  let ?c1 = "cancel_watches (c\<lparr>cc_syncTime := None\<rparr>)"
  have "I ?c1" by (rule frame [OF assms(1)]) (simp add: same_tables_def cancel_watches_def)
  with assms(2) have "I (foldl (\<lambda>c opt. opt c) ?c1 opts)" by (rule foldl_kept)
  then show ?thesis by (rule frame) (simp add: Invalidate_def Let_def same_tables_def invalidateEventMeta_def)
qed

end

lemma same_nodes_nsNodes: "same_nodes c c' \<Longrightarrow> nsNodes c' = nsNodes c"
  by (simp add: same_nodes_def nsNodes_def fun_eq_iff)

lemmas same_tables_nsNodes = same_nodes_nsNodes [OF same_tables_nodes]

lemma index_ok_frame: "index_ok c \<Longrightarrow> same_nodes c c' \<Longrightarrow> index_ok c'"
  unfolding index_ok_def by (auto simp: same_nodes_nsNodes) (auto simp: same_nodes_def nodes_ok_meta)

lemma index_covers_frame: "index_covers c \<Longrightarrow> same_nodes c c' \<Longrightarrow> index_covers c'"
  unfolding index_covers_def by (auto simp: same_nodes_nsNodes) (auto simp: same_nodes_def nodes_ok_meta)

lemma index_ok_alloc: "index_ok c \<Longrightarrow> index_ok (snd (alloc r c))"
  by (auto simp: index_ok_def alloc_def nsNodes_def nodes_ok_alloc)

lemma index_covers_alloc: "index_covers c \<Longrightarrow> index_covers (snd (alloc r c))"
  by (auto simp: index_covers_def alloc_def nsNodes_def nodes_ok_alloc)

lemma setNode_nodes_ok: "nodes_ok (cc_heap (setNode n c)) ns = nodes_ok (cc_heap c) ns"
  by (simp add: nodes_ok_meta [OF setNode_heap])

lemma removed_nodes_ok: "nodes_ok (cc_heap (onNodeRemoved k c)) ns = nodes_ok (cc_heap c) ns"
  by (simp add: nodes_ok_meta [OF onNodeRemoved_heap])

lemma setNode_wf: "map_wf (cc_nsIndex c) \<Longrightarrow> map_wf (cc_nsIndex (setNode n c))"
  by (simp add: setNode_def Let_def map_wf_put)

lemma removed_wf: "map_wf (cc_nsIndex c) \<Longrightarrow> map_wf (cc_nsIndex (onNodeRemoved k c))"
  by (simp add: onNodeRemoved_def Let_def log_calls_def map_wf_put map_wf_del split: option.split)

lemma index_covers_set:
  assumes "index_covers c" "n < length (cc_heap c)"
  shows "index_covers (setNode n c)"
  using assms unfolding index_covers_def setNode_nodes_ok
  by (simp add: setNode_resources setNode_nsNodes setNode_wf nodes_ok_put) metis

lemma index_covers_removed: "index_covers c \<Longrightarrow> index_covers (onNodeRemoved key c)"
  unfolding index_covers_def removed_nodes_ok
  by (simp add: onNodeRemoved_resources onNodeRemoved_nsNodes removed_wf nodes_ok_del) metis

text \<open>The inner maps of the index are never empty.\<close>

definition inner_ok :: "(string \<times> nodes) list \<Rightarrow> bool" where
  "inner_ok idx \<longleftrightarrow> (\<forall>(ns, nodes) \<in> set idx. nodes \<noteq> [] \<and> map_wf nodes)"

lemma inner_ok_nodes: "inner_ok (cc_nsIndex c) \<Longrightarrow> map_wf (nsNodes c ns)"
  by (auto simp: inner_ok_def nsNodes_def dest!: map_of_SomeD split: option.split)

lemma map_put_not_Nil [simp]: "map_put k v m \<noteq> []"
  by (induction k v m rule: map_put.induct) auto

lemma inner_ok_put: "inner_ok idx \<Longrightarrow> nodes \<noteq> [] \<Longrightarrow> map_wf nodes \<Longrightarrow> inner_ok (map_put k nodes idx)"
  using set_map_put [of k nodes idx] by (fastforce simp: inner_ok_def)

lemma inner_ok_del: "inner_ok idx \<Longrightarrow> inner_ok (map_del k idx)"
  by (auto simp: inner_ok_def map_del_def)

lemma inner_ok_set: "inner_ok (cc_nsIndex c) \<Longrightarrow> inner_ok (cc_nsIndex (setNode n c))"
  by (simp add: setNode_def Let_def inner_ok_put inner_ok_nodes map_wf_put)

lemma inner_ok_removed:
  assumes "inner_ok (cc_nsIndex c)"
  shows "inner_ok (cc_nsIndex (onNodeRemoved key c))"
proof -
  have "map_wf ns" if "map_of (cc_nsIndex c) k = Some ns" for k ns
    using inner_ok_nodes [OF assms, of k] that by (simp add: nsNodes_def)
  with assms show ?thesis
    by (auto simp: onNodeRemoved_def Let_def log_calls_def inner_ok_put inner_ok_del split: option.split)
qed

lemma index_ok_alt:
  "index_ok c \<longleftrightarrow> nodes_ok (cc_heap c) (cc_resources c) \<and> map_wf (cc_nsIndex c) \<and> inner_ok (cc_nsIndex c) \<and>
     (\<forall>ns k. map_of (nsNodes c ns) k = (if Namespace k = ns then map_of (cc_resources c) k else None))"
  by (simp add: index_ok_def inner_ok_def)

lemma index_ok_set: "index_ok c \<Longrightarrow> n < length (cc_heap c) \<Longrightarrow> index_ok (setNode n c)"
  unfolding index_ok_alt setNode_nodes_ok
  by (simp add: setNode_resources setNode_nsNodes setNode_wf nodes_ok_put inner_ok_set)

lemma index_ok_removed: "index_ok c \<Longrightarrow> index_ok (onNodeRemoved key c)"
  unfolding index_ok_alt removed_nodes_ok
  by (simp add: onNodeRemoved_resources onNodeRemoved_nsNodes removed_wf nodes_ok_del inner_ok_removed)

interpretation index: cache_invariant index_ok setting
  by unfold_locales (erule index_ok_frame, erule same_tables_nodes, erule index_ok_frame, simp add: setting_def,
      erule index_ok_alloc, erule index_ok_set, assumption, erule index_ok_removed)

interpretation covers: cache_invariant index_covers setting
  by unfold_locales (erule index_covers_frame, erule same_tables_nodes, erule index_covers_frame, simp add: setting_def,
      erule index_covers_alloc, erule index_covers_set, assumption, erule index_covers_removed)

text \<open>
  What the cache keeps of an object is decided by the handler alone: a node with a manifest is a node of
  that object, and the handler has asked for the manifest when it gave the node its info.
\<close>

definition info_given :: "(unstructured \<Rightarrow> bool \<Rightarrow> 'i option \<times> bool) \<Rightarrow> 'i Resource \<Rightarrow> bool" where
  "info_given f r \<longleftrightarrow> (\<forall>un. Resource r = Some un \<longrightarrow> Ref r = GetObjectRef un \<and> (\<exists>isRoot. f un isRoot = (Info r, True)))"

definition infos_ok :: "(unstructured \<Rightarrow> bool \<Rightarrow> 'i option \<times> bool) \<Rightarrow> 'i clusterCache \<Rightarrow> bool" where
  "infos_ok f c \<longleftrightarrow> cc_populateResourceInfo c = Some f \<and> (\<forall>p<length (cc_heap c). info_given f (cc_heap c ! p))"

text \<open>The settings that leave the handler alone too.\<close>

definition keeps_handler :: "'i UpdateSettingsFunc \<Rightarrow> bool" where
  "keeps_handler opt \<longleftrightarrow> (\<forall>c. same_tables c (opt c))"

lemma infos_ok_frame: "infos_ok f c \<Longrightarrow> same_tables c c' \<Longrightarrow> infos_ok f c'"
  by (auto simp: infos_ok_def info_given_def same_tables_def same_metaD)

lemma info_given_new: "cc_populateResourceInfo c = Some f \<Longrightarrow> info_given f (resource_of templates un c)"
  unfolding info_given_def
proof (intro allI impI)
  fix u
  assume f: "cc_populateResourceInfo c = Some f" and u: "Resource (resource_of templates un c) = Some u"
  let ?root = "length (fst (resolveResourceReferences templates un)) = 0"
  from f u have "f u ?root = (Info (resource_of templates un c), True)" "Ref (resource_of templates un c) = GetObjectRef u"
    by (cases "f un ?root"; auto simp: resource_of_def Let_def split_beta split: if_splits)+
  then show "Ref (resource_of templates un c) = GetObjectRef u \<and>
      (\<exists>isRoot. f u isRoot = (Info (resource_of templates un c), True))" by blast
qed

lemma infos_ok_alloc: "infos_ok f c \<Longrightarrow> infos_ok f (snd (alloc (resource_of templates un c) c))"
  using info_given_new [of c f templates un] by (auto simp: infos_ok_def alloc_def nth_append less_Suc_eq)

lemma infos_ok_kept:
  "infos_ok f c \<Longrightarrow> infos_ok f (setNode n c)" "infos_ok f c \<Longrightarrow> infos_ok f (onNodeRemoved key c)"
proof -
  have "cc_populateResourceInfo (setNode n c) = cc_populateResourceInfo c"
    "cc_populateResourceInfo (onNodeRemoved key c) = cc_populateResourceInfo c"
    by (simp_all add: setNode_def onNodeRemoved_def Let_def log_calls_def split: option.split)
  then show "infos_ok f c \<Longrightarrow> infos_ok f (setNode n c)" "infos_ok f c \<Longrightarrow> infos_ok f (onNodeRemoved key c)"
    by (auto simp: infos_ok_def info_given_def same_metaD [OF setNode_heap] same_metaD [OF onNodeRemoved_heap])
qed

interpretation infos: cache_invariant "infos_ok f" keeps_handler for f
  by unfold_locales (erule infos_ok_frame, assumption, erule infos_ok_frame, simp add: keeps_handler_def,
      erule infos_ok_alloc, erule infos_ok_kept(1), erule infos_ok_kept(2))

end
