(* ===== verification/CacheSync.thy ===== *)
theory CacheSync
  imports CacheIndex
begin

text \<open>
  Synchronisation of the cache with the cluster: the listing of a kind with its retries, \<open>sync\<close> and
  \<open>EnsureSynced\<close> of \<open>pkg/cache/cluster.go\<close>.

  The cluster is behind the kubectl wrapper and the client libraries: the record \<open>cluster_api\<close> has
  what each call answers. The goroutines that \<open>sync\<close> starts, one for every API, are explicit: the
  steps that each of them takes under the lock form its plan, and a schedule says in which order
  the steps of the plans interleave.
\<close>

section \<open>The cluster\<close>

record list_result =
  lr_items :: "unstructured list"
  lr_version :: string
  lr_err :: "go_error option"

text \<open>
  What a request to list asks for, one page of the answer, and the two variables that the closure of
  \<open>listResources\<close> shares with the pager: the requests made so far (they tell the answers of the cluster
  apart) and the resource version of the last page.
\<close>

record list_options =
  lo_Limit :: int
  lo_Continue :: string
  lo_ResourceVersion :: string

record list_page =
  pg_items :: "unstructured list"
  pg_version :: string
  pg_continue :: string

record list_state =
  ls_requests :: nat
  ls_version :: string

type_synonym page_func = "list_options \<Rightarrow> list_state \<Rightarrow> (go_error + list_page) \<times> list_state"

record CRD =
  crd_group :: string
  crd_kind :: string
  crd_plural :: string
  crd_singular :: string
  crd_namespaced :: bool
  crd_versions :: "string list"

record cluster_api =
  ca_templates :: "unstructured \<Rightarrow> go_error + string list"
  ca_GroupKindString :: "GroupKind \<Rightarrow> string"
  ca_GetServerVersion :: "go_error + string"
  ca_GetAPIResources :: "bool \<Rightarrow> (string \<Rightarrow> string \<Rightarrow> string \<Rightarrow> bool) \<Rightarrow> go_error + APIResourceInfo list"
  ca_LoadOpenAPISchema :: "go_error + string \<times> string option"
  ca_NewDynamicClient :: "go_error option"
  ca_NewForConfig :: "go_error option"
  ca_Acquire :: "go_error option"
  ca_List :: "APIResourceInfo \<Rightarrow> string \<Rightarrow> list_options \<Rightarrow> nat \<Rightarrow> go_error + list_page"
  ca_EachListItem :: "int \<Rightarrow> int \<Rightarrow> page_func \<Rightarrow> list_state \<Rightarrow> (unstructured list \<times> go_error option) \<times> list_state"
  ca_ReviewAllowed :: "string \<Rightarrow> string \<Rightarrow> go_error + bool"
  ca_GetResource :: "GroupVersionKind \<Rightarrow> string \<Rightarrow> string \<Rightarrow> go_error + unstructured"
  ca_ConvertToVersion :: "unstructured \<Rightarrow> string \<Rightarrow> string \<Rightarrow> go_error + unstructured"
  ca_toCRD :: "unstructured \<Rightarrow> CRD"

section \<open>Listing\<close>

text \<open>
  The page function that \<open>listResources\<close> gives to the pager: one request, and its retries. The setting
  \<open>listRetryUseBackoff\<close> chooses the delays only. The limit counts the first attempt; \<open>SetRetryOptions\<close>
  keeps it positive.
\<close>

definition list_attempt :: "cluster_api \<Rightarrow> APIResourceInfo \<Rightarrow> string \<Rightarrow> page_func" where
  "list_attempt k8s api ns opts st =
     (let st' = st\<lparr>ls_requests := Suc (ls_requests st)\<rparr> in
      case ca_List k8s api ns opts (ls_requests st) of
        Inl ierr \<Rightarrow> (Inl ierr, st')
      | Inr res \<Rightarrow> (Inr res, st'\<lparr>ls_version := pg_version res\<rparr>))"

definition list_page_of :: "cluster_api \<Rightarrow> APIResourceInfo \<Rightarrow> string \<Rightarrow> 'i clusterCache \<Rightarrow> page_func" where
  "list_page_of k8s api ns c opts st =
     (case OnError (nat (cc_listRetryLimit c - 1)) (cc_listRetryFunc c) (list_attempt k8s api ns opts) st of
        (Inl err, st') \<Rightarrow> (Inl (wrap_err ''failed to list resources'' err), st')
      | (Inr res, st') \<Rightarrow> (Inr res, st'))"

text \<open>
  The pager is the library's: it calls the page function and hands over the items, until an error or the
  last page. The resource version is read after the pager has returned.
\<close>

definition listResources :: "cluster_api \<Rightarrow> APIResourceInfo \<Rightarrow> string \<Rightarrow> 'i clusterCache \<Rightarrow> list_result" where
  "listResources k8s api ns c =
     (case ca_Acquire k8s of
        Some e \<Rightarrow> \<lparr>lr_items = [], lr_version = '''', lr_err = Some (wrap_err ''failed to acquire list semaphore'' e)\<rparr>
      | None \<Rightarrow>
          (case ca_EachListItem k8s (cc_listPageSize c) (cc_listPageBufferSize c) (list_page_of k8s api ns c)
                  \<lparr>ls_requests = 0, ls_version = ''''\<rparr> of
             ((items, err), st) \<Rightarrow> \<lparr>lr_items = items, lr_version = ls_version st, lr_err = err\<rparr>))"

definition load_error :: "cluster_api \<Rightarrow> APIResourceInfo \<Rightarrow> go_error \<Rightarrow> go_error" where
  "load_error k8s api e = wrap_err (''failed to load initial state of resource '' @
     ca_GroupKindString k8s (infoGroupKind api)) e"

fun new_resources ::
  "(unstructured \<Rightarrow> go_error + string list) \<Rightarrow> unstructured list \<Rightarrow> 'i clusterCache \<Rightarrow> nat list \<times> 'i clusterCache" where
  "new_resources templates [] c = ([], c)"
| "new_resources templates (un # uns) c =
     (let (n, c1) = newResource templates un c; (ns, c2) = new_resources templates uns c1 in (n # ns, c2))"

definition loadInitialState ::
  "cluster_api \<Rightarrow> APIResourceInfo \<Rightarrow> string \<Rightarrow> 'i clusterCache \<Rightarrow> (go_error + string) \<times> 'i clusterCache" where
  "loadInitialState k8s api ns c =
     (let r = listResources k8s api ns c; (items, c1) = new_resources (ca_templates k8s) (lr_items r) c in
      case lr_err r of
        Some e \<Rightarrow> (Inl (load_error k8s api e), c1)
      | None \<Rightarrow> (Inr (lr_version r), replaceResourceCache (infoGroupKind api) items ns c1))"

text \<open>\<open>processApi\<close>: the namespaces for which the callback is called, empty for the whole cluster.\<close>

definition api_targets :: "APIResourceInfo \<Rightarrow> 'i clusterCache \<Rightarrow> string list" where
  "api_targets api c =
     (if length (cc_namespaces c) = 0 \<or> \<not> apiNamespaced (infoMeta api) \<and> cc_clusterResources c then ['''']
      else if length (cc_namespaces c) \<noteq> 0 \<and> apiNamespaced (infoMeta api) then cc_namespaces c
      else [])"

fun processApi :: "(string \<Rightarrow> 's \<Rightarrow> go_error option \<times> 's) \<Rightarrow> string list \<Rightarrow> 's \<Rightarrow> go_error option \<times> 's" where
  "processApi callback [] s = (None, s)"
| "processApi callback (ns # rest) s =
     (case callback ns s of (Some e, s') \<Rightarrow> (Some e, s') | (None, s') \<Rightarrow> processApi callback rest s')"

definition isRestrictedResource :: "go_error \<Rightarrow> 'i clusterCache \<Rightarrow> bool" where
  "isRestrictedResource err c \<longleftrightarrow>
     cc_respectRBAC c \<noteq> RespectRbacDisabled \<and> (IsForbidden err \<or> IsUnauthorized err)"

definition review :: "cluster_api \<Rightarrow> string \<Rightarrow> APIResourceInfo \<Rightarrow> go_error + bool" where
  "review k8s ns api =
     (case ca_ReviewAllowed k8s ns (gvrResource (infoGVR api)) of
        Inl e \<Rightarrow> Inl (wrap_err ''failed to create self subject access review'' e)
      | Inr allowed \<Rightarrow> if allowed then Inr True else Inr False)"

text \<open>The loop over the namespaces returns from its first iteration.\<close>

fun review_namespaces :: "cluster_api \<Rightarrow> APIResourceInfo \<Rightarrow> string list \<Rightarrow> go_error + bool" where
  "review_namespaces k8s api [] = Inr True"
| "review_namespaces k8s api (ns # rest) = review k8s ns api"

definition checkPermission :: "cluster_api \<Rightarrow> APIResourceInfo \<Rightarrow> 'i clusterCache \<Rightarrow> go_error + bool" where
  "checkPermission k8s api c =
     (if length (cc_namespaces c) = 0 \<or> \<not> apiNamespaced (infoMeta api) \<and> cc_clusterResources c then review k8s ''*'' api
      else if length (cc_namespaces c) \<noteq> 0 \<and> apiNamespaced (infoMeta api)
      then review_namespaces k8s api (cc_namespaces c)
      else Inr True)"

definition permission_error :: "cluster_api \<Rightarrow> APIResourceInfo \<Rightarrow> go_error \<Rightarrow> go_error \<Rightarrow> go_error" where
  "permission_error k8s api permErr err = Err (reason_of permErr)
     (''failed to check permissions for resource '' @ ca_GroupKindString k8s (infoGroupKind api) @ '': '' @
      err_text permErr @ '', original error='' @ err_text err)"

section \<open>sync\<close>

text \<open>What one goroutine of \<open>sync\<close> does under the lock, in order.\<close>

datatype sync_op =
    RegisterApi nat APIResourceInfo
  | ListedItem unstructured
  | ForgetApi GroupKind
  | StartWatch nat APIResourceInfo string string
  | FailApi go_error

definition is_FailApi :: "sync_op \<Rightarrow> bool" where
  "is_FailApi op = (case op of FailApi _ \<Rightarrow> True | _ \<Rightarrow> False)"

definition target_plan :: "cluster_api \<Rightarrow> nat \<Rightarrow> APIResourceInfo \<Rightarrow> string \<Rightarrow> 'i clusterCache \<Rightarrow> sync_op list" where
  "target_plan k8s w api ns c =
     (let r = listResources k8s api ns c in
      map ListedItem (lr_items r) @
      (case lr_err r of
         None \<Rightarrow> [StartWatch w api ns (lr_version r)]
       | Some err \<Rightarrow>
           if isRestrictedResource err c then
             (if cc_respectRBAC c = RespectRbacStrict then
                (case checkPermission k8s api c of
                   Inl permErr \<Rightarrow> [FailApi (permission_error k8s api permErr err)]
                 | Inr keep \<Rightarrow> if keep then [FailApi (load_error k8s api err)] else [ForgetApi (infoGroupKind api)])
              else [ForgetApi (infoGroupKind api)])
           else [FailApi (load_error k8s api err)]))"

fun plan_targets :: "cluster_api \<Rightarrow> nat \<Rightarrow> APIResourceInfo \<Rightarrow> string list \<Rightarrow> 'i clusterCache \<Rightarrow> sync_op list" where
  "plan_targets k8s w api [] c = []"
| "plan_targets k8s w api (ns # rest) c =
     (let p = target_plan k8s w api ns c in
      if list_ex is_FailApi p then p else p @ plan_targets k8s w api rest c)"

definition api_plan :: "cluster_api \<Rightarrow> 'i clusterCache \<Rightarrow> nat \<times> APIResourceInfo \<Rightarrow> sync_op list" where
  "api_plan k8s c wi = RegisterApi (fst wi) (snd wi) # plan_targets k8s (fst wi) (snd wi) (api_targets (snd wi) c) c"

definition exec_op :: "cluster_api \<Rightarrow> 'i clusterCache \<Rightarrow> sync_op \<Rightarrow> 'i clusterCache" where
  "exec_op k8s c op =
     (case op of
        RegisterApi w api \<Rightarrow>
          c\<lparr>cc_apisMeta := map_option
              (map_put (infoGroupKind api) \<lparr>am_namespaced = apiNamespaced (infoMeta api), am_watch = w\<rparr>) (cc_apisMeta c),
            cc_namespacedResources :=
              map_put (infoGroupKind api) (apiNamespaced (infoMeta api)) (cc_namespacedResources c)\<rparr>
      | ListedItem un \<Rightarrow> (let (n, c1) = newResource (ca_templates k8s) un c in setNode n c1)
      | ForgetApi gk \<Rightarrow> c\<lparr>cc_apisMeta := map_option (map_del gk) (cc_apisMeta c),
            cc_namespacedResources := map_del gk (cc_namespacedResources c)\<rparr>
      | StartWatch w api ns version \<Rightarrow> c\<lparr>cc_watches := cc_watches c @ [(w, api, ns, version)]\<rparr>
      | FailApi _ \<Rightarrow> c)"

text \<open>
  A schedule is a list of goroutine numbers: each entry lets that goroutine take one step, and when
  the list is used up the goroutines finish one after the other. Every interleaving has a schedule.
\<close>

fun interleave :: "nat list \<Rightarrow> 'a list list \<Rightarrow> 'a list" where
  "interleave [] qs = concat qs"
| "interleave (i # is) qs =
     (if i < length qs then
        (case qs ! i of [] \<Rightarrow> interleave is qs | x # xs \<Rightarrow> x # interleave is (qs[i := xs]))
      else interleave is qs)"

text \<open>
  \<open>RunAllAsync\<close> starts every goroutine, unless one that is started fails before: then the loop may stop
  after any number of them. The first failure is the one that is returned.
\<close>

record schedule =
  sch_order :: "nat list"
  sch_started :: nat

definition started_plans :: "nat \<Rightarrow> sync_op list list \<Rightarrow> sync_op list list" where
  "started_plans k plans =
     (if list_ex (list_ex is_FailApi) (take k plans) then take k plans else plans)"

fun first_failure :: "sync_op list \<Rightarrow> go_error option" where
  "first_failure [] = None"
| "first_failure (op # ops) = (case op of FailApi e \<Rightarrow> Some e | _ \<Rightarrow> first_failure ops)"

definition sync_apis ::
  "cluster_api \<Rightarrow> schedule \<Rightarrow> APIResourceInfo list \<Rightarrow> 'i clusterCache \<Rightarrow> go_error option \<times> 'i clusterCache" where
  "sync_apis k8s sch apis c =
     (let plans = started_plans (sch_started sch)
            (map (api_plan k8s c) (zip [cc_nextWatch c ..< cc_nextWatch c + length apis] apis));
          trace = interleave (sch_order sch) plans;
          c1 = foldl (exec_op k8s) (c\<lparr>cc_nextWatch := cc_nextWatch c + length apis\<rparr>) trace
      in (first_failure trace, c1))"

definition sync_reset :: "'i clusterCache \<Rightarrow> 'i clusterCache" where
  "sync_reset c =
     (let c1 = cancel_watches c;
          c2 = (if cc_batchEventsProcessing c1 then (invalidateEventMeta c1)\<lparr>cc_eventMetaCh := Some []\<rparr> else c1)
      in c2\<lparr>cc_apisMeta := Some [], cc_resources := [], cc_namespacedResources := []\<rparr>)"

definition sync :: "cluster_api \<Rightarrow> schedule \<Rightarrow> 'i clusterCache \<Rightarrow> go_error option \<times> 'i clusterCache" where
  "sync k8s sch c =
     (let c1 = sync_reset c in
      case ca_GetServerVersion k8s of
        Inl e \<Rightarrow> (Some (wrap_err ''failed to get server version'' e), c1)
      | Inr version \<Rightarrow>
     (let c2 = c1\<lparr>cc_serverVersion := version\<rparr> in
      case ca_GetAPIResources k8s False IsExcludedResource of
        Inl e \<Rightarrow> (Some (wrap_err ''failed to get api resources'' e), c2)
      | Inr apiResources \<Rightarrow>
     (let c3 = c2\<lparr>cc_apiResources := apiResources\<rparr> in
      case ca_LoadOpenAPISchema k8s of
        Inl e \<Rightarrow> (Some (wrap_err ''failed to load open api schema while syncing cluster cache'' e), c3)
      | Inr (openAPISchema, gvkParser) \<Rightarrow>
     (let c4 = c3\<lparr>cc_gvkParser := (if gvkParser \<noteq> None then gvkParser else cc_gvkParser c3),
                cc_openAPISchema := openAPISchema\<rparr> in
      case ca_GetAPIResources k8s True (cc_excluded c4) of
        Inl e \<Rightarrow> (Some (wrap_err ''failed to get api resources'' e), c4)
      | Inr apis \<Rightarrow>
          (case ca_NewDynamicClient k8s of
             Some e \<Rightarrow> (Some (wrap_err ''failed to create client'' e), c4)
           | None \<Rightarrow>
               (case ca_NewForConfig k8s of
                  Some e \<Rightarrow> (Some (wrap_err ''failed to create clientset'' e), c4)
                | None \<Rightarrow>
                    (case sync_apis k8s sch apis c4 of
                       (Some e, c5) \<Rightarrow> (Some (wrap_err (''failed to sync cluster '' @ cc_host c5) e), c5)
                     | (None, c5) \<Rightarrow> (None, c5))))))))"

section \<open>EnsureSynced\<close>

definition synced :: "int \<Rightarrow> 'i clusterCache \<Rightarrow> bool" where
  "synced now c =
     (case cc_syncTime c of
        None \<Rightarrow> False
      | Some syncTime \<Rightarrow>
          if cc_syncError c \<noteq> None then now < syncTime + cc_clusterSyncRetryTimeout c
          else if cc_resyncTimeout c = 0 then True
          else now < syncTime + cc_resyncTimeout c)"

text \<open>
  The part under the lock of the cache; \<open>now\<close> is the time of the check and \<open>now'\<close> the time after the
  synchronisation. The first check, without that lock, reads the state before.
\<close>

definition EnsureSynced_locked ::
  "cluster_api \<Rightarrow> schedule \<Rightarrow> int \<Rightarrow> int \<Rightarrow> 'i clusterCache \<Rightarrow> go_error option \<times> 'i clusterCache" where
  "EnsureSynced_locked k8s sch now now' c =
     (if synced now c then (cc_syncError c, c)
      else (let (err, c1) = sync k8s sch c in (err, c1\<lparr>cc_syncTime := Some now', cc_syncError := err\<rparr>)))"

definition EnsureSynced ::
  "cluster_api \<Rightarrow> schedule \<Rightarrow> int \<Rightarrow> int \<Rightarrow> int \<Rightarrow> 'i clusterCache \<Rightarrow> go_error option \<times> 'i clusterCache" where
  "EnsureSynced k8s sch now0 now now' c =
     (if synced now0 c then (cc_syncError c, c) else EnsureSynced_locked k8s sch now now' c)"

end
