(* ===== verification/CacheWatch.thy ===== *)
theory CacheWatch
  imports CacheSync
begin

text \<open>
  The life of the watches after a synchronisation: \<open>startMissingWatches\<close>, the events that \<open>watchEvents\<close>
  handles, with those of custom resource definitions, and \<open>GetManagedLiveObjs\<close>, all of
  \<open>pkg/cache/cluster.go\<close>.

  None as the outcome of an operation is that it does not return normally: the write to a nil map in
  \<open>startMissingWatches\<close> on an invalidated cache (a panic, which \<open>watchEvents\<close> recovers from), or a send
  on a nil channel.
\<close>

section \<open>Missing watches\<close>

text \<open>The callback of \<open>processApi\<close>: \<open>namespacedResources\<close> is the new map that is being built.\<close>

definition missing_target ::
  "cluster_api \<Rightarrow> nat \<Rightarrow> APIResourceInfo \<Rightarrow> string \<Rightarrow> 'i clusterCache \<times> (GroupKind \<times> bool) list \<Rightarrow>
     go_error option \<times> 'i clusterCache \<times> (GroupKind \<times> bool) list" where
  "missing_target k8s w api ns s =
     (let (c, namespacedResources) = s; (loaded, c1) = loadInitialState k8s api ns c;
          watch = (\<lambda>version. (None, c1\<lparr>cc_watches := cc_watches c1 @ [(w, api, ns, version)]\<rparr>, namespacedResources));
          forget = (None, c1\<lparr>cc_apisMeta := map_option (map_del (infoGroupKind api)) (cc_apisMeta c1)\<rparr>,
                    map_del (infoGroupKind api) namespacedResources)
      in case loaded of
           Inr version \<Rightarrow> watch version
         | Inl err \<Rightarrow>
             if isRestrictedResource err c1 then
               (if cc_respectRBAC c1 = RespectRbacStrict then
                  (case checkPermission k8s api c1 of
                     Inl permErr \<Rightarrow> (Some (permission_error k8s api permErr err), c1, namespacedResources)
                   | Inr keep \<Rightarrow> if keep then watch '''' else forget)
                else forget)
             else watch '''')"

fun missing_apis ::
  "cluster_api \<Rightarrow> APIResourceInfo list \<Rightarrow> 'i clusterCache \<times> (GroupKind \<times> bool) list \<Rightarrow>
     (go_error option \<times> 'i clusterCache \<times> (GroupKind \<times> bool) list) option" where
  "missing_apis k8s [] s = Some (None, s)"
| "missing_apis k8s (api # apis) (c, namespacedResources) =
     (let nr = map_put (infoGroupKind api) (apiNamespaced (infoMeta api)) namespacedResources in
      if (case cc_apisMeta c of None \<Rightarrow> False | Some m \<Rightarrow> map_of m (infoGroupKind api) \<noteq> None)
      then missing_apis k8s apis (c, nr)
      else
        (case cc_apisMeta c of
           None \<Rightarrow> None
         | Some m \<Rightarrow>
             (let w = cc_nextWatch c;
                  c1 = c\<lparr>cc_nextWatch := Suc w, cc_apisMeta := Some (map_put (infoGroupKind api)
                         \<lparr>am_namespaced = apiNamespaced (infoMeta api), am_watch = w\<rparr> m)\<rparr>
              in case processApi (missing_target k8s w api) (api_targets api c1) (c1, nr) of
                   (Some err, s') \<Rightarrow> Some (Some err, s')
                 | (None, s') \<Rightarrow> missing_apis k8s apis s')))"

definition startMissingWatches :: "cluster_api \<Rightarrow> 'i clusterCache \<Rightarrow> (go_error option \<times> 'i clusterCache) option" where
  "startMissingWatches k8s c =
     (case ca_GetAPIResources k8s True (cc_excluded c) of
        Inl e \<Rightarrow> Some (Some (wrap_err ''failed to get APIResources'' e), c)
      | Inr apis \<Rightarrow>
          (case ca_NewDynamicClient k8s of
             Some e \<Rightarrow> Some (Some (wrap_err ''failed to create client'' e), c)
           | None \<Rightarrow>
               (case ca_NewForConfig k8s of
                  Some e \<Rightarrow> Some (Some (wrap_err ''failed to create clientset'' e), c)
                | None \<Rightarrow>
                    (case missing_apis k8s apis (c, []) of
                       None \<Rightarrow> None
                     | Some (Some err, c1, _) \<Rightarrow> Some (Some err, c1)
                     | Some (None, c1, namespacedResources) \<Rightarrow>
                         Some (None, c1\<lparr>cc_namespacedResources := namespacedResources\<rparr>)))))"

section \<open>Events of a watch\<close>

definition crd_resources :: "CRD \<Rightarrow> APIResourceInfo list" where
  "crd_resources crd = map (\<lambda>v.
     \<lparr>infoGroupKind = (crd_group crd, crd_kind crd),
      infoGVR = \<lparr>gvrGroup = crd_group crd, gvrVersion = v, gvrResource = crd_plural crd\<rparr>,
      infoMeta = \<lparr>apiName = crd_plural crd, apiKind = crd_singular crd, apiNamespaced = crd_namespaced crd,
                  apiVerbs = []\<rparr>\<rparr>) (crd_versions crd)"

text \<open>Reloading the schema; an error is logged.\<close>

definition reload_schema :: "cluster_api \<Rightarrow> 'i clusterCache \<Rightarrow> 'i clusterCache" where
  "reload_schema k8s c =
     (case ca_LoadOpenAPISchema k8s of
        Inl _ \<Rightarrow> c
      | Inr (openAPISchema, gvkParser) \<Rightarrow>
          c\<lparr>cc_gvkParser := (if gvkParser \<noteq> None then gvkParser else cc_gvkParser c), cc_openAPISchema := openAPISchema\<rparr>)"

definition handle_crd :: "cluster_api \<Rightarrow> WatchEvent \<Rightarrow> unstructured \<Rightarrow> 'i clusterCache \<Rightarrow> 'i clusterCache option" where
  "handle_crd k8s event obj c =
     (let apis = crd_resources (ca_toCRD k8s obj) in
      if event = Deleted then Some (reload_schema k8s (foldl (\<lambda>c a. deleteAPIResource a c) c apis))
      else (let c1 = (if event = Added then foldl (\<lambda>c a. appendAPIResource a c) c apis else c) in
            case startMissingWatches k8s c1 of
              None \<Rightarrow> None
            | Some (_, c2) \<Rightarrow> Some (reload_schema k8s c2)))"

definition watch_event :: "cluster_api \<Rightarrow> WatchEvent \<Rightarrow> unstructured \<Rightarrow> 'i clusterCache \<Rightarrow> 'i clusterCache option" where
  "watch_event k8s event obj c =
     (case recordEvent (ca_templates k8s) event obj c of
        None \<Rightarrow> None
      | Some c1 \<Rightarrow> if IsCRD obj then handle_crd k8s event obj c1 else Some c1)"

text \<open>A watch without a resource version loads the state again.\<close>

definition watch_start :: "cluster_api \<Rightarrow> APIResourceInfo \<Rightarrow> string \<Rightarrow> string \<Rightarrow> 'i clusterCache \<Rightarrow>
    (go_error + string) \<times> 'i clusterCache" where
  "watch_start k8s api ns resourceVersion c =
     (if resourceVersion = '''' then loadInitialState k8s api ns c else (Inr resourceVersion, c))"

section \<open>GetManagedLiveObjs\<close>

definition unmanaged_error :: "unstructured \<Rightarrow> 'i clusterCache \<Rightarrow> go_error option" where
  "unmanaged_error o' c =
     (if length (cc_namespaces c) > 0 then
        if GetNamespace o' = '''' \<and> \<not> cc_clusterResources c then
          Some (Err ReasonOther (''cluster level '' @ GetKind o' @ '' '' @ quote (GetName o') @
                  '' can not be managed when in namespaced mode''))
        else if GetNamespace o' \<noteq> '''' \<and> \<not> managesNamespace (GetNamespace o') c then
          Some (Err ReasonOther (''namespace '' @ quote (GetNamespace o') @ '' for '' @ GetKind o' @ '' '' @
                  quote (GetName o') @ '' is not managed''))
        else None
      else None)"

definition labelled_objs :: "('i Resource \<Rightarrow> bool) \<Rightarrow> 'i clusterCache \<Rightarrow> (ResourceKey \<times> unstructured) list" where
  "labelled_objs isManaged c =
     map (\<lambda>(key, p). (key, the (Resource (cc_heap c ! p))))
       (filter (\<lambda>(key, p). isManaged (cc_heap c ! p) \<and> Resource (cc_heap c ! p) \<noteq> None \<and>
           length (OwnerRefs (cc_heap c ! p)) = 0) (cc_resources c))"

text \<open>A resource that is not found is treated as absent.\<close>

definition fetch :: "cluster_api \<Rightarrow> GroupVersionKind \<Rightarrow> string \<Rightarrow> string \<Rightarrow> go_error + unstructured option" where
  "fetch k8s gvk name ns =
     (case ca_GetResource k8s gvk name ns of
        Inr obj \<Rightarrow> Inr (Some obj)
      | Inl e \<Rightarrow> if IsNotFound e then Inr None else Inl (wrap_err ''unexpected error getting managed object'' e))"

definition watched :: "GroupKind \<Rightarrow> 'i clusterCache \<Rightarrow> bool" where
  "watched gk c \<longleftrightarrow> (case cc_apisMeta c of None \<Rightarrow> False | Some m \<Rightarrow> map_of m gk \<noteq> None)"

definition live_obj ::
  "cluster_api \<Rightarrow> 'i clusterCache \<Rightarrow> unstructured \<Rightarrow> unstructured option \<Rightarrow> go_error + unstructured option" where
  "live_obj k8s c targetObj managedObj =
     (let key = GetResourceKey targetObj in
      case managedObj of
        Some obj \<Rightarrow> Inr (Some obj)
      | None \<Rightarrow>
          (case map_of (cc_resources c) key of
             Some p \<Rightarrow>
               (case Resource (cc_heap c ! p) of
                  Some obj \<Rightarrow> Inr (Some obj)
                | None \<Rightarrow> fetch k8s (GVK targetObj) (RefName (Ref (cc_heap c ! p))) (RefNamespace (Ref (cc_heap c ! p))))
           | None \<Rightarrow>
               if \<not> watched (ResourceKey_GroupKind key) c
               then fetch k8s (GVK targetObj) (GetName targetObj) (GetNamespace targetObj) else Inr None))"

definition converted_obj :: "cluster_api \<Rightarrow> unstructured \<Rightarrow> unstructured \<Rightarrow> go_error + unstructured option" where
  "converted_obj k8s targetObj obj =
     (case ca_ConvertToVersion k8s obj (gvkGroup (GVK targetObj)) (gvkVersion (GVK targetObj)) of
        Inr converted \<Rightarrow> Inr (Some converted)
      | Inl _ \<Rightarrow> fetch k8s (GVK targetObj) (GetName obj) (GetNamespace obj))"

definition managed_target ::
  "cluster_api \<Rightarrow> 'i clusterCache \<Rightarrow> unstructured \<Rightarrow> (ResourceKey \<times> unstructured) list \<Rightarrow>
     go_error + (ResourceKey \<times> unstructured) list" where
  "managed_target k8s c targetObj managedObjs =
     (let key = GetResourceKey targetObj in
      case live_obj k8s c targetObj (map_of managedObjs key) of
        Inl e \<Rightarrow> Inl e
      | Inr None \<Rightarrow> Inr managedObjs
      | Inr (Some obj) \<Rightarrow>
          (case converted_obj k8s targetObj obj of
             Inl e \<Rightarrow> Inl e
           | Inr None \<Rightarrow> Inr managedObjs
           | Inr (Some managedObj) \<Rightarrow> Inr (map_put key managedObj managedObjs)))"

text \<open>
  The goroutines of \<open>RunAllAsync\<close>, one for every target, in one order; targets with different keys do
  not touch each other's entry. After a failure the remaining ones make no difference.
\<close>

fun managed_targets ::
  "cluster_api \<Rightarrow> 'i clusterCache \<Rightarrow> unstructured list \<Rightarrow> (ResourceKey \<times> unstructured) list \<Rightarrow>
     go_error + (ResourceKey \<times> unstructured) list" where
  "managed_targets k8s c [] m = Inr m"
| "managed_targets k8s c (t # ts) m =
     (case managed_target k8s c t m of Inl e \<Rightarrow> Inl e | Inr m' \<Rightarrow> managed_targets k8s c ts m')"

definition GetManagedLiveObjs ::
  "cluster_api \<Rightarrow> unstructured list \<Rightarrow> ('i Resource \<Rightarrow> bool) \<Rightarrow> 'i clusterCache \<Rightarrow>
     go_error + (ResourceKey \<times> unstructured) list" where
  "GetManagedLiveObjs k8s targetObjs isManaged c =
     (case first_found (\<lambda>o'. unmanaged_error o' c) targetObjs of
        Some e \<Rightarrow> Inl e
      | None \<Rightarrow>
          (case managed_targets k8s c targetObjs (labelled_objs isManaged c) of
             Inl e \<Rightarrow> Inl (wrap_err ''failed to get managed objects'' e)
           | Inr m \<Rightarrow> Inr m))"

end
