(* ===== verification/CacheProps.thy ===== *)
theory CacheProps
  imports CacheWatch
begin

text \<open>
  Properties of the cluster cache as a whole: the index by namespace under every sequence of
  operations, what a synchronisation leaves in the cache, when it runs, and the traversal of the
  hierarchy of the cache.
\<close>

section \<open>Invariants under the operations that talk to the cluster\<close>

lemma exec_op_cases:
  obtains "same_tables c (exec_op k8s c op)"
  | un where "op = ListedItem un" "exec_op k8s c op = (let (n, c1) = newResource (ca_templates k8s) un c in setNode n c1)"
  by (cases op) (auto simp: exec_op_def same_tables_def)

lemma newResource_cases: "\<exists>n c1. newResource templates un c = (n, c1)"
  by fastforce

lemma sync_reset_tables [simp]:
  "cc_heap (sync_reset c) = cc_heap c" "cc_nsIndex (sync_reset c) = cc_nsIndex c" "cc_resources (sync_reset c) = []"
  "nsNodes (sync_reset c) ns = nsNodes c ns"
  by (simp_all add: sync_reset_def cancel_watches_def invalidateEventMeta_def Let_def nsNodes_def)

text \<open>The settings that \<open>sync\<close> reads are not changed by its first part.\<close>

definition same_settings :: "'i clusterCache \<Rightarrow> 'i clusterCache \<Rightarrow> bool" where
  "same_settings c c' \<longleftrightarrow> cc_excluded c' = cc_excluded c \<and> cc_namespaces c' = cc_namespaces c \<and>
     cc_clusterResources c' = cc_clusterResources c \<and> cc_respectRBAC c' = cc_respectRBAC c \<and>
     cc_listPageSize c' = cc_listPageSize c \<and> cc_listPageBufferSize c' = cc_listPageBufferSize c \<and>
     cc_listRetryLimit c' = cc_listRetryLimit c \<and> cc_listRetryUseBackoff c' = cc_listRetryUseBackoff c \<and>
     cc_listRetryFunc c' = cc_listRetryFunc c"

lemma sync_reset_settings: "same_settings c (sync_reset c)"
  by (simp add: same_settings_def sync_reset_def cancel_watches_def invalidateEventMeta_def Let_def)

lemma sync_cases:
  obtains e c' where "sync k8s sch c = (Some e, c')" "same_tables (sync_reset c) c'"
  | apis c4 where "sync k8s sch c = (map_option (wrap_err (''failed to sync cluster '' @ cc_host (snd (sync_apis k8s sch apis c4))))
        (fst (sync_apis k8s sch apis c4)), snd (sync_apis k8s sch apis c4))"
      "ca_GetAPIResources k8s True (cc_excluded c) = Inr apis" "same_tables (sync_reset c) c4" "same_settings c c4"
proof -
  have ex: "cc_excluded (sync_reset c) = cc_excluded c" using sync_reset_settings [of c] by (simp add: same_settings_def)
  let ?c1 = "sync_reset c"
  show ?thesis
  proof (cases "ca_GetServerVersion k8s")
    case (Inl e)
    then show ?thesis by (intro that(1)) (simp add: sync_def Let_def)+
  next
    case v: (Inr version)
    show ?thesis
    proof (cases "ca_GetAPIResources k8s False IsExcludedResource")
      case (Inl e)
      with v show ?thesis by (intro that(1)) (simp add: sync_def Let_def same_tables_def)+
    next
      case a: (Inr apiResources)
      show ?thesis
      proof (cases "ca_LoadOpenAPISchema k8s")
        case (Inl e)
        with v a show ?thesis by (intro that(1)) (simp add: sync_def Let_def same_tables_def)+
      next
        case l: (Inr sp)
        obtain schema parser where sp: "sp = (schema, parser)" by (cases sp)
        define c4 where "c4 = (?c1\<lparr>cc_serverVersion := version, cc_apiResources := apiResources,
          cc_gvkParser := (if parser \<noteq> None then parser else cc_gvkParser ?c1), cc_openAPISchema := schema\<rparr>)"
        have t4: "same_tables ?c1 c4" by (simp add: c4_def same_tables_def)
        have s4: "same_settings c c4" using sync_reset_settings [of c] by (simp add: c4_def same_settings_def)
        have sync: "sync k8s sch c = (case ca_GetAPIResources k8s True (cc_excluded c) of
            Inl e \<Rightarrow> (Some (wrap_err ''failed to get api resources'' e), c4)
          | Inr apis \<Rightarrow> (case ca_NewDynamicClient k8s of
               Some e \<Rightarrow> (Some (wrap_err ''failed to create client'' e), c4)
             | None \<Rightarrow> (case ca_NewForConfig k8s of
                  Some e \<Rightarrow> (Some (wrap_err ''failed to create clientset'' e), c4)
                | None \<Rightarrow> (case sync_apis k8s sch apis c4 of
                     (Some e, c5) \<Rightarrow> (Some (wrap_err (''failed to sync cluster '' @ cc_host c5) e), c5)
                   | (None, c5) \<Rightarrow> (None, c5)))))"
          using v a l sp by (simp add: sync_def Let_def c4_def ex cong: sum.case_cong option.case_cong)
        show ?thesis
        proof (cases "ca_GetAPIResources k8s True (cc_excluded c)")
          case (Inl e)
          with sync t4 show ?thesis by (intro that(1)) simp+
        next
          case p: (Inr apis)
          show ?thesis
          proof (cases "ca_NewDynamicClient k8s = None \<and> ca_NewForConfig k8s = None")
            case True
            with sync p t4 s4 show ?thesis
              by (intro that(2) [of apis c4]) (cases "sync_apis k8s sch apis c4"; simp split: option.split)+
          next
            case False
            with sync p t4 show ?thesis
              by (cases "ca_NewDynamicClient k8s"; cases "ca_NewForConfig k8s") (auto intro: that(1))
          qed
        qed
      qed
    qed
  qed
qed

context cache_invariant
begin

lemma executed: "I c \<Longrightarrow> I (exec_op k8s c op)"
  by (cases rule: exec_op_cases [of c k8s op]) (auto intro: frame new_updated(2) split: prod.split)

lemma executed_all: "I c \<Longrightarrow> I (foldl (exec_op k8s) c ops)"
  by (induction ops arbitrary: c) (simp_all add: executed)

lemma apis_synced: "I c \<Longrightarrow> I (snd (sync_apis k8s sch apis c))"
proof -
  assume "I c"
  then have "I (c\<lparr>cc_nextWatch := w\<rparr>)" for w by (rule frame) (simp add: same_tables_def)
  then show ?thesis by (simp add: sync_apis_def Let_def executed_all)
qed

lemma synchronised: "I (sync_reset c) \<Longrightarrow> I (snd (sync k8s sch c))"
  by (cases rule: sync_cases [of k8s sch c]) (auto intro: frame apis_synced)

lemma ensured: "I c \<Longrightarrow> I (sync_reset c) \<Longrightarrow> I (snd (EnsureSynced k8s sch t0 t1 t2 c))"
proof -
  assume "I c" "I (sync_reset c)"
  moreover have "I ((snd (sync k8s sch c))\<lparr>cc_syncTime := t, cc_syncError := e\<rparr>)" for t e
    by (rule frame [OF synchronised [OF \<open>I (sync_reset c)\<close>, of k8s sch]]) (simp add: same_tables_def)
  ultimately show ?thesis by (simp add: EnsureSynced_def EnsureSynced_locked_def Let_def split_beta)
qed

lemma news:
  assumes "I c"
  shows "I (snd (new_resources templates uns c)) \<and>
     length (cc_heap (snd (new_resources templates uns c))) = length (cc_heap c) + length uns \<and>
     (\<forall>n\<in>set (fst (new_resources templates uns c)). n < length (cc_heap c) + length uns)"
  using assms
proof (induction uns arbitrary: c)
  case (Cons un uns)
  have "I (snd (newResource templates un c))" using alloc [OF Cons.prems] by (simp add: newResource_def)
  from Cons.IH [OF this] show ?case
    by (auto simp: newResource_def alloc_def split_beta Let_def)
qed simp

lemma loaded: "I c \<Longrightarrow> I (snd (loadInitialState k8s api ns c))"
  using news [of c "ca_templates k8s" "lr_items (listResources k8s api ns c)"]
  by (auto simp: loadInitialState_def Let_def split_beta intro!: replaced split: option.split)

lemma target_missing:
  assumes "I (fst s)"
  shows "I (fst (snd (missing_target k8s w api ns s)))"
proof -
  obtain c nr where s: "s = (c, nr)" by (cases s)
  obtain l c1 where l: "loadInitialState k8s api ns c = (l, c1)" by fastforce
  have "I c1" using loaded [of c k8s api ns] assms by (simp add: s l)
  then have "I (c1\<lparr>cc_watches := ws\<rparr>)" "I (c1\<lparr>cc_apisMeta := m\<rparr>)" "I c1" for ws m
    by (auto intro!: frame [OF \<open>I c1\<close>] simp: same_tables_def)
  then show ?thesis by (simp add: missing_target_def s l Let_def split: sum.split)
qed

lemma target_processed:
  assumes "\<And>ns s. I (fst s) \<Longrightarrow> I (fst (snd (callback ns s)))"
  shows "I (fst s) \<Longrightarrow> I (fst (snd (processApi callback nss s)))"
proof (induction nss arbitrary: s)
  case (Cons ns nss)
  then show ?case using assms [of s ns] by (auto split: prod.split option.split)
qed simp

lemma apis_missing: "I (fst s) \<Longrightarrow> missing_apis k8s apis s = Some (err, s') \<Longrightarrow> I (fst s')"
proof (induction apis arbitrary: s)
  case (Cons api apis)
  obtain c nr where s: "s = (c, nr)" by (cases s)
  have I1: "I (c\<lparr>cc_nextWatch := w, cc_apisMeta := m\<rparr>)" for w m
    using Cons.prems(1) by (auto simp: s same_tables_def intro: frame)
  have "I (fst (snd (processApi (missing_target k8s w api) nss (c\<lparr>cc_nextWatch := w', cc_apisMeta := m\<rparr>, nr'))))"
    for w w' m nr' nss
    by (rule target_processed [OF target_missing]) (simp_all add: I1)
  then show ?case using Cons.IH Cons.prems unfolding s
    by (auto simp: Let_def split: if_splits option.splits prod.splits) (metis fst_conv snd_conv)+
qed simp

lemma watches_started: "I c \<Longrightarrow> startMissingWatches k8s c = Some (err, c') \<Longrightarrow> I c'"
  using apis_missing [of "(c, [])"]
  by (fastforce simp: startMissingWatches_def same_tables_def intro: frame split: sum.splits option.splits)

lemma schema_reloaded: "I c \<Longrightarrow> I (reload_schema k8s c)"
  by (auto simp: reload_schema_def same_tables_def intro: frame split: sum.split)

lemma apis_changed:
  assumes "I c"
  shows "I (foldl (\<lambda>c a. deleteAPIResource a c) c apis)" "I (foldl (\<lambda>c a. appendAPIResource a c) c apis)"
proof -
  have "same_tables c (deleteAPIResource a c)" "same_tables c (appendAPIResource a c)" for a and c :: "'i clusterCache"
    by (simp_all add: deleteAPIResource_def appendAPIResource_def same_tables_def split: option.split)
  then have "I (deleteAPIResource a c)" "I (appendAPIResource a c)" if "I c" for a c
    using that frame by blast+
  with assms show "I (foldl (\<lambda>c a. deleteAPIResource a c) c apis)" "I (foldl (\<lambda>c a. appendAPIResource a c) c apis)"
    by (induction apis arbitrary: c) simp_all
qed

lemma crd_handled: "I c \<Longrightarrow> handle_crd k8s e obj c = Some c' \<Longrightarrow> I c'"
  using watches_started [of "if e = Added then foldl (\<lambda>c a. appendAPIResource a c) c (crd_resources (ca_toCRD k8s obj)) else c" k8s]
  by (auto simp: handle_crd_def Let_def intro!: schema_reloaded apis_changed split: if_splits option.splits)

lemma watched: "I c \<Longrightarrow> watch_event k8s e obj c = Some c' \<Longrightarrow> I c'"
  by (auto simp: watch_event_def intro: recorded crd_handled split: option.splits if_splits)

lemma hierarchy:
  assumes "I c" "IterateHierarchyV2 pg keys action st c = Some (st', c')"
  shows "I c'"
proof -
  have link: "same_meta h (fst (link_nodes pg ns todo h g))" for ns todo g and h :: "'i heap"
  proof (induction todo arbitrary: h g)
    case (Cons kc todo)
    have "h[p := (h ! p)\<lparr>OwnerRefs := refs\<rparr>] ! q = (if q = p \<and> p < length h then (h ! p)\<lparr>OwnerRefs := refs\<rparr> else h ! q)"
      for p q refs by (cases "p = q"; cases "p < length h") (simp_all add: list_update_beyond)
    then have "same_meta h (h[p := (h ! p)\<lparr>OwnerRefs := refs\<rparr>])" for p refs
      by (simp add: same_meta_def)
    with Cons show ?case by (cases kc) (simp add: split_beta Let_def, blast intro: same_meta_trans)
  qed simp
  have "iterate_namespaces pg res idx action groups (h, s) = Some (h', s') \<Longrightarrow> same_meta h h'"
    for res idx groups s s' and h h' :: "'i heap"
  proof (induction groups arbitrary: h s)
    case (Cons nk groups)
    then show ?case using link [of h "idx (fst nk)" "idx (fst nk)" "[]"]
      by (cases nk) (auto simp: Let_def split_beta buildGraph_def intro: same_meta_trans split: option.splits)
  qed simp
  with assms(2) have "same_tables c c'"
    by (auto simp: IterateHierarchyV2_def same_tables_def split: option.splits)
  with assms(1) show ?thesis by (rule frame)
qed

end

section \<open>The index by namespace\<close>

text \<open>
  The operations on a running cache; \<open>event_step\<close> leaves out the synchronisation of the whole cache,
  \<open>cache_step\<close> has it too. A setting is a function that leaves the nodes alone, as all of \<open>settings.go\<close> do;
  \<open>S\<close> says which settings an invalidation may change.
\<close>
lemma settings:
  "setting (SetPopulateResourceInfoHandler f)" "setting (SetSettings ex)" "setting (SetNamespaces nss)"
  "setting (SetClusterResources b)" "setting (SetConfig host)" "setting (SetListPageSize n)"
  "setting (SetListPageBufferSize n)" "setting (SetListSemaphore n)" "setting (SetResyncTimeout n)"
  "setting (SetWatchResyncTimeout n)" "setting (SetClusterSyncRetryTimeout n)" "setting (SetRetryOptions n b rf)"
  "setting (SetRespectRBAC n)" "setting (SetBatchEventsProcessing b)" "setting (SetEventProcessingInterval n)"
  by (simp_all add: setting_def same_nodes_def SetPopulateResourceInfoHandler_def SetSettings_def SetNamespaces_def
      SetClusterResources_def SetConfig_def SetListPageSize_def SetListPageBufferSize_def SetListSemaphore_def
      SetResyncTimeout_def SetWatchResyncTimeout_def SetClusterSyncRetryTimeout_def SetRetryOptions_def
      SetRespectRBAC_def SetBatchEventsProcessing_def SetEventProcessingInterval_def)

inductive event_step ::
  "('i UpdateSettingsFunc \<Rightarrow> bool) \<Rightarrow> cluster_api \<Rightarrow> 'i clusterCache \<Rightarrow> 'i clusterCache \<Rightarrow> bool"
  for S :: "'i UpdateSettingsFunc \<Rightarrow> bool" and k8s :: cluster_api where
  watch: "watch_event k8s e obj c = Some c' \<Longrightarrow> event_step S k8s c c'"
| tick: "event_step S k8s c (processEvents_tick (ca_templates k8s) c)"
| relist: "event_step S k8s c (snd (watch_start k8s api ns version c))"
| missing: "startMissingWatches k8s c = Some (err, c') \<Longrightarrow> event_step S k8s c c'"
| stop: "event_step S k8s c (stopWatching gk ns c)"
| invalidate: "list_all S opts \<Longrightarrow> event_step S k8s c (Invalidate opts c)"
| hierarchy: "IterateHierarchyV2 pg keys (action :: nat option list callback) st c = Some (st', c') \<Longrightarrow> event_step S k8s c c'"

inductive cache_step ::
  "('i UpdateSettingsFunc \<Rightarrow> bool) \<Rightarrow> cluster_api \<Rightarrow> 'i clusterCache \<Rightarrow> 'i clusterCache \<Rightarrow> bool"
  for S :: "'i UpdateSettingsFunc \<Rightarrow> bool" and k8s :: cluster_api where
  event: "event_step S k8s c c' \<Longrightarrow> cache_step S k8s c c'"
| ensure: "cache_step S k8s c (snd (EnsureSynced k8s sch t0 t1 t2 c))"

context cache_invariant
begin

lemma event_kept: "event_step S k8s c c' \<Longrightarrow> I c \<Longrightarrow> I c'"
proof (induction rule: event_step.induct)
  case (relist c api ns version)
  then show ?case by (simp add: watch_start_def loaded)
qed (auto intro: watched tick watches_started stopped hierarchy invalidated)

lemma events_kept: "(event_step S k8s)\<^sup>*\<^sup>* c c' \<Longrightarrow> I c \<Longrightarrow> I c'"
  by (induction rule: rtranclp_induct) (auto intro: event_kept)

end

lemma index_covers_reset: "index_covers c \<Longrightarrow> index_covers (sync_reset c)"
  by (simp add: index_covers_def sync_reset_def cancel_watches_def invalidateEventMeta_def Let_def nsNodes_def)

lemma index_ok_reset: "cc_nsIndex c = [] \<Longrightarrow> index_ok (sync_reset c)"
  by (simp add: index_ok_def nsNodes_def)

lemma cache_step_covers: "cache_step setting k8s c c' \<Longrightarrow> index_covers c \<Longrightarrow> index_covers c'"
  by (induction rule: cache_step.induct) (auto intro: covers.event_kept covers.ensured index_covers_reset)

lemma new_cache_nodes: "list_all setting opts \<Longrightarrow> same_nodes (empty_cache host) (NewClusterCache host opts)"
  unfolding NewClusterCache_def by (rule foldl_nodes)

lemma empty_cache_ok: "index_ok (empty_cache host)"
  by (simp add: index_ok_def empty_cache_def nsNodes_def)

text \<open>A cluster with one StatefulSet, for the witnesses.\<close>

definition demo_obj :: "string \<Rightarrow> string \<Rightarrow> string \<Rightarrow> string \<Rightarrow> unstructured" where
  "demo_obj g kind name uid = (mk_obj g kind ''prod'' name)\<lparr>GetUID := uid, GetResourceVersion := ''7''\<rparr>"

definition demo_info :: "string \<Rightarrow> string \<Rightarrow> APIResourceInfo" where
  "demo_info g kind = \<lparr>infoGroupKind = (g, kind), infoGVR = \<lparr>gvrGroup = g, gvrVersion = ''v1'', gvrResource = kind\<rparr>,
     infoMeta = \<lparr>apiName = kind, apiKind = kind, apiNamespaced = True, apiVerbs = [''list'', ''watch'']\<rparr>\<rparr>"

text \<open>A pager for the witnesses: it follows the continuation for a bounded number of pages.\<close>

fun each_item ::
  "nat \<Rightarrow> list_options \<Rightarrow> page_func \<Rightarrow> list_state \<Rightarrow> (unstructured list \<times> go_error option) \<times> list_state" where
  "each_item 0 opts page st = (([], Some (Err ReasonOther ''too many pages'')), st)"
| "each_item (Suc n) opts page st =
     (case page opts st of
        (Inl e, st') \<Rightarrow> (([], Some e), st')
      | (Inr p, st') \<Rightarrow>
          if pg_continue p = '''' then ((pg_items p, None), st')
          else (case each_item n (opts\<lparr>lo_Continue := pg_continue p\<rparr>) page st' of
                  ((items, err), st'') \<Rightarrow> ((pg_items p @ items, err), st'')))"

definition demo_api :: "unstructured list \<Rightarrow> cluster_api" where
  "demo_api objs = \<lparr>ca_templates = (\<lambda>_. Inr [''data'']), ca_GroupKindString = fst, ca_GetServerVersion = Inr ''1.30'',
     ca_GetAPIResources = (\<lambda>_ _. Inr [demo_info ''apps'' ''StatefulSet'', demo_info '''' ''PersistentVolumeClaim'']),
     ca_LoadOpenAPISchema = Inr (''schema'', None), ca_NewDynamicClient = None, ca_NewForConfig = None,
     ca_Acquire = None,
     ca_List = (\<lambda>api _ _ _. Inr \<lparr>pg_items = filter (\<lambda>o'. (gvkGroup (GVK o'), gvkKind (GVK o')) = infoGroupKind api) objs,
       pg_version = ''7'', pg_continue = ''''\<rparr>),
     ca_EachListItem = (\<lambda>size _. each_item 2 \<lparr>lo_Limit = size, lo_Continue = '''', lo_ResourceVersion = ''''\<rparr>),
     ca_ReviewAllowed = (\<lambda>_ _. Inr True), ca_GetResource = (\<lambda>_ _ _. Inl (Err ReasonNotFound '''')),
     ca_ConvertToVersion = (\<lambda>u _ _. Inr u),
     ca_toCRD = (\<lambda>_. \<lparr>crd_group = '''', crd_kind = '''', crd_plural = '''', crd_singular = '''',
       crd_namespaced = True, crd_versions = []\<rparr>)\<rparr>"

lemma demo_listing:
  "listResources (demo_api objs) api ns c =
     \<lparr>lr_items = filter (\<lambda>o'. (gvkGroup (GVK o'), gvkKind (GVK o')) = infoGroupKind api) objs, lr_version = ''7'', lr_err = None\<rparr>"
proof -
  have "list_attempt (demo_api objs) api ns opts st =
      (Inr \<lparr>pg_items = filter (\<lambda>o'. (gvkGroup (GVK o'), gvkKind (GVK o')) = infoGroupKind api) objs,
         pg_version = ''7'', pg_continue = ''''\<rparr>, st\<lparr>ls_requests := Suc (ls_requests st), ls_version := ''7''\<rparr>)" for opts st
    by (simp add: list_attempt_def demo_api_def)
  note page = OnError_Inr [OF this]
  have "list_page_of (demo_api objs) api ns c opts st =
      (Inr \<lparr>pg_items = filter (\<lambda>o'. (gvkGroup (GVK o'), gvkKind (GVK o')) = infoGroupKind api) objs,
         pg_version = ''7'', pg_continue = ''''\<rparr>, st\<lparr>ls_requests := Suc (ls_requests st), ls_version := ''7''\<rparr>)" for opts st
    by (simp add: list_page_of_def page)
  moreover have "ca_Acquire (demo_api objs) = None"
    "ca_EachListItem (demo_api objs) size buffer page st =
       each_item 2 \<lparr>lo_Limit = size, lo_Continue = '''', lo_ResourceVersion = ''''\<rparr> page st" for size buffer page st
    by (simp_all add: demo_api_def)
  ultimately show ?thesis by (simp add: listResources_def numeral_2_eq_2)
qed

definition demo_sts :: unstructured where "demo_sts = demo_obj ''apps'' ''StatefulSet'' ''web'' ''u1''"
definition demo_pvc :: unstructured where "demo_pvc = demo_obj '''' ''PersistentVolumeClaim'' ''data-web-0'' ''u2''"

definition demo_cluster :: cluster_api where "demo_cluster = demo_api [demo_sts, demo_pvc]"

definition demo_schedule :: schedule where "demo_schedule = \<lparr>sch_order = [0, 1, 1, 0], sch_started = 2\<rparr>"

definition demo_synced :: "unit clusterCache" where
  "demo_synced = snd (EnsureSynced demo_cluster demo_schedule 0 0 5 (NewClusterCache ''https://host'' []))"

text \<open>
  C17. Once a new cache has been synchronised, whatever events, relistings, new watches, cancellations,
  invalidations and traversals follow, the index by namespace holds exactly the nodes of the cache, each under
  its own namespace and no namespace without nodes.
\<close>

theorem index_exact:
  assumes "list_all setting opts"
    and "(event_step setting k8s)\<^sup>*\<^sup>* (snd (EnsureSynced k8s sch t0 t1 t2 (NewClusterCache host opts))) c"
  shows "index_ok c"
proof (rule index.events_kept [OF assms(2) index.ensured])
  note t = new_cache_nodes [OF assms(1), of host]
  show "index_ok (NewClusterCache host opts)" by (rule index_ok_frame [OF empty_cache_ok t])
  show "index_ok (sync_reset (NewClusterCache host opts))"
    using t by (intro index_ok_reset) (simp add: same_nodes_def empty_cache_def)
qed

lemma index_exact_witness:
  "index_ok (the (watch_event demo_cluster Deleted demo_sts demo_synced)) \<and>
   length (cc_nsIndex demo_synced) = 1 \<and> length (nsNodes demo_synced ''prod'') = 2"
proof -
  have "\<not> Option.is_none (watch_event demo_cluster Deleted demo_sts demo_synced)" by code_simp
  then have "watch_event demo_cluster Deleted demo_sts demo_synced =
      Some (the (watch_event demo_cluster Deleted demo_sts demo_synced))" by (simp add: Option.is_none_def)
  then have "event_step setting demo_cluster demo_synced (the (watch_event demo_cluster Deleted demo_sts demo_synced))"
    by (rule event_step.watch)
  then have "index_ok (the (watch_event demo_cluster Deleted demo_sts demo_synced))"
    by (intro index_exact [of "[]" demo_cluster demo_schedule 0 0 5 "''https://host''"])
      (simp_all add: demo_synced_def [symmetric])
  moreover have "length (cc_nsIndex demo_synced) = 1 \<and> length (nsNodes demo_synced ''prod'') = 2" by code_simp
  ultimately show ?thesis by blast
qed

text \<open>
  Resynchronisations included, every resource that a search of the whole cache finds is found by the
  search of its namespace as well.
\<close>

theorem namespace_search_complete:
  assumes "list_all setting opts" "(cache_step setting k8s)\<^sup>*\<^sup>* (NewClusterCache host opts) c"
    and "(k, p) \<in> set (FindResources '''' preds c)"
  shows "(k, p) \<in> set (FindResources (Namespace k) preds c)"
proof -
  have "index_covers (NewClusterCache host opts)"
    by (rule index_ok_covers [OF index_ok_frame [OF empty_cache_ok new_cache_nodes [OF assms(1)]]])
  with assms(2) have cov: "index_covers c"
    by (induction rule: rtranclp_induct) (auto intro: cache_step_covers)
  from assms(3) have "(k, p) \<in> set (cc_resources c)" and preds: "list_all (\<lambda>pred. pred (cc_heap c ! p)) preds"
    by (auto simp: FindResources_def)
  with cov have "map_of (cc_resources c) k = Some p"
    by (auto simp: index_covers_def nodes_ok_def)
  with cov have "map_of (nsNodes c (Namespace k)) k = Some p" by (auto simp: index_covers_def)
  with preds \<open>(k, p) \<in> set (cc_resources c)\<close> show ?thesis by (auto simp: FindResources_def dest: map_of_SomeD)
qed

lemma namespace_search_complete_witness:
  "(GetResourceKey demo_sts, 1) \<in> set (FindResources ''prod'' [TopLevelResource] demo_synced)"
proof -
  have "(cache_step setting demo_cluster)\<^sup>*\<^sup>* (NewClusterCache ''https://host'' []) demo_synced"
    unfolding demo_synced_def by (intro r_into_rtranclp cache_step.ensure)
  moreover have "list_ex (\<lambda>(k, p). k = GetResourceKey demo_sts \<and> p = 1) (FindResources '''' [TopLevelResource] demo_synced)"
    by code_simp
  then have "(GetResourceKey demo_sts, 1) \<in> set (FindResources '''' [TopLevelResource] demo_synced)"
    by (auto simp: list_ex_iff)
  ultimately have "(GetResourceKey demo_sts, 1) \<in>
      set (FindResources (Namespace (GetResourceKey demo_sts)) [TopLevelResource] demo_synced)"
    by (intro namespace_search_complete [of "[]" demo_cluster "''https://host''"]) simp_all
  moreover have "Namespace (GetResourceKey demo_sts) = ''prod''" by code_simp
  ultimately show ?thesis by simp
qed

section \<open>What a synchronisation leaves\<close>

definition listed_key :: "unstructured \<Rightarrow> ResourceKey" where
  "listed_key un = NewResourceKey (gvkGroup (GVK un)) (GetKind un) (GetNamespace un) (GetName un)"

text \<open>The keys of all objects that the cluster lists for these APIs.\<close>

definition listing :: "cluster_api \<Rightarrow> APIResourceInfo list \<Rightarrow> 'i clusterCache \<Rightarrow> ResourceKey set" where
  "listing k8s apis c = (\<Union>api\<in>set apis. \<Union>ns\<in>set (api_targets api c).
     listed_key ` set (lr_items (listResources k8s api ns c)))"

lemma resource_of_key: "ResourceKey_of (resource_of templates un c) = listed_key un"
  by (simp add: resource_of_def listed_key_def ResourceKey_of_def GetObjectRef_def split_beta Let_def)

lemma listed_keys:
  "fst ` set (cc_resources (exec_op k8s c op)) =
     (case op of ListedItem un \<Rightarrow> insert (listed_key un) (fst ` set (cc_resources c)) | _ \<Rightarrow> fst ` set (cc_resources c))"
  by (cases op) (simp_all add: exec_op_def newResource_def alloc_def setNode_resources node_key_def resource_of_key)

definition items_of :: "sync_op list \<Rightarrow> ResourceKey set" where
  "items_of ops = {listed_key un | un. ListedItem un \<in> set ops}"

lemma items_of_simps [simp]:
  "items_of [] = {}" "items_of (op # ops) = (case op of ListedItem un \<Rightarrow> insert (listed_key un) (items_of ops) | _ \<Rightarrow> items_of ops)"
  by (auto simp: items_of_def split: sync_op.split)

lemma executed_keys:
  "fst ` set (cc_resources (foldl (exec_op k8s) c ops)) = fst ` set (cc_resources c) \<union> items_of ops"
  by (induction ops arbitrary: c) (auto simp: listed_keys split: sync_op.split)

lemma first_failure_None: "first_failure ops = None \<longleftrightarrow> \<not> list_ex is_FailApi ops"
  by (induction ops) (simp_all add: is_FailApi_def split: sync_op.split)

lemma items_append [simp]: "items_of (xs @ ys) = items_of xs \<union> items_of ys"
  by (auto simp: items_of_def)

lemma items_set: "set xs = (\<Union>q\<in>set qs. set q) \<Longrightarrow> items_of xs = (\<Union>q\<in>set qs. items_of q)"
  by (auto simp: items_of_def)

lemma items_target: "items_of (target_plan k8s w api ns c) = listed_key ` set (lr_items (listResources k8s api ns c))"
proof -
  have "items_of (map ListedItem us) = listed_key ` set us" for us by (auto simp: items_of_def)
  then show ?thesis
    by (simp add: target_plan_def Let_def split: option.split sum.split)
qed

lemma items_targets:
  "\<not> list_ex is_FailApi (plan_targets k8s w api nss c) \<Longrightarrow>
     items_of (plan_targets k8s w api nss c) = (\<Union>ns\<in>set nss. listed_key ` set (lr_items (listResources k8s api ns c)))"
  by (induction nss) (auto simp: Let_def items_target split: if_splits)

lemma set_queues: "j < length qs \<Longrightarrow> set (qs ! j) \<subseteq> (\<Union>q\<in>set qs. set q)"
  by (meson UN_upper nth_mem)

lemma step_queue:
  assumes "i < length qs" "qs ! i = x # xs"
  shows "(\<Union>q\<in>set qs. set q) = insert x (\<Union>q\<in>set (qs[i := xs]). set q)"
proof (intro set_eqI iffI)
  fix y assume "y \<in> (\<Union>q\<in>set qs. set q)"
  then obtain j where j: "j < length qs" "y \<in> set (qs ! j)" by (metis UN_E in_set_conv_nth)
  show "y \<in> insert x (\<Union>q\<in>set (qs[i := xs]). set q)"
  proof (cases "j = i")
    case True
    with j assms have "y = x \<or> y \<in> set (qs[i := xs] ! i)" by simp
    then show ?thesis using set_queues [of i "qs[i := xs]"] assms(1) by auto
  next
    case False
    with j have "y \<in> set (qs[i := xs] ! j)" by simp
    then show ?thesis using set_queues [of j "qs[i := xs]"] j(1) by auto
  qed
next
  fix y assume "y \<in> insert x (\<Union>q\<in>set (qs[i := xs]). set q)"
  then have "y = x \<or> (\<exists>q\<in>insert xs (set qs). y \<in> set q)" using set_update_subset_insert [of qs i xs] by blast
  then show "y \<in> (\<Union>q\<in>set qs. set q)" using set_queues [OF assms(1)] assms(2) by auto
qed

lemma set_interleave: "set (interleave is qs) = (\<Union>q\<in>set qs. set q)"
proof (induction "is" qs rule: interleave.induct)
  case (2 i "is" qs)
  then show ?case using step_queue [of i qs] by (auto split: list.split)
qed simp

lemma numbered: "snd ` set (zip [a ..< a + length apis] apis) = set apis"
  by (metis length_upt diff_add_inverse map_snd_zip set_map)

lemma started_all:
  assumes "\<And>q. q \<in> set (started_plans k plans) \<Longrightarrow> \<not> list_ex is_FailApi q"
  shows "started_plans k plans = plans"
proof (cases "list_ex (list_ex is_FailApi) (take k plans)")
  case True
  then obtain q where q: "q \<in> set (take k plans)" "list_ex is_FailApi q" unfolding list_ex_iff by blast
  have "started_plans k plans = take k plans" using True by (simp add: started_plans_def)
  with q assms show ?thesis by metis
qed (simp add: started_plans_def)

lemma sync_apis_keys:
  assumes "fst (sync_apis k8s sch apis c) = None" "cc_resources c = []"
  shows "fst ` set (cc_resources (snd (sync_apis k8s sch apis c))) = listing k8s apis c"
proof -
  let ?numbered = "zip [cc_nextWatch c ..< cc_nextWatch c + length apis] apis"
  let ?plans = "map (api_plan k8s c) ?numbered"
  let ?started = "started_plans (sch_started sch) ?plans"
  let ?trace = "interleave (sch_order sch) ?started"
  let ?listed = "\<lambda>api. \<Union>ns\<in>set (api_targets api c). listed_key ` set (lr_items (listResources k8s api ns c))"
  from assms(1) have "\<not> list_ex is_FailApi ?trace"
    by (simp add: sync_apis_def Let_def first_failure_None)
  then have nf: "\<And>q. q \<in> set ?started \<Longrightarrow> \<not> list_ex is_FailApi q"
    by (auto simp: list_ex_iff set_interleave)
  have all: "?started = ?plans" by (rule started_all [OF nf])
  have "items_of (api_plan k8s c wa) = ?listed (snd wa)" if "wa \<in> set ?numbered" for wa
  proof -
    have "\<not> list_ex is_FailApi (api_plan k8s c wa)" using nf that unfolding all by simp
    then show ?thesis by (simp add: api_plan_def items_targets)
  qed
  then have "items_of ?trace = (\<Union>wa\<in>set ?numbered. ?listed (snd wa))"
    using items_set [OF set_interleave [of "sch_order sch" ?started]] all by simp
  also have "\<dots> = (\<Union>api\<in>snd ` set ?numbered. ?listed api)" by simp
  finally show ?thesis
    using assms(2) by (simp add: sync_apis_def Let_def executed_keys listing_def numbered)
qed

lemma listing_settings:
  assumes "same_settings c c'"
  shows "listing k8s apis c' = listing k8s apis c"
proof -
  have "api_targets api c' = api_targets api c" "listResources k8s api ns c' = listResources k8s api ns c" for api ns
    using assms by (simp_all add: same_settings_def api_targets_def listResources_def list_page_of_def [abs_def] split: option.split)
  then show ?thesis by (simp add: listing_def)
qed

lemma sync_keys:
  assumes "sync k8s sch c = (None, c')" "ca_GetAPIResources k8s True (cc_excluded c) = Inr apis"
  shows "fst ` set (cc_resources c') = listing k8s apis c"
proof (rule sync_cases [of k8s sch c])
  fix apis' c4
  assume a: "sync k8s sch c = (map_option (wrap_err (''failed to sync cluster '' @ cc_host (snd (sync_apis k8s sch apis' c4))))
      (fst (sync_apis k8s sch apis' c4)), snd (sync_apis k8s sch apis' c4))"
    "ca_GetAPIResources k8s True (cc_excluded c) = Inr apis'" "same_tables (sync_reset c) c4" "same_settings c c4"
  then have "fst (sync_apis k8s sch apis' c4) = None" "c' = snd (sync_apis k8s sch apis' c4)" "apis' = apis"
    using assms by auto
  with a(3) sync_apis_keys [of k8s sch apis c4] listing_settings [OF a(4), of k8s apis] show ?thesis
    by (simp add: same_tables_def)
qed (use assms in simp)

text \<open>
  C21. A synchronisation that succeeds leaves in the cache exactly the objects that the cluster listed, whatever the
  order in which the goroutines of the APIs interleave.
\<close>

theorem sync_lists:
  assumes "sync k8s sch c = (None, c')" "ca_GetAPIResources k8s True (cc_excluded c) = Inr apis"
  shows "fst ` set (cc_resources c') = listing k8s apis c"
  by (rule sync_keys [OF assms])

definition demo_new :: "unit clusterCache" where
  "demo_new = NewClusterCache ''https://host'' []"

definition demo_infos :: "APIResourceInfo list" where
  "demo_infos = [demo_info ''apps'' ''StatefulSet'', demo_info '''' ''PersistentVolumeClaim'']"

lemma sync_lists_witness:
  "fst ` set (cc_resources (snd (sync demo_cluster demo_schedule demo_new))) = listing demo_cluster demo_infos demo_new \<and>
   length (cc_resources (snd (sync demo_cluster demo_schedule demo_new))) = 2"
proof -
  have "fst (sync demo_cluster demo_schedule demo_new) = None" by code_simp
  then have "sync demo_cluster demo_schedule demo_new = (None, snd (sync demo_cluster demo_schedule demo_new))"
    by (metis prod.collapse)
  moreover have "ca_GetAPIResources demo_cluster True (cc_excluded demo_new) = Inr demo_infos"
    by (simp add: demo_cluster_def demo_api_def demo_infos_def)
  ultimately have "fst ` set (cc_resources (snd (sync demo_cluster demo_schedule demo_new))) = listing demo_cluster demo_infos demo_new"
    by (rule sync_lists)
  moreover have "length (cc_resources (snd (sync demo_cluster demo_schedule demo_new))) = 2" by code_simp
  ultimately show ?thesis ..
qed

lemma executed_ns: "fst ` set (nsNodes c ns) \<subseteq> fst ` set (nsNodes (foldl (exec_op k8s) c ops) ns)"
proof (induction ops arbitrary: c)
  case (Cons op ops)
  have "fst ` set (nsNodes c ns) \<subseteq> fst ` set (nsNodes (exec_op k8s c op) ns)"
  proof (cases rule: exec_op_cases [of c k8s op])
    case 1
    then show ?thesis by (simp add: same_tables_nsNodes)
  next
    case (2 un)
    have "nsNodes (snd (newResource (ca_templates k8s) un c)) = nsNodes c"
      by (simp add: newResource_def alloc_def nsNodes_def fun_eq_iff)
    with 2 show ?thesis by (auto simp: split_beta Let_def setNode_nsNodes)
  qed
  with Cons show ?case by (simp add: subset_trans)
qed simp

lemma sync_ns: "fst ` set (nsNodes c ns) \<subseteq> fst ` set (nsNodes (snd (sync k8s sch c)) ns)"
proof (cases rule: sync_cases [of k8s sch c])
  case (1 e c')
  then show ?thesis by (simp add: same_tables_nsNodes)
next
  case (2 apis c4)
  have "nsNodes (c4\<lparr>cc_nextWatch := w\<rparr>) ns = nsNodes c4 ns" for w by (simp add: nsNodes_def)
  then have "fst ` set (nsNodes c4 ns) \<subseteq> fst ` set (nsNodes (snd (sync_apis k8s sch apis c4)) ns)"
    unfolding sync_apis_def Let_def snd_conv by (metis executed_ns)
  with 2 show ?thesis by (simp add: same_tables_nsNodes)
qed

text \<open>
  C23. A resource that a cache holds in a namespace and that the cluster no longer lists survives a
  successful resynchronisation in the index: the search of the whole cache does not find it any more, the
  search of its namespace still does. (\<open>sync\<close> replaces the map of the resources and keeps the index.)
\<close>

theorem stale_after_resync:
  assumes "sync k8s sch c = (None, c')" "ca_GetAPIResources k8s True (cc_excluded c) = Inr apis"
    and "k \<in> fst ` set (FindResources ns [] c)" "ns \<noteq> ''''" "k \<notin> listing k8s apis c"
  shows "k \<in> fst ` set (FindResources ns [] c') \<and> k \<notin> fst ` set (FindResources '''' [] c')"
proof
  have "k \<in> fst ` set (nsNodes c ns)" using assms(3,4) by (simp add: FindResources_def)
  with sync_ns [of c ns k8s sch] assms(1) have "k \<in> fst ` set (nsNodes c' ns)" by auto
  with assms(4) show "k \<in> fst ` set (FindResources ns [] c')" by (simp add: FindResources_def)
  show "k \<notin> fst ` set (FindResources '''' [] c')"
    using sync_keys [OF assms(1,2)] assms(5) by (simp add: FindResources_def)
qed

lemma stale_after_resync_witness:
  "let c' = snd (sync (demo_api []) demo_schedule demo_synced); k = GetResourceKey demo_sts in
     k \<in> fst ` set (FindResources ''prod'' [] c') \<and> k \<notin> fst ` set (FindResources '''' [] c')"
proof -
  have "fst (sync (demo_api []) demo_schedule demo_synced) = None" by code_simp
  then have "sync (demo_api []) demo_schedule demo_synced = (None, snd (sync (demo_api []) demo_schedule demo_synced))"
    by (metis prod.collapse)
  moreover have "ca_GetAPIResources (demo_api []) True (cc_excluded demo_synced) = Inr demo_infos"
    by (simp add: demo_api_def demo_infos_def)
  moreover have "list_ex (\<lambda>(k, p). k = GetResourceKey demo_sts) (FindResources ''prod'' [] demo_synced)" by code_simp
  then have "GetResourceKey demo_sts \<in> fst ` set (FindResources ''prod'' [] demo_synced)"
    by (force simp: list_ex_iff)
  moreover have "GetResourceKey demo_sts \<notin> listing (demo_api []) demo_infos demo_synced"
    by (simp add: listing_def demo_listing)
  ultimately show ?thesis unfolding Let_def by (intro stale_after_resync) simp_all
qed

section \<open>When a synchronisation runs\<close>

lemma EnsureSynced_cases:
  "EnsureSynced k8s sch t0 t1 t2 c =
     (if synced t0 c \<or> synced t1 c then (cc_syncError c, c)
      else (fst (sync k8s sch c), (snd (sync k8s sch c))\<lparr>cc_syncTime := Some t2, cc_syncError := fst (sync k8s sch c)\<rparr>))"
  by (simp add: EnsureSynced_def EnsureSynced_locked_def Let_def split_beta)

text \<open>
  C24. EnsureSynced records what it returns, and the next call, at any time and with any cluster,
  returns the same without touching the cache as long as the recorded synchronisation is fresh; once
  the retry timeout of a failed synchronisation (or the resync timeout of a successful one, unless it is
  disabled) has passed, the next call synchronises again and returns what that gives.
\<close>

theorem EnsureSynced_recovers:
  "let (err, c') = EnsureSynced k8s sch t0 t1 t2 c in
     cc_syncTime c' \<noteq> None \<and> cc_syncError c' = err \<and>
     (let deadline = the (cc_syncTime c') + (if err \<noteq> None then cc_clusterSyncRetryTimeout c' else cc_resyncTimeout c');
          never = (err = None \<and> cc_resyncTimeout c' = 0) in
      if never \<or> t < deadline then EnsureSynced k8s' sch' t t' t'' c' = (err, c')
      else if deadline \<le> t' then fst (EnsureSynced k8s' sch' t t' t'' c') = fst (sync k8s' sch' c') \<and>
        cc_syncTime (snd (EnsureSynced k8s' sch' t t' t'' c')) = Some t''
      else True)"
proof -
  obtain err c' where e: "EnsureSynced k8s sch t0 t1 t2 c = (err, c')" by fastforce
  then have c': "cc_syncTime c' \<noteq> None" "cc_syncError c' = err"
    by (auto simp: EnsureSynced_cases synced_def split: if_splits option.splits)
  then have "synced x c' = (err = None \<and> cc_resyncTimeout c' = 0 \<or>
      x < the (cc_syncTime c') + (if err \<noteq> None then cc_clusterSyncRetryTimeout c' else cc_resyncTimeout c'))" for x
    by (auto simp: synced_def split: option.split)
  with e c' show ?thesis by (simp add: Let_def EnsureSynced_cases)
qed

end
