(* ===== verification/CacheHierarchy.thy ===== *)
theory CacheHierarchy
  imports CacheProps
begin

text \<open>
  The traversal of the hierarchy of the cache (\<open>IterateHierarchyV2\<close>): it returns, and it visits what is
  reachable; and the owners that \<open>setNode\<close> infers for persistent volume claims.
\<close>

section \<open>The traversal of the hierarchy\<close>

text \<open>
  C26. IterateHierarchyV2 returns: whatever the owner references (cycles and dangling or ambiguous ones
  included), whatever the callback answers and does, it ends and never dereferences a missing node.
\<close>

theorem hierarchy_returns:
  assumes "index_covers c"
  shows "IterateHierarchyV2 parse_group keys action st c \<noteq> None"
proof -
  from assms have "\<And>n. nodes_ok (cc_heap c) (nsNodes c n)" by (simp add: index_covers_def)
  from namespaces_return [OF this] show ?thesis
    by (fastforce simp: IterateHierarchyV2_def split: option.split)
qed

lemma foldl_pairs_same:
  assumes "same_refs h h'" "\<And>x. x \<in> P \<Longrightarrow> x < length h" "graph_in P g" "\<forall>(p, c)\<in>set pairs. p \<in> P \<and> c \<in> P"
  shows "foldl (add_pair h') g pairs = foldl (add_pair h) g pairs"
  using assms(3,4)
proof (induction pairs arbitrary: g)
  case (Cons pc pairs)
  obtain p c where pc: "pc = (p, c)" by (cases pc)
  with Cons.prems have P: "p \<in> P" "c \<in> P" by auto
  then have "add_child h' c g p = add_child h c g p"
    using Cons.prems(1) assms(1,2) by (intro add_child_same) (auto simp: graph_in_def)
  with Cons P show ?case by (simp add: pc add_pair_def graph_in_add)
qed simp

lemma buildGraph_same:
  assumes "same_refs h h'" "nodes_ok h ns" "\<And>c. c \<in> snd ` set ns \<Longrightarrow> h' ! c = h ! c"
  shows "snd (buildGraph pg ns h') = snd (buildGraph pg ns h)"
proof -
  have P: "x < length h" if "x \<in> snd ` set ns" for x
    using that nodes_okD(2) [OF assms(2)] by force
  have "owners_of pg h' ns c (OwnerRefs (h' ! c)) = owners_of pg h ns c (OwnerRefs (h ! c))" if "c \<in> snd ` set ns" for c
    using that P assms by (simp add: owners_of_same)
  then have "owner_pairs pg h' ns ns = owner_pairs pg h ns ns"
    by (force simp: owner_pairs_def intro!: arg_cong [of _ _ concat])
  moreover have "foldl (add_pair h') [] (owner_pairs pg h ns ns) = foldl (add_pair h) [] (owner_pairs pg h ns ns)"
    by (rule foldl_pairs_same [OF assms(1) P graph_in_Nil])
      (use owner_pairs_iff [of _ _ pg h ns] in \<open>auto simp: is_owner_def\<close>)
  ultimately show ?thesis
    by (simp add: buildGraph_pairs(1) [OF assms(2)] buildGraph_pairs(1) [OF nodes_ok_same [OF assms(1,2)]])
qed

text \<open>The keys that are reachable in one namespace are keys of that namespace.\<close>

definition ns_graph :: "(string \<Rightarrow> string option) \<Rightarrow> 'i heap \<Rightarrow> (string \<Rightarrow> nodes) \<Rightarrow> string \<Rightarrow> graph" where
  "ns_graph pg h idx n = snd (buildGraph pg (idx n) h)"

lemma succs_nodes: "nodes_ok h ns \<Longrightarrow> succs h (snd (buildGraph pg ns h)) k \<subseteq> fst ` set ns"
proof -
  assume ok: "nodes_ok h ns"
  have "graph_in (snd ` set ns) (snd (buildGraph pg ns h))" using buildGraph_ok [OF ok] by (simp add: graph_ok_def)
  then have "snd ` set (children_of (snd (buildGraph pg ns h)) k) \<subseteq> snd ` set ns" by (simp add: graph_in_def)
  then show ?thesis unfolding succs_def using nodes_ok_key [OF ok] by blast
qed

lemma reachable_nodes:
  assumes "nodes_ok h ns" "K \<subseteq> fst ` set ns"
  shows "reachable_keys h (snd (buildGraph pg ns h)) K \<subseteq> fst ` set ns"
  using succs_nodes [OF assms(1)] by (intro reachable_least [OF assms(2)]) blast

lemma succs_same:
  assumes "same_refs h h'" "nodes_ok h ns" "graph_in (snd ` set ns) g"
  shows "succs h' g k = succs h g k"
proof -
  have "node_key h' p = node_key h p" if "p \<in> snd ` set (children_of g k)" for p
    using that assms(2,3) nodes_okD(2) [OF assms(2)] by (intro same_refs_key [OF assms(1)]) (fastforce simp: graph_in_def)
  then show ?thesis unfolding succs_def by (rule image_cong [OF refl])
qed

lemma reachable_same:
  "same_refs h h' \<Longrightarrow> nodes_ok h ns \<Longrightarrow> graph_in (snd ` set ns) g \<Longrightarrow> reachable_keys h' g K = reachable_keys h g K"
  by (simp add: reachable_keys_def owner_edges_def succs_same)

definition group_reach ::
  "(string \<Rightarrow> string option) \<Rightarrow> 'i heap \<Rightarrow> (string \<Rightarrow> nodes) \<Rightarrow> string \<times> ResourceKey list \<Rightarrow> ResourceKey set" where
  "group_reach pg h idx nk = reachable_keys h (ns_graph pg h idx (fst nk)) (set (snd nk))"

lemma namespaces_reachable:
  assumes ok: "\<And>n. nodes_ok h0 (idx n)" and ns: "\<And>n k p. (k, p) \<in> set (idx n) \<Longrightarrow> Namespace k = n"
    and "same_refs h0 h" "\<And>n c. n \<in> fst ` set groups \<Longrightarrow> c \<in> snd ` set (idx n) \<Longrightarrow> h ! c = h0 ! c"
    and "distinct (map fst groups)"
    and "\<And>n ks k. (n, ks) \<in> set groups \<Longrightarrow> k \<in> set ks \<Longrightarrow> \<exists>p. res k = Some p \<and> (k, p) \<in> set (idx n)"
  shows "\<exists>L h'. iterate_namespaces pg res idx record_all groups (h, st) = Some (h', st @ map Some L) \<and>
     distinct (map (node_key h0) L) \<and> node_key h0 ` set L = (\<Union>nk\<in>set groups. group_reach pg h0 idx nk)"
  using assms(3-6)
proof (induction groups arbitrary: h st)
  case (Cons nk groups)
  obtain n ks where nk: "nk = (n, ks)" by (cases nk)
  obtain h1 g where hg: "buildGraph pg (idx n) h = (h1, g)" by fastforce
  have okh: "nodes_ok h (idx n)" by (rule nodes_ok_same [OF Cons.prems(1) ok])
  have g: "g = ns_graph pg h0 idx n"
    using buildGraph_same [OF Cons.prems(1) ok, of n pg] Cons.prems(2) [of n] hg
    by (simp add: ns_graph_def nk)
  from buildGraph_ok [OF okh, of pg] hg have gok: "graph_ok h1 (idx n) g" by simp
  have same1: "same_refs h h1" "same_refs h0 h1"
    using buildGraph_pairs(2) [OF okh, of pg] hg same_refs_trans [OF Cons.prems(1)] by auto
  have len: "length h1 = length h0" by (rule same_refs_length [OF same1(2)])
  have gin: "graph_in (snd ` set (idx n)) g" using gok by (simp add: graph_ok_def)
  have "\<exists>p. res k = Some p \<and> (k, p) \<in> set (idx n)" if "k \<in> set ks" for k
    using Cons.prems(4) [of n ks k] that by (simp add: nk)
  from roots_reachable [OF gok lessI this, of ks st] obtain v L where
    L: "visit_roots (Suc (length (idx n))) h1 g (idx n) res record_all ks (\<lambda>_. 0, st) = Some (v, st @ map Some L)"
    "set L \<subseteq> snd ` set (idx n)" "distinct (map (node_key h1) L)" "node_key h1 ` set L = reachable_keys h1 g (set ks)"
    by blast
  have keys: "node_key h1 p = node_key h0 p" if "p \<in> set L" for p
    using that L(2) nodes_okD(2) [OF ok] by (intro same_refs_key [OF same1(2)]) force
  then have L0: "map (node_key h1) L = map (node_key h0) L" "node_key h1 ` set L = node_key h0 ` set L"
    by simp_all
  have reach: "reachable_keys h1 g (set ks) = group_reach pg h0 idx nk"
    unfolding group_reach_def nk fst_conv snd_conv g [symmetric] by (rule reachable_same [OF same1(2) ok gin])
  have space: "Namespace k = m" if "k \<in> group_reach pg h0 idx (m, ks')" "(m, ks') \<in> set (nk # groups)" for k m ks'
  proof -
    have "set ks' \<subseteq> fst ` set (idx m)" using Cons.prems(4) [OF that(2)] by force
    from reachable_nodes [OF ok this, of pg] that(1) have "k \<in> fst ` set (idx m)"
      by (auto simp: group_reach_def ns_graph_def)
    then show ?thesis using ns by force
  qed
  have heap1: "h1 ! c = h0 ! c" if m: "m \<in> fst ` set groups" and c: "c \<in> snd ` set (idx m)" for m c
  proof -
    from m Cons.prems(3) have "m \<noteq> n" by (auto simp: nk)
    from c obtain k where k: "(k, c) \<in> set (idx m)" by auto
    have "c \<notin> snd ` set (idx n)"
    proof
      assume "c \<in> snd ` set (idx n)"
      then obtain k' where "(k', c) \<in> set (idx n)" by auto
      with k have "k' = k" "Namespace k' = n" "Namespace k = m" using nodes_okD(3) [OF ok] ns by blast+
      with \<open>m \<noteq> n\<close> show False by simp
    qed
    moreover have "c < length h" using nodes_okD(2) [OF ok k] same_refs_length [OF Cons.prems(1)] by simp
    ultimately have "h1 ! c = h ! c" using buildGraph_heap [OF okh, of c pg] hg by simp
    with m c Cons.prems(2) [of m c] show ?thesis by simp
  qed
  have "\<exists>M h'. iterate_namespaces pg res idx record_all groups (h1, st @ map Some L) = Some (h', (st @ map Some L) @ map Some M) \<and>
      distinct (map (node_key h0) M) \<and> node_key h0 ` set M = (\<Union>nk\<in>set groups. group_reach pg h0 idx nk)"
    by (rule Cons.IH [OF same1(2) heap1]) (use Cons.prems(3,4) in auto)
  then obtain M h' where
    M: "iterate_namespaces pg res idx record_all groups (h1, st @ map Some L) = Some (h', (st @ map Some L) @ map Some M)"
    "distinct (map (node_key h0) M)" "node_key h0 ` set M = (\<Union>nk\<in>set groups. group_reach pg h0 idx nk)" by blast
  have "Namespace k \<noteq> n" if "k \<in> node_key h0 ` set M" for k
    using that space Cons.prems(3) unfolding M(3) by (force simp: nk)
  moreover have "Namespace k = n" if "k \<in> node_key h0 ` set L" for k
    using that space [of k n ks] L(4) reach by (simp add: nk L0(2))
  ultimately have "node_key h0 ` set L \<inter> node_key h0 ` set M = {}" by blast
  then have "distinct (map (node_key h0) (L @ M))" using M(2) L(3) by (simp add: L0(1))
  moreover have "iterate_namespaces pg res idx record_all (nk # groups) (h, st) = Some (h', st @ map Some (L @ M))"
    using hg L(1) M(1) by (simp add: nk Let_def)
  moreover have "node_key h0 ` set (L @ M) = (\<Union>nk\<in>set (nk # groups). group_reach pg h0 idx nk)"
    using M(3) L(4) reach by (simp add: image_Un L0(2))
  ultimately show ?case by blast
qed simp

lemma keys_grouped:
  "map_wf (foldl append_key [] ks) \<and>
   map_of (foldl append_key [] ks) n = (if filter (\<lambda>k. Namespace k = n) ks = [] then None
      else Some (filter (\<lambda>k. Namespace k = n) ks))"
proof (induction ks arbitrary: n rule: rev_induct)
  case (snoc k ks)
  from snoc [of "Namespace k"] have "(case map_of (foldl append_key [] ks) (Namespace k) of None \<Rightarrow> [] | Some l \<Rightarrow> l) =
      filter (\<lambda>x. Namespace x = Namespace k) ks" by simp
  then show ?case using snoc [of n] by (auto simp: append_key_def map_wf_put)
qed simp

lemma keysPerNamespace_group:
  assumes "(n, l) \<in> set (keysPerNamespace res keys)"
  shows "l = filter (\<lambda>k. Namespace k = n) (filter (\<lambda>k. res k \<noteq> None) keys)"
proof -
  have "map_of (keysPerNamespace res keys) n = Some l"
    using assms keys_grouped [of "filter (\<lambda>k. res k \<noteq> None) keys"]
    by (intro map_of_is_SomeI) (auto simp: keysPerNamespace_def map_wf_def)
  then show ?thesis
    using keys_grouped [of "filter (\<lambda>k. res k \<noteq> None) keys" n] by (auto simp: keysPerNamespace_def split: if_splits)
qed

lemma keysPerNamespace_mem:
  "k \<in> set keys \<Longrightarrow> res k \<noteq> None \<Longrightarrow> \<exists>l. (Namespace k, l) \<in> set (keysPerNamespace res keys) \<and> k \<in> set l"
proof -
  assume k: "k \<in> set keys" "res k \<noteq> None"
  let ?l = "filter (\<lambda>x. Namespace x = Namespace k) (filter (\<lambda>k. res k \<noteq> None) keys)"
  have "k \<in> set ?l" using k by simp
  then have "?l \<noteq> []" by (metis empty_iff empty_set)
  then have "map_of (keysPerNamespace res keys) (Namespace k) = Some ?l"
    using keys_grouped [of "filter (\<lambda>k. res k \<noteq> None) keys" "Namespace k"] unfolding keysPerNamespace_def by argo
  then show ?thesis using \<open>k \<in> set ?l\<close> by (blast dest: map_of_SomeD)
qed

text \<open>The owner relation of the cache: the children that the graph of a resource's namespace gives it.\<close>

definition hierarchy_edges :: "(string \<Rightarrow> string option) \<Rightarrow> 'i clusterCache \<Rightarrow> (ResourceKey \<times> ResourceKey) set" where
  "hierarchy_edges pg c = {(k, k'). k' \<in> succs (cc_heap c) (ns_graph pg (cc_heap c) (nsNodes c) (Namespace k)) k}"

lemma group_reach_edges:
  assumes "index_covers c" "\<And>k. k \<in> set l \<Longrightarrow> Namespace k = n"
  shows "group_reach pg (cc_heap c) (nsNodes c) (n, l) = (hierarchy_edges pg c)\<^sup>* `` set l"
proof (intro subset_antisym subsetI)
  have stay: "Namespace k' = n" if "k' \<in> succs (cc_heap c) (ns_graph pg (cc_heap c) (nsNodes c) n) k" for k k'
  proof -
    from assms(1) have "nodes_ok (cc_heap c) (nsNodes c n)" by (simp add: index_covers_def)
    with that succs_nodes have "k' \<in> fst ` set (nsNodes c n)" unfolding ns_graph_def by blast
    then have "map_of (nsNodes c n) k' \<noteq> None" by (simp add: map_of_eq_None_iff)
    with assms(1) show ?thesis by (simp add: index_covers_def)
  qed
  fix k
  {
    assume "k \<in> group_reach pg (cc_heap c) (nsNodes c) (n, l)"
    moreover have "reachable_keys (cc_heap c) (ns_graph pg (cc_heap c) (nsNodes c) n) (set l) \<subseteq>
        {k \<in> (hierarchy_edges pg c)\<^sup>* `` set l. Namespace k = n}"
    proof (rule reachable_least)
      fix a b assume "a \<in> {k \<in> (hierarchy_edges pg c)\<^sup>* `` set l. Namespace k = n}"
        "b \<in> succs (cc_heap c) (ns_graph pg (cc_heap c) (nsNodes c) n) a"
      then have "(a, b) \<in> hierarchy_edges pg c" "a \<in> (hierarchy_edges pg c)\<^sup>* `` set l" "Namespace b = n"
        using stay by (auto simp: hierarchy_edges_def)
      then show "b \<in> {k \<in> (hierarchy_edges pg c)\<^sup>* `` set l. Namespace k = n}"
        by (auto intro: rtrancl_into_rtrancl)
    qed (use assms(2) in auto)
    ultimately show "k \<in> (hierarchy_edges pg c)\<^sup>* `` set l" by (auto simp: group_reach_def)
  next
    assume "k \<in> (hierarchy_edges pg c)\<^sup>* `` set l"
    then obtain k0 where "(k0, k) \<in> (hierarchy_edges pg c)\<^sup>*" "k0 \<in> set l" by blast
    then have "k \<in> group_reach pg (cc_heap c) (nsNodes c) (n, l) \<and> Namespace k = n"
    proof (induction rule: rtrancl_induct)
      case base
      then show ?case using reachable_base assms(2) by (auto simp: group_reach_def)
    next
      case (step a b)
      then have "b \<in> succs (cc_heap c) (ns_graph pg (cc_heap c) (nsNodes c) n) a" by (simp add: hierarchy_edges_def)
      with step stay show ?case
        using reachable_closed [of a "cc_heap c" "ns_graph pg (cc_heap c) (nsNodes c) n" "set l"]
        by (auto simp: group_reach_def)
    qed
    then show "k \<in> group_reach pg (cc_heap c) (nsNodes c) (n, l)" ..
  }
qed

text \<open>
  C25. With a callback that never stops, IterateHierarchyV2 hands it every resource that is reachable from
  the given keys through owner references, and no other, and each of them exactly once.
\<close>

theorem hierarchy_visits:
  assumes "index_covers c"
  shows "\<exists>L c'. IterateHierarchyV2 parse_group keys record_all [] c = Some (map Some L, c') \<and>
     distinct (map (node_key (cc_heap c)) L) \<and>
     node_key (cc_heap c) ` set L =
       (hierarchy_edges parse_group c)\<^sup>* `` {k \<in> set keys. map_of (cc_resources c) k \<noteq> None}"
proof -
  let ?res = "map_of (cc_resources c)"
  let ?groups = "keysPerNamespace ?res keys"
  from assms have ok: "\<And>n. nodes_ok (cc_heap c) (nsNodes c n)" by (simp add: index_covers_def)
  have ns: "Namespace k = n" if "(k, p) \<in> set (nsNodes c n)" for n k p
  proof -
    from image_eqI [of k fst, OF _ that] have "map_of (nsNodes c n) k \<noteq> None" unfolding map_of_eq_None_iff by simp
    with assms show ?thesis by (simp add: index_covers_def)
  qed
  have dist: "distinct (map fst ?groups)"
    using keys_grouped by (simp add: keysPerNamespace_def map_wf_def)
  have roots: "\<exists>p. ?res k = Some p \<and> (k, p) \<in> set (nsNodes c n)" if "(n, l) \<in> set ?groups" "k \<in> set l" for n l k
  proof -
    from keysPerNamespace_group [OF that(1)] that(2) obtain p where "?res k = Some p" "Namespace k = n" by auto
    moreover from this assms have "map_of (nsNodes c n) k = Some p" by (auto simp: index_covers_def)
    ultimately show ?thesis by (blast dest: map_of_SomeD)
  qed
  have "\<exists>L h'. iterate_namespaces parse_group ?res (nsNodes c) record_all ?groups (cc_heap c, []) = Some (h', [] @ map Some L) \<and>
      distinct (map (node_key (cc_heap c)) L) \<and>
      node_key (cc_heap c) ` set L = (\<Union>nk\<in>set ?groups. group_reach parse_group (cc_heap c) (nsNodes c) nk)"
    by (rule namespaces_reachable [OF ok ns same_refs_refl refl dist roots])
  then obtain L h' where
    L: "iterate_namespaces parse_group ?res (nsNodes c) record_all ?groups (cc_heap c, []) = Some (h', map Some L)"
    "distinct (map (node_key (cc_heap c)) L)"
    "node_key (cc_heap c) ` set L = (\<Union>nk\<in>set ?groups. group_reach parse_group (cc_heap c) (nsNodes c) nk)" by auto
  have "group_reach parse_group (cc_heap c) (nsNodes c) nk = (hierarchy_edges parse_group c)\<^sup>* `` set (snd nk)"
    if "nk \<in> set ?groups" for nk
    using group_reach_edges [OF assms, of "snd nk" "fst nk"] keysPerNamespace_group [of "fst nk" "snd nk"] that by simp
  then have "node_key (cc_heap c) ` set L = (hierarchy_edges parse_group c)\<^sup>* `` (\<Union>nk\<in>set ?groups. set (snd nk))"
    unfolding L(3) by blast
  also have "(\<Union>nk\<in>set ?groups. set (snd nk)) = {k \<in> set keys. ?res k \<noteq> None}"
  proof (intro set_eqI iffI)
    fix x assume "x \<in> (\<Union>nk\<in>set ?groups. set (snd nk))"
    then obtain n l where "(n, l) \<in> set ?groups" "x \<in> set l" by auto
    with keysPerNamespace_group [OF this(1)] show "x \<in> {k \<in> set keys. ?res k \<noteq> None}" by simp
  next
    fix x assume "x \<in> {k \<in> set keys. ?res k \<noteq> None}"
    then show "x \<in> (\<Union>nk\<in>set ?groups. set (snd nk))"
      using keysPerNamespace_mem [of x keys ?res] by force
  qed
  finally show ?thesis using L by (simp add: IterateHierarchyV2_def)
qed

lemma demo_synced_covers: "index_covers demo_synced"
  unfolding demo_synced_def
proof (rule covers.ensured)
  have "index_covers (NewClusterCache ''https://host'' [] :: unit clusterCache)"
    by (rule index_ok_covers [OF index_ok_frame [OF empty_cache_ok new_cache_nodes]]) simp
  then show "index_covers (NewClusterCache ''https://host'' [] :: unit clusterCache)"
    "index_covers (sync_reset (NewClusterCache ''https://host'' [] :: unit clusterCache))"
    by (simp_all add: index_covers_reset)
qed

definition demo_parse :: "string \<Rightarrow> string option" where
  "demo_parse v = (if v = ''v1'' then Some '''' else if v = ''apps/v1'' then Some ''apps'' else None)"

text \<open>A second claim makes the StatefulSet a child of the first one: the owner references form a cycle.\<close>

definition demo_cycle :: "unit clusterCache" where
  "demo_cycle = processEvent (\<lambda>_. Inr [''data'']) (GetResourceKey demo_sts)
     \<lparr>ev_event = Added, ev_un = demo_sts\<lparr>GetOwnerReferences := [\<lparr>ownerAPIVersion = ''v1'',
        ownerKind = ''PersistentVolumeClaim'', ownerName = ''data-web-0'', ownerUID = ''''\<rparr>]\<rparr>\<rparr> demo_synced"

lemma demo_cycle_covers: "index_covers demo_cycle"
  unfolding demo_cycle_def by (rule covers.event [OF demo_synced_covers])

lemma hierarchy_returns_witness:
  "IterateHierarchyV2 demo_parse [GetResourceKey demo_pvc] record_all [] demo_cycle \<noteq> None"
  by (rule hierarchy_returns [OF demo_cycle_covers])

lemma hierarchy_visits_witness:
  "(\<exists>L c'. IterateHierarchyV2 demo_parse [GetResourceKey demo_pvc] record_all [] demo_cycle = Some (map Some L, c') \<and>
     distinct (map (node_key (cc_heap demo_cycle)) L) \<and>
     node_key (cc_heap demo_cycle) ` set L = (hierarchy_edges demo_parse demo_cycle)\<^sup>* ``
       {k \<in> set [GetResourceKey demo_pvc]. map_of (cc_resources demo_cycle) k \<noteq> None}) \<and>
   map_option fst (IterateHierarchyV2 demo_parse [GetResourceKey demo_pvc] record_all [] demo_cycle) = Some [Some 0, Some 2]"
  by (rule conjI [OF hierarchy_visits [OF demo_cycle_covers]]) code_simp

section \<open>Inferred owners\<close>

lemma infer_step_parent:
  assumes "isInferredParentOf (h ! n) = Some f" "\<not> mightHaveInferredOwner (h ! n)"
  shows "infer_step n h (k, v) = (if mightHaveInferredOwner (h ! v)
     then h[v := setOwnerRef (h ! v) (toOwnerRef (h ! n)) (f k)] else h)"
proof -
  have "v \<noteq> n" if "mightHaveInferredOwner (h ! v)" using that assms(2) by blast
  then show ?thesis using assms by (cases "mightHaveInferredOwner (h ! v)") (simp_all add: Let_def inferred_by_def)
qed

lemma infer_loop:
  assumes "isInferredParentOf (h ! n) = Some f" "\<not> mightHaveInferredOwner (h ! n)" "distinct (map snd ns)"
    and "mightHaveInferredOwner (h ! v)" "v < length h"
  shows "foldl (infer_step n) h ns ! v = (case map_of (map (\<lambda>(k, p). (p, k)) ns) v of
     None \<Rightarrow> h ! v | Some k \<Rightarrow> setOwnerRef (h ! v) (toOwnerRef (h ! n)) (f k))"
  using assms
proof (induction ns arbitrary: h)
  case (Cons kp ns)
  obtain k p where kp: "kp = (k, p)" by (cases kp)
  let ?h = "infer_step n h kp"
  have m: "same_meta h ?h" by (rule same_meta_infer)
  have meta: "isInferredParentOf (?h ! n) = Some f" "\<not> mightHaveInferredOwner (?h ! n)" "toOwnerRef (?h ! n) = toOwnerRef (h ! n)"
    using Cons.prems(1,2) same_metaD [OF m] mightHaveInferredOwner_cong [of "?h ! n" "h ! n"] toOwnerRef_cong [of "?h ! n" "h ! n"]
    by simp_all
  have hv: "?h ! v = (if p = v then setOwnerRef (h ! v) (toOwnerRef (h ! n)) (f k) else h ! v)"
    using Cons.prems by (simp add: kp infer_step_parent del: infer_step.simps)
  have v: "mightHaveInferredOwner (?h ! v)" "v < length ?h"
    using Cons.prems(4,5) same_metaD [OF m] mightHaveInferredOwner_cong [of "?h ! v" "h ! v"] by simp_all
  have d: "distinct (map snd ns)" using Cons.prems(3) by simp
  have
    IH: "foldl (infer_step n) ?h ns ! v = (case map_of (map (\<lambda>(k, p). (p, k)) ns) v of
      None \<Rightarrow> ?h ! v | Some k \<Rightarrow> setOwnerRef (?h ! v) (toOwnerRef (h ! n)) (f k))"
    using Cons.IH [OF meta(1,2) d v] unfolding meta(3) .
  show ?case
  proof (cases "p = v")
    case True
    with Cons.prems(3) have "map_of (map (\<lambda>(k, p). (p, k)) ns) v = None"
      by (force simp: map_of_eq_None_iff kp)
    with True IH hv show ?thesis by (simp add: kp del: infer_step.simps)
  next
    case False
    with hv have "?h ! v = h ! v" by simp
    from IH [unfolded this] False show ?thesis by (simp add: kp del: infer_step.simps)
  qed
qed simp

text \<open>
  Storing a StatefulSet brings the claims of its namespace in line with it: afterwards a persistent
  volume claim has an owner reference with the UID of the StatefulSet exactly if the name of the
  claim is one that its volume claim templates give; its other owners stay as they were.
\<close>

theorem setNode_infers_owners:
  assumes "index_covers c" "n < length (cc_heap c)"
    and "isInferredParentOf (cc_heap c ! n) = Some claims" "\<not> mightHaveInferredOwner (cc_heap c ! n)"
    and "map_of (nsNodes c (Namespace (node_key (cc_heap c) n))) k = Some v" "k \<noteq> node_key (cc_heap c) n"
    and "mightHaveInferredOwner (cc_heap c ! v)" "distinct_owners (cc_heap c ! v)"
  shows "owner_uids (cc_heap (setNode n c) ! v) =
     (if claims k then insert (RefUID (Ref (cc_heap c ! n))) (owner_uids (cc_heap c ! v))
      else owner_uids (cc_heap c ! v) - {RefUID (Ref (cc_heap c ! n))})"
proof -
  let ?key = "node_key (cc_heap c) n"
  let ?ns = "map_put ?key n (nsNodes c (Namespace ?key))"
  from assms(1,2) have ok: "nodes_ok (cc_heap c) ?ns" by (intro nodes_ok_put) (simp_all add: index_covers_def)
  from assms(5,6) have "map_of ?ns k = Some v" by simp
  then have kv: "(k, v) \<in> set ?ns" by (rule map_of_SomeD)
  have "distinct (map fst (map (\<lambda>(k, p). (p, k)) ?ns))"
    using nodes_ok_distinct [OF ok] by (simp add: comp_def split_beta)
  then have "map_of (map (\<lambda>(k, p). (p, k)) ?ns) v = Some k"
    by (rule map_of_is_SomeI) (use kv in force)
  then have "cc_heap (setNode n c) ! v = setOwnerRef (cc_heap c ! v) (toOwnerRef (cc_heap c ! n)) (claims k)"
    using infer_loop [OF assms(3,4) nodes_ok_distinct [OF ok] assms(7) nodes_okD(2) [OF ok kv]] assms(3)
    by (simp add: setNode_def Let_def)
  then show ?thesis using setOwnerRef_add [of "cc_heap c ! v"] setOwnerRef_del [OF assms(8)] by simp
qed

definition demo_claim :: "unit clusterCache" where
  "demo_claim = snd (alloc (resource_of (\<lambda>_. Inr [''data'']) demo_sts demo_synced) demo_synced)"

lemma setNode_infers_owners_witness:
  "''u1'' \<in> owner_uids (cc_heap (setNode 2 demo_claim) ! 0)"
proof -
  have cov: "index_covers demo_claim"
    unfolding demo_claim_def by (rule index_covers_alloc [OF demo_synced_covers])
  have some: "isInferredParentOf (cc_heap demo_claim ! 2) = Some (the (isInferredParentOf (cc_heap demo_claim ! 2)))"
  proof -
    have "\<not> Option.is_none (isInferredParentOf (cc_heap demo_claim ! 2))" by code_simp
    then show ?thesis by (simp add: Option.is_none_def)
  qed
  have "map_of (nsNodes demo_claim (Namespace (node_key (cc_heap demo_claim) 2))) (listed_key demo_pvc) = Some 0"
    "2 < length (cc_heap demo_claim)" "listed_key demo_pvc \<noteq> node_key (cc_heap demo_claim) 2"
    "\<not> mightHaveInferredOwner (cc_heap demo_claim ! 2)" "mightHaveInferredOwner (cc_heap demo_claim ! 0)"
    "distinct_owners (cc_heap demo_claim ! 0)" "RefUID (Ref (cc_heap demo_claim ! 2)) = ''u1''"
    "the (isInferredParentOf (cc_heap demo_claim ! 2)) (listed_key demo_pvc)" by code_simp+
  with setNode_infers_owners [OF cov _ some] show ?thesis by simp
qed

end
