(* ===== verification/Json.thy ===== *)
theory Json
  imports KubeTypes
begin

text \<open>
  Decoded JSON as the engine handles it, \<open>pkg/utils/json/json.go\<close>, and the parts of the Go standard
  library the diff needs (\<open>fmt\<close> and \<open>encoding/base64\<close>).

  A value of type \<open>any\<close> that a JSON decoder has produced is nil, a bool, an int64, a float64, a string,
  a \<open>[]any\<close> or a \<open>map[string]any\<close>. A float is kept as the text that \<open>%v\<close> prints for it. A map is an
  association list with distinct keys, in one iteration order.
\<close>

section \<open>Values\<close>

datatype json = JNull | JBool bool | JInt int | JFloat string | JString string
  | JArray "json list" | JObject "(string \<times> json) list"

type_synonym object = "(string \<times> json) list"

text \<open>Every map of a value has distinct keys.\<close>

fun json_wf :: "json \<Rightarrow> bool" where
  "json_wf (JArray xs) = list_all json_wf xs"
| "json_wf (JObject m) = (map_wf m \<and> list_all (\<lambda>(_, v). json_wf v) m)"
| "json_wf _ = True"

abbreviation object_wf :: "object \<Rightarrow> bool" where
  "object_wf m \<equiv> json_wf (JObject m)"

section \<open>Removing the fields that the configuration does not have\<close>

fun removeFields :: "json \<Rightarrow> json \<Rightarrow> json"
  and RemoveMapFields :: "object \<Rightarrow> object \<Rightarrow> object"
  and RemoveListFields :: "json list \<Rightarrow> json list \<Rightarrow> json list" where
  "removeFields (JObject c) live = (case live of JObject l \<Rightarrow> JObject (RemoveMapFields c l) | _ \<Rightarrow> live)"
| "removeFields (JArray c) live = (case live of JArray l \<Rightarrow> JArray (RemoveListFields c l) | _ \<Rightarrow> live)"
| "removeFields _ live = live"
| "RemoveMapFields [] live = []"
| "RemoveMapFields ((k, v1) # config) live =
     (case map_of live k of
        None \<Rightarrow> RemoveMapFields config live
      | Some v2 \<Rightarrow> (k, if v2 \<noteq> JNull then removeFields v1 v2 else v2) # RemoveMapFields config live)"
| "RemoveListFields config [] = []"
| "RemoveListFields [] (v2 # live) = v2 # RemoveListFields [] live"
| "RemoveListFields (c # config) (v2 # live) =
     (if v2 \<noteq> JNull then removeFields c v2 else v2) # RemoveListFields config live"

lemma removeFields_JNull [simp]: "removeFields c JNull = JNull"
  by (cases c) auto

lemma RemoveMapFields_not_key: "k \<notin> fst ` set config \<Longrightarrow> k \<notin> fst ` set (RemoveMapFields config live)"
  by (induction config) (auto split: option.splits)

lemma map_of_RemoveMapFields:
  "map_wf config \<Longrightarrow> map_of (RemoveMapFields config live) k =
     (case (map_of config k, map_of live k) of
        (Some v1, Some v2) \<Rightarrow> Some (removeFields v1 v2) | _ \<Rightarrow> None)"
proof (induction config)
  case (Cons e config)
  obtain k' v1 where e: "e = (k', v1)" by (cases e)
  with Cons.prems have "map_wf config" and new: "k' \<notin> fst ` set config"
    by (auto simp: map_wf_def)
  with Cons.IH e show ?case
    by (auto split: option.splits)
qed simp

lemma length_RemoveListFields [simp]: "length (RemoveListFields config live) = length live"
  by (induction live arbitrary: config) (simp, case_tac config, auto)

lemma RemoveListFields_Nil [simp]: "RemoveListFields [] live = live"
  by (induction live) auto

section \<open>Printing with the verb s\<close>

text \<open>
  \<open>fmt.Sprintf("%s", v)\<close>: a string is itself, a number or a bool is printed as a bad verb, a slice or
  a map element by element, the keys of a map in ascending order.
\<close>

fun Sprintf_s :: "json \<Rightarrow> string" where
  "Sprintf_s JNull = ''%!s(<nil>)''"
| "Sprintf_s (JBool b) = ''%!s(bool='' @ (if b then ''true'' else ''false'') @ '')''"
| "Sprintf_s (JInt n) = ''%!s(int64='' @ show_int n @ '')''"
| "Sprintf_s (JFloat t) = ''%!s(float64='' @ t @ '')''"
| "Sprintf_s (JString s) = s"
| "Sprintf_s (JArray xs) = ''['' @ Join (map Sprintf_s xs) '' '' @ '']''"
| "Sprintf_s (JObject m) =
     ''map['' @ Join (map (\<lambda>(k, t). k @ '':'' @ t)
       (sort_Sort (\<lambda>a b. str_less (fst a) (fst b)) (map (\<lambda>(k, v). (k, Sprintf_s v)) m))) '' '' @ '']''"

section \<open>Base64\<close>

text \<open>\<open>base64.StdEncoding.EncodeToString\<close>: three bytes become four characters, the tail is padded.\<close>

definition base64_char :: "nat \<Rightarrow> char" where
  "base64_char n =
     char_of (if n < 26 then 65 + n else if n < 52 then 71 + n else if n < 62 then n - 4
              else if n = 62 then 43 else 47)"

fun EncodeToString :: "string \<Rightarrow> string" where
  "EncodeToString [] = []"
| "EncodeToString [a] =
     (let n = of_char a :: nat in
      [base64_char (n div 4), base64_char (n mod 4 * 16), CHR ''='', CHR ''=''])"
| "EncodeToString [a, b] =
     (let n = of_char a :: nat; m = of_char b :: nat in
      [base64_char (n div 4), base64_char (n mod 4 * 16 + m div 16), base64_char (m mod 16 * 4), CHR ''=''])"
| "EncodeToString (a # b # c # s) =
     (let n = of_char a :: nat; m = of_char b :: nat; l = of_char c :: nat in
      base64_char (n div 4) # base64_char (n mod 4 * 16 + m div 16) #
      base64_char (m mod 16 * 4 + l div 64) # base64_char (l mod 64) # EncodeToString s)"

section \<open>Functions that may fail\<close>

text \<open>
  A function that returns a value and an error, and may panic on the way, is a value of the sum type
  \<open>res\<close>. Only a returned error can be handled or wrapped by the caller; a panic goes through.
\<close>

datatype fault = Panicked | Errored go_error

type_synonym 'a res = "fault + 'a"

definition fail :: "string \<Rightarrow> 'a res" where
  "fail msg = Inl (Errored (Err ReasonOther msg))"

definition lift_err :: "go_error + 'a \<Rightarrow> 'a res" where
  "lift_err r = (case r of Inl e \<Rightarrow> Inl (Errored e) | Inr x \<Rightarrow> Inr x)"

definition wrapping :: "string \<Rightarrow> 'a res \<Rightarrow> 'a res" where
  "wrapping msg r = (case r of Inl (Errored e) \<Rightarrow> Inl (Errored (wrap_err msg e)) | _ \<Rightarrow> r)"

definition bind_res :: "'a res \<Rightarrow> ('a \<Rightarrow> 'b res) \<Rightarrow> 'b res" where
  "bind_res r f = (case r of Inl e \<Rightarrow> Inl e | Inr x \<Rightarrow> f x)"

lemma bind_res_Inr [simp]: "bind_res (Inr x) f = f x"
  and bind_res_Inl [simp]: "bind_res (Inl e) f = Inl e"
  by (simp_all add: bind_res_def)

lemma bind_res_eq_Inr: "bind_res r f = Inr y \<longleftrightarrow> (\<exists>x. r = Inr x \<and> f x = Inr y)"
  by (cases r) auto

lemma lift_err_simps [simp]:
  "lift_err (Inr x) = Inr x" "lift_err (Inl e) = Inl (Errored e)"
  "lift_err r = Inr x \<longleftrightarrow> r = Inr x"
  by (auto simp: lift_err_def split: sum.split)

lemma wrapping_simps [simp]:
  "wrapping msg (Inr x) = Inr x" "wrapping msg (Inl Panicked) = Inl Panicked"
  "wrapping msg (Inl (Errored e)) = Inl (Errored (wrap_err msg e))"
  by (simp_all add: wrapping_def)

lemma wrapping_eq_Inr [simp]: "wrapping msg r = Inr x \<longleftrightarrow> r = Inr x"
  by (auto simp: wrapping_def split: sum.split fault.split)

lemma fail_not_Inr [simp]: "fail msg \<noteq> Inr x"
  by (simp add: fail_def)

section \<open>What the removal keeps\<close>

text \<open>
  \<open>at j p\<close> is the value at the path \<open>p\<close> of field names; \<open>cut c p\<close> says that the configuration, followed
  along \<open>p\<close>, reaches a map without the next field.
\<close>

fun at :: "json \<Rightarrow> string list \<Rightarrow> json option" where
  "at j [] = Some j"
| "at (JObject m) (k # p) = (case map_of m k of None \<Rightarrow> None | Some v \<Rightarrow> at v p)"
| "at _ (k # p) = None"

fun cut :: "json \<Rightarrow> string list \<Rightarrow> bool" where
  "cut (JObject m) (k # p) = (case map_of m k of None \<Rightarrow> True | Some v \<Rightarrow> cut v p)"
| "cut _ _ = False"

lemma json_wf_field: "json_wf (JObject m) \<Longrightarrow> map_of m k = Some v \<Longrightarrow> json_wf v"
  by (auto simp: list_all_iff dest: map_of_SomeD)

lemma map_filter_cong: "(\<And>x. x \<in> set xs \<Longrightarrow> f x = g x) \<Longrightarrow> List.map_filter f xs = List.map_filter g xs"
  by (induction xs) (auto split: option.split)

lemma RemoveMapFields_filter:
  "RemoveMapFields config live =
     List.map_filter (\<lambda>(k, v1). map_option (\<lambda>v2. (k, removeFields v1 v2)) (map_of live k)) config"
  by (induction config) (auto split: option.split)

lemma removeFields_at:
  assumes "json_wf c"
  shows "at (removeFields c l) p =
    (case at l p of None \<Rightarrow> None
     | Some v \<Rightarrow> if cut c p then None
         else Some (case at c p of None \<Rightarrow> v | Some d \<Rightarrow> removeFields d v))"
  using assms
proof (induction p arbitrary: c l)
  case (Cons k p)
  show ?case
  proof (cases "\<exists>m m'. c = JObject m \<and> l = JObject m'")
    case True
    then obtain m m' where c: "c = JObject m" and l: "l = JObject m'" by blast
    from Cons.prems c have wf: "map_wf m" by simp
    show ?thesis
    proof (cases "map_of m k")
      case None
      with c l wf show ?thesis by (simp add: map_of_RemoveMapFields split: option.split)
    next
      case (Some d)
      with c l wf Cons.IH [OF json_wf_field [OF Cons.prems [unfolded c] Some]] show ?thesis
        by (simp add: map_of_RemoveMapFields split: option.split)
    qed
  next
    case False
    then show ?thesis by (cases c; cases l) (auto split: option.splits)
  qed
qed simp

lemma RemoveListFields_nth:
  "i < length live \<Longrightarrow> RemoveListFields config live ! i =
     (if i < length config then removeFields (config ! i) (live ! i) else live ! i)"
proof (induction config live arbitrary: i rule: list_induct2')
  case (4 c config v live)
  then show ?case by (cases i) auto
qed auto

lemma removeFields_idem: "json_wf c \<Longrightarrow> removeFields c (removeFields c l) = removeFields c l"
proof (induction c arbitrary: l)
  case (JObject m)
  have "RemoveMapFields m (RemoveMapFields m m') = RemoveMapFields m m'" for m'
  proof -
    let ?R = "RemoveMapFields m m'"
    have "List.map_filter (\<lambda>(k, v1). map_option (\<lambda>v2. (k, removeFields v1 v2)) (map_of ?R k)) m =
      List.map_filter (\<lambda>(k, v1). map_option (\<lambda>v2. (k, removeFields v1 v2)) (map_of m' k)) m"
    proof (rule map_filter_cong)
      fix e assume e: "e \<in> set m"
      obtain k d where kd: "e = (k, d)" by (cases e)
      from JObject.prems have wf: "map_wf m" by simp
      with e kd have "map_of m k = Some d" by (simp add: map_wf_def)
      moreover have "removeFields d (removeFields d v) = removeFields d v" for v
        using JObject e kd by (intro JObject.IH [of e]) (auto simp: list_all_iff)
      ultimately show "(case e of (k, v1) \<Rightarrow> map_option (\<lambda>v2. (k, removeFields v1 v2)) (map_of ?R k)) =
          (case e of (k, v1) \<Rightarrow> map_option (\<lambda>v2. (k, removeFields v1 v2)) (map_of m' k))"
        using kd wf by (simp add: map_of_RemoveMapFields split: option.split)
    qed
    then show ?thesis
      unfolding RemoveMapFields_filter [of m ?R] by (simp only: RemoveMapFields_filter [symmetric])
  qed
  then show ?case by (cases l) auto
next
  case (JArray xs)
  have "RemoveListFields xs (RemoveListFields xs ys) = RemoveListFields xs ys" for ys
    using JArray by (intro nth_equalityI) (auto simp: RemoveListFields_nth list_all_iff)
  then show ?case by (cases l) auto
qed auto

lemma RemoveMapFields_idem:
  "object_wf m \<Longrightarrow> RemoveMapFields m (RemoveMapFields m l) = RemoveMapFields m l"
  using removeFields_idem [of "JObject m" "JObject l"] by simp

lemma json_wf_removeFields: "json_wf c \<Longrightarrow> json_wf l \<Longrightarrow> json_wf (removeFields c l)"
proof (induction c arbitrary: l)
  case (JObject m)
  have "object_wf (RemoveMapFields m m')" if "object_wf m'" for m'
  proof -
    have "map_wf (RemoveMapFields m m')"
      using JObject.prems(1)
      by (induction m) (auto simp: map_wf_def RemoveMapFields_not_key split: option.split)
    moreover have "json_wf v" if v: "(k, v) \<in> set (RemoveMapFields m m')" for k v
    proof -
      from v \<open>map_wf _\<close> have "map_of (RemoveMapFields m m') k = Some v" by (simp add: map_wf_def)
      then obtain d w where "map_of m k = Some d" "map_of m' k = Some w" "v = removeFields d w"
        using JObject.prems(1) by (auto simp: map_of_RemoveMapFields split: option.splits)
      with JObject.IH [of "(k, d)" d w] JObject.prems(1) \<open>object_wf m'\<close> show ?thesis
        by (auto simp: json_wf_field list_all_iff dest: map_of_SomeD)
    qed
    ultimately show ?thesis by (auto simp: list_all_iff)
  qed
  with JObject.prems show ?case by (cases l) auto
next
  case (JArray xs)
  have "list_all json_wf (RemoveListFields xs ys)" if "list_all json_wf ys" for ys
    using JArray that by (auto simp: RemoveListFields_nth list_all_length)
  with JArray.prems show ?case by (cases l) auto
qed auto

end
