(* ===== verification/ManagedFields.thy ===== *)
theory ManagedFields
  imports Json
begin

text \<open>
  The managed fields of an object between their wire format and the format of structured-merge-diff:
  \<open>pkg/diff/internal/fieldmanager/borrowed_managedfields.go\<close> and \<open>borrowed_fields.go\<close>.

  Sets of field paths and the marshalling of an entry are parameters. A time is a number of
  nanoseconds since the epoch; \<open>Unix\<close> is the number of whole seconds.
\<close>

section \<open>Entries\<close>

record ManagedFieldsEntry =
  mfManager :: string
  mfOperation :: string
  mfAPIVersion :: string
  mfTime :: "int option"
  mfFieldsType :: string
  mfFieldsV1 :: "string option"
  mfSubresource :: string

abbreviation "ManagedFieldsOperationApply \<equiv> ''Apply''"
abbreviation "ManagedFieldsOperationUpdate \<equiv> ''Update''"

definition Unix :: "int \<Rightarrow> int" where
  "Unix t = t div 1000000000"

record 's VersionedSet =
  vsSet :: 's
  vsAPIVersion :: string
  vsApplied :: bool

record 's managedStruct =
  mgFields :: "(string \<times> 's VersionedSet) list"
  mgTimes :: "(string \<times> int option) list"

definition NewManaged :: "(string \<times> 's VersionedSet) list \<Rightarrow> (string \<times> int option) list \<Rightarrow> 's managedStruct" where
  "NewManaged f t = \<lparr>mgFields = f, mgTimes = t\<rparr>"

definition NewEmptyManaged :: "'s managedStruct" where
  "NewEmptyManaged = NewManaged [] []"

text \<open>
  \<open>ToJSON\<close> and \<open>FromJSON\<close> of a set, the JSON of an entry and back, and the text the verb v prints.
\<close>

record 's set_api =
  SetToJSON :: "'s \<Rightarrow> go_error + string"
  SetFromJSON :: "string \<Rightarrow> go_error + 's"
  EmptyFields :: string
  MarshalEntry :: "ManagedFieldsEntry \<Rightarrow> go_error + string"
  UnmarshalEntry :: "string \<Rightarrow> go_error + ManagedFieldsEntry"
  ShowEntry :: "ManagedFieldsEntry \<Rightarrow> string"

definition errorf_v :: "string \<Rightarrow> go_error \<Rightarrow> go_error" where
  "errorf_v msg e = Err ReasonOther (msg @ '': '' @ err_text e)"

definition map_error :: "(go_error \<Rightarrow> go_error) \<Rightarrow> go_error + 'a \<Rightarrow> go_error + 'a" where
  "map_error f r = (case r of Inl e \<Rightarrow> Inl (f e) | Inr x \<Rightarrow> Inr x)"

definition bind_err :: "go_error + 'a \<Rightarrow> ('a \<Rightarrow> go_error + 'b) \<Rightarrow> go_error + 'b" where
  "bind_err r f = (case r of Inl e \<Rightarrow> Inl e | Inr x \<Rightarrow> f x)"

lemma bind_err_simps [simp]: "bind_err (Inr x) f = f x" "bind_err (Inl e) f = Inl e"
  by (simp_all add: bind_err_def)

lemma bind_err_eq_Inr: "bind_err r f = Inr y \<longleftrightarrow> (\<exists>x. r = Inr x \<and> f x = Inr y)"
  by (cases r) auto

lemma map_error_simps [simp]:
  "map_error f (Inr x) = Inr x" "map_error f (Inl e) = Inl (f e)"
  "map_error f r = Inr x \<longleftrightarrow> r = Inr x"
  by (simp_all add: map_error_def split: sum.split)

section \<open>Decoding\<close>

definition identifier_entry :: "ManagedFieldsEntry \<Rightarrow> ManagedFieldsEntry" where
  "identifier_entry e = e\<lparr>mfFieldsType := '''', mfFieldsV1 := None, mfTime := None,
     mfAPIVersion := (if mfOperation e = ManagedFieldsOperationApply then '''' else mfAPIVersion e)\<rparr>"

definition BuildManagerIdentifier :: "'s set_api \<Rightarrow> ManagedFieldsEntry \<Rightarrow> go_error + string" where
  "BuildManagerIdentifier api e =
     map_error (errorf_v ''error marshalling manager identifier'') (MarshalEntry api (identifier_entry e))"

definition FieldsToSet :: "'s set_api \<Rightarrow> string \<Rightarrow> go_error + 's" where
  "FieldsToSet api raw = SetFromJSON api raw"

definition SetToFields :: "'s set_api \<Rightarrow> 's \<Rightarrow> go_error + string" where
  "SetToFields api s = SetToJSON api s"

definition decodeVersionedSet :: "'s set_api \<Rightarrow> ManagedFieldsEntry \<Rightarrow> go_error + 's VersionedSet" where
  "decodeVersionedSet api e =
     bind_err (map_error (errorf_v ''error decoding set'')
         (FieldsToSet api (case mfFieldsV1 e of Some raw \<Rightarrow> raw | None \<Rightarrow> EmptyFields api)))
       (\<lambda>s. Inr \<lparr>vsSet = s, vsAPIVersion = mfAPIVersion e,
          vsApplied = (mfOperation e = ManagedFieldsOperationApply)\<rparr>)"

definition check_entry :: "nat \<Rightarrow> ManagedFieldsEntry \<Rightarrow> go_error option" where
  "check_entry i e =
     (if mfOperation e \<noteq> ManagedFieldsOperationApply \<and> mfOperation e \<noteq> ManagedFieldsOperationUpdate
      then Some (Err ReasonOther ''operation must be `Apply` or `Update`'')
      else if length (mfAPIVersion e) < 1 then Some (Err ReasonOther ''apiVersion must not be empty'')
      else if mfFieldsType e = ''FieldsV1'' then None
      else if mfFieldsType e = '''' then
        Some (Err ReasonOther (''missing fieldsType in managed fields entry '' @ show_nat i))
      else Some (Err ReasonOther (''invalid fieldsType '' @ quote (mfFieldsType e) @
        '' in managed fields entry '' @ show_nat i)))"

definition decode_entry ::
  "'s set_api \<Rightarrow> nat \<Rightarrow> ManagedFieldsEntry \<Rightarrow> 's managedStruct \<Rightarrow> go_error + 's managedStruct" where
  "decode_entry api i e managed =
     (case check_entry i e of
        Some err \<Rightarrow> Inl err
      | None \<Rightarrow>
          bind_err (map_error (errorf_v (''error decoding manager from '' @ ShowEntry api e))
            (BuildManagerIdentifier api e)) (\<lambda>manager.
          bind_err (map_error (errorf_v (''error decoding versioned set from '' @ ShowEntry api e))
            (decodeVersionedSet api e)) (\<lambda>vs.
          Inr (managed\<lparr>mgFields := map_put manager vs (mgFields managed),
                       mgTimes := map_put manager (mfTime e) (mgTimes managed)\<rparr>))))"

fun decode_entries ::
  "'s set_api \<Rightarrow> nat \<Rightarrow> ManagedFieldsEntry list \<Rightarrow> 's managedStruct \<Rightarrow> go_error + 's managedStruct" where
  "decode_entries api i [] managed = Inr managed"
| "decode_entries api i (e # es) managed =
     bind_err (decode_entry api i e managed) (\<lambda>managed'. decode_entries api (Suc i) es managed')"

definition DecodeManagedFields :: "'s set_api \<Rightarrow> ManagedFieldsEntry list \<Rightarrow> go_error + 's managedStruct" where
  "DecodeManagedFields api es = decode_entries api 0 es NewEmptyManaged"

section \<open>Encoding\<close>

definition encodeManagerVersionedSet ::
  "'s set_api \<Rightarrow> string \<Rightarrow> 's VersionedSet \<Rightarrow> go_error + ManagedFieldsEntry" where
  "encodeManagerVersionedSet api manager vs =
     bind_err (map_error (errorf_v (''error unmarshalling manager identifier '' @ manager))
       (UnmarshalEntry api manager)) (\<lambda>e.
     bind_err (map_error (errorf_v ''error encoding set'') (SetToFields api (vsSet vs))) (\<lambda>raw.
     Inr (e\<lparr>mfAPIVersion := vsAPIVersion vs,
            mfOperation := (if vsApplied vs then ManagedFieldsOperationApply else mfOperation e),
            mfFieldsType := ''FieldsV1'', mfFieldsV1 := Some raw\<rparr>)))"

fun encode_managers ::
  "'s set_api \<Rightarrow> (string \<times> int option) list \<Rightarrow> (string \<times> 's VersionedSet) list \<Rightarrow> go_error + ManagedFieldsEntry list" where
  "encode_managers api tms [] = Inr []"
| "encode_managers api tms ((manager, vs) # fields') =
     bind_err (map_error (errorf_v (''error encoding versioned set for '' @ manager))
       (encodeManagerVersionedSet api manager vs)) (\<lambda>v.
     bind_err (encode_managers api tms fields') (\<lambda>es.
     Inr ((case map_of tms manager of Some t \<Rightarrow> v\<lparr>mfTime := t\<rparr> | None \<Rightarrow> v) # es)))"

definition unix_or_zero :: "ManagedFieldsEntry \<Rightarrow> int" where
  "unix_or_zero e = (case mfTime e of Some t \<Rightarrow> Unix t | None \<Rightarrow> 0)"

definition entry_less :: "ManagedFieldsEntry \<Rightarrow> ManagedFieldsEntry \<Rightarrow> bool" where
  "entry_less p q =
     (if mfOperation p \<noteq> mfOperation q then str_less (mfOperation p) (mfOperation q)
      else if unix_or_zero p \<noteq> unix_or_zero q then unix_or_zero p < unix_or_zero q
      else if mfManager p \<noteq> mfManager q then str_less (mfManager p) (mfManager q)
      else if mfAPIVersion p \<noteq> mfAPIVersion q then str_less (mfAPIVersion p) (mfAPIVersion q)
      else str_less (mfSubresource p) (mfSubresource q))"

definition sortEncodedManagedFields :: "ManagedFieldsEntry list \<Rightarrow> ManagedFieldsEntry list" where
  "sortEncodedManagedFields es = sort_Sort entry_less es"

definition encodeManagedFields :: "'s set_api \<Rightarrow> 's managedStruct \<Rightarrow> go_error + ManagedFieldsEntry list" where
  "encodeManagedFields api managed =
     (if length (mgFields managed) = 0 then Inr []
      else bind_err (encode_managers api (mgTimes managed) (mgFields managed)) (\<lambda>es.
        Inr (sortEncodedManagedFields es)))"

section \<open>Round trip\<close>

text \<open>
  The library promises that a set and an entry survive their JSON. \<open>decodes api e k vs\<close>: decoding the
  entry \<open>e\<close> stores the set \<open>vs\<close> under the manager \<open>k\<close>.
\<close>

definition decodes :: "'s set_api \<Rightarrow> ManagedFieldsEntry \<Rightarrow> string \<Rightarrow> 's VersionedSet \<Rightarrow> bool" where
  "decodes api e k vs \<longleftrightarrow> check_entry 0 e = None \<and> BuildManagerIdentifier api e = Inr k \<and>
     decodeVersionedSet api e = Inr vs"

lemma check_entry_index: "check_entry i e = None \<longleftrightarrow> check_entry 0 e = None"
  by (simp add: check_entry_def)

lemma decode_entry_Inr:
  "decode_entry api i e m = Inr m' \<longleftrightarrow>
     (\<exists>k vs. decodes api e k vs \<and>
        m' = m\<lparr>mgFields := map_put k vs (mgFields m), mgTimes := map_put k (mfTime e) (mgTimes m)\<rparr>)"
  using check_entry_index [of i e]
  by (auto simp: decode_entry_def decodes_def bind_err_eq_Inr split: option.splits)

lemma decode_entries_new:
  assumes "list_all2 (\<lambda>(k, vs, t) e. decodes api e k vs \<and> mfTime e = t) ds es"
    and "distinct (map fst (mgFields m) @ map fst ds)" "map fst (mgTimes m) = map fst (mgFields m)"
  shows "decode_entries api i es m = Inr (m\<lparr>mgFields := mgFields m @ map (\<lambda>(k, vs, t). (k, vs)) ds,
    mgTimes := mgTimes m @ map (\<lambda>(k, vs, t). (k, t)) ds\<rparr>)"
  using assms
proof (induction arbitrary: m i rule: list_all2_induct)
  case (Cons d ds e es)
  obtain k vs t where d: "d = (k, vs, t)" by (cases d)
  with Cons.prems have new: "k \<notin> fst ` set (mgFields m)" "k \<notin> fst ` set (mgTimes m)"
    by (auto simp flip: set_map)
  let ?m = "m\<lparr>mgFields := mgFields m @ [(k, vs)], mgTimes := mgTimes m @ [(k, t)]\<rparr>"
  from new have "?m = m\<lparr>mgFields := map_put k vs (mgFields m), mgTimes := map_put k t (mgTimes m)\<rparr>"
    by (simp add: map_put_new map_of_eq_None_iff)
  with Cons.hyps(1) d have 1: "decode_entry api i e m = Inr ?m"
    unfolding decode_entry_Inr by auto
  from Cons.prems d have "distinct (map fst (mgFields ?m) @ map fst ds)" "map fst (mgTimes ?m) = map fst (mgFields ?m)"
    by auto
  from Cons.IH [OF this, of "Suc i"] 1 d show ?case by simp
qed simp

lemma list_all2_perm_right:
  assumes "list_all2 R xs ys" "mset ys' = mset ys"
  shows "\<exists>xs'. list_all2 R xs' ys' \<and> mset xs' = mset xs"
proof -
  have "list_all2 (\<lambda>y x. R x y) ys xs" using assms(1) by (simp add: list_all2_conv_all_nth)
  from list_all2_reorder_left_invariance [OF this assms(2)] obtain xs' where
    "list_all2 (\<lambda>y x. R x y) ys' xs'" "mset xs' = mset xs" by blast
  then show ?thesis by (auto simp: list_all2_conv_all_nth intro!: exI [of _ xs'])
qed

definition json_faithful :: "'s set_api \<Rightarrow> bool" where
  "json_faithful api \<longleftrightarrow>
     (\<forall>s. \<exists>raw. SetToJSON api s = Inr raw \<and> SetFromJSON api raw = Inr s) \<and>
     (\<forall>e t. MarshalEntry api e = Inr t \<longrightarrow> UnmarshalEntry api t = Inr e)"

lemma encode_decodes:
  assumes "json_faithful api" "decodes api e k vs"
  shows "\<exists>e'. encodeManagerVersionedSet api k vs = Inr e' \<and> (\<forall>t. decodes api (e'\<lparr>mfTime := t\<rparr>) k vs)"
proof -
  from assms(1) obtain raw where raw: "SetToJSON api (vsSet vs) = Inr raw" "SetFromJSON api raw = Inr (vsSet vs)"
    unfolding json_faithful_def by blast
  from assms(2) have chk: "check_entry 0 e = None" and id: "MarshalEntry api (identifier_entry e) = Inr k"
    and vs: "vsAPIVersion vs = mfAPIVersion e" "vsApplied vs \<longleftrightarrow> mfOperation e = ManagedFieldsOperationApply"
    by (auto simp: decodes_def BuildManagerIdentifier_def decodeVersionedSet_def bind_err_eq_Inr)
  let ?e = "(identifier_entry e)\<lparr>mfAPIVersion := vsAPIVersion vs,
    mfOperation := (if vsApplied vs then ManagedFieldsOperationApply else mfOperation e),
    mfFieldsType := ''FieldsV1'', mfFieldsV1 := Some raw\<rparr>"
  have enc: "encodeManagerVersionedSet api k vs = Inr ?e"
    using assms(1) id raw(1)
    by (simp add: json_faithful_def encodeManagerVersionedSet_def SetToFields_def identifier_entry_def)
  have "identifier_entry (?e\<lparr>mfTime := t\<rparr>) = identifier_entry e" for t
    using vs by (simp add: identifier_entry_def)
  moreover have "check_entry 0 (?e\<lparr>mfTime := t\<rparr>) = None" for t
    using chk vs by (auto simp: check_entry_def identifier_entry_def split: if_splits)
  moreover have "decodeVersionedSet api (?e\<lparr>mfTime := t\<rparr>) = Inr vs" for t
    using raw(2) vs by (simp add: decodeVersionedSet_def FieldsToSet_def identifier_entry_def)
  ultimately have "decodes api (?e\<lparr>mfTime := t\<rparr>) k vs" for t
    using id by (simp add: decodes_def BuildManagerIdentifier_def)
  with enc show ?thesis by blast
qed

definition codable :: "'s set_api \<Rightarrow> 's managedStruct \<Rightarrow> bool" where
  "codable api m \<longleftrightarrow> distinct (map fst (mgFields m)) \<and> map fst (mgTimes m) = map fst (mgFields m) \<and>
     (\<forall>(k, vs)\<in>set (mgFields m). \<exists>e. decodes api e k vs)"

lemma codable_put:
  assumes "codable api m" "decodes api e k vs"
  shows "codable api (m\<lparr>mgFields := map_put k vs (mgFields m), mgTimes := map_put k t (mgTimes m)\<rparr>)"
proof -
  from assms(1) have "fst ` set (mgTimes m) = fst ` set (mgFields m)"
    by (metis codable_def image_set)
  moreover have "\<exists>e. decodes api e k' vs'" if "(k', vs') \<in> set (map_put k vs (mgFields m))" for k' vs'
    using assms subsetD [OF set_map_put that] by (auto simp: codable_def)
  ultimately show ?thesis
    using assms(1) by (auto simp: codable_def keys_put_list)
qed

lemma decode_codable: "decode_entries api i es m = Inr m' \<Longrightarrow> codable api m \<Longrightarrow> codable api m'"
proof (induction es arbitrary: i m)
  case (Cons e es)
  then obtain m1 where 1: "decode_entry api i e m = Inr m1" "decode_entries api (Suc i) es m1 = Inr m'"
    by (auto simp: bind_err_eq_Inr)
  with Cons show ?case by (auto simp: decode_entry_Inr codable_put)
qed simp

lemma encode_managers_decodes:
  assumes "json_faithful api" "\<forall>(k, vs)\<in>set kvs. \<exists>e. decodes api e k vs" "\<forall>k\<in>fst ` set kvs. map_of tms k \<noteq> None"
  shows "\<exists>es. encode_managers api tms kvs = Inr es \<and>
    list_all2 (\<lambda>(k, vs) e. decodes api e k vs \<and> Some (mfTime e) = map_of tms k) kvs es"
  using assms(2,3)
proof (induction kvs)
  case (Cons kv kvs)
  obtain k vs where kv: "kv = (k, vs)" by (cases kv)
  with Cons.prems obtain e t where e: "decodes api e k vs" and t: "map_of tms k = Some t" by auto
  from encode_decodes [OF assms(1) e] obtain e' where "encodeManagerVersionedSet api k vs = Inr e'"
    "decodes api (e'\<lparr>mfTime := t\<rparr>) k vs" by blast
  moreover from Cons kv obtain es where "encode_managers api tms kvs = Inr es"
    "list_all2 (\<lambda>(k, vs) e. decodes api e k vs \<and> Some (mfTime e) = map_of tms k) kvs es"
    by auto
  ultimately show ?case by (simp add: kv t)
qed simp

lemma roundtrip:
  assumes faithful: "json_faithful api" and "DecodeManagedFields api es = Inr m"
  shows "\<exists>es' m'. encodeManagedFields api m = Inr es' \<and> DecodeManagedFields api es' = Inr m' \<and>
    map_of (mgFields m') = map_of (mgFields m) \<and> map_of (mgTimes m') = map_of (mgTimes m)"
proof -
  have c: "codable api m"
    using assms(2) unfolding DecodeManagedFields_def
    by (rule decode_codable) (simp add: codable_def NewEmptyManaged_def NewManaged_def)
  have keys: "fst ` set (mgTimes m) = fst ` set (mgFields m)" using c by (metis codable_def image_set)
  from c have "\<forall>k\<in>fst ` set (mgFields m). map_of (mgTimes m) k \<noteq> None"
    unfolding keys [symmetric] by (simp add: map_of_eq_None_iff)
  with c encode_managers_decodes [OF faithful, of "mgFields m" "mgTimes m"] obtain es1 where
    e: "encode_managers api (mgTimes m) (mgFields m) = Inr es1" and
    d: "list_all2 (\<lambda>(k, vs) e. decodes api e k vs \<and> Some (mfTime e) = map_of (mgTimes m) k) (mgFields m) es1"
    by (auto simp: codable_def)
  let ?ds = "map (\<lambda>(k, vs). (k, vs, the (map_of (mgTimes m) k))) (mgFields m)"
  from d have "list_all2 (\<lambda>(k, vs, t) e. decodes api e k vs \<and> mfTime e = t) ?ds es1"
    by (auto simp: list_all2_conv_all_nth split_beta) (metis option.sel)
  with list_all2_perm_right [OF this, of "sortEncodedManagedFields es1"]
  obtain ds where ds: "list_all2 (\<lambda>(k, vs, t) e. decodes api e k vs \<and> mfTime e = t) ds (sortEncodedManagedFields es1)"
    and perm: "mset ds = mset ?ds"
    by (auto simp: sortEncodedManagedFields_def mset_sort_Sort)
  have k: "map fst ?ds = map fst (mgFields m)" by (auto simp: comp_def split_beta)
  have "mset (map fst ds) = mset (map fst (mgFields m))" by (simp only: k [symmetric] mset_map perm)
  from mset_eq_imp_distinct_iff [OF this] c have dist: "distinct (map fst ds)" by (simp add: codable_def)
  from perm have set: "set ds = set ?ds" by (rule mset_eq_setD)
  have "DecodeManagedFields api (sortEncodedManagedFields es1) =
      Inr \<lparr>mgFields = map (\<lambda>(k, vs, t). (k, vs)) ds, mgTimes = map (\<lambda>(k, vs, t). (k, t)) ds\<rparr>"
    using decode_entries_new [OF ds, of NewEmptyManaged 0] dist
    by (simp add: DecodeManagedFields_def NewEmptyManaged_def NewManaged_def)
  moreover have "encodeManagedFields api m = Inr (sortEncodedManagedFields es1)"
    using e d by (auto simp: encodeManagedFields_def sortEncodedManagedFields_def sort_Sort_def)
  moreover have "map_of (map (\<lambda>(k, vs, t). (k, vs)) ds) = map_of (mgFields m)"
  proof (subst map_of_inject_set)
    show "set (map (\<lambda>(k, vs, t). (k, vs)) ds) = set (mgFields m)" unfolding set_map set by (force simp: image_image)
  qed (use dist c in \<open>auto simp: codable_def comp_def split_beta\<close>)
  moreover have "map_of (map (\<lambda>(k, vs, t). (k, t)) ds) = map_of (mgTimes m)"
  proof (subst map_of_inject_set)
    have "set (map (\<lambda>(k, vs, t). (k, t)) ds) = (\<lambda>k. (k, the (map_of (mgTimes m) k))) ` fst ` set (mgFields m)"
      unfolding set_map set by (force simp: image_image)
    also have "\<dots> = set (mgTimes m)"
    proof -
      have "map_wf (mgTimes m)" using c by (metis codable_def map_wf_def)
      then show ?thesis unfolding keys [symmetric] by (force simp: map_wf_def image_image)
    qed
    finally show "set (map (\<lambda>(k, vs, t). (k, t)) ds) = set (mgTimes m)" .
  qed (use dist c in \<open>auto simp: codable_def comp_def split_beta\<close>)
  ultimately show ?thesis by auto
qed

section \<open>On objects\<close>

text \<open>
  \<open>acc\<close> is \<open>meta.Accessor\<close>, which fails for an object without metadata; \<open>set\<close> is \<open>SetManagedFields\<close>.
\<close>

definition RemoveObjectManagedFields ::
  "('o \<Rightarrow> go_error + unit) \<Rightarrow> ('o \<Rightarrow> ManagedFieldsEntry list \<Rightarrow> 'o) \<Rightarrow> 'o \<Rightarrow> 'o res" where
  "RemoveObjectManagedFields acc set_fields obj =
     (case acc obj of Inl _ \<Rightarrow> Inl Panicked | Inr _ \<Rightarrow> Inr (set_fields obj []))"

definition EncodeObjectManagedFields ::
  "('o \<Rightarrow> go_error + unit) \<Rightarrow> ('o \<Rightarrow> ManagedFieldsEntry list \<Rightarrow> 'o) \<Rightarrow> 's set_api \<Rightarrow> 'o \<Rightarrow>
     's managedStruct \<Rightarrow> 'o res" where
  "EncodeObjectManagedFields acc set_fields api obj managed =
     (case acc obj of
        Inl _ \<Rightarrow> Inl Panicked
      | Inr _ \<Rightarrow> bind_res (lift_err (map_error (errorf_v ''failed to convert back managed fields to API'')
            (encodeManagedFields api managed)))
          (\<lambda>es. Inr (set_fields obj es)))"

section \<open>Property\<close>

lemma entry_less_weak: "strict_weak_on entry_less A"
  unfolding entry_less_def [abs_def]
  by (intro strict_weak_lex strict_weak_by [where f = mfSubresource] strict_total_str_less strict_total_less)

lemma encoded_sorted:
  "encodeManagedFields api m = Inr es \<Longrightarrow> sorted_wrt (\<lambda>a b. \<not> entry_less b a) es"
  using gosort.srt_ordered [OF entry_less_weak]
  by (auto simp: encodeManagedFields_def sortEncodedManagedFields_def bind_err_eq_Inr split: if_splits)

text \<open>
  C32. Managed fields that decode can be encoded again, the entries come out ordered by operation, time
  in seconds, manager, version and subresource, and decoding them gives every manager the same set,
  version, operation and time.
\<close>

theorem managed_fields_roundtrip:
  assumes "json_faithful api" "DecodeManagedFields api es = Inr m"
  shows "\<exists>es' m'. encodeManagedFields api m = Inr es' \<and> sorted_wrt (\<lambda>a b. \<not> entry_less b a) es' \<and>
    DecodeManagedFields api es' = Inr m' \<and>
    map_of (mgFields m') = map_of (mgFields m) \<and> map_of (mgTimes m') = map_of (mgTimes m)"
  using roundtrip [OF assms] encoded_sorted by blast

text \<open>Two managers; sets are texts, and the codec knows the identifiers of the two.\<close>

definition demo_entry :: "string \<Rightarrow> string \<Rightarrow> string \<Rightarrow> int option \<Rightarrow> ManagedFieldsEntry" where
  "demo_entry mgr oper version t = \<lparr>mfManager = mgr, mfOperation = oper, mfAPIVersion = version, mfTime = t,
     mfFieldsType = ''FieldsV1'', mfFieldsV1 = Some (mgr @ ''-fields''), mfSubresource = ''''\<rparr>"

abbreviation "demo_entries \<equiv> [demo_entry ''kubectl'' ''Update'' ''apps/v1'' (Some 7000000000),
   demo_entry ''argocd'' ''Apply'' ''apps/v1'' None]"

definition demo_sets :: "string set_api" where
  "demo_sets = \<lparr>SetToJSON = Inr, SetFromJSON = Inr, EmptyFields = ''{}'',
     MarshalEntry = (\<lambda>e. if e = identifier_entry (demo_entries ! 0) then Inr ''k''
        else if e = identifier_entry (demo_entries ! 1) then Inr ''a'' else Inl (Err ReasonOther ''unknown'')),
     UnmarshalEntry = (\<lambda>s. if s = ''k'' then Inr (identifier_entry (demo_entries ! 0))
        else if s = ''a'' then Inr (identifier_entry (demo_entries ! 1)) else Inl (Err ReasonOther ''unknown'')),
     ShowEntry = mfManager\<rparr>"

abbreviation "demo_managed \<equiv>
  \<lparr>mgFields = [(''k'', \<lparr>vsSet = ''kubectl-fields'', vsAPIVersion = ''apps/v1'', vsApplied = False\<rparr>),
     (''a'', \<lparr>vsSet = ''argocd-fields'', vsAPIVersion = ''apps/v1'', vsApplied = True\<rparr>)],
   mgTimes = [(''k'', Some 7000000000), (''a'', None)]\<rparr>"

theorem managed_fields_roundtrip_witness:
  "\<exists>es' m'. encodeManagedFields demo_sets demo_managed = Inr es' \<and> sorted_wrt (\<lambda>a b. \<not> entry_less b a) es' \<and>
    DecodeManagedFields demo_sets es' = Inr m' \<and>
    map_of (mgFields m') = map_of (mgFields demo_managed) \<and> map_of (mgTimes m') = map_of (mgTimes demo_managed)"
proof (rule managed_fields_roundtrip [where es = demo_entries])
  show "json_faithful demo_sets"
    by (auto simp: json_faithful_def demo_sets_def split: if_splits)
  show "DecodeManagedFields demo_sets demo_entries = Inr demo_managed"
    by code_simp
qed

end
