(* ===== verification/DiffNormalize.thy ===== *)
theory DiffNormalize
  imports ManagedFields Hooks
begin

text \<open>
  The normalizations of \<open>pkg/diff/diff.go\<close> and the options of \<open>pkg/diff/diff_options.go\<close>, with the
  vendored order of endpoints (\<open>internal/kubernetes_vendor/pkg/api/v1/endpoints/util.go\<close>).

  Here an object is its decoded content (\<open>unstructured.Unstructured.Object\<close>), because the code reaches
  into it. The helpers of k8s.io/apimachinery that read and write it are a record of functions; the
  locale \<open>object_fields\<close> states the documented behaviour that the theorems rely on, and \<open>go_api\<close> is an
  instance. The conversions to typed objects are a second record. What a typed object holds beyond
  the fields that the code reads is one JSON value. The logger is left out.
\<close>

section \<open>Library functions on objects\<close>

record object_api =
  GVKOf :: "object \<Rightarrow> GroupVersionKind"
  NameOf :: "object \<Rightarrow> string"
  KindOf :: "object \<Rightarrow> string"
  APIVersionOf :: "object \<Rightarrow> string"
  ManagedFieldsOf :: "object \<Rightarrow> ManagedFieldsEntry list"
  AnnotationsOf :: "object \<Rightarrow> (string \<times> string) list option"
  SetAnnotations :: "object \<Rightarrow> (string \<times> string) list \<Rightarrow> object"
  NestedFieldCopy :: "object \<Rightarrow> string list \<Rightarrow> go_error + json option"
  NestedMap :: "object \<Rightarrow> string list \<Rightarrow> go_error + object option"
  NestedArray :: "object \<Rightarrow> string list \<Rightarrow> go_error + json list option"
  SetNestedField :: "object \<Rightarrow> json \<Rightarrow> string list \<Rightarrow> go_error + object"
  RemoveNestedField :: "object \<Rightarrow> string list \<Rightarrow> object"

text \<open>
  \<open>SetNestedField\<close> succeeds where \<open>NestedMap\<close> finds a map, makes \<open>NestedMap\<close> answer the map that was set, and leaves a field whose path starts
  with another name alone; \<open>NestedMap\<close> depends on the value of the first field only; \<open>SetAnnotations\<close> sets the annotations and touches the metadata only; what
  \<open>NestedMap\<close> finds \<open>NestedFieldCopy\<close> finds too.
\<close>

locale object_fields =
  fixes api :: object_api
  assumes set_get: "SetNestedField api obj (JObject m) (f # fs) = Inr obj' \<Longrightarrow>
      NestedMap api obj' (f # fs) = Inr (Some m)"
    and set_other: "SetNestedField api obj v (f # fs) = Inr obj' \<Longrightarrow> f' \<noteq> f \<Longrightarrow>
      NestedMap api obj' (f' # fs') = NestedMap api obj (f' # fs') \<and>
      NestedFieldCopy api obj' (f' # fs') = NestedFieldCopy api obj (f' # fs')"
    and first_field: "map_of obj f = map_of obj' f \<Longrightarrow> NestedMap api obj (f # fs) = NestedMap api obj' (f # fs)"
    and set_found: "NestedMap api obj (f # fs) = Inr (Some m) \<Longrightarrow>
      \<exists>obj'. SetNestedField api obj v (f # fs) = Inr obj'"
    and annotations_map: "AnnotationsOf api obj = Some as \<Longrightarrow>
      \<exists>m. NestedMap api obj [''metadata'', ''annotations''] = Inr (Some m) \<and>
        map_of m = (\<lambda>k. map_option JString (map_of as k))"
    and annotations_set: "NestedMap api obj [''metadata'', ''annotations''] = Inr (Some m) \<Longrightarrow>
      AnnotationsOf api (SetAnnotations api obj as) = Some as"
    and annotations_other: "f \<noteq> ''metadata'' \<Longrightarrow>
      NestedMap api (SetAnnotations api obj as) (f # fs) = NestedMap api obj (f # fs)"
    and map_copy: "NestedMap api obj (f # fs) = Inr (Some m) \<Longrightarrow>
      NestedFieldCopy api obj (f # fs) = Inr (Some (JObject m))"

text \<open>An executable instance, after the implementation of the library.\<close>

fun nested_get :: "json \<Rightarrow> string list \<Rightarrow> go_error + json option" where
  "nested_get j [] = Inr (Some j)"
| "nested_get JNull (f # fs) = Inr None"
| "nested_get (JObject m) (f # fs) = (case map_of m f of None \<Rightarrow> Inr None | Some v \<Rightarrow> nested_get v fs)"
| "nested_get _ (f # fs) = Inl (Err ReasonOther ''accessor error: not a map'')"

definition nested_map :: "object \<Rightarrow> string list \<Rightarrow> go_error + object option" where
  "nested_map obj fs =
     (case nested_get (JObject obj) fs of
        Inl e \<Rightarrow> Inl e
      | Inr None \<Rightarrow> Inr None
      | Inr (Some (JObject m)) \<Rightarrow> Inr (Some m)
      | Inr (Some _) \<Rightarrow> Inl (Err ReasonOther ''accessor error: expected a map''))"

definition nested_array :: "object \<Rightarrow> string list \<Rightarrow> go_error + json list option" where
  "nested_array obj fs =
     (case nested_get (JObject obj) fs of
        Inl e \<Rightarrow> Inl e
      | Inr None \<Rightarrow> Inr None
      | Inr (Some (JArray xs)) \<Rightarrow> Inr (Some xs)
      | Inr (Some _) \<Rightarrow> Inl (Err ReasonOther ''accessor error: expected a slice''))"

fun nested_set :: "object \<Rightarrow> json \<Rightarrow> string list \<Rightarrow> go_error + object" where
  "nested_set obj v [] = Inr obj"
| "nested_set obj v [f] = Inr (map_put f v obj)"
| "nested_set obj v (f # g # fs) =
     (case map_of obj f of
        None \<Rightarrow> (case nested_set [] v (g # fs) of Inl e \<Rightarrow> Inl e | Inr m \<Rightarrow> Inr (map_put f (JObject m) obj))
      | Some (JObject m) \<Rightarrow>
          (case nested_set m v (g # fs) of Inl e \<Rightarrow> Inl e | Inr m' \<Rightarrow> Inr (map_put f (JObject m') obj))
      | Some _ \<Rightarrow> Inl (Err ReasonOther ''value cannot be set''))"

fun nested_remove :: "object \<Rightarrow> string list \<Rightarrow> object" where
  "nested_remove obj [] = obj"
| "nested_remove obj [f] = map_del f obj"
| "nested_remove obj (f # g # fs) =
     (case map_of obj f of
        Some (JObject m) \<Rightarrow> map_put f (JObject (nested_remove m (g # fs))) obj
      | _ \<Rightarrow> obj)"

fun string_map :: "object \<Rightarrow> (string \<times> string) list option" where
  "string_map [] = Some []"
| "string_map ((k, JString s) # m) = map_option (\<lambda>r. (k, s) # r) (string_map m)"
| "string_map _ = None"

definition string_field :: "object \<Rightarrow> string \<Rightarrow> string" where
  "string_field obj f = (case map_of obj f of Some (JString s) \<Rightarrow> s | _ \<Rightarrow> '''')"

text \<open>An API version is a group and a version, or a version alone.\<close>

definition object_gvk :: "object \<Rightarrow> GroupVersionKind" where
  "object_gvk obj =
     (case Split (string_field obj ''apiVersion'') (CHR ''/'') of
        [v] \<Rightarrow> \<lparr>gvkGroup = '''', gvkVersion = v, gvkKind = string_field obj ''kind''\<rparr>
      | [g, v] \<Rightarrow> \<lparr>gvkGroup = g, gvkVersion = v, gvkKind = string_field obj ''kind''\<rparr>
      | _ \<Rightarrow> \<lparr>gvkGroup = '''', gvkVersion = '''', gvkKind = ''''\<rparr>)"

definition managed_entry :: "json \<Rightarrow> ManagedFieldsEntry option" where
  "managed_entry j =
     (case j of
        JObject m \<Rightarrow> Some \<lparr>mfManager = string_field m ''manager'', mfOperation = string_field m ''operation'',
          mfAPIVersion = string_field m ''apiVersion'', mfTime = None,
          mfFieldsType = string_field m ''fieldsType'',
          mfFieldsV1 = (case map_of m ''fieldsV1'' of None \<Rightarrow> None | Some v \<Rightarrow> Some (Sprintf_s v)),
          mfSubresource = string_field m ''subresource''\<rparr>
      | _ \<Rightarrow> None)"

definition go_api :: object_api where
  "go_api = \<lparr>GVKOf = object_gvk,
     NameOf = (\<lambda>obj. case nested_get (JObject obj) [''metadata'', ''name''] of
        Inr (Some (JString s)) \<Rightarrow> s | _ \<Rightarrow> ''''),
     KindOf = (\<lambda>obj. string_field obj ''kind''), APIVersionOf = (\<lambda>obj. string_field obj ''apiVersion''),
     ManagedFieldsOf = (\<lambda>obj. case nested_array obj [''metadata'', ''managedFields''] of
        Inr (Some xs) \<Rightarrow> List.map_filter managed_entry xs | _ \<Rightarrow> []),
     AnnotationsOf = (\<lambda>obj. case nested_map obj [''metadata'', ''annotations''] of
        Inr (Some m) \<Rightarrow> string_map m | _ \<Rightarrow> None),
     SetAnnotations = (\<lambda>obj as. case nested_set obj (JObject (map (\<lambda>(k, s). (k, JString s)) as))
          [''metadata'', ''annotations''] of Inr obj' \<Rightarrow> obj' | Inl _ \<Rightarrow> obj),
     NestedFieldCopy = (\<lambda>obj. nested_get (JObject obj)), NestedMap = nested_map,
     NestedArray = nested_array, SetNestedField = nested_set, RemoveNestedField = nested_remove\<rparr>"

lemma nested_set_get: "nested_set obj v (f # fs) = Inr obj' \<Longrightarrow> nested_get (JObject obj') (f # fs) = Inr (Some v)"
  by (induction obj v "f # fs" arbitrary: f fs obj' rule: nested_set.induct)
    (auto split: option.splits sum.splits json.splits)

lemma nested_set_other:
  "nested_set obj v (f # fs) = Inr obj' \<Longrightarrow> f' \<noteq> f \<Longrightarrow>
     nested_get (JObject obj') (f' # fs') = nested_get (JObject obj) (f' # fs')"
  by (cases fs) (auto split: option.splits sum.splits json.splits)

lemma nested_set_found:
  "nested_get (JObject obj) (f # fs) = Inr (Some w) \<Longrightarrow> \<exists>obj'. nested_set obj v (f # fs) = Inr obj'"
proof (induction fs arbitrary: obj f)
  case (Cons g fs)
  then obtain x where x: "map_of obj f = Some x" and get: "nested_get x (g # fs) = Inr (Some w)"
    by (auto split: option.splits)
  then obtain m where "x = JObject m" by (cases x) auto
  with x get Cons.IH [of m g] show ?case by auto
qed simp

lemma nested_map_get: "nested_map obj fs = Inr (Some m) \<longleftrightarrow> nested_get (JObject obj) fs = Inr (Some (JObject m))"
  by (auto simp: nested_map_def split: option.splits sum.splits json.splits)

lemma nested_map_cong:
  "nested_get (JObject a) fs = nested_get (JObject b) fs \<Longrightarrow> nested_map a fs = nested_map b fs"
  by (simp add: nested_map_def)

lemma string_map_of: "string_map m = Some as \<Longrightarrow> map_of m k = map_option JString (map_of as k)"
  by (induction m arbitrary: as rule: string_map.induct) auto

lemma nested_map_first: "map_of obj f = map_of obj' f \<Longrightarrow> nested_map obj (f # fs) = nested_map obj' (f # fs)"
  by (simp add: nested_map_def)

lemma string_map_strings: "string_map (map (\<lambda>(k, s). (k, JString s)) as) = Some as"
  by (induction as) auto

interpretation go: object_fields go_api
proof unfold_locales
  fix obj m as
  assume "NestedMap go_api obj [''metadata'', ''annotations''] = Inr (Some m)"
  then obtain obj' where set: "nested_set obj (JObject (map (\<lambda>(k, s). (k, JString s)) as))
      [''metadata'', ''annotations''] = Inr obj'"
    using nested_set_found by (fastforce simp: go_api_def nested_map_get)
  with nested_set_get [OF set] show "AnnotationsOf go_api (SetAnnotations go_api obj as) = Some as"
    by (simp add: go_api_def nested_map_def string_map_strings del: nested_get.simps nested_set.simps)
next
  fix obj m f fs obj'
  assume "SetNestedField go_api obj (JObject m) (f # fs) = Inr obj'"
  then show "NestedMap go_api obj' (f # fs) = Inr (Some m)"
    unfolding go_api_def by (simp add: nested_map_get nested_set_get del: nested_get.simps nested_set.simps)
next
  fix obj m f fs v
  assume "NestedMap go_api obj (f # fs) = Inr (Some m)"
  then show "\<exists>obj'. SetNestedField go_api obj v (f # fs) = Inr obj'"
    unfolding go_api_def by (simp add: nested_map_get nested_set_found del: nested_get.simps nested_set.simps)
next
  fix obj v f fs obj' f' fs'
  assume "SetNestedField go_api obj v (f # fs) = Inr obj'" "f' \<noteq> f"
  then show "NestedMap go_api obj' (f' # fs') = NestedMap go_api obj (f' # fs') \<and>
      NestedFieldCopy go_api obj' (f' # fs') = NestedFieldCopy go_api obj (f' # fs')"
    unfolding go_api_def
    by (simp add: nested_map_cong [OF nested_set_other] nested_set_other del: nested_get.simps nested_set.simps)
next
  fix obj as f fs
  assume "f \<noteq> ''metadata''"
  then show "NestedMap go_api (SetAnnotations go_api obj as) (f # fs) = NestedMap go_api obj (f # fs)"
    by (auto simp: go_api_def nested_map_cong [OF nested_set_other]
        simp del: nested_get.simps nested_set.simps split: sum.split)
next
  fix obj as
  assume "AnnotationsOf go_api obj = Some as"
  then show "\<exists>m. NestedMap go_api obj [''metadata'', ''annotations''] = Inr (Some m) \<and>
      map_of m = (\<lambda>k. map_option JString (map_of as k))"
    by (auto simp: go_api_def fun_eq_iff string_map_of split: sum.splits option.splits)
next
  fix obj obj' :: object and f fs
  assume "map_of obj f = map_of obj' f"
  then have "nested_map obj (f # fs) = nested_map obj' (f # fs)" by (rule nested_map_first)
  then show "NestedMap go_api obj (f # fs) = NestedMap go_api obj' (f # fs)" by (simp add: go_api_def)
next
  fix obj f fs m
  assume "NestedMap go_api obj (f # fs) = Inr (Some m)"
  then show "NestedFieldCopy go_api obj (f # fs) = Inr (Some (JObject m))"
    by (simp add: go_api_def nested_map_get)
qed

section \<open>Options\<close>

text \<open>
  A normalizer changes the object it gets and may return an error; the error is only logged, so it is
  the function that gives the object afterwards. The parser of type definitions is of any type.
\<close>

type_synonym Normalizer = "object \<Rightarrow> object"
type_synonym ServerSideDryRunner = "object \<Rightarrow> string \<Rightarrow> go_error + string"

definition GetNoopNormalizer :: Normalizer where
  "GetNoopNormalizer = (\<lambda>un. un)"

record 'p options =
  ignoreAggregatedRoles :: bool
  normalizer :: Normalizer
  skipFullNormalize :: bool
  structuredMergeDiff_opt :: bool
  gvkParser :: "'p option"
  manager :: string
  serverSideDiff_opt :: bool
  serverSideDryRunner :: "ServerSideDryRunner option"
  ignoreMutationWebhook :: bool

type_synonym 'p Option = "'p options \<Rightarrow> 'p options"

definition default_options :: "'p options" where
  "default_options = \<lparr>ignoreAggregatedRoles = False, normalizer = GetNoopNormalizer,
     skipFullNormalize = False, structuredMergeDiff_opt = False, gvkParser = None, manager = '''',
     serverSideDiff_opt = False, serverSideDryRunner = None, ignoreMutationWebhook = True\<rparr>"

definition applyOptions :: "'p Option list \<Rightarrow> 'p options" where
  "applyOptions opts = foldl (\<lambda>o' opt. opt o') default_options opts"

definition IgnoreAggregatedRoles :: "bool \<Rightarrow> 'p Option" where
  "IgnoreAggregatedRoles ignore o' = o'\<lparr>ignoreAggregatedRoles := ignore\<rparr>"

definition WithNormalizer :: "Normalizer \<Rightarrow> 'p Option" where
  "WithNormalizer n o' = o'\<lparr>normalizer := n\<rparr>"

definition WithSkipFullNormalize :: "bool \<Rightarrow> 'p Option" where
  "WithSkipFullNormalize skip o' = o'\<lparr>skipFullNormalize := skip\<rparr>"

definition WithStructuredMergeDiff :: "bool \<Rightarrow> 'p Option" where
  "WithStructuredMergeDiff smd o' = o'\<lparr>structuredMergeDiff_opt := smd\<rparr>"

definition WithGVKParser :: "'p \<Rightarrow> 'p Option" where
  "WithGVKParser parser o' = o'\<lparr>gvkParser := Some parser\<rparr>"

definition WithManager :: "string \<Rightarrow> 'p Option" where
  "WithManager m o' = o'\<lparr>manager := m\<rparr>"

definition WithServerSideDiff :: "bool \<Rightarrow> 'p Option" where
  "WithServerSideDiff ssd o' = o'\<lparr>serverSideDiff_opt := ssd\<rparr>"

definition WithIgnoreMutationWebhook :: "bool \<Rightarrow> 'p Option" where
  "WithIgnoreMutationWebhook mw o' = o'\<lparr>ignoreMutationWebhook := mw\<rparr>"

definition WithServerSideDryRunner :: "ServerSideDryRunner \<Rightarrow> 'p Option" where
  "WithServerSideDryRunner ssadr o' = o'\<lparr>serverSideDryRunner := Some ssadr\<rparr>"

text \<open>
  The dry runner of Kubernetes calls \<open>ApplyResource\<close> with the server dry run, without force and
  without validation, with server-side apply.
\<close>

datatype DryRunStrategy = DryRunStrategyNone | DryRunStrategyClient | DryRunStrategyServer

type_synonym KubeApplier = "object \<Rightarrow> DryRunStrategy \<Rightarrow> bool \<Rightarrow> bool \<Rightarrow> bool \<Rightarrow> string \<Rightarrow> go_error + string"

definition K8sServerSideDryRunner_Run :: "KubeApplier \<Rightarrow> ServerSideDryRunner" where
  "K8sServerSideDryRunner_Run dryrunApplier obj mgr =
     dryrunApplier obj DryRunStrategyServer False False True mgr"

section \<open>Typed objects\<close>

text \<open>
  A typed Secret holds a map from names to bytes; a nil slice is \<open>None\<close>, as is a nil map. Of an
  endpoint address the code reads the IP and the UID of the target; of a port, the protocol.
\<close>

record Secret =
  SecretData :: "(string \<times> string option) list option"
  SecretRest :: json

record EndpointAddress =
  IP :: string
  TargetRefUID :: "string option"
  AddressRest :: json

record EndpointPort =
  Protocol :: string
  PortRest :: json

record EndpointSubset =
  Addresses :: "EndpointAddress list"
  NotReadyAddresses :: "EndpointAddress list"
  Ports :: "EndpointPort list"

record Endpoints =
  Subsets :: "EndpointSubset list"
  EndpointsRest :: json

text \<open>
  The two directions of the default converter, and the md5 digest of the dump of a port and of a
  subset (\<open>hashObject\<close>).
\<close>

record typed_api =
  SecretFromUnstructured :: "object \<Rightarrow> go_error + Secret"
  SecretToUnstructured :: "Secret \<Rightarrow> go_error + object"
  EndpointsFromUnstructured :: "object \<Rightarrow> go_error + Endpoints"
  EndpointsToUnstructured :: "Endpoints \<Rightarrow> go_error + object"
  hashPort :: "EndpointPort \<Rightarrow> string"
  hashSubset :: "EndpointSubset \<Rightarrow> string"

section \<open>Secrets\<close>

definition move_stringData :: "object_api \<Rightarrow> object \<Rightarrow> object" where
  "move_stringData api un =
     (case NestedMap api un [''stringData''] of
        Inr (Some stringData) \<Rightarrow>
          let data = (case NestedMap api un [''data''] of Inr (Some m) \<Rightarrow> m | _ \<Rightarrow> []);
              data' = foldl (\<lambda>m (k, v). map_put k
                (case v of JString strVal \<Rightarrow> JString (EncodeToString strVal) | _ \<Rightarrow> v) m) data stringData
          in (case SetNestedField api un (JObject data') [''data''] of
                Inr un' \<Rightarrow> map_del ''stringData'' un'
              | Inl _ \<Rightarrow> un)
      | _ \<Rightarrow> un)"

definition empty_for_nil :: "(string \<times> string option) list \<Rightarrow> (string \<times> string option) list" where
  "empty_for_nil data =
     map (\<lambda>(k, v). (k, if (case v of None \<Rightarrow> True | Some b \<Rightarrow> length b = 0) then Some '''' else v)) data"

definition NormalizeSecret :: "object_api \<Rightarrow> typed_api \<Rightarrow> object \<Rightarrow> object" where
  "NormalizeSecret api conv un =
     (if gvkGroup (GVKOf api un) \<noteq> '''' \<or> gvkKind (GVKOf api un) \<noteq> ''Secret'' then un
      else
        let un1 = move_stringData api un in
        case SecretFromUnstructured conv un1 of
          Inl _ \<Rightarrow> un1
        | Inr secret \<Rightarrow>
            (case SecretToUnstructured conv (secret\<lparr>SecretData := map_option empty_for_nil (SecretData secret)\<rparr>) of
               Inl _ \<Rightarrow> un1
             | Inr newObj \<Rightarrow>
                 if SecretData secret \<noteq> None then
                   (case SetNestedField api un1
                      (case map_of newObj ''data'' of Some j \<Rightarrow> j | None \<Rightarrow> JNull) [''data''] of
                      Inr un2 \<Rightarrow> un2
                    | Inl _ \<Rightarrow> un1)
                 else un1))"

section \<open>Endpoints\<close>

definition LessEndpointAddress :: "EndpointAddress \<Rightarrow> EndpointAddress \<Rightarrow> bool" where
  "LessEndpointAddress a b =
     (if IP a \<noteq> IP b then str_less (IP a) (IP b)
      else case TargetRefUID b of
        None \<Rightarrow> False
      | Some ub \<Rightarrow> (case TargetRefUID a of None \<Rightarrow> True | Some ua \<Rightarrow> str_less ua ub))"

definition sort_subset :: "typed_api \<Rightarrow> EndpointSubset \<Rightarrow> EndpointSubset" where
  "sort_subset conv ss = ss
     \<lparr>Addresses := sort_Sort LessEndpointAddress (Addresses ss),
      NotReadyAddresses := sort_Sort LessEndpointAddress (NotReadyAddresses ss),
      Ports := sort_Sort (\<lambda>a b. str_less (hashPort conv a) (hashPort conv b)) (Ports ss)\<rparr>"

definition SortSubsets :: "typed_api \<Rightarrow> EndpointSubset list \<Rightarrow> EndpointSubset list" where
  "SortSubsets conv subsets =
     sort_Sort (\<lambda>a b. str_less (hashSubset conv a) (hashSubset conv b)) (map (sort_subset conv) subsets)"

definition default_protocol :: "EndpointSubset \<Rightarrow> EndpointSubset" where
  "default_protocol ss =
     ss\<lparr>Ports := map (\<lambda>port. if Protocol port = '''' then port\<lparr>Protocol := ''TCP''\<rparr> else port) (Ports ss)\<rparr>"

definition normalizeEndpoint :: "object_api \<Rightarrow> typed_api \<Rightarrow> object \<Rightarrow> object" where
  "normalizeEndpoint api conv un =
     (if gvkGroup (GVKOf api un) \<noteq> '''' \<or> gvkKind (GVKOf api un) \<noteq> ''Endpoints'' then un
      else case EndpointsFromUnstructured conv un of
        Inl _ \<Rightarrow> un
      | Inr ep \<Rightarrow>
          (case EndpointsToUnstructured conv
             (ep\<lparr>Subsets := SortSubsets conv (map default_protocol (Subsets ep))\<rparr>) of
             Inl _ \<Rightarrow> un
           | Inr newObj \<Rightarrow> newObj))"

section \<open>Roles\<close>

definition normalizeRole :: "object_api \<Rightarrow> 'p options \<Rightarrow> object \<Rightarrow> object" where
  "normalizeRole api opts un =
     (let gvk = GVKOf api un in
      if gvkGroup gvk \<noteq> ''rbac.authorization.k8s.io'' \<or> gvkKind gvk \<noteq> ''Role'' \<and> gvkKind gvk \<noteq> ''ClusterRole''
      then un
      else
        let un1 = (if ignoreAggregatedRoles opts
                   then case map_of un ''aggregationRule'' of
                          Some (JObject _) \<Rightarrow> map_put ''rules'' JNull un
                        | _ \<Rightarrow> un
                   else un)
        in case map_of un1 ''rules'' of
             Some (JArray rules) \<Rightarrow> if length rules = 0 then map_put ''rules'' JNull un1 else un1
           | _ \<Rightarrow> un1)"

section \<open>Normalize\<close>

definition Normalize :: "object_api \<Rightarrow> typed_api \<Rightarrow> 'p Option list \<Rightarrow> object \<Rightarrow> object" where
  "Normalize api conv opts un =
     (let o' = applyOptions opts;
          un1 = RemoveNestedField api un [''metadata'', ''creationTimestamp''];
          gvk = GVKOf api un1;
          un2 = (if gvkGroup gvk = '''' \<and> gvkKind gvk = ''Secret'' then NormalizeSecret api conv un1
                 else if gvkGroup gvk = ''rbac.authorization.k8s.io'' \<and>
                         (gvkKind gvk = ''ClusterRole'' \<or> gvkKind gvk = ''Role'') then normalizeRole api o' un1
                 else if gvkGroup gvk = '''' \<and> gvkKind gvk = ''Endpoints'' then normalizeEndpoint api conv un1
                 else un1)
      in if \<not> skipFullNormalize o' then normalizer o' un2 else un2)"

end
