(* ===== verification/DiffHide.thy ===== *)
theory DiffHide
  imports DiffNormalize
begin

text \<open>
  Hiding the values of a Secret before it is shown: \<open>GetLastAppliedConfigAnnotation\<close>, \<open>hide\<close> and
  \<open>HideSecretData\<close> of \<open>pkg/diff/diff.go\<close>. The theorems say that every value under \<open>data\<close> becomes a
  run of plus signs, and that two objects get the same run for a key exactly if they had the same
  value for it.
\<close>

section \<open>The code\<close>

text \<open>
  Marshalling of an object and of a map, and the reverse; the text of an \<open>Unstructured\<close> must have a
  kind, so the two reverse directions differ.
\<close>

record json_api =
  MarshalUn :: "object \<Rightarrow> go_error + string"
  MarshalMap :: "object \<Rightarrow> go_error + string"
  UnmarshalUn :: "string \<Rightarrow> go_error + object"
  UnmarshalMap :: "string \<Rightarrow> go_error + object"

abbreviation "LastAppliedConfigAnnotation \<equiv> ''kubectl.kubernetes.io/last-applied-configuration''"

definition replacement :: string where
  "replacement = ''++++++++''"

definition GetLastAppliedConfigAnnotation ::
  "object_api \<Rightarrow> json_api \<Rightarrow> object option \<Rightarrow> object option res" where
  "GetLastAppliedConfigAnnotation api codec live =
     (case live of
        None \<Rightarrow> Inr None
      | Some l \<Rightarrow>
          (case Option.bind (AnnotationsOf api l) (\<lambda>as. map_of as LastAppliedConfigAnnotation) of
             None \<Rightarrow> Inr None
           | Some lastAppliedStr \<Rightarrow>
               (case UnmarshalUn codec lastAppliedStr of
                  Inl e \<Rightarrow> Inl (Errored (wrap_err (''failed to unmarshal '' @ LastAppliedConfigAnnotation @ '' in '' @ NameOf api l) e))
                | Inr obj \<Rightarrow> Inr (Some obj))))"

definition toString :: "json \<Rightarrow> string" where
  "toString val = (case val of JNull \<Rightarrow> '''' | _ \<Rightarrow> Sprintf_s val)"

text \<open>While one key is hidden: the next replacement and the replacement of each value seen.\<close>

record hiding =
  nextReplacement :: string
  valToReplacement :: "(string \<times> string) list"

definition replace_val :: "string \<Rightarrow> hiding \<Rightarrow> string \<times> hiding" where
  "replace_val val h =
     (case map_of (valToReplacement h) val of
        Some r \<Rightarrow> (r, h)
      | None \<Rightarrow> (nextReplacement h,
          \<lparr>nextReplacement = nextReplacement h @ ''++++'',
           valToReplacement = map_put val (nextReplacement h) (valToReplacement h)\<rparr>))"

definition hide_obj ::
  "object_api \<Rightarrow> string list \<Rightarrow> string \<Rightarrow> hiding \<Rightarrow> object option \<Rightarrow> (hiding \<times> object option) res" where
  "hide_obj api path k h obj =
     (case obj of
        None \<Rightarrow> Inr (h, None)
      | Some un \<Rightarrow>
          if NestedFieldCopy api un path = Inr (Some JNull) then Inr (h, Some un)
          else case NestedMap api un path of
            Inl e \<Rightarrow> Inl (Errored (wrap_err ''unstructured.NestedMap error'' e))
          | Inr found \<Rightarrow>
              (let data = (case found of Some m \<Rightarrow> m | None \<Rightarrow> []) in
               case map_of data k of
                 None \<Rightarrow> Inr (h, Some un)
               | Some valData \<Rightarrow>
                   (case replace_val (toString valData) h of (r, h') \<Rightarrow>
                      (case SetNestedField api un (JObject (map_put k (JString r) data)) path of
                         Inl e \<Rightarrow> Inl (Errored (wrap_err ''unstructured.SetNestedField error'' e))
                       | Inr un' \<Rightarrow> Inr (h', Some un')))))"

fun hide_objs ::
  "object_api \<Rightarrow> string list \<Rightarrow> string \<Rightarrow> hiding \<Rightarrow> object option list \<Rightarrow> (hiding \<times> object option list) res" where
  "hide_objs api path k h [] = Inr (h, [])"
| "hide_objs api path k h (obj # objs) =
     bind_res (hide_obj api path k h obj) (\<lambda>(h1, obj').
       bind_res (hide_objs api path k h1 objs) (\<lambda>(h2, objs'). Inr (h2, obj' # objs')))"

fun hide :: "object_api \<Rightarrow> string list \<Rightarrow> string list \<Rightarrow> object option list \<Rightarrow> object option list res" where
  "hide api path [] objs = Inr objs"
| "hide api path (k # keys) objs =
     bind_res (hide_objs api path k \<lparr>nextReplacement = replacement, valToReplacement = []\<rparr> objs)
       (\<lambda>(_, objs'). hide api path keys objs')"

text \<open>
  \<open>data_of\<close> is the map at a path, empty where there is none. The keys to hide are those of the data
  of the three objects; the error of the last applied configuration is dropped.
\<close>

definition data_of :: "object_api \<Rightarrow> string list \<Rightarrow> object \<Rightarrow> object" where
  "data_of api path un = (case NestedMap api un path of Inr (Some m) \<Rightarrow> m | _ \<Rightarrow> [])"

definition secret_keys :: "object_api \<Rightarrow> object option list \<Rightarrow> string list" where
  "secret_keys api objs =
     remdups (concat (map (\<lambda>obj. case obj of None \<Rightarrow> [] | Some un \<Rightarrow> map fst (data_of api [''data''] un)) objs))"

definition set_last_applied ::
  "object_api \<Rightarrow> json_api \<Rightarrow> string list \<Rightarrow> object \<Rightarrow> object \<Rightarrow> object res" where
  "set_last_applied api codec hideAnnotations live liveLastApplied =
     (let annotations = (case AnnotationsOf api live of Some as \<Rightarrow> as | None \<Rightarrow> []) in
      bind_res
        (if LastAppliedConfigAnnotation \<in> set hideAnnotations then Inr replacement
         else wrapping ''error marshaling json'' (lift_err (MarshalUn codec liveLastApplied)))
        (\<lambda>s. Inr (SetAnnotations api live (map_put LastAppliedConfigAnnotation s annotations))))"

definition HideSecretData ::
  "object_api \<Rightarrow> typed_api \<Rightarrow> json_api \<Rightarrow> object option \<Rightarrow> object option \<Rightarrow> string list \<Rightarrow>
     (object option \<times> object option) res" where
  "HideSecretData api conv codec target live hideAnnotations =
     (let lastApplied = (case GetLastAppliedConfigAnnotation api codec live of Inr la \<Rightarrow> la | Inl _ \<Rightarrow> None);
          objs = map (map_option (NormalizeSecret api conv)) [target, live, lastApplied] in
      bind_res (hide api [''data''] (secret_keys api objs) objs) (\<lambda>objs1.
      bind_res (hide api [''metadata'', ''annotations''] hideAnnotations objs1) (\<lambda>objs2.
        (case (objs2 ! 1, objs2 ! 2) of
           (Some l, Some la) \<Rightarrow>
             bind_res (set_last_applied api codec hideAnnotations l la) (\<lambda>l'. Inr (objs2 ! 0, Some l'))
         | _ \<Rightarrow> Inr (objs2 ! 0, objs2 ! 1)))))"

section \<open>What hiding does to one key\<close>

text \<open>\<open>mask n\<close> is a run of plus signs; \<open>masks h\<close> holds while a key is hidden.\<close>

abbreviation mask :: "nat \<Rightarrow> string" where
  "mask n \<equiv> replicate n (CHR ''+'')"

definition masks :: "hiding \<Rightarrow> bool" where
  "masks h \<longleftrightarrow> (\<exists>n\<ge>8. nextReplacement h = mask n \<and>
     (\<forall>v r. map_of (valToReplacement h) v = Some r \<longrightarrow> (\<exists>m\<ge>8. m < n \<and> r = mask m))) \<and>
     inj_on (map_of (valToReplacement h)) (dom (map_of (valToReplacement h)))"

definition field_of :: "object_api \<Rightarrow> string list \<Rightarrow> object option \<Rightarrow> string \<Rightarrow> json option" where
  "field_of api path obj k = Option.bind obj (\<lambda>un. map_of (data_of api path un) k)"

lemma field_of_simps [simp]:
  "field_of api path None k = None" "field_of api path (Some un) k = map_of (data_of api path un) k"
  by (simp_all add: field_of_def)

lemma masks_init: "masks \<lparr>nextReplacement = replacement, valToReplacement = []\<rparr>"
proof -
  have "replacement = mask 8" by (simp add: replacement_def numeral_eq_Suc)
  then show ?thesis by (auto simp: masks_def)
qed

lemma mask_step: "mask n @ ''++++'' = mask (n + 4)"
proof -
  have "mask 4 = ''++++''" by (simp add: numeral_eq_Suc)
  then show ?thesis by (simp only: replicate_add)
qed

lemma mask_inj [simp]: "mask m = mask n \<longleftrightarrow> m = n"
  by (metis length_replicate)

lemma replace_val_masks:
  assumes "masks h" "replace_val v h = (r, h')"
  shows "masks h'" "map_of (valToReplacement h') v = Some r"
    "map_of (valToReplacement h) \<subseteq>\<^sub>m map_of (valToReplacement h')"
proof -
  let ?m = "map_of (valToReplacement h)"
  have "masks h' \<and> map_of (valToReplacement h') v = Some r \<and> ?m \<subseteq>\<^sub>m map_of (valToReplacement h')"
  proof (cases "?m v")
    case None
    from assms(1) obtain n where n: "n \<ge> 8" "nextReplacement h = mask n"
      and old: "\<And>w r. ?m w = Some r \<Longrightarrow> \<exists>m\<ge>8. m < n \<and> r = mask m"
      and inj: "inj_on ?m (dom ?m)"
      unfolding masks_def by blast
    from None assms(2) n(2) have r: "r = mask n" and h': "nextReplacement h' = mask (n + 4)"
      "map_of (valToReplacement h') = ?m(v \<mapsto> mask n)"
      by (auto simp: replace_val_def mask_step)
    have "w \<noteq> v \<Longrightarrow> ?m w \<noteq> Some (mask n)" for w
      using old by fastforce
    then have "inj_on (?m(v \<mapsto> mask n)) (dom (?m(v \<mapsto> mask n)))"
      using inj by (auto simp: inj_on_def dom_def split: if_splits)
    moreover have "\<exists>m\<ge>8. m < n + 4 \<and> r' = mask m" if "(?m(v \<mapsto> mask n)) w = Some r'" for w r'
      using that old [of w r'] n(1) by (cases "w = v") (auto intro: trans_less_add1)
    ultimately have "masks h'"
      unfolding masks_def h' using n(1) by (intro conjI exI [of _ "n + 4"]) auto
    with None r h' show ?thesis by (auto simp: map_le_def)
  next
    case (Some r')
    with assms show ?thesis by (auto simp: replace_val_def)
  qed
  then show "masks h'" "map_of (valToReplacement h') v = Some r" "?m \<subseteq>\<^sub>m map_of (valToReplacement h')"
    by auto
qed

text \<open>One object before and after, with the replacements in use; other fields are untouched.\<close>

definition masked :: "object_api \<Rightarrow> string list \<Rightarrow> string \<Rightarrow> (string \<rightharpoonup> string) \<Rightarrow> object option \<Rightarrow> object option \<Rightarrow> bool" where
  "masked api path k s a b \<longleftrightarrow> (a = None \<longleftrightarrow> b = None) \<and>
     (\<forall>k'. field_of api path b k' =
        (if k' = k then map_option (\<lambda>v. JString (the (s (toString v)))) (field_of api path a k)
         else field_of api path a k')) \<and>
     (\<forall>v. field_of api path a k = Some v \<longrightarrow> s (toString v) \<noteq> None) \<and>
     (\<forall>f path'. f \<noteq> hd path \<longrightarrow> field_of api (f # path') b = field_of api (f # path') a)"

lemma masked_mono: "masked api path k s a b \<Longrightarrow> s \<subseteq>\<^sub>m s' \<Longrightarrow> masked api path k s' a b"
proof -
  assume *: "masked api path k s a b" and le: "s \<subseteq>\<^sub>m s'"
  have eq: "s' (toString v) = s (toString v)" if "field_of api path a k = Some v" for v
    using * le that unfolding masked_def by (auto simp: map_le_def dom_def)
  have "map_option (\<lambda>v. JString (the (s' (toString v)))) (field_of api path a k) =
      map_option (\<lambda>v. JString (the (s (toString v)))) (field_of api path a k)"
    using eq by (cases "field_of api path a k") auto
  with * eq show ?thesis unfolding masked_def by auto
qed

context object_fields
begin

lemma data_of_other:
  "SetNestedField api un v (f # fs) = Inr un' \<Longrightarrow> f' \<noteq> f \<Longrightarrow>
     data_of api (f' # fs') un' = data_of api (f' # fs') un"
  by (simp add: data_of_def set_other)

lemma data_of_set: "SetNestedField api un (JObject m) (f # fs) = Inr un' \<Longrightarrow> data_of api (f # fs) un' = m"
  by (simp add: data_of_def set_get)

lemma hide_obj_masked:
  assumes "hide_obj api (f # fs) k h a = Inr (h', b)" "masks h"
  shows "masks h' \<and> map_of (valToReplacement h) \<subseteq>\<^sub>m map_of (valToReplacement h') \<and>
    masked api (f # fs) k (map_of (valToReplacement h')) a b"
proof (cases a)
  case None
  with assms show ?thesis by (simp add: hide_obj_def masked_def)
next
  case (Some un)
  show ?thesis
  proof (cases "map_of (data_of api (f # fs) un) k")
    case None
    with assms Some have "b = Some un" "h' = h"
      by (auto simp: hide_obj_def data_of_def split: if_splits sum.splits option.splits prod.splits)
    with None Some assms(2) show ?thesis by (auto simp: masked_def)
  next
    case v: (Some v)
    then obtain m where m: "NestedMap api un (f # fs) = Inr (Some m)" "map_of m k = Some v"
      by (auto simp: data_of_def split: sum.splits option.splits)
    with assms(1) Some map_copy [OF m(1)] obtain r un' where
        r: "replace_val (toString v) h = (r, h')" and b: "b = Some un'"
        and set: "SetNestedField api un (JObject (map_put k (JString r) m)) (f # fs) = Inr un'"
      by (auto simp: hide_obj_def split: sum.splits prod.splits)
    from m(1) have "data_of api (f # fs) un = m" by (simp add: data_of_def)
    with replace_val_masks [OF assms(2) r] Some b v data_of_set [OF set] data_of_other [OF set]
    show ?thesis by (auto simp: masked_def fun_eq_iff)
  qed
qed

lemma hide_objs_masked:
  "hide_objs api (f # fs) k h objs = Inr (h', objs') \<Longrightarrow> masks h \<Longrightarrow>
     masks h' \<and> map_of (valToReplacement h) \<subseteq>\<^sub>m map_of (valToReplacement h') \<and>
     list_all2 (masked api (f # fs) k (map_of (valToReplacement h'))) objs objs'"
proof (induction objs arbitrary: h objs')
  case (Cons obj objs)
  then obtain h1 obj' os where 1: "hide_obj api (f # fs) k h obj = Inr (h1, obj')"
    and 2: "hide_objs api (f # fs) k h1 objs = Inr (h', os)" and os: "objs' = obj' # os"
    by (auto simp: bind_res_eq_Inr)
  from hide_obj_masked [OF 1 Cons.prems(2)] Cons.IH [OF 2] os show ?case
    by (auto intro: map_le_trans masked_mono)
qed simp

end

section \<open>All keys\<close>

text \<open>
  Over a list of keys, one relation between the objects before and after: for each key of the list
  one injective choice of runs of at least eight plus signs, for other keys and paths no change.
\<close>

definition choice :: "(string \<Rightarrow> nat) \<Rightarrow> string set \<Rightarrow> bool" where
  "choice c vals \<longleftrightarrow> inj_on c vals \<and> (\<forall>v\<in>vals. 8 \<le> c v)"

definition values_at :: "object_api \<Rightarrow> string list \<Rightarrow> object option list \<Rightarrow> string \<Rightarrow> string set" where
  "values_at api path objs k = {toString v | v obj. obj \<in> set objs \<and> field_of api path obj k = Some v}"

lemma values_atI:
  "i < length objs \<Longrightarrow> field_of api path (objs ! i) k = Some v \<Longrightarrow> toString v \<in> values_at api path objs k"
  unfolding values_at_def by (auto intro!: exI [of _ v] exI [of _ "objs ! i"])

definition hidden_key ::
  "object_api \<Rightarrow> string list \<Rightarrow> string \<Rightarrow> object option list \<Rightarrow> object option list \<Rightarrow> bool" where
  "hidden_key api path k objs objs' \<longleftrightarrow>
     (\<exists>c. choice c (values_at api path objs k) \<and>
        list_all2 (\<lambda>a b. field_of api path b k =
          map_option (\<lambda>v. JString (mask (c (toString v)))) (field_of api path a k)) objs objs')"

definition unchanged ::
  "object_api \<Rightarrow> string list \<Rightarrow> string \<Rightarrow> object option list \<Rightarrow> object option list \<Rightarrow> bool" where
  "unchanged api path k objs objs' \<longleftrightarrow>
     list_all2 (\<lambda>a b. field_of api path b k = field_of api path a k) objs objs'"

lemma hidden_key_from:
  assumes "unchanged api path k objs objs1" "hidden_key api path k objs1 objs2"
  shows "hidden_key api path k objs objs2"
proof -
  have "values_at api path objs k = values_at api path objs1 k"
    using assms(1) unfolding values_at_def unchanged_def list_all2_conv_all_nth
    by (auto simp: set_conv_nth) metis+
  then show ?thesis
    using assms unfolding hidden_key_def unchanged_def
    by (auto simp: list_all2_conv_all_nth)
qed

lemma hidden_key_then:
  assumes "hidden_key api path k objs objs1" "unchanged api path k objs1 objs2"
  shows "hidden_key api path k objs objs2"
  using assms unfolding hidden_key_def unchanged_def by (auto simp: list_all2_conv_all_nth)

lemma unchanged_trans:
  "unchanged api path k a b \<Longrightarrow> unchanged api path k b c \<Longrightarrow> unchanged api path k a c"
  unfolding unchanged_def by (auto simp: list_all2_conv_all_nth)

context object_fields
begin

lemma hide_objs_key:
  assumes "hide_objs api (f # fs) k \<lparr>nextReplacement = replacement, valToReplacement = []\<rparr> objs = Inr (h, objs')"
  shows "hidden_key api (f # fs) k objs objs'"
    and "k' \<noteq> k \<Longrightarrow> unchanged api (f # fs) k' objs objs'"
    and "f' \<noteq> f \<Longrightarrow> unchanged api (f' # fs') k' objs objs'"
    and "list_all2 (\<lambda>a b. a = None \<longleftrightarrow> b = None) objs objs'"
proof -
  let ?s = "map_of (valToReplacement h)"
  from hide_objs_masked [OF assms masks_init] have m: "masks h"
    and all: "list_all2 (masked api (f # fs) k ?s) objs objs'" by auto
  let ?c = "\<lambda>v. length (the (?s v))"
  from m have mask: "\<And>v r. ?s v = Some r \<Longrightarrow> 8 \<le> length r \<and> r = mask (length r)"
    and inj: "inj_on ?s (dom ?s)"
    unfolding masks_def by fastforce+
  have dom: "values_at api (f # fs) objs k \<subseteq> dom ?s"
    using all unfolding values_at_def masked_def list_all2_conv_all_nth by (fastforce simp: set_conv_nth dom_def)
  have "choice ?c (values_at api (f # fs) objs k)"
    unfolding choice_def
  proof (intro conjI ballI inj_onI)
    fix v w assume "v \<in> values_at api (f # fs) objs k" "w \<in> values_at api (f # fs) objs k" "?c v = ?c w"
    with dom mask inj show "v = w" by (smt (verit) domD inj_onD option.sel subsetD)
  qed (use dom mask in fastforce)
  moreover have "list_all2 (\<lambda>a b. field_of api (f # fs) b k =
      map_option (\<lambda>v. JString (mask (?c (toString v)))) (field_of api (f # fs) a k)) objs objs'"
    using all
  proof (rule list_all2_mono)
    fix a b assume ab: "masked api (f # fs) k ?s a b"
    show "field_of api (f # fs) b k =
        map_option (\<lambda>v. JString (mask (?c (toString v)))) (field_of api (f # fs) a k)"
    proof (cases "field_of api (f # fs) a k")
      case (Some v)
      with ab obtain r where "?s (toString v) = Some r" by (auto simp: masked_def)
      with ab Some mask show ?thesis by (auto simp: masked_def)
    qed (use ab in \<open>auto simp: masked_def\<close>)
  qed
  ultimately show "hidden_key api (f # fs) k objs objs'" unfolding hidden_key_def by blast
  show "k' \<noteq> k \<Longrightarrow> unchanged api (f # fs) k' objs objs'"
    and "f' \<noteq> f \<Longrightarrow> unchanged api (f' # fs') k' objs objs'"
    and "list_all2 (\<lambda>a b. a = None \<longleftrightarrow> b = None) objs objs'"
    using all unfolding unchanged_def by (auto simp: masked_def elim!: list_all2_mono)
qed

lemma hide_frame:
  assumes "hide api (f # fs) keys objs = Inr objs'"
  shows "k \<notin> set keys \<Longrightarrow> unchanged api (f # fs) k objs objs'"
    and "f' \<noteq> f \<Longrightarrow> unchanged api (f' # fs') k objs objs'"
    and "list_all2 (\<lambda>a b. a = None \<longleftrightarrow> b = None) objs objs'"
proof -
  have "(k \<notin> set keys \<longrightarrow> unchanged api (f # fs) k objs objs') \<and>
    (f' \<noteq> f \<longrightarrow> unchanged api (f' # fs') k objs objs') \<and>
    list_all2 (\<lambda>a b. a = None \<longleftrightarrow> b = None) objs objs'"
    using assms
  proof (induction keys arbitrary: objs)
    case Nil
    then show ?case by (simp add: unchanged_def list_all2_refl)
  next
    case (Cons k1 keys)
    then obtain h objs1 where 1: "hide_objs api (f # fs) k1
        \<lparr>nextReplacement = replacement, valToReplacement = []\<rparr> objs = Inr (h, objs1)"
      and 2: "hide api (f # fs) keys objs1 = Inr objs'"
      by (auto simp: bind_res_eq_Inr)
    from hide_objs_key(2,3) [OF 1, of k] hide_objs_key(3) [OF 1, of f' fs' k] hide_objs_key(4) [OF 1] Cons.IH [OF 2]
    show ?case
      by (auto intro: unchanged_trans list_all2_trans [rotated -2])
  qed
  then show "k \<notin> set keys \<Longrightarrow> unchanged api (f # fs) k objs objs'"
    and "f' \<noteq> f \<Longrightarrow> unchanged api (f' # fs') k objs objs'"
    and "list_all2 (\<lambda>a b. a = None \<longleftrightarrow> b = None) objs objs'" by auto
qed

lemma hide_hidden_key:
  "hide api (f # fs) keys objs = Inr objs' \<Longrightarrow> distinct keys \<Longrightarrow> k \<in> set keys \<Longrightarrow>
     hidden_key api (f # fs) k objs objs'"
proof (induction keys arbitrary: objs)
  case (Cons k1 keys)
  then obtain h objs1 where 1: "hide_objs api (f # fs) k1
      \<lparr>nextReplacement = replacement, valToReplacement = []\<rparr> objs = Inr (h, objs1)"
    and 2: "hide api (f # fs) keys objs1 = Inr objs'"
    by (auto simp: bind_res_eq_Inr)
  show ?case
  proof (cases "k = k1")
    case True
    with Cons.prems hide_objs_key(1) [OF 1] hide_frame(1) [OF 2] show ?thesis
      by (auto intro: hidden_key_then)
  next
    case False
    with Cons.prems hide_objs_key(2) [OF 1, of k] Cons.IH [OF 2] show ?thesis
      by (auto intro: hidden_key_from)
  qed
qed simp

end

context object_fields
begin

text \<open>A key that an object has stays, whatever the list of keys (which may repeat a key).\<close>

lemma hide_present:
  "hide api (f # fs) keys objs = Inr objs' \<Longrightarrow>
     list_all2 (\<lambda>a b. field_of api (f # fs) a k \<noteq> None \<longrightarrow> field_of api (f # fs) b k \<noteq> None) objs objs'"
proof (induction keys arbitrary: objs)
  case Nil
  then show ?case by (simp add: list_all2_refl)
next
  case (Cons k1 keys)
  then obtain h objs1 where 1: "hide_objs api (f # fs) k1
      \<lparr>nextReplacement = replacement, valToReplacement = []\<rparr> objs = Inr (h, objs1)"
    and 2: "hide api (f # fs) keys objs1 = Inr objs'"
    by (auto simp: bind_res_eq_Inr)
  from hide_objs_key(1) [OF 1] hide_objs_key(2) [OF 1, of k]
  have "list_all2 (\<lambda>a b. field_of api (f # fs) a k \<noteq> None \<longrightarrow> field_of api (f # fs) b k \<noteq> None) objs objs1"
    by (cases "k = k1") (auto simp: hidden_key_def unchanged_def list_all2_conv_all_nth)
  with Cons.IH [OF 2] show ?case by (auto simp: list_all2_conv_all_nth)
qed

end

end
