(* ===== verification/DiffSecret.thy ===== *)
theory DiffSecret
  imports DiffHide
begin

text \<open>
  What \<open>HideSecretData\<close> guarantees: on objects whose data and annotations are maps (or absent, or
  nil) it returns, and nothing of the data is left in the target, in the live object or in the last
  applied configuration that the live object carries. The last section shows where this ends: a last
  applied configuration that does not parse is handed out as it is.
\<close>

section \<open>Hiding succeeds\<close>

definition shaped :: "object_api \<Rightarrow> string list \<Rightarrow> object option \<Rightarrow> bool" where
  "shaped api path obj \<longleftrightarrow>
     (case obj of None \<Rightarrow> True
      | Some un \<Rightarrow> (case NestedMap api un path of
          Inl _ \<Rightarrow> NestedFieldCopy api un path = Inr (Some JNull) | Inr _ \<Rightarrow> True))"

context object_fields
begin

lemma hide_obj_returns:
  assumes "shaped api (f # fs) a"
  shows "\<exists>h' b. hide_obj api (f # fs) k h a = Inr (h', b) \<and> shaped api (f # fs) b \<and>
    (f' \<noteq> f \<longrightarrow> shaped api (f' # fs') a \<longrightarrow> shaped api (f' # fs') b)"
proof (cases a)
  case None
  then show ?thesis by (simp add: hide_obj_def shaped_def)
next
  case (Some un)
  show ?thesis
  proof (cases "NestedFieldCopy api un (f # fs) = Inr (Some JNull) \<or> map_of (data_of api (f # fs) un) k = None")
    case True
    with Some assms show ?thesis
      by (auto simp: hide_obj_def shaped_def data_of_def split: sum.splits option.splits)
  next
    case False
    then obtain m v where m: "NestedMap api un (f # fs) = Inr (Some m)" "map_of m k = Some v"
      by (auto simp: data_of_def split: sum.splits option.splits)
    obtain r h' where r: "replace_val (toString v) h = (r, h')" by fastforce
    from set_found [OF m(1)] obtain un' where
      set: "SetNestedField api un (JObject (map_put k (JString r) m)) (f # fs) = Inr un'" by blast
    from False m r set have "hide_obj api (f # fs) k h a = Inr (h', Some un')"
      by (simp add: Some hide_obj_def)
    moreover have "shaped api (f # fs) (Some un')"
      by (simp add: shaped_def set_get [OF set])
    moreover have "f' \<noteq> f \<longrightarrow> shaped api (f' # fs') a \<longrightarrow> shaped api (f' # fs') (Some un')"
      using set_other [OF set, of f' fs'] by (auto simp: shaped_def Some split: sum.splits)
    ultimately show ?thesis by blast
  qed
qed

lemma hide_objs_returns:
  "list_all (shaped api (f # fs)) objs \<Longrightarrow> \<exists>h' objs'. hide_objs api (f # fs) k h objs = Inr (h', objs') \<and>
     list_all (shaped api (f # fs)) objs' \<and>
     (f' \<noteq> f \<longrightarrow> list_all (shaped api (f' # fs')) objs \<longrightarrow> list_all (shaped api (f' # fs')) objs')"
proof (induction objs arbitrary: h)
  case (Cons a objs)
  then obtain h1 b where 1: "hide_obj api (f # fs) k h a = Inr (h1, b)" "shaped api (f # fs) b"
      "f' \<noteq> f \<longrightarrow> shaped api (f' # fs') a \<longrightarrow> shaped api (f' # fs') b"
    using hide_obj_returns [of f fs a k h f' fs'] by auto
  from Cons.prems Cons.IH [of h1] obtain h2 bs where 2: "hide_objs api (f # fs) k h1 objs = Inr (h2, bs)"
      "list_all (shaped api (f # fs)) bs"
      "f' \<noteq> f \<longrightarrow> list_all (shaped api (f' # fs')) objs \<longrightarrow> list_all (shaped api (f' # fs')) bs"
    by auto
  from 1 2 show ?case by simp
qed simp

lemma hide_returns:
  "list_all (shaped api (f # fs)) objs \<Longrightarrow> \<exists>objs'. hide api (f # fs) keys objs = Inr objs' \<and>
     (f' \<noteq> f \<longrightarrow> list_all (shaped api (f' # fs')) objs \<longrightarrow> list_all (shaped api (f' # fs')) objs')"
proof (induction keys arbitrary: objs)
  case (Cons k keys)
  from hide_objs_returns [OF Cons.prems] obtain h1 objs1 where
    1: "hide_objs api (f # fs) k \<lparr>nextReplacement = replacement, valToReplacement = []\<rparr> objs = Inr (h1, objs1)"
      "list_all (shaped api (f # fs)) objs1"
      "f' \<noteq> f \<longrightarrow> list_all (shaped api (f' # fs')) objs \<longrightarrow> list_all (shaped api (f' # fs')) objs1"
    by blast
  with Cons.IH [OF 1(2)] show ?case by auto
qed simp

end

section \<open>The whole data is hidden\<close>

definition is_mask :: "json \<Rightarrow> bool" where
  "is_mask v = (case v of JString s \<Rightarrow> 8 \<le> length s \<and> list_all (\<lambda>c. c = CHR ''+'') s | _ \<Rightarrow> False)"

definition data_hidden :: "object_api \<Rightarrow> object option \<Rightarrow> bool" where
  "data_hidden api obj \<longleftrightarrow>
     (case obj of None \<Rightarrow> True
      | Some un \<Rightarrow> let data = data_of api [''data''] un in
          list_all (\<lambda>k. case map_of data k of Some v \<Rightarrow> is_mask v | None \<Rightarrow> True) (map fst data))"

lemma is_mask_mask: "8 \<le> n \<Longrightarrow> is_mask (JString (mask n))"
  by (simp add: is_mask_def list_all_iff)

lemma data_hiddenI:
  "(\<And>k v. field_of api [''data''] obj k = Some v \<Longrightarrow> is_mask v) \<Longrightarrow> data_hidden api obj"
  by (auto simp: data_hidden_def list_all_iff Let_def split: option.split)

lemma secret_keys_iff:
  "k \<in> set (secret_keys api objs) \<longleftrightarrow> (\<exists>obj\<in>set objs. field_of api [''data''] obj k \<noteq> None)"
proof -
  have "k \<in> set (case obj of None \<Rightarrow> [] | Some un \<Rightarrow> map fst (data_of api [''data''] un)) \<longleftrightarrow>
      field_of api [''data''] obj k \<noteq> None" for obj
    by (cases obj) (simp_all add: map_of_eq_None_iff)
  then show ?thesis by (simp add: secret_keys_def)
qed

context object_fields
begin

lemma hide_data_hidden:
  assumes "hide api [''data''] (secret_keys api objs) objs = Inr objs'" "b \<in> set objs'"
  shows "data_hidden api b"
proof (rule data_hiddenI)
  fix k v assume v: "field_of api [''data''] b k = Some v"
  from assms(2) obtain i where i: "i < length objs'" "b = objs' ! i" by (auto simp: in_set_conv_nth)
  have d: "distinct (secret_keys api objs)" by (simp add: secret_keys_def)
  show "is_mask v"
  proof (cases "k \<in> set (secret_keys api objs)")
    case True
    from hide_hidden_key [OF assms(1) d True] obtain c where
      c: "choice c (values_at api [''data''] objs k)" and
      eq: "length objs = length objs'" "\<And>i. i < length objs' \<Longrightarrow> field_of api [''data''] (objs' ! i) k =
        map_option (\<lambda>v. JString (mask (c (toString v)))) (field_of api [''data''] (objs ! i) k)"
      unfolding hidden_key_def list_all2_conv_all_nth by metis
    from eq(2) [OF i(1)] v i obtain w where w: "field_of api [''data''] (objs ! i) k = Some w"
      and v': "v = JString (mask (c (toString w)))" by auto
    from w i eq(1) have "toString w \<in> values_at api [''data''] objs k"
      by (auto intro: values_atI)
    with c v' show ?thesis by (simp add: choice_def is_mask_mask)
  next
    case False
    with hide_frame(1) [OF assms(1), of k] v i have "field_of api [''data''] (objs ! i) k = Some v" "i < length objs"
      by (auto simp: unchanged_def list_all2_conv_all_nth)
    with False show ?thesis by (metis secret_keys_iff nth_mem option.distinct(1))
  qed
qed

lemma data_hidden_unchanged:
  assumes "data_hidden api a" "\<And>k. field_of api [''data''] b k = field_of api [''data''] a k"
  shows "data_hidden api b"
proof (rule data_hiddenI)
  fix k v assume "field_of api [''data''] b k = Some v"
  with assms(2) have "field_of api [''data''] a k = Some v" by simp
  with assms(1) show "is_mask v"
    by (auto simp: data_hidden_def field_of_def list_all_iff Let_def dest: map_of_SomeD split: option.splits)
      (metis (no_types, lifting) fst_conv map_of_SomeD option.simps(5))
qed

lemma NormalizeSecret_annotations:
  "NestedMap api (NormalizeSecret api conv un) (''metadata'' # fs) = NestedMap api un (''metadata'' # fs)"
proof -
  have del: "NestedMap api (map_del ''stringData'' o') (''metadata'' # fs) = NestedMap api o' (''metadata'' # fs)" for o'
    by (rule first_field) simp
  have 1: "NestedMap api (move_stringData api un) (''metadata'' # fs) = NestedMap api un (''metadata'' # fs)"
    using set_other [of un _ "''data''" "[]" _ "''metadata''" fs]
    by (auto simp: move_stringData_def del Let_def split: sum.split option.split)
  then show ?thesis
    using set_other [of "move_stringData api un" _ "''data''" "[]" _ "''metadata''" fs]
    by (auto simp: NormalizeSecret_def Let_def split: sum.split option.split)
qed

text \<open>What is known of the three objects after both rounds.\<close>

lemma both_rounds:
  assumes "list_all (shaped api [''data'']) objs" "list_all (shaped api [''metadata'', ''annotations'']) objs"
  obtains objs1 objs2 where
    "hide api [''data''] (secret_keys api objs) objs = Inr objs1"
    "hide api [''metadata'', ''annotations''] ks objs1 = Inr objs2"
    "list_all2 (\<lambda>a b. a = None \<longleftrightarrow> b = None) objs objs2"
    "list_all (data_hidden api) objs2"
    "list_all2 (\<lambda>a b. \<forall>k. field_of api [''metadata'', ''annotations''] a k \<noteq> None \<longrightarrow>
       field_of api [''metadata'', ''annotations''] b k \<noteq> None) objs objs2"
proof -
  let ?d = "[''data'']" and ?a = "[''metadata'', ''annotations'']"
  from hide_returns [OF assms(1), of "secret_keys api objs" "''metadata''" "[''annotations'']"] assms(2)
  obtain objs1 where 1: "hide api ?d (secret_keys api objs) objs = Inr objs1"
    and sh: "list_all (shaped api ?a) objs1" by auto
  from hide_returns [OF sh] obtain objs2 where 2: "hide api ?a ks objs1 = Inr objs2" by blast
  have N: "list_all2 (\<lambda>a b. a = None \<longleftrightarrow> b = None) objs objs2"
    using hide_frame(3) [OF 1] hide_frame(3) [OF 2] by (auto simp: list_all2_conv_all_nth)
  have H: "list_all (data_hidden api) objs2"
    unfolding list_all_iff
  proof
    fix b assume b: "b \<in> set objs2"
    from b obtain i where i: "i < length objs2" "b = objs2 ! i" by (auto simp: in_set_conv_nth)
    have "unchanged api ?d k objs1 objs2" for k
      using hide_frame(2) [OF 2, of "''data''"] by simp
    with i have "i < length objs1" "\<And>k. field_of api ?d b k = field_of api ?d (objs1 ! i) k"
      by (auto simp: unchanged_def list_all2_conv_all_nth)
    with hide_data_hidden [OF 1, of "objs1 ! i"] show "data_hidden api b" by (auto intro: data_hidden_unchanged)
  qed
  have "field_of api ?a (objs2 ! i) k \<noteq> None"
    if i: "i < length objs" and f: "field_of api ?a (objs ! i) k \<noteq> None" for i k
  proof -
    have "unchanged api ?a k objs objs1" using hide_frame(2) [OF 1, of "''metadata''"] by simp
    with i f have f1: "field_of api ?a (objs1 ! i) k \<noteq> None" "i < length objs1"
      by (auto simp: unchanged_def list_all2_conv_all_nth)
    show ?thesis
    proof (cases "k \<in> set ks")
      case False
      with hide_frame(1) [OF 2 False] f1 show ?thesis by (auto simp: unchanged_def list_all2_conv_all_nth)
    next
      case True
      then show ?thesis using hide_present [OF 2] f1 by (auto simp: list_all2_conv_all_nth)
    qed
  qed
  moreover have "length objs = length objs2" using N by (simp add: list_all2_lengthD)
  ultimately have "list_all2 (\<lambda>a b. \<forall>k. field_of api ?a a k \<noteq> None \<longrightarrow> field_of api ?a b k \<noteq> None) objs objs2"
    by (simp add: list_all2_conv_all_nth)
  with that 1 2 N H show ?thesis by blast
qed

end

section \<open>HideSecretData\<close>

definition last_applied :: "object_api \<Rightarrow> json_api \<Rightarrow> object option \<Rightarrow> object option" where
  "last_applied api codec live =
     (case GetLastAppliedConfigAnnotation api codec live of Inr la \<Rightarrow> la | Inl _ \<Rightarrow> None)"

definition secret_objs ::
  "object_api \<Rightarrow> typed_api \<Rightarrow> json_api \<Rightarrow> object option \<Rightarrow> object option \<Rightarrow> object option list" where
  "secret_objs api conv codec target live =
     map (map_option (NormalizeSecret api conv)) [target, live, last_applied api codec live]"

definition last_applied_hidden :: "object_api \<Rightarrow> json_api \<Rightarrow> object option \<Rightarrow> bool" where
  "last_applied_hidden api codec l \<longleftrightarrow>
     (\<exists>un as s. l = Some un \<and> AnnotationsOf api un = Some as \<and> map_of as LastAppliedConfigAnnotation = Some s \<and>
        (s = replacement \<or> (\<exists>la. data_hidden api (Some la) \<and> MarshalUn codec la = Inr s)))"

lemma HideSecretData_alt:
  "HideSecretData api conv codec target live ks =
     (let objs = secret_objs api conv codec target live in
      bind_res (hide api [''data''] (secret_keys api objs) objs) (\<lambda>objs1.
      bind_res (hide api [''metadata'', ''annotations''] ks objs1) (\<lambda>objs2.
        (case (objs2 ! 1, objs2 ! 2) of
           (Some l, Some la) \<Rightarrow> bind_res (set_last_applied api codec ks l la) (\<lambda>l'. Inr (objs2 ! 0, Some l'))
         | _ \<Rightarrow> Inr (objs2 ! 0, objs2 ! 1)))))"
  by (simp add: HideSecretData_def secret_objs_def last_applied_def)

lemma last_applied_Some:
  assumes "last_applied api codec live = Some la"
  obtains un as s where "live = Some un" "AnnotationsOf api un = Some as"
    "map_of as LastAppliedConfigAnnotation = Some s" "UnmarshalUn codec s = Inr la"
  using assms
  by (auto simp: last_applied_def GetLastAppliedConfigAnnotation_def bind_eq_Some_conv
      split: option.splits sum.splits)

context object_fields
begin

lemma set_last_applied_hidden:
  assumes "data_hidden api (Some l)" "data_hidden api (Some la)" "\<And>o'. \<exists>s. MarshalUn codec o' = Inr s"
    and "field_of api [''metadata'', ''annotations''] (Some l) k \<noteq> None"
  obtains l' where "set_last_applied api codec ks l la = Inr l'" "data_hidden api (Some l')"
    "last_applied_hidden api codec (Some l')"
proof -
  from assms(3) obtain s0 where s0: "MarshalUn codec la = Inr s0" by blast
  let ?s = "if LastAppliedConfigAnnotation \<in> set ks then replacement else s0"
  let ?as = "map_put LastAppliedConfigAnnotation ?s (case AnnotationsOf api l of Some as \<Rightarrow> as | None \<Rightarrow> [])"
  let ?l = "SetAnnotations api l ?as"
  have "set_last_applied api codec ks l la = Inr ?l"
    using s0 by (simp add: set_last_applied_def Let_def)
  moreover have "data_hidden api (Some ?l)"
    using assms(1) by (rule data_hidden_unchanged) (simp add: data_of_def annotations_other)
  moreover from assms(4) obtain m where "NestedMap api l [''metadata'', ''annotations''] = Inr (Some m)"
    by (auto simp: data_of_def split: sum.splits option.splits)
  then have "AnnotationsOf api ?l = Some ?as" by (rule annotations_set)
  then have "last_applied_hidden api codec (Some ?l)"
    unfolding last_applied_hidden_def using assms(2) s0 by (intro exI conjI) auto
  ultimately show ?thesis using that by blast
qed

lemma HideSecretData_result:
  assumes shapes: "list_all (shaped api [''data'']) (secret_objs api conv codec target live)"
      "list_all (shaped api [''metadata'', ''annotations'']) (secret_objs api conv codec target live)"
    and marshal: "\<And>o'. \<exists>s. MarshalUn codec o' = Inr s"
  shows "\<exists>t l. HideSecretData api conv codec target live ks = Inr (t, l) \<and>
    (t = None \<longleftrightarrow> target = None) \<and> (l = None \<longleftrightarrow> live = None) \<and>
    data_hidden api t \<and> data_hidden api l \<and>
    (last_applied api codec live = None \<or> last_applied_hidden api codec l)"
proof -
  let ?objs = "secret_objs api conv codec target live"
  let ?a = "[''metadata'', ''annotations'']"
  obtain objs1 objs2 where
    1: "hide api [''data''] (secret_keys api ?objs) ?objs = Inr objs1" and 2: "hide api ?a ks objs1 = Inr objs2"
    and N: "list_all2 (\<lambda>a b. a = None \<longleftrightarrow> b = None) ?objs objs2"
    and H: "list_all (data_hidden api) objs2"
    and F: "list_all2 (\<lambda>a b. \<forall>k. field_of api ?a a k \<noteq> None \<longrightarrow> field_of api ?a b k \<noteq> None) ?objs objs2"
    by (rule both_rounds [OF shapes, where ks = ks])
  from N obtain t l la where o2: "objs2 = [t, l, la]"
    by (auto simp: secret_objs_def list_all2_Cons1)
  with N have n: "t = None \<longleftrightarrow> target = None" "l = None \<longleftrightarrow> live = None"
      "la = None \<longleftrightarrow> last_applied api codec live = None"
    by (auto simp: secret_objs_def)
  from H o2 have h: "data_hidden api t" "data_hidden api l" "data_hidden api la" by auto
  show ?thesis
  proof (cases la)
    case None
    with 1 2 o2 n h show ?thesis
      by (auto simp: HideSecretData_alt split: option.split)
  next
    case (Some a)
    with n obtain b where "last_applied api codec live = Some b" by auto
    then obtain un as s where live: "live = Some un" and as: "AnnotationsOf api un = Some as"
      and s: "map_of as LastAppliedConfigAnnotation = Some s" by (rule last_applied_Some)
    from n live obtain l0 where l: "l = Some l0" by auto
    from annotations_map [OF as] s NormalizeSecret_annotations [of conv un "[''annotations'']"]
    have "field_of api ?a (map_option (NormalizeSecret api conv) live) LastAppliedConfigAnnotation \<noteq> None"
      by (auto simp: live data_of_def)
    with F o2 l have "field_of api ?a (Some l0) LastAppliedConfigAnnotation \<noteq> None"
      by (auto simp: secret_objs_def)
    from set_last_applied_hidden [OF _ _ marshal this] h l Some obtain l' where
      "set_last_applied api codec ks l0 a = Inr l'" "data_hidden api (Some l')" "last_applied_hidden api codec (Some l')"
      by auto
    with 1 2 o2 n h l Some live show ?thesis
      by (simp add: HideSecretData_alt)
  qed
qed

end

section \<open>A last applied configuration that does not parse\<close>

context object_fields
begin

lemma unparsed_kept:
  assumes shapes: "list_all (shaped api [''data'']) (secret_objs api conv codec target (Some live))"
      "list_all (shaped api [''metadata'', ''annotations'']) (secret_objs api conv codec target (Some live))"
    and as: "AnnotationsOf api live = Some as" "map_of as LastAppliedConfigAnnotation = Some s"
    and bad: "UnmarshalUn codec s = Inl e" and ks: "LastAppliedConfigAnnotation \<notin> set ks"
  shows "\<exists>t l. HideSecretData api conv codec target (Some live) ks = Inr (t, Some l) \<and>
    map_of (data_of api [''metadata'', ''annotations''] l) LastAppliedConfigAnnotation = Some (JString s)"
proof -
  let ?objs = "secret_objs api conv codec target (Some live)"
  let ?a = "[''metadata'', ''annotations'']" and ?k = LastAppliedConfigAnnotation
  obtain objs1 objs2 where 1: "hide api [''data''] (secret_keys api ?objs) ?objs = Inr objs1"
    and 2: "hide api ?a ks objs1 = Inr objs2"
    and N: "list_all2 (\<lambda>a b. a = None \<longleftrightarrow> b = None) ?objs objs2"
    by (rule both_rounds [OF shapes, where ks = ks])
  have none: "last_applied api codec (Some live) = None"
    using as bad by (simp add: last_applied_def GetLastAppliedConfigAnnotation_def)
  with N obtain t l where o2: "objs2 = [t, Some l, None]"
    by (auto simp: secret_objs_def list_all2_Cons1)
  have "unchanged api ?a ?k ?objs objs2"
    using hide_frame(2) [OF 1, of "''metadata''"] hide_frame(1) [OF 2 ks] by (auto intro: unchanged_trans)
  with o2 have "field_of api ?a (Some l) ?k = field_of api ?a (Some (NormalizeSecret api conv live)) ?k"
    by (simp add: unchanged_def secret_objs_def)
  also from annotations_map [OF as(1)] as(2) NormalizeSecret_annotations [of conv live "[''annotations'']"]
  have "\<dots> = Some (JString s)" by (auto simp: data_of_def)
  finally show ?thesis using 1 2 o2 by (simp add: HideSecretData_alt)
qed

end

section \<open>A concrete instance\<close>

text \<open>
  Conversions that accept a Secret whose data are strings or nil, and a codec that knows one text.
\<close>

fun bytes_map :: "object \<Rightarrow> (string \<times> string option) list option" where
  "bytes_map [] = Some []"
| "bytes_map ((k, JString s) # m) = map_option (\<lambda>r. (k, Some s) # r) (bytes_map m)"
| "bytes_map ((k, JNull) # m) = map_option (\<lambda>r. (k, None) # r) (bytes_map m)"
| "bytes_map _ = None"

definition demo_typed :: typed_api where
  "demo_typed = \<lparr>
     SecretFromUnstructured = (\<lambda>obj. case nested_map obj [''data''] of
         Inl e \<Rightarrow> Inl e
       | Inr None \<Rightarrow> Inr \<lparr>SecretData = None, SecretRest = JObject obj\<rparr>
       | Inr (Some m) \<Rightarrow> (case bytes_map m of
             None \<Rightarrow> Inl (Err ReasonOther ''bad data'')
           | Some d \<Rightarrow> Inr \<lparr>SecretData = Some d, SecretRest = JObject obj\<rparr>)),
     SecretToUnstructured = (\<lambda>s. case SecretData s of
         None \<Rightarrow> Inr []
       | Some d \<Rightarrow> Inr [(''data'', JObject (map (\<lambda>(k, v). (k, case v of None \<Rightarrow> JNull | Some b \<Rightarrow> JString b)) d))]),
     EndpointsFromUnstructured = (\<lambda>_. Inl (Err ReasonOther ''no endpoints'')),
     EndpointsToUnstructured = (\<lambda>_. Inl (Err ReasonOther ''no endpoints'')),
     hashPort = Protocol, hashSubset = (\<lambda>ss. concat (map IP (Addresses ss)))\<rparr>"

definition demo_secret :: "(string \<times> json) list \<Rightarrow> string \<Rightarrow> object" where
  "demo_secret data la = [(''apiVersion'', JString ''v1''), (''kind'', JString ''Secret''),
     (''metadata'', JObject [(''name'', JString ''s''),
        (''annotations'', JObject [(LastAppliedConfigAnnotation, JString la)])]),
     (''data'', JObject data)]"

definition demo_codec :: json_api where
  "demo_codec = \<lparr>MarshalUn = (\<lambda>_. Inr ''hidden''), MarshalMap = (\<lambda>_. Inr ''hidden''),
     UnmarshalUn = (\<lambda>s. if s = ''applied'' then Inr (demo_secret [(''pw'', JString ''YQ=='')] '''')
        else Inl (Err ReasonOther ''invalid character'')),
     UnmarshalMap = (\<lambda>_. Inl (Err ReasonOther ''invalid character''))\<rparr>"

abbreviation "demo_target \<equiv> demo_secret [(''pw'', JString ''YQ==''), (''user'', JNull)] ''''"
abbreviation "demo_live \<equiv> demo_secret [(''pw'', JString ''Yg==''), (''user'', JString ''YQ=='')] ''applied''"

section \<open>Properties\<close>

text \<open>
  When \<open>hide\<close> returns, then for every key it was given and any two of the objects that have the
  key, the value of each has become a run of at least eight plus signs, and the two runs are equal
  exactly if the printed values were equal.
\<close>

theorem hide_masks:
  assumes "object_fields api" "distinct keys" "hide api (f # fs) keys objs = Inr objs'" "k \<in> set keys"
    and "i < length objs" "j < length objs"
    and "field_of api (f # fs) (objs ! i) k = Some v" "field_of api (f # fs) (objs ! j) k = Some w"
  shows "\<exists>m\<ge>8. \<exists>n\<ge>8. field_of api (f # fs) (objs' ! i) k = Some (JString (mask m)) \<and>
    field_of api (f # fs) (objs' ! j) k = Some (JString (mask n)) \<and> (m = n \<longleftrightarrow> toString v = toString w)"
proof -
  from object_fields.hide_hidden_key [OF assms(1,3,2,4)] obtain c where
    c: "choice c (values_at api (f # fs) objs k)" and
    eq: "\<And>i. i < length objs \<Longrightarrow> field_of api (f # fs) (objs' ! i) k =
      map_option (\<lambda>v. JString (mask (c (toString v)))) (field_of api (f # fs) (objs ! i) k)"
    unfolding hidden_key_def list_all2_conv_all_nth by metis
  have vw: "toString v \<in> values_at api (f # fs) objs k" "toString w \<in> values_at api (f # fs) objs k"
    using assms(5-8) by (auto intro: values_atI)
  show ?thesis
    using c vw eq [OF assms(5)] eq [OF assms(6)] assms(7,8)
    by (intro exI [of _ "c (toString v)"] exI [of _ "c (toString w)"]) (auto simp: choice_def inj_on_def)
qed

theorem hide_masks_witness:
  "\<exists>m\<ge>8. \<exists>n\<ge>8. field_of go_api [''data'']
      ([Some [(''data'', JObject [(''pw'', JString (mask 8))])],
        Some [(''data'', JObject [(''pw'', JString (mask 12))])]] ! 0) ''pw'' = Some (JString (mask m)) \<and>
    field_of go_api [''data'']
      ([Some [(''data'', JObject [(''pw'', JString (mask 8))])],
        Some [(''data'', JObject [(''pw'', JString (mask 12))])]] ! 1) ''pw'' = Some (JString (mask n)) \<and>
    (m = n \<longleftrightarrow> toString (JString ''a'') = toString (JInt 5))"
proof (rule hide_masks [OF go.object_fields_axioms, where keys = "[''pw'']" and
    objs = "[Some [(''data'', JObject [(''pw'', JString ''a'')])], Some [(''data'', JObject [(''pw'', JInt 5)])]]"])
  show "hide go_api [''data''] [''pw'']
      [Some [(''data'', JObject [(''pw'', JString ''a'')])], Some [(''data'', JObject [(''pw'', JInt 5)])]] =
    Inr [Some [(''data'', JObject [(''pw'', JString (mask 8))])], Some [(''data'', JObject [(''pw'', JString (mask 12))])]]"
    by code_simp
qed (code_simp | simp)+



text \<open>
  C29. A last applied configuration that cannot be parsed is handed out unchanged: \<open>HideSecretData\<close>
  returns no error and the live object still carries the text, secrets included.
\<close>

theorem unparsed_last_applied_leaks:
  assumes "object_fields api" "AnnotationsOf api live = Some as"
    and "map_of as LastAppliedConfigAnnotation = Some s" "UnmarshalUn codec s = Inl e"
    and "LastAppliedConfigAnnotation \<notin> set hideAnnotations"
    and "list_all (shaped api [''data'']) (secret_objs api conv codec target (Some live))"
    and "list_all (shaped api [''metadata'', ''annotations'']) (secret_objs api conv codec target (Some live))"
  shows "\<exists>t l. HideSecretData api conv codec target (Some live) hideAnnotations = Inr (t, Some l) \<and>
    map_of (data_of api [''metadata'', ''annotations''] l) LastAppliedConfigAnnotation = Some (JString s)"
  using object_fields.unparsed_kept [OF assms(1,6,7,2,3,4,5)] .

theorem unparsed_last_applied_leaks_witness:
  "\<exists>t l. HideSecretData go_api demo_typed demo_codec None
       (Some (demo_secret [(''pw'', JString ''YQ=='')] ''password: a'')) [] = Inr (t, Some l) \<and>
    map_of (data_of go_api [''metadata'', ''annotations''] l) LastAppliedConfigAnnotation =
      Some (JString ''password: a'')"
proof (rule unparsed_last_applied_leaks [OF go.object_fields_axioms,
      where as = "[(LastAppliedConfigAnnotation, ''password: a'')]"])
  show "UnmarshalUn demo_codec ''password: a'' = Inl (Err ReasonOther ''invalid character'')" by code_simp
qed (code_simp | simp)+

end
