(* ===== verification/DiffFlow.thy ===== *)
theory DiffFlow
  imports DiffHide
begin

text \<open>
  The comparison of a configuration with a live object, \<open>pkg/diff/diff.go\<close>, and the choice of its
  schema, \<open>pkg/utils/kube/scheme/typed.go\<close>: two-way, three-way, by structured merge and by a dry run
  on the server. What the libraries compute (patches, schemas, typed values, sets of field paths) comes
  from the records below, gathered in \<open>diff_env\<close>; the order of the calls, the error handling and the
  fallbacks are the code's.
\<close>

section \<open>The libraries\<close>

text \<open>
  The two schemes: a new object of a kind, decoding with and without unknown fields, defaults, and the
  patch functions of strategicpatch, jsonmergepatch and jsonpatch. \<open>'o\<close> is a typed object, \<open>'q\<close> the
  patch metadata of its type.
\<close>

record ('o, 'q) scheme_api =
  SchemeNew :: "GroupVersionKind \<Rightarrow> go_error + 'o"
  DecodeStrict :: "'o \<Rightarrow> string \<Rightarrow> go_error + 'o"
  UnmarshalInto :: "'o \<Rightarrow> string \<Rightarrow> go_error + 'o"
  MarshalTyped :: "'o \<Rightarrow> go_error + string"
  ToUnstructured :: "'o \<Rightarrow> go_error + object"
  SchemeDefault :: "'o \<Rightarrow> 'o"
  StrategicTwoWay :: "string \<Rightarrow> string \<Rightarrow> 'o \<Rightarrow> go_error + string"
  StrategicMergePatch :: "string \<Rightarrow> string \<Rightarrow> 'o \<Rightarrow> go_error + string"
  NewPatchMetaFromStruct :: "'o \<Rightarrow> go_error + 'q"
  StrategicThreeWay :: "string \<Rightarrow> string \<Rightarrow> string \<Rightarrow> 'q \<Rightarrow> go_error + string"
  JSONMergeThreeWay :: "string \<Rightarrow> string \<Rightarrow> string \<Rightarrow> go_error + string"
  JSONMergePatch :: "string \<Rightarrow> string \<Rightarrow> go_error + string"

text \<open>
  Structured merge: \<open>'p\<close> is a GVK parser, \<open>'t\<close> a parseable type, \<open>'v\<close> a typed value, \<open>'s\<close> a set of
  paths. An element of a path has a field name, or a key of several fields, or neither. \<open>StaticType\<close>
  is the built-in schema, \<open>None\<close> if it cannot be loaded. A method on a nil pointer may panic.
\<close>

record PathElement =
  FieldName :: "string option"
  KeyFields :: "(string \<times> json) list option"

type_synonym FieldPath = "PathElement list"

record ('p, 't, 'v, 's) smd_api =
  ParserType :: "'p option \<Rightarrow> GroupVersionKind \<Rightarrow> 't option res"
  ParserNames :: "'p \<Rightarrow> (GroupVersionKind \<times> string) list"
  StaticType :: "(string \<Rightarrow> 't) option"
  TypeIsValid :: "'t \<Rightarrow> bool"
  DeducedType :: 't
  FromUnstructured :: "'t \<Rightarrow> object \<Rightarrow> go_error + 'v"
  AsUnstructured :: "'v option \<Rightarrow> json res"
  ToFieldSet :: "'v \<Rightarrow> go_error + 's"
  CompareRemoved :: "'v \<Rightarrow> 'v \<Rightarrow> go_error + 's option"
  MergeTyped :: "'v \<Rightarrow> 'v option \<Rightarrow> 'v option \<times> go_error option"
  RemoveItems :: "'v option \<Rightarrow> 's option \<Rightarrow> 'v option res"
  UpdaterApply :: "'p option \<Rightarrow> GroupVersionKind \<Rightarrow> 'v \<Rightarrow> 'v \<Rightarrow> string \<Rightarrow> (string \<times> 's VersionedSet) list \<Rightarrow>
    string \<Rightarrow> go_error + 'v option"
  NewPathSet :: 's
  PathSetEmpty :: "'s \<Rightarrow> bool"
  PathSetUnion :: "'s \<Rightarrow> 's \<Rightarrow> 's"
  PathSetDifference :: "'s \<Rightarrow> 's \<Rightarrow> 's"
  PathSetPaths :: "'s \<Rightarrow> FieldPath list"
  PathSetInsert :: "FieldPath \<Rightarrow> 's \<Rightarrow> 's"
  ShowGVK :: "GroupVersionKind \<Rightarrow> string"

text \<open>\<open>gvkNames\<close> is the process-wide variable \<open>gvkMap\<close>: not yet set, or the map first extracted.\<close>

record ('o, 'q, 'p, 't, 'v, 's) diff_env =
  objs :: object_api
  typed :: typed_api
  codec :: json_api
  schemes :: "('o, 'q) scheme_api"
  smd :: "('p, 't, 'v, 's) smd_api"
  sets :: "'s set_api"
  gvkNames :: "(GroupVersionKind \<times> string) list option"

section \<open>Remarshalling\<close>

definition remarshal :: "('o, 'q, 'p, 't, 'v, 's) diff_env \<Rightarrow> object \<Rightarrow> object res" where
  "remarshal E obj =
     (case MarshalUn (codec E) obj of
        Inl _ \<Rightarrow> Inl Panicked
      | Inr data \<Rightarrow>
          (case UnmarshalUn (codec E) data of
             Inl _ \<Rightarrow> Inl Panicked
           | Inr newUn \<Rightarrow>
               Inr (case SchemeNew (schemes E) (GVKOf (objs E) newUn) of
                      Inl _ \<Rightarrow> newUn
                    | Inr item \<Rightarrow>
                        (case DecodeStrict (schemes E) item data of
                           Inl _ \<Rightarrow> newUn
                         | Inr unmarshalledObj \<Rightarrow>
                             (case ToUnstructured (schemes E) unmarshalledObj of
                                Inl _ \<Rightarrow> newUn
                              | Inr unstrBody \<Rightarrow> RemoveMapFields newUn unstrBody)))))"

definition remarshal_option ::
  "('o, 'q, 'p, 't, 'v, 's) diff_env \<Rightarrow> 'p Option list \<Rightarrow> object option \<Rightarrow> object option res" where
  "remarshal_option E opts obj =
     (case obj of
        None \<Rightarrow> Inr None
      | Some un \<Rightarrow> bind_res (remarshal E un) (\<lambda>un'. Inr (Some (Normalize (objs E) (typed E) opts un'))))"

section \<open>Results\<close>

definition buildDiffResult :: "string \<Rightarrow> string \<Rightarrow> DiffResult" where
  "buildDiffResult predictedBytes liveBytes =
     \<lparr>Modified = (liveBytes \<noteq> predictedBytes), NormalizedLive = liveBytes, PredictedLive = predictedBytes\<rparr>"

definition handleResourceCreateOrDeleteDiff ::
  "json_api \<Rightarrow> object option \<Rightarrow> object option \<Rightarrow> DiffResult res" where
  "handleResourceCreateOrDeleteDiff c config live =
     (case (live, config) of
        (Some _, Some _) \<Rightarrow> fail ''unnexpected state: expected live or config to be null: not create or delete operation''
      | (Some l, None) \<Rightarrow>
          bind_res (wrapping ''error marshaling live resource'' (lift_err (MarshalUn c l)))
            (\<lambda>liveData. Inr \<lparr>Modified = False, NormalizedLive = liveData, PredictedLive = ''null''\<rparr>)
      | (None, Some cfg) \<Rightarrow>
          bind_res (wrapping ''error marshaling config resource'' (lift_err (MarshalMap c cfg)))
            (\<lambda>data. Inr \<lparr>Modified = True, NormalizedLive = ''null'', PredictedLive = data\<rparr>)
      | (None, None) \<Rightarrow> fail ''both live and config are null objects'')"

section \<open>Defaults\<close>

definition CreateTwoWayMergePatch :: "('o, 'q) scheme_api \<Rightarrow> 'o \<Rightarrow> 'o \<Rightarrow> 'o \<Rightarrow> (string \<times> bool) res" where
  "CreateTwoWayMergePatch sch orig new dataStruct =
     bind_res (wrapping ''failed to marshal orig object'' (lift_err (MarshalTyped sch orig))) (\<lambda>origBytes.
     bind_res (wrapping ''failed to marshal new object'' (lift_err (MarshalTyped sch new))) (\<lambda>newBytes.
     bind_res (wrapping ''failed to create two way merge patch''
       (lift_err (StrategicTwoWay sch origBytes newBytes dataStruct))) (\<lambda>patch.
     Inr (patch, patch \<noteq> ''{}''))))"

definition generateSchemeDefaultPatch :: "('o, 'q) scheme_api \<Rightarrow> 'o \<Rightarrow> string res" where
  "generateSchemeDefaultPatch sch kubeObj =
     bind_res (CreateTwoWayMergePatch sch kubeObj (SchemeDefault sch kubeObj) kubeObj) (\<lambda>(patch, success).
       if patch = ''{}'' \<or> success then Inr patch else fail ''empty result'')"

text \<open>Unmarshal into a map and marshal again, which orders the fields.\<close>

definition sort_fields :: "json_api \<Rightarrow> string \<Rightarrow> string \<Rightarrow> string \<Rightarrow> string res" where
  "sort_fields c msg1 msg2 data =
     bind_res (wrapping msg1 (lift_err (UnmarshalMap c data))) (\<lambda>m.
       wrapping msg2 (lift_err (MarshalMap c m)))"

definition apply_defaults ::
  "json_api \<Rightarrow> ('o, 'q) scheme_api \<Rightarrow> string \<Rightarrow> 'o \<Rightarrow> string \<Rightarrow> string res" where
  "apply_defaults c sch state obj data =
     (case UnmarshalInto sch obj data of
        Inl _ \<Rightarrow> Inr data
      | Inr obj' \<Rightarrow>
          bind_res (generateSchemeDefaultPatch sch obj') (\<lambda>patch.
          bind_res (wrapping (''failed to construct strategic merge patch for '' @ state @ '' state'')
            (lift_err (StrategicMergePatch sch data patch obj'))) (\<lambda>data'.
          sort_fields c (''failed to unmarshal strategic merge patch for '' @ state @ '' state'')
            (''failed to marshal strategic merge patch for '' @ state @ '' state'') data')))"

definition applyPatch ::
  "json_api \<Rightarrow> ('o, 'q) scheme_api \<Rightarrow> string \<Rightarrow> string \<Rightarrow> GroupVersionKind \<Rightarrow> (string \<times> string) res" where
  "applyPatch c sch liveBytes patchBytes gvk =
     bind_res (lift_err (SchemeNew sch gvk)) (\<lambda>predictedLive.
     bind_res (wrapping ''failed to construct strategic merge patch''
       (lift_err (StrategicMergePatch sch liveBytes patchBytes predictedLive))) (\<lambda>predictedLiveBytes.
     bind_res (apply_defaults c sch ''predicted'' predictedLive predictedLiveBytes) (\<lambda>predictedLiveBytes'.
     bind_res (lift_err (SchemeNew sch gvk)) (\<lambda>live.
     bind_res (apply_defaults c sch ''live'' live liveBytes) (\<lambda>liveBytes'.
     Inr (liveBytes', predictedLiveBytes'))))))"

definition patchDefaultValues :: "json_api \<Rightarrow> ('o, 'q) scheme_api \<Rightarrow> string \<Rightarrow> 'o \<Rightarrow> string res" where
  "patchDefaultValues c sch objBytes obj =
     bind_res (wrapping ''error generating patch for default values'' (generateSchemeDefaultPatch sch obj)) (\<lambda>patch.
     bind_res (wrapping ''error applying patch for default values''
       (lift_err (StrategicMergePatch sch objBytes patch obj))) (\<lambda>patchedBytes.
     sort_fields c ''error unmarshaling patched bytes'' ''error marshaling patched bytes'' patchedBytes))"

section \<open>Three-way and two-way\<close>

definition removeNamespaceAnnotation :: "object \<Rightarrow> object res" where
  "removeNamespaceAnnotation orig =
     (case map_of orig ''metadata'' of
        None \<Rightarrow> Inr orig
      | Some (JObject m) \<Rightarrow>
          (let m1 = map_del ''namespace'' m;
               m2 = (case map_of m1 ''annotations'' of
                       Some JNull \<Rightarrow> map_del ''annotations'' m1
                     | Some (JObject []) \<Rightarrow> map_del ''annotations'' m1
                     | _ \<Rightarrow> m1)
           in Inr (map_put ''metadata'' (JObject m2) orig))
      | Some _ \<Rightarrow> Inl Panicked)"

definition statefulSetWorkaround :: "object_api \<Rightarrow> object \<Rightarrow> object \<Rightarrow> object" where
  "statefulSetWorkaround api orig live =
     (case NestedArray api orig [''spec'', ''volumeClaimTemplates''] of
        Inr (Some origTemplate) \<Rightarrow>
          (case NestedArray api live [''spec'', ''volumeClaimTemplates''] of
             Inr (Some liveTemplate) \<Rightarrow>
               (case SetNestedField api live (JArray (RemoveListFields origTemplate liveTemplate))
                  [''spec'', ''volumeClaimTemplates''] of
                  Inr live' \<Rightarrow> live' | Inl _ \<Rightarrow> live)
           | _ \<Rightarrow> live)
      | _ \<Rightarrow> live)"

text \<open>
  The patch, and the kind of which \<open>newVersionedObject\<close> makes new objects if the scheme knows it.
\<close>

definition threeWayMergePatch ::
  "('o, 'q, 'p, 't, 'v, 's) diff_env \<Rightarrow> object \<Rightarrow> object \<Rightarrow> object \<Rightarrow> (string \<times> GroupVersionKind option) res" where
  "threeWayMergePatch E orig config live =
     bind_res (wrapping ''failed to marshal original object'' (lift_err (MarshalMap (codec E) orig))) (\<lambda>origBytes.
     bind_res (wrapping ''failed to marshal config object'' (lift_err (MarshalMap (codec E) config))) (\<lambda>configBytes.
     (let gvk = GVKOf (objs E) orig in
      case SchemeNew (schemes E) gvk of
        Inr versionedObject \<Rightarrow>
          (let live1 = (if (gvkGroup gvk = ''apps'' \<or> gvkGroup gvk = ''extensions'') \<and> gvkKind gvk = ''StatefulSet''
                        then statefulSetWorkaround (objs E) orig live else live) in
           bind_res (wrapping ''failed to marshal live object'' (lift_err (MarshalMap (codec E) live1))) (\<lambda>liveBytes.
           bind_res (wrapping ''failed to construct lookup patch''
             (lift_err (NewPatchMetaFromStruct (schemes E) versionedObject))) (\<lambda>lookupPatchMeta.
           bind_res (wrapping ''failed to construct thre way merge patch''
             (lift_err (StrategicThreeWay (schemes E) origBytes configBytes liveBytes lookupPatchMeta))) (\<lambda>patch.
           Inr (patch, Some gvk)))))
      | Inl _ \<Rightarrow>
          bind_res (wrapping ''failed to marshal live object''
            (lift_err (MarshalMap (codec E) (RemoveMapFields orig live)))) (\<lambda>liveBytes.
          bind_res (wrapping ''failed to construct thre way merge patch''
            (lift_err (JSONMergeThreeWay (schemes E) origBytes configBytes liveBytes))) (\<lambda>patch.
          Inr (patch, None))))))"

definition ThreeWayDiff ::
  "('o, 'q, 'p, 't, 'v, 's) diff_env \<Rightarrow> object \<Rightarrow> object \<Rightarrow> object \<Rightarrow> DiffResult res" where
  "ThreeWayDiff E orig0 config0 live =
     bind_res (removeNamespaceAnnotation orig0) (\<lambda>orig.
     bind_res (removeNamespaceAnnotation config0) (\<lambda>config.
     bind_res (threeWayMergePatch E orig config live) (\<lambda>(patchBytes, newVersionedObject).
     bind_res (wrapping ''failed to marshal live state'' (lift_err (MarshalUn (codec E) live))) (\<lambda>liveBytes.
     case newVersionedObject of
       Some gvk \<Rightarrow>
         bind_res (applyPatch (codec E) (schemes E) liveBytes patchBytes gvk) (\<lambda>(liveBytes', predictedLiveBytes).
         Inr (buildDiffResult predictedLiveBytes liveBytes'))
     | None \<Rightarrow>
         bind_res (wrapping ''failed to construct merge patch for predicted state''
           (lift_err (JSONMergePatch (schemes E) liveBytes patchBytes))) (\<lambda>predictedLiveBytes.
         Inr (buildDiffResult predictedLiveBytes liveBytes))))))"

definition TwoWayDiff ::
  "('o, 'q, 'p, 't, 'v, 's) diff_env \<Rightarrow> object option \<Rightarrow> object option \<Rightarrow> DiffResult res" where
  "TwoWayDiff E config live =
     (case (live, config) of
        (Some l, Some c) \<Rightarrow> ThreeWayDiff E c c l
      | _ \<Rightarrow> handleResourceCreateOrDeleteDiff (codec E) config live)"

section \<open>The schema of a kind\<close>

definition extractGvkMap :: "('p, 't, 'v, 's) smd_api \<Rightarrow> 'p \<Rightarrow> (GroupVersionKind \<times> string) list" where
  "extractGvkMap S parser = foldl (\<lambda>m (gvk, name). map_put gvk name m) [] (ParserNames S parser)"

definition getGvkMap :: "('o, 'q, 'p, 't, 'v, 's) diff_env \<Rightarrow> 'p \<Rightarrow> (GroupVersionKind \<times> string) list" where
  "getGvkMap E parser = (case gvkNames E of Some m \<Rightarrow> m | None \<Rightarrow> extractGvkMap (smd E) parser)"

definition resolveFromStaticParser ::
  "('o, 'q, 'p, 't, 'v, 's) diff_env \<Rightarrow> GroupVersionKind \<Rightarrow> 'p \<Rightarrow> 't option" where
  "resolveFromStaticParser E gvk parser =
     (let name = (case map_of (getGvkMap E parser) gvk of Some n \<Rightarrow> n | None \<Rightarrow> '''') in
      if name = '''' then None
      else case StaticType (smd E) of
        None \<Rightarrow> None
      | Some f \<Rightarrow> if TypeIsValid (smd E) (f name) then Some (f name) else None)"

definition ResolveParseableType ::
  "('o, 'q, 'p, 't, 'v, 's) diff_env \<Rightarrow> GroupVersionKind \<Rightarrow> 'p option \<Rightarrow> 't option res" where
  "ResolveParseableType E gvk parser =
     (case parser of
        None \<Rightarrow> Inr (Some (DeducedType (smd E)))
      | Some p \<Rightarrow>
          (case resolveFromStaticParser E gvk p of
             Some pt \<Rightarrow> Inr (Some pt)
           | None \<Rightarrow> ParserType (smd E) (Some p) gvk))"

section \<open>Structured merge\<close>

definition buildManagerInfoForApply :: "'s set_api \<Rightarrow> string \<Rightarrow> go_error + string" where
  "buildManagerInfoForApply api mgr =
     BuildManagerIdentifier api \<lparr>mfManager = mgr, mfOperation = ManagedFieldsOperationApply,
       mfAPIVersion = '''', mfTime = None, mfFieldsType = '''', mfFieldsV1 = None, mfSubresource = ''''\<rparr>"

definition smd_apply ::
  "('o, 'q, 'p, 't, 'v, 's) diff_env \<Rightarrow> 'v \<Rightarrow> 'v \<Rightarrow> object \<Rightarrow> object \<Rightarrow> 'p option \<Rightarrow> string \<Rightarrow> 'v option res" where
  "smd_apply E tvConfig tvLive config live parser mgr =
     bind_res (wrapping ''error decoding managed fields''
       (lift_err (DecodeManagedFields (sets E) (ManagedFieldsOf (objs E) live)))) (\<lambda>managed.
     bind_res (wrapping ''error building manager info'' (lift_err (buildManagerInfoForApply (sets E) mgr))) (\<lambda>managerKey.
     wrapping ''error while running updater.Apply''
       (lift_err (UpdaterApply (smd E) parser (GVKOf (objs E) config) tvLive tvConfig
          (APIVersionOf (objs E) config) (mgFields managed) managerKey))))"

definition normalizeTypedValue :: "('o, 'q, 'p, 't, 'v, 's) diff_env \<Rightarrow> 'v \<Rightarrow> string res" where
  "normalizeTypedValue E tv =
     bind_res (AsUnstructured (smd E) (Some tv)) (\<lambda>ru.
     case ru of
       JObject r \<Rightarrow>
         (let resultUn = RemoveNestedField (objs E) r [''metadata'', ''annotations'', LastAppliedConfigAnnotation] in
          bind_res (wrapping ''error while marshaling merged unstructured''
            (lift_err (MarshalUn (codec E) resultUn))) (\<lambda>resultBytes.
          case SchemeNew (schemes E) (GVKOf (objs E) resultUn) of
            Inl _ \<Rightarrow> Inr resultBytes
          | Inr obj \<Rightarrow>
              bind_res (wrapping ''error unmarshaling merged bytes into object''
                (lift_err (UnmarshalInto (schemes E) obj resultBytes))) (\<lambda>obj'.
              wrapping ''error applying defaults'' (patchDefaultValues (codec E) (schemes E) resultBytes obj'))))
     | _ \<Rightarrow> fail ''error converting result typedValue: expected map'')"

definition structuredMergeDiff ::
  "('o, 'q, 'p, 't, 'v, 's) diff_env \<Rightarrow> object \<Rightarrow> object \<Rightarrow> 'p option \<Rightarrow> string \<Rightarrow> DiffResult res" where
  "structuredMergeDiff E config live parser mgr =
     (let gvk = GVKOf (objs E) config in
      bind_res (ResolveParseableType E gvk parser) (\<lambda>type.
      case type of
        None \<Rightarrow> fail (''unable to resolve parseableType for GroupVersionKind: '' @ ShowGVK (smd E) gvk)
      | Some pt \<Rightarrow>
          bind_res (wrapping ''error building typed value from live resource''
            (lift_err (FromUnstructured (smd E) pt live))) (\<lambda>tvLive.
          bind_res (wrapping ''error building typed value from config resource''
            (lift_err (FromUnstructured (smd E) pt config))) (\<lambda>tvConfig.
          bind_res (wrapping ''error calculating diff'' (smd_apply E tvConfig tvLive config live parser mgr)) (\<lambda>merged.
          case merged of
            None \<Rightarrow>
              bind_res (wrapping ''error marshaling live resource'' (lift_err (MarshalUn (codec E) live)))
                (\<lambda>liveBytes. Inr (buildDiffResult liveBytes liveBytes))
          | Some mergedLive \<Rightarrow>
              bind_res (wrapping ''error applying default values in predicted live''
                (normalizeTypedValue E mergedLive)) (\<lambda>predictedLive.
              bind_res (wrapping ''error applying default values in live''
                (normalizeTypedValue E tvLive)) (\<lambda>taintedLive.
              Inr (buildDiffResult predictedLive taintedLive))))))))"

definition StructuredMergeDiff ::
  "('o, 'q, 'p, 't, 'v, 's) diff_env \<Rightarrow> object option \<Rightarrow> object option \<Rightarrow> 'p option \<Rightarrow> string \<Rightarrow> DiffResult res" where
  "StructuredMergeDiff E config live parser mgr =
     (case (live, config) of
        (Some l, Some c) \<Rightarrow> structuredMergeDiff E c l parser mgr
      | _ \<Rightarrow> handleResourceCreateOrDeleteDiff (codec E) config live)"

section \<open>Server-side dry run\<close>

text \<open>
  A field is part of a composite key if some element before the last one of the path selects a list
  item by more than one field, that field among them.
\<close>

fun composite_scan :: "string \<Rightarrow> FieldPath \<Rightarrow> bool" where
  "composite_scan name [] = False"
| "composite_scan name (pe # rest) =
     (case KeyFields pe of
        None \<Rightarrow> composite_scan name rest
      | Some key' \<Rightarrow>
          if length key' \<le> 1 then composite_scan name rest
          else if list_ex (\<lambda>(n, _). n = name) key' then True
          else composite_scan name rest)"

definition isCompositeKeyField :: "FieldPath \<Rightarrow> bool" where
  "isCompositeKeyField path =
     (if length path = 0 then False
      else case FieldName (last path) of
        None \<Rightarrow> False
      | Some finalFieldName \<Rightarrow> composite_scan finalFieldName (rev (butlast path)))"

definition filterOutCompositeKeyFields :: "('p, 't, 'v, 's) smd_api \<Rightarrow> 's \<Rightarrow> 's" where
  "filterOutCompositeKeyFields S fieldsToRemove =
     foldl (\<lambda>filtered path. if isCompositeKeyField path then filtered else PathSetInsert S path filtered)
       (NewPathSet S) (PathSetPaths S fieldsToRemove)"

text \<open>The fields of one manager; every entry must parse, whoever owns it.\<close>

fun manager_fields ::
  "('o, 'q, 'p, 't, 'v, 's) diff_env \<Rightarrow> string \<Rightarrow> ManagedFieldsEntry list \<Rightarrow> 's \<Rightarrow> 's res" where
  "manager_fields E mgr [] acc = Inr acc"
| "manager_fields E mgr (entry # entries) acc =
     (case mfFieldsV1 entry of
        None \<Rightarrow> Inl Panicked
      | Some raw \<Rightarrow>
          bind_res (wrapping ''error building managedFields set'' (lift_err (SetFromJSON (sets E) raw))) (\<lambda>s.
          manager_fields E mgr entries (if mfManager entry = mgr then PathSetUnion (smd E) acc s else acc)))"

text \<open>
  \<open>merge_back\<close> is the end of \<open>removeWebhookMutation\<close>: the items removed are removed from the merged
  value before the error of the merge is looked at.
\<close>

definition merge_back ::
  "('o, 'q, 'p, 't, 'v, 's) diff_env \<Rightarrow> 'v \<Rightarrow> 'v option \<Rightarrow> 's option \<Rightarrow> object res" where
  "merge_back E typedLive typedPredicted removed =
     (case MergeTyped (smd E) typedLive typedPredicted of (merged, err) \<Rightarrow>
        bind_res (RemoveItems (smd E) merged removed) (\<lambda>merged'.
        case err of
          Some e \<Rightarrow> Inl (Errored (wrap_err ''error applying predicted live to live state'' e))
        | None \<Rightarrow>
            bind_res (AsUnstructured (smd E) merged') (\<lambda>plu.
            case plu of
              JObject pl \<Rightarrow> Inr pl
            | _ \<Rightarrow> fail ''error converting live typedValue: expected map'')))"

definition removeWebhookMutation ::
  "('o, 'q, 'p, 't, 'v, 's) diff_env \<Rightarrow> object \<Rightarrow> object \<Rightarrow> 'p option \<Rightarrow> string \<Rightarrow> object res" where
  "removeWebhookMutation E predictedLive live parser mgr =
     (let plManagedFields = ManagedFieldsOf (objs E) predictedLive;
          gvk = GVKOf (objs E) predictedLive; S = smd E in
      if length plManagedFields = 0 then
        fail (''predictedLive for resource '' @ KindOf (objs E) predictedLive @ ''/'' @
          NameOf (objs E) predictedLive @ '' must have the managedFields'')
      else
        bind_res (ParserType S parser gvk) (\<lambda>type.
        case type of
          None \<Rightarrow> fail (''unable to resolve parseableType for GroupVersionKind: '' @ ShowGVK S gvk)
        | Some pt \<Rightarrow>
            bind_res (wrapping (''error converting predicted live state from unstructured to '' @ ShowGVK S gvk)
              (lift_err (FromUnstructured S pt predictedLive))) (\<lambda>typedPredictedLive.
            bind_res (wrapping (''error converting live state from unstructured to '' @ ShowGVK S gvk)
              (lift_err (FromUnstructured S pt live))) (\<lambda>typedLive.
            bind_res (manager_fields E mgr plManagedFields (NewPathSet S)) (\<lambda>managerFieldsSet.
            if PathSetEmpty S managerFieldsSet then fail (''no managed fields found for manager: '' @ mgr)
            else
              bind_res (wrapping ''error converting predicted live state to FieldSet''
                (lift_err (ToFieldSet S typedPredictedLive))) (\<lambda>predictedLiveFieldSet.
              let nonArgoFieldsSet = PathSetDifference S predictedLiveFieldSet managerFieldsSet in
              bind_res (wrapping ''error comparing predicted resource to live resource''
                (lift_err (CompareRemoved S typedLive typedPredictedLive))) (\<lambda>removed.
              let removed' = (case removed of
                  Some r \<Rightarrow> if PathSetEmpty S r then Some r else Some (PathSetDifference S r nonArgoFieldsSet)
                | None \<Rightarrow> None) in
              bind_res (RemoveItems S (Some typedPredictedLive)
                (Some (filterOutCompositeKeyFields S nonArgoFieldsSet))) (\<lambda>typedPredictedLive'.
              merge_back E typedLive typedPredictedLive' removed'))))))))"

definition jsonStrToUnstructured :: "json_api \<Rightarrow> string \<Rightarrow> object res" where
  "jsonStrToUnstructured c jsonString = wrapping ''unmarshal error'' (lift_err (UnmarshalMap c jsonString))"

text \<open>Normalize, drop the managed fields and marshal.\<close>

definition normalized_bytes ::
  "('o, 'q, 'p, 't, 'v, 's) diff_env \<Rightarrow> 'p Option list \<Rightarrow> string \<Rightarrow> object \<Rightarrow> string res" where
  "normalized_bytes E opts msg un =
     wrapping msg (lift_err (MarshalUn (codec E)
       (RemoveNestedField (objs E) (Normalize (objs E) (typed E) opts un) [''metadata'', ''managedFields''])))"

definition serverSideDiff ::
  "('o, 'q, 'p, 't, 'v, 's) diff_env \<Rightarrow> 'p Option list \<Rightarrow> object \<Rightarrow> object \<Rightarrow> DiffResult res" where
  "serverSideDiff E opts config live =
     (let o' = applyOptions opts; name = KindOf (objs E) config @ ''/'' @ NameOf (objs E) config in
      case serverSideDryRunner o' of
        None \<Rightarrow> fail ''serverSideDryRunner is null''
      | Some dryRunner \<Rightarrow>
          bind_res (wrapping (''error running server side apply in dryrun mode for resource '' @ name)
            (lift_err (dryRunner config (manager o')))) (\<lambda>predictedLiveStr.
          bind_res (wrapping (''error converting json string to unstructured for resource '' @ name)
            (jsonStrToUnstructured (codec E) predictedLiveStr)) (\<lambda>predictedLive.
          bind_res (if ignoreMutationWebhook o'
              then wrapping (''error removing non config mutations for resource '' @ name)
                (removeWebhookMutation E predictedLive live (gvkParser o') (manager o'))
              else Inr predictedLive) (\<lambda>predictedLive'.
          bind_res (remarshal E predictedLive') (\<lambda>predictedLive''.
          bind_res (normalized_bytes E opts (''error marshaling predicted live for resource '' @ name)
            predictedLive'') (\<lambda>predictedLiveBytes.
          bind_res (normalized_bytes E opts (''error marshaling live resource '' @ name) live) (\<lambda>liveBytes.
          Inr (buildDiffResult predictedLiveBytes liveBytes))))))))"

definition ServerSideDiff ::
  "('o, 'q, 'p, 't, 'v, 's) diff_env \<Rightarrow> 'p Option list \<Rightarrow> object option \<Rightarrow> object option \<Rightarrow> DiffResult res" where
  "ServerSideDiff E opts config live =
     (case (live, config) of
        (Some l, Some c) \<Rightarrow> wrapping ''serverSideDiff error'' (serverSideDiff E opts c l)
      | _ \<Rightarrow> wrapping ''error handling resource creation or deletion''
               (handleResourceCreateOrDeleteDiff (codec E) config live))"

section \<open>Diff\<close>

text \<open>\<open>annotated\<close> is what the sync options read of an object.\<close>

definition annotated :: "object_api \<Rightarrow> object \<Rightarrow> unstructured" where
  "annotated api un =
     blank\<lparr>GetAnnotations := (case AnnotationsOf api un of Some as \<Rightarrow> map_of as | None \<Rightarrow> Map.empty)\<rparr>"

definition last_applied_diff ::
  "('o, 'q, 'p, 't, 'v, 's) diff_env \<Rightarrow> 'p Option list \<Rightarrow> object option \<Rightarrow> object option \<Rightarrow> DiffResult res" where
  "last_applied_diff E opts config live =
     (case GetLastAppliedConfigAnnotation (objs E) (codec E) live of
        Inl Panicked \<Rightarrow> Inl Panicked
      | Inl (Errored _) \<Rightarrow> TwoWayDiff E config live
      | Inr orig \<Rightarrow>
          (case (orig, config, live) of
             (Some og, Some c, Some l) \<Rightarrow>
               (case ThreeWayDiff E (Normalize (objs E) (typed E) opts og) c l of
                  Inl (Errored _) \<Rightarrow> TwoWayDiff E config live
                | r \<Rightarrow> r)
           | _ \<Rightarrow> TwoWayDiff E config live))"

definition Diff ::
  "('o, 'q, 'p, 't, 'v, 's) diff_env \<Rightarrow> 'p Option list \<Rightarrow> object option \<Rightarrow> object option \<Rightarrow> DiffResult res" where
  "Diff E opts config0 live0 =
     (let o' = applyOptions opts;
          preDiffOpts = (if serverSideDiff_opt o' then opts @ [WithSkipFullNormalize True] else opts) in
      bind_res (remarshal_option E preDiffOpts config0) (\<lambda>config.
      bind_res (remarshal_option E preDiffOpts live0) (\<lambda>live.
      if serverSideDiff_opt o' then
        wrapping ''error calculating server side diff'' (ServerSideDiff E opts config live)
      else if structuredMergeDiff_opt o' \<or>
          (case config of None \<Rightarrow> False
           | Some c \<Rightarrow> HasAnnotationOption (annotated (objs E) c) ''argocd.argoproj.io/sync-options'' ''ServerSideApply=true'')
      then
        wrapping ''error calculating structured merge diff''
          (StructuredMergeDiff E config live (gvkParser o') (manager o'))
      else last_applied_diff E opts config live)))"

fun diff_items ::
  "('o, 'q, 'p, 't, 'v, 's) diff_env \<Rightarrow> 'p Option list \<Rightarrow> object option list \<Rightarrow> object option list \<Rightarrow>
     DiffResultList \<Rightarrow> DiffResultList res" where
  "diff_items E opts (config # configs) (live # lives) acc =
     bind_res (Diff E opts config live) (\<lambda>diffRes.
       diff_items E opts configs lives
         (acc\<lparr>Diffs := Diffs acc @ [diffRes], AnyModified := (if Modified diffRes then True else AnyModified acc)\<rparr>))"
| "diff_items E opts _ _ acc = Inr acc"

definition DiffArray ::
  "('o, 'q, 'p, 't, 'v, 's) diff_env \<Rightarrow> 'p Option list \<Rightarrow> object option list \<Rightarrow> object option list \<Rightarrow>
     DiffResultList res" where
  "DiffArray E opts configArray liveArray =
     (if length liveArray \<noteq> length configArray then fail ''left and right arrays have mismatched lengths''
      else diff_items E opts configArray liveArray \<lparr>Diffs = [], AnyModified = False\<rparr>)"

end
