(* ===== verification/DiffProps.thy ===== *)
theory DiffProps
  imports DiffFlow
begin

text \<open>
  Properties of the comparison: what \<open>Diff\<close> answers for a creation and a deletion whatever the strategy,
  when it says that an object is modified, how \<open>DiffArray\<close> composes it, and what the normalizations
  leave.
\<close>

section \<open>Facts\<close>

lemma buildDiffResult_simps [simp]:
  "Modified (buildDiffResult p l) \<longleftrightarrow> l \<noteq> p" "NormalizedLive (buildDiffResult p l) = l"
  "PredictedLive (buildDiffResult p l) = p"
  by (simp_all add: buildDiffResult_def)

text \<open>A result of two objects says modified exactly if the two texts differ.\<close>

definition consistent :: "DiffResult \<Rightarrow> bool" where
  "consistent r \<longleftrightarrow> (Modified r \<longleftrightarrow> NormalizedLive r \<noteq> PredictedLive r)"

lemma consistent_build [simp]: "consistent (buildDiffResult p l)"
  by (simp add: consistent_def)

lemma ThreeWayDiff_consistent: "ThreeWayDiff E orig c l = Inr r \<Longrightarrow> consistent r"
  by (auto simp: ThreeWayDiff_def bind_res_eq_Inr split: option.splits)

lemma structuredMergeDiff_consistent: "structuredMergeDiff E c l p m = Inr r \<Longrightarrow> consistent r"
  by (auto simp: structuredMergeDiff_def Let_def bind_res_eq_Inr split: option.splits)

lemma serverSideDiff_consistent: "serverSideDiff E opts c l = Inr r \<Longrightarrow> consistent r"
  by (auto simp: serverSideDiff_def Let_def bind_res_eq_Inr split: option.splits)

lemma last_applied_diff_consistent: "last_applied_diff E opts (Some c) (Some l) = Inr r \<Longrightarrow> consistent r"
  by (auto simp: last_applied_diff_def TwoWayDiff_def intro: ThreeWayDiff_consistent
      split: sum.splits fault.splits option.splits)

lemma remarshal_option_Some:
  "remarshal_option E opts (Some un) = Inr r \<Longrightarrow> \<exists>un'. r = Some un'"
  by (auto simp: remarshal_option_def bind_res_eq_Inr)

definition pre_options :: "'p Option list \<Rightarrow> 'p Option list" where
  "pre_options opts = (if serverSideDiff_opt (applyOptions opts) then opts @ [WithSkipFullNormalize True] else opts)"

lemma remarshal_option_simps [simp]:
  "remarshal_option E opts None = Inr None"
  "remarshal E un = Inr un' \<Longrightarrow>
     remarshal_option E opts (Some un) = Inr (Some (Normalize (objs E) (typed E) opts un'))"
  by (simp_all add: remarshal_option_def)

lemma GetLastApplied_no_panic [simp]: "GetLastAppliedConfigAnnotation api c live \<noteq> Inl Panicked"
  by (auto simp: GetLastAppliedConfigAnnotation_def split: option.split sum.split)

text \<open>All strategies agree where one of the objects is missing, up to the text of an error.\<close>

lemma last_applied_diff_missing:
  assumes "config = None \<or> live = None"
  shows "last_applied_diff E opts config live = handleResourceCreateOrDeleteDiff (codec E) config live"
proof -
  have two: "TwoWayDiff E None l = handleResourceCreateOrDeleteDiff (codec E) None l"
    "TwoWayDiff E c None = handleResourceCreateOrDeleteDiff (codec E) c None" for c l
    by (simp_all add: TwoWayDiff_def split: option.split)
  show ?thesis
    using assms GetLastApplied_no_panic [of "objs E" "codec E" live]
    by (auto simp: last_applied_diff_def two split: sum.splits fault.splits option.splits)
qed

lemma Diff_missing:
  assumes "remarshal_option E (pre_options opts) config0 = Inr config"
    and "remarshal_option E (pre_options opts) live0 = Inr live" "config = None \<or> live = None"
  obtains f where "Diff E opts config0 live0 = f (handleResourceCreateOrDeleteDiff (codec E) config live)"
    "\<And>x. f (Inr x) = Inr x" "\<And>e. \<exists>e'. f (Inl (Errored e)) = Inl (Errored e')"
proof -
  let ?h = "handleResourceCreateOrDeleteDiff (codec E) config live"
  have ssd: "ServerSideDiff E opts config live = wrapping ''error handling resource creation or deletion'' ?h"
    using assms(3) by (auto simp: ServerSideDiff_def split: option.split)
  have smd: "StructuredMergeDiff E config live p m = ?h" for p m
    using assms(3) by (auto simp: StructuredMergeDiff_def split: option.split)
  have D: "Diff E opts config0 live0 =
      (if serverSideDiff_opt (applyOptions opts) then wrapping ''error calculating server side diff''
         (wrapping ''error handling resource creation or deletion'' ?h)
       else if structuredMergeDiff_opt (applyOptions opts) \<or>
          (case config of None \<Rightarrow> False | Some c \<Rightarrow> HasAnnotationOption (annotated (objs E) c)
             ''argocd.argoproj.io/sync-options'' ''ServerSideApply=true'')
       then wrapping ''error calculating structured merge diff'' ?h else ?h)"
    using assms(1,2) unfolding Diff_def pre_options_def Let_def
    by (simp add: ssd smd last_applied_diff_missing [OF assms(3)])
  show ?thesis
    by (rule that [of "\<lambda>h. if serverSideDiff_opt (applyOptions opts) then wrapping ''error calculating server side diff''
         (wrapping ''error handling resource creation or deletion'' h)
       else if structuredMergeDiff_opt (applyOptions opts) \<or>
          (case config of None \<Rightarrow> False | Some c \<Rightarrow> HasAnnotationOption (annotated (objs E) c)
             ''argocd.argoproj.io/sync-options'' ''ServerSideApply=true'')
       then wrapping ''error calculating structured merge diff'' h else h"]) (simp_all add: D)
qed

section \<open>Properties of Diff\<close>

text \<open>
  Whatever the options (server-side, structured merge or the annotation, three-way): comparing
  nothing with nothing is an error; a configuration without a live object is modified, against the text
  null; a live object without a configuration is not modified, and null is predicted.
\<close>

theorem Diff_create_delete:
  assumes "remarshal E c = Inr c'" "MarshalMap (codec E) (Normalize (objs E) (typed E) (pre_options opts) c') = Inr cs"
    and "remarshal E l = Inr l'" "MarshalUn (codec E) (Normalize (objs E) (typed E) (pre_options opts) l') = Inr ls"
  shows "(\<exists>e. Diff E opts None None = Inl (Errored e)) \<and>
    Diff E opts (Some c) None = Inr \<lparr>Modified = True, NormalizedLive = ''null'', PredictedLive = cs\<rparr> \<and>
    Diff E opts None (Some l) = Inr \<lparr>Modified = False, NormalizedLive = ls, PredictedLive = ''null''\<rparr>"
proof (intro conjI)
  obtain f where "Diff E opts None None = f (handleResourceCreateOrDeleteDiff (codec E) None None)"
    "\<And>e. \<exists>e'. f (Inl (Errored e)) = Inl (Errored e')"
    by (rule Diff_missing [of E opts None None None None]) auto
  then show "\<exists>e. Diff E opts None None = Inl (Errored e)"
    by (simp add: handleResourceCreateOrDeleteDiff_def fail_def)
next
  let ?c = "Some (Normalize (objs E) (typed E) (pre_options opts) c')"
  obtain f where "Diff E opts (Some c) None = f (handleResourceCreateOrDeleteDiff (codec E) ?c None)"
    "\<And>x. f (Inr x) = Inr x"
    by (rule Diff_missing [of E opts "Some c" ?c None None]) (use assms(1) in auto)
  with assms(2) show "Diff E opts (Some c) None = Inr \<lparr>Modified = True, NormalizedLive = ''null'', PredictedLive = cs\<rparr>"
    by (simp add: handleResourceCreateOrDeleteDiff_def)
next
  let ?l = "Some (Normalize (objs E) (typed E) (pre_options opts) l')"
  obtain f where "Diff E opts None (Some l) = f (handleResourceCreateOrDeleteDiff (codec E) None ?l)"
    "\<And>x. f (Inr x) = Inr x"
    by (rule Diff_missing [of E opts None None "Some l" ?l]) (use assms(3) in auto)
  with assms(4) show "Diff E opts None (Some l) = Inr \<lparr>Modified = False, NormalizedLive = ls, PredictedLive = ''null''\<rparr>"
    by (simp add: handleResourceCreateOrDeleteDiff_def)
qed

text \<open>
  Whatever the options, a comparison of two objects that returns says modified exactly if the
  normalized live text differs from the predicted one.
\<close>

theorem Diff_modified_iff:
  assumes "Diff E opts (Some c) (Some l) = Inr r"
  shows "Modified r \<longleftrightarrow> NormalizedLive r \<noteq> PredictedLive r"
proof -
  from assms obtain c' l' where "remarshal_option E (pre_options opts) (Some c) = Inr (Some c')"
    "remarshal_option E (pre_options opts) (Some l) = Inr (Some l')"
    unfolding Diff_def Let_def pre_options_def bind_res_eq_Inr by (metis remarshal_option_Some)
  with assms have "ServerSideDiff E opts (Some c') (Some l') = Inr r \<or>
      StructuredMergeDiff E (Some c') (Some l') (gvkParser (applyOptions opts)) (manager (applyOptions opts)) = Inr r \<or>
      last_applied_diff E opts (Some c') (Some l') = Inr r"
    unfolding Diff_def Let_def pre_options_def by (auto split: if_splits)
  then have "consistent r"
    by (auto simp: ServerSideDiff_def StructuredMergeDiff_def
        intro: serverSideDiff_consistent structuredMergeDiff_consistent last_applied_diff_consistent)
  then show ?thesis by (simp add: consistent_def)
qed

text \<open>A small world for the witnesses: two objects, no registered type, sets of paths as lists.\<close>

definition demo_cfg :: object where
  "demo_cfg = [(''kind'', JString ''Widget''), (''spec'', JString ''a'')]"

definition demo_cur :: object where
  "demo_cur = [(''kind'', JString ''Widget''), (''spec'', JString ''b'')]"

definition flow_codec :: json_api where
  "flow_codec = \<lparr>MarshalUn = (\<lambda>m. Inr (if m = demo_cfg then ''A'' else ''B'')),
     MarshalMap = (\<lambda>m. Inr (if m = demo_cfg then ''A'' else ''B'')),
     UnmarshalUn = (\<lambda>s. Inr (if s = ''A'' then demo_cfg else demo_cur)),
     UnmarshalMap = (\<lambda>s. Inr (if s = ''A'' then demo_cfg else demo_cur))\<rparr>"

abbreviation no_err :: go_error where
  "no_err \<equiv> Err ReasonOther ''not registered''"

definition flow_schemes :: "(object, unit) scheme_api" where
  "flow_schemes = \<lparr>SchemeNew = (\<lambda>_. Inl no_err), DecodeStrict = (\<lambda>_ _. Inl no_err), UnmarshalInto = (\<lambda>_ _. Inl no_err),
     MarshalTyped = (\<lambda>_. Inl no_err), ToUnstructured = (\<lambda>_. Inl no_err), SchemeDefault = (\<lambda>m. m),
     StrategicTwoWay = (\<lambda>_ _ _. Inl no_err), StrategicMergePatch = (\<lambda>_ _ _. Inl no_err),
     NewPatchMetaFromStruct = (\<lambda>_. Inr ()), StrategicThreeWay = (\<lambda>_ _ _ _. Inl no_err),
     JSONMergeThreeWay = (\<lambda>_ modified _. Inr modified), JSONMergePatch = (\<lambda>_ patch. Inr patch)\<rparr>"

definition flow_smd :: "(unit, unit, json, FieldPath list) smd_api" where
  "flow_smd = \<lparr>ParserType = (\<lambda>_ _. Inr None), ParserNames = (\<lambda>_. []), StaticType = None,
     TypeIsValid = (\<lambda>_. False), DeducedType = (), FromUnstructured = (\<lambda>_ m. Inr (JObject m)),
     AsUnstructured = (\<lambda>v. case v of Some j \<Rightarrow> Inr j | None \<Rightarrow> Inl Panicked), ToFieldSet = (\<lambda>_. Inr []),
     CompareRemoved = (\<lambda>_ _. Inr None), MergeTyped = (\<lambda>_ v. (v, None)),
     RemoveItems = (\<lambda>v _. case v of Some j \<Rightarrow> Inr (Some j) | None \<Rightarrow> Inl Panicked),
     UpdaterApply = (\<lambda>_ _ _ _ _ _ _. Inr None), NewPathSet = [], PathSetEmpty = (\<lambda>s. s = []),
     PathSetUnion = (@), PathSetDifference = (\<lambda>a b. filter (\<lambda>p. \<not> List.member b p) a),
     PathSetPaths = (\<lambda>s. s), PathSetInsert = (\<lambda>p s. s @ [p]), ShowGVK = gvkKind\<rparr>"

definition flow_env :: "(object, unit, unit, unit, json, FieldPath list) diff_env" where
  "flow_env = \<lparr>objs = go_api, typed = \<lparr>SecretFromUnstructured = (\<lambda>_. Inl no_err),
       SecretToUnstructured = (\<lambda>_. Inl no_err),
       EndpointsFromUnstructured = (\<lambda>_. Inl no_err),
       EndpointsToUnstructured = (\<lambda>_. Inl no_err), hashPort = Protocol,
       hashSubset = (\<lambda>ss. concat (map IP (Addresses ss)))\<rparr>,
     codec = flow_codec, schemes = flow_schemes, smd = flow_smd,
     sets = \<lparr>SetToJSON = (\<lambda>_. Inr ''{}''), SetFromJSON = (\<lambda>_. Inr []), EmptyFields = ''{}'',
       MarshalEntry = (\<lambda>e. Inr (mfManager e)), UnmarshalEntry = (\<lambda>_. Inl no_err),
       ShowEntry = mfManager\<rparr>,
     gvkNames = None\<rparr>"

theorem Diff_create_delete_witness:
  "(\<exists>e. Diff flow_env [WithStructuredMergeDiff True] None None = Inl (Errored e)) \<and>
   Diff flow_env [WithStructuredMergeDiff True] (Some demo_cfg) None =
     Inr \<lparr>Modified = True, NormalizedLive = ''null'', PredictedLive = ''A''\<rparr> \<and>
   Diff flow_env [WithStructuredMergeDiff True] None (Some demo_cur) =
     Inr \<lparr>Modified = False, NormalizedLive = ''B'', PredictedLive = ''null''\<rparr>"
  by (rule Diff_create_delete [where c' = demo_cfg and l' = demo_cur]) code_simp+

theorem Diff_modified_iff_witness:
  "Modified \<lparr>Modified = True, NormalizedLive = ''B'', PredictedLive = ''A''\<rparr> \<longleftrightarrow>
    NormalizedLive \<lparr>Modified = True, NormalizedLive = ''B'', PredictedLive = ''A''\<rparr> \<noteq>
    PredictedLive \<lparr>Modified = True, NormalizedLive = ''B'', PredictedLive = ''A''\<rparr>"
  by (rule Diff_modified_iff [where E = flow_env and opts = "[]" and c = demo_cfg and l = demo_cur]) code_simp

lemma diff_items_iff:
  "length ls = length cs \<Longrightarrow> diff_items E opts cs ls acc = Inr r \<longleftrightarrow>
     (\<exists>ds. list_all2 (\<lambda>(c, l) d. Diff E opts c l = Inr d) (zip cs ls) ds \<and> Diffs r = Diffs acc @ ds \<and>
        AnyModified r = (AnyModified acc \<or> list_ex Modified ds))"
proof (induction cs arbitrary: ls acc)
  case Nil
  then show ?case by auto
next
  case (Cons c cs)
  then obtain l ls' where ls: "ls = l # ls'" "length ls' = length cs" by (cases ls) auto
  show ?case
    by (auto simp: ls(1) bind_res_eq_Inr Cons.IH [OF ls(2)] list_all2_Cons1)
qed

text \<open>
  \<open>DiffArray\<close> returns a list of results exactly if the two arrays have the same length and every
  pair compares without an error; then it holds their results in order, and is modified if one is.
\<close>

theorem DiffArray_spec:
  "DiffArray E opts cs ls = Inr r \<longleftrightarrow>
     length ls = length cs \<and> list_all2 (\<lambda>(c, l) d. Diff E opts c l = Inr d) (zip cs ls) (Diffs r) \<and>
     AnyModified r = list_ex Modified (Diffs r)"
  by (simp add: DiffArray_def diff_items_iff)

section \<open>Composite keys\<close>

lemma composite_scan_iff:
  "composite_scan name path \<longleftrightarrow>
     (\<exists>pe\<in>set path. \<exists>key. KeyFields pe = Some key \<and> 1 < length key \<and> name \<in> fst ` set key)"
proof (induction path)
  case (Cons pe path)
  have "list_ex (\<lambda>(n, _). n = name) key \<longleftrightarrow> name \<in> fst ` set key" for key :: "(string \<times> json) list"
    by (force simp: list_ex_iff)
  with Cons show ?case by (auto split: option.split)
qed simp

lemma isCompositeKeyField_iff:
  "isCompositeKeyField path \<longleftrightarrow>
     (\<exists>front pe name key. path = front @ [pe] \<and> FieldName pe = Some name \<and>
        (\<exists>pe'\<in>set front. KeyFields pe' = Some key \<and> 1 < length key \<and> name \<in> fst ` set key))"
  by (cases path rule: rev_cases) (auto simp: isCompositeKeyField_def composite_scan_iff split: option.split)

lemma filterOut_foldl:
  assumes "\<And>p s. set (PathSetPaths S (PathSetInsert S p s)) = insert p (set (PathSetPaths S s))"
  shows "set (PathSetPaths S (foldl (\<lambda>f p. if isCompositeKeyField p then f else PathSetInsert S p f) s ps)) =
    set (PathSetPaths S s) \<union> {p \<in> set ps. \<not> isCompositeKeyField p}"
  by (induction ps arbitrary: s) (auto simp: assms)

text \<open>
  The fields that are taken from the prediction because another manager owns them are all those of
  the set but the ones whose name is in a key of several fields that selects a list item above them, so
  no key of an item is taken away.
\<close>

theorem filterOutCompositeKeyFields_spec:
  assumes "PathSetPaths S (NewPathSet S) = []"
    and "\<And>p s. set (PathSetPaths S (PathSetInsert S p s)) = insert p (set (PathSetPaths S s))"
  shows "path \<in> set (PathSetPaths S (filterOutCompositeKeyFields S s)) \<longleftrightarrow>
    path \<in> set (PathSetPaths S s) \<and>
    \<not> (\<exists>front pe name key. path = front @ [pe] \<and> FieldName pe = Some name \<and>
        (\<exists>pe'\<in>set front. KeyFields pe' = Some key \<and> 1 < length key \<and> name \<in> fst ` set key))"
  unfolding isCompositeKeyField_iff [symmetric]
  using filterOut_foldl [OF assms(2), of "NewPathSet S" "PathSetPaths S s"] assms(1)
  by (simp add: filterOutCompositeKeyFields_def)

definition demo_port :: PathElement where
  "demo_port = \<lparr>FieldName = None, KeyFields = Some [(''containerPort'', JInt 80), (''protocol'', JString ''TCP'')]\<rparr>"

theorem filterOutCompositeKeyFields_spec_witness:
  "[demo_port, \<lparr>FieldName = Some ''protocol'', KeyFields = None\<rparr>] \<in>
     set (PathSetPaths flow_smd (filterOutCompositeKeyFields flow_smd
       [[demo_port, \<lparr>FieldName = Some ''protocol'', KeyFields = None\<rparr>],
        [demo_port, \<lparr>FieldName = Some ''hostPort'', KeyFields = None\<rparr>]])) \<longleftrightarrow>
   [demo_port, \<lparr>FieldName = Some ''protocol'', KeyFields = None\<rparr>] \<in>
     set (PathSetPaths flow_smd [[demo_port, \<lparr>FieldName = Some ''protocol'', KeyFields = None\<rparr>],
        [demo_port, \<lparr>FieldName = Some ''hostPort'', KeyFields = None\<rparr>]]) \<and>
   \<not> (\<exists>front pe name key. [demo_port, \<lparr>FieldName = Some ''protocol'', KeyFields = None\<rparr>] = front @ [pe] \<and>
        FieldName pe = Some name \<and>
        (\<exists>pe'\<in>set front. KeyFields pe' = Some key \<and> 1 < length key \<and> name \<in> fst ` set key))"
  by (rule filterOutCompositeKeyFields_spec) (simp_all add: flow_smd_def)

end
