(* ===== verification/DiffNormal.thy ===== *)
theory DiffNormal
  imports DiffProps
begin

text \<open>
  Properties of the normalizations: endpoints in any order come out the same, the string data of a
  Secret moves into its data, and the removal of defaulted fields.
\<close>

section \<open>Endpoints\<close>

definition target_rank :: "EndpointAddress \<Rightarrow> int" where
  "target_rank a = (if TargetRefUID a = None then 0 else 1)"

definition target_uid :: "EndpointAddress \<Rightarrow> string" where
  "target_uid a = (case TargetRefUID a of Some u \<Rightarrow> u | None \<Rightarrow> '''')"

lemma LessEndpointAddress_lex:
  "LessEndpointAddress = (\<lambda>a b. if IP a \<noteq> IP b then str_less (IP a) (IP b)
     else if target_rank a \<noteq> target_rank b then target_rank a < target_rank b
     else str_less (target_uid a) (target_uid b))"
  by (auto simp: fun_eq_iff LessEndpointAddress_def target_rank_def target_uid_def split: option.split)

lemma LessEndpointAddress_weak: "strict_weak_on LessEndpointAddress A"
  unfolding LessEndpointAddress_lex
  by (intro strict_weak_lex strict_weak_by [where f = target_uid] strict_total_str_less strict_total_less)

lemma LessEndpointAddress_apart:
  assumes "\<not> LessEndpointAddress a b" "\<not> LessEndpointAddress b a"
  shows "IP a = IP b \<and> TargetRefUID a = TargetRefUID b"
proof -
  have ip: "IP a = IP b"
    using assms str_less_linear [of "IP a" "IP b"] unfolding LessEndpointAddress_def
    by (cases "IP a = IP b") simp_all
  moreover have "TargetRefUID a = TargetRefUID b"
  proof (cases "TargetRefUID a"; cases "TargetRefUID b")
    fix u w assume "TargetRefUID a = Some u" "TargetRefUID b = Some w"
    with assms ip str_less_linear [of u w] show ?thesis by (auto simp: LessEndpointAddress_def)
  qed (use assms ip in \<open>simp_all add: LessEndpointAddress_def\<close>)
  ultimately show ?thesis ..
qed

lemma sort_addresses_unique:
  assumes "mset xs = mset ys" "inj_on (\<lambda>a. (IP a, TargetRefUID a)) (set xs)"
  shows "sort_Sort LessEndpointAddress xs = sort_Sort LessEndpointAddress ys"
proof (rule gosort.srt_unique [OF LessEndpointAddress_weak assms(1)])
  fix a b assume ab: "a \<in> set xs" "b \<in> set xs" "\<not> LessEndpointAddress a b" "\<not> LessEndpointAddress b a"
  from LessEndpointAddress_apart [OF ab(3,4)] have "(IP a, TargetRefUID a) = (IP b, TargetRefUID b)" by simp
  then show "a = b" using inj_onD [OF assms(2)] ab(1,2) by blast
qed

lemma sort_by_hash_unique:
  assumes "mset xs = mset ys" "inj_on h (set xs)"
  shows "sort_Sort (\<lambda>a b. str_less (h a) (h b)) xs = sort_Sort (\<lambda>a b. str_less (h a) (h b)) ys"
proof (rule gosort.srt_unique [OF strict_weak_by [OF strict_total_str_less] assms(1)])
  fix x y assume "x \<in> set xs" "y \<in> set xs" "\<not> str_less (h x) (h y)" "\<not> str_less (h y) (h x)"
  with str_less_linear [of "h x" "h y"] have "h x = h y" by blast
  with assms(2) \<open>x \<in> set xs\<close> \<open>y \<in> set xs\<close> show "x = y" by (auto dest: inj_onD)
qed

definition same_subset :: "EndpointSubset \<Rightarrow> EndpointSubset \<Rightarrow> bool" where
  "same_subset a b \<longleftrightarrow> mset (Addresses a) = mset (Addresses b) \<and>
     mset (NotReadyAddresses a) = mset (NotReadyAddresses b) \<and> mset (Ports a) = mset (Ports b)"

text \<open>Addresses are told apart by IP and target, ports by their digest.\<close>

definition orderable :: "typed_api \<Rightarrow> EndpointSubset \<Rightarrow> bool" where
  "orderable conv ss \<longleftrightarrow>
     inj_on (\<lambda>a. (IP a, TargetRefUID a)) (set (Addresses ss)) \<and>
     inj_on (\<lambda>a. (IP a, TargetRefUID a)) (set (NotReadyAddresses ss)) \<and>
     inj_on (hashPort conv) (set (Ports ss))"

lemma sort_subset_same: "same_subset a b \<Longrightarrow> orderable conv a \<Longrightarrow> sort_subset conv a = sort_subset conv b"
  unfolding same_subset_def orderable_def sort_subset_def
  by (simp add: sort_addresses_unique [of "Addresses a"] sort_addresses_unique [of "NotReadyAddresses a"]
      sort_by_hash_unique [of "Ports a"])

lemma default_protocol_same: "same_subset a b \<Longrightarrow> same_subset (default_protocol a) (default_protocol b)"
  by (simp add: same_subset_def default_protocol_def)

lemma SortSubsets_same:
  assumes "list_all2 same_subset xs ys" "mset ys = mset zs" "list_all (orderable conv) xs"
    and "inj_on (hashSubset conv) (sort_subset conv ` set xs)"
  shows "SortSubsets conv xs = SortSubsets conv zs"
proof -
  have eq: "map (sort_subset conv) xs = map (sort_subset conv) ys"
    using assms(1,3) by (auto simp: list_all2_conv_all_nth list_all_length intro!: nth_equalityI sort_subset_same)
  moreover have "mset (map (sort_subset conv) ys) = mset (map (sort_subset conv) zs)"
    using assms(2) by simp
  ultimately have "mset (map (sort_subset conv) xs) = mset (map (sort_subset conv) zs)" by simp
  then show ?thesis
    unfolding SortSubsets_def by (rule sort_by_hash_unique) (use assms(4) in auto)
qed

text \<open>
  C30. Two Endpoints whose subsets, addresses and ports are the same up to order are normalized to the
  same object, if addresses differ in IP or target and the digests of ports and of subsets differ.
\<close>

theorem normalizeEndpoint_canonical:
  assumes "GVKOf api un = \<lparr>gvkGroup = '''', gvkVersion = v, gvkKind = ''Endpoints''\<rparr>"
    and "GVKOf api un' = GVKOf api un"
    and "EndpointsFromUnstructured conv un = Inr ep" "EndpointsFromUnstructured conv un' = Inr ep'"
    and "EndpointsRest ep = EndpointsRest ep'"
    and "list_all2 same_subset (Subsets ep) ys" "mset ys = mset (Subsets ep')"
    and "list_all (orderable conv) (map default_protocol (Subsets ep))"
    and "inj_on (hashSubset conv) (sort_subset conv ` default_protocol ` set (Subsets ep))"
    and "\<And>e. \<exists>obj. EndpointsToUnstructured conv e = Inr obj"
  shows "normalizeEndpoint api conv un = normalizeEndpoint api conv un'"
proof -
  have "SortSubsets conv (map default_protocol (Subsets ep)) = SortSubsets conv (map default_protocol (Subsets ep'))"
  proof (rule SortSubsets_same)
    show "list_all2 same_subset (map default_protocol (Subsets ep)) (map default_protocol ys)"
      using assms(6) by (auto simp: list_all2_conv_all_nth default_protocol_same)
    show "mset (map default_protocol ys) = mset (map default_protocol (Subsets ep'))"
      using assms(7) by simp
  qed (use assms(8,9) in auto)
  then have "ep\<lparr>Subsets := SortSubsets conv (map default_protocol (Subsets ep))\<rparr> =
      ep'\<lparr>Subsets := SortSubsets conv (map default_protocol (Subsets ep'))\<rparr>"
    using assms(5) by (intro Endpoints.equality) auto
  moreover obtain obj where "EndpointsToUnstructured conv (ep\<lparr>Subsets := SortSubsets conv
      (map default_protocol (Subsets ep))\<rparr>) = Inr obj" using assms(10) by blast
  ultimately show ?thesis using assms(1-4) by (simp add: normalizeEndpoint_def)
qed

text \<open>Two Endpoints with two addresses each, in the two orders.\<close>

definition demo_address :: "string \<Rightarrow> EndpointAddress" where
  "demo_address ip = \<lparr>IP = ip, TargetRefUID = None, AddressRest = JNull\<rparr>"

definition demo_ep :: "string list \<Rightarrow> Endpoints" where
  "demo_ep ips = \<lparr>Subsets = [\<lparr>Addresses = map demo_address ips, NotReadyAddresses = [], Ports = []\<rparr>],
     EndpointsRest = JNull\<rparr>"

definition demo_ep_obj :: "string \<Rightarrow> object" where
  "demo_ep_obj n = [(''apiVersion'', JString ''v1''), (''kind'', JString ''Endpoints''), (''name'', JString n)]"

definition demo_ep_typed :: typed_api where
  "demo_ep_typed = \<lparr>SecretFromUnstructured = (\<lambda>_. Inl no_err), SecretToUnstructured = (\<lambda>_. Inl no_err),
     EndpointsFromUnstructured = (\<lambda>obj. Inr (demo_ep (if string_field obj ''name'' = ''x''
        then [''10.0.0.1'', ''10.0.0.2''] else [''10.0.0.2'', ''10.0.0.1'']))),
     EndpointsToUnstructured = (\<lambda>ep. Inr [(''ips'', JArray (map (JString \<circ> IP) (concat (map Addresses (Subsets ep)))))]),
     hashPort = Protocol, hashSubset = (\<lambda>ss. concat (map IP (Addresses ss)))\<rparr>"

theorem normalizeEndpoint_canonical_witness:
  "normalizeEndpoint go_api demo_ep_typed (demo_ep_obj ''x'') = normalizeEndpoint go_api demo_ep_typed (demo_ep_obj ''y'')"
proof (rule normalizeEndpoint_canonical [where v = "''v1''"
      and ep = "demo_ep [''10.0.0.1'', ''10.0.0.2'']" and ep' = "demo_ep [''10.0.0.2'', ''10.0.0.1'']"
      and ys = "Subsets (demo_ep [''10.0.0.2'', ''10.0.0.1''])"])
  show "list_all2 same_subset (Subsets (demo_ep [''10.0.0.1'', ''10.0.0.2'']))
      (Subsets (demo_ep [''10.0.0.2'', ''10.0.0.1'']))"
    by (simp add: demo_ep_def same_subset_def add_mset_commute)
  show "list_all (orderable demo_ep_typed) (map default_protocol (Subsets (demo_ep [''10.0.0.1'', ''10.0.0.2''])))"
    by (simp add: demo_ep_def orderable_def default_protocol_def demo_address_def)
  show "inj_on (hashSubset demo_ep_typed) (sort_subset demo_ep_typed ` default_protocol `
      set (Subsets (demo_ep [''10.0.0.1'', ''10.0.0.2''])))"
    by (simp add: demo_ep_def)
  show "\<exists>obj. EndpointsToUnstructured demo_ep_typed e = Inr obj" for e
    by (simp add: demo_ep_typed_def)
qed (rule refl | code_simp)+

section \<open>Secrets\<close>

lemma map_of_foldl_put:
  "map_of (foldl (\<lambda>m (k, v). map_put k (f v) m) m0 sd) k =
     (case map_of (rev sd) k of Some v \<Rightarrow> Some (f v) | None \<Rightarrow> map_of m0 k)"
  by (induction sd arbitrary: m0) (auto simp: map_add_def split: option.splits)

context object_fields
begin

lemma move_stringData_result:
  assumes "NestedMap api un [''stringData''] = Inr (Some sd)"
    and "\<And>m. \<exists>un'. SetNestedField api un (JObject m) [''data''] = Inr un'"
  shows "map_of (move_stringData api un) ''stringData'' = None"
    and "map_of (data_of api [''data''] (move_stringData api un)) k =
      (case map_of (rev sd) k of
         Some (JString s) \<Rightarrow> Some (JString (EncodeToString s))
       | Some v \<Rightarrow> Some v
       | None \<Rightarrow> map_of (data_of api [''data''] un) k)"
proof -
  let ?enc = "\<lambda>v. case v of JString s \<Rightarrow> JString (EncodeToString s) | _ \<Rightarrow> v"
  let ?d = "foldl (\<lambda>m (k, v). map_put k (?enc v) m) (data_of api [''data''] un) sd"
  have data: "(case NestedMap api un [''data''] of Inr (Some m) \<Rightarrow> m | _ \<Rightarrow> []) = data_of api [''data''] un"
    by (simp add: data_of_def)
  from assms(2) obtain un' where set: "SetNestedField api un (JObject ?d) [''data''] = Inr un'" by blast
  then have mv: "move_stringData api un = map_del ''stringData'' un'"
    using assms(1) by (simp add: move_stringData_def data Let_def)
  then show "map_of (move_stringData api un) ''stringData'' = None" by simp
  have "NestedMap api (map_del ''stringData'' un') [''data''] = NestedMap api un' [''data'']"
    by (rule first_field) simp
  then have "data_of api [''data''] (move_stringData api un) = ?d"
    using set_get [OF set] by (simp add: mv data_of_def)
  then show "map_of (data_of api [''data''] (move_stringData api un)) k =
      (case map_of (rev sd) k of
         Some (JString s) \<Rightarrow> Some (JString (EncodeToString s))
       | Some v \<Rightarrow> Some v
       | None \<Rightarrow> map_of (data_of api [''data''] un) k)"
    by (simp add: map_of_foldl_put split: option.split json.split)
qed

end

text \<open>
  Normalizing a Secret moves every entry of \<open>stringData\<close> into \<open>data\<close>: the field is gone, an entry that
  is a string is there in base64, any other as it is, and entries of \<open>data\<close> under other keys stay.
\<close>

theorem stringData_moved:
  assumes "object_fields api" "NestedMap api un [''stringData''] = Inr (Some stringData)"
    and "map_wf stringData" "\<And>m. \<exists>un'. SetNestedField api un (JObject m) [''data''] = Inr un'"
  shows "map_of (move_stringData api un) ''stringData'' = None \<and>
    map_of (data_of api [''data''] (move_stringData api un)) k =
      (case map_of stringData k of
         Some (JString s) \<Rightarrow> Some (JString (EncodeToString s))
       | Some v \<Rightarrow> Some v
       | None \<Rightarrow> map_of (data_of api [''data''] un) k)"
proof -
  have "map_of (rev stringData) = map_of stringData"
    using assms(3) by (subst map_of_inject_set) (auto simp: map_wf_def rev_map [symmetric])
  with object_fields.move_stringData_result [OF assms(1,2,4)] show ?thesis by auto
qed

theorem stringData_moved_witness:
  "map_of (move_stringData go_api [(''data'', JObject [(''a'', JString ''YQ==''), (''b'', JNull)]),
      (''stringData'', JObject [(''a'', JString ''hello'')])]) ''stringData'' = None \<and>
   map_of (data_of go_api [''data''] (move_stringData go_api
      [(''data'', JObject [(''a'', JString ''YQ==''), (''b'', JNull)]),
       (''stringData'', JObject [(''a'', JString ''hello'')])])) ''a'' =
     (case map_of [(''a'', JString ''hello'')] ''a'' of
        Some (JString s) \<Rightarrow> Some (JString (EncodeToString s))
      | Some v \<Rightarrow> Some v
      | None \<Rightarrow> map_of (data_of go_api [''data''] [(''data'', JObject [(''a'', JString ''YQ==''), (''b'', JNull)]),
       (''stringData'', JObject [(''a'', JString ''hello'')])]) ''a'')"
  by (rule stringData_moved [OF go.object_fields_axioms]) (code_simp, code_simp, simp add: go_api_def)

section \<open>Removal of defaulted fields\<close>

text \<open>
  \<open>RemoveMapFields\<close> keeps exactly the fields of the live object that no map of the configuration
  lacks: along a path of field names the result has a value exactly if the live object has one and the
  configuration does not stop at a map without the next field; below fields that the configuration has
  the value is the live one with the removal applied, elsewhere the live one; doing it twice changes
  nothing more.
\<close>

theorem RemoveMapFields_spec:
  assumes "object_wf config"
  shows "at (JObject (RemoveMapFields config live)) path =
      (case at (JObject live) path of
         None \<Rightarrow> None
       | Some v \<Rightarrow> if cut (JObject config) path then None
           else Some (case at (JObject config) path of None \<Rightarrow> v | Some d \<Rightarrow> removeFields d v)) \<and>
    RemoveMapFields config (RemoveMapFields config live) = RemoveMapFields config live"
  using removeFields_at [OF assms, of "JObject live" path] RemoveMapFields_idem [OF assms] by simp

theorem RemoveMapFields_spec_witness:
  "at (JObject (RemoveMapFields [(''spec'', JObject [(''a'', JInt 1)])]
      [(''spec'', JObject [(''a'', JInt 2), (''b'', JInt 3)]), (''status'', JNull)])) [''spec'', ''a''] =
    (case at (JObject [(''spec'', JObject [(''a'', JInt 2), (''b'', JInt 3)]), (''status'', JNull)]) [''spec'', ''a''] of
       None \<Rightarrow> None
     | Some v \<Rightarrow> if cut (JObject [(''spec'', JObject [(''a'', JInt 1)])]) [''spec'', ''a''] then None
         else Some (case at (JObject [(''spec'', JObject [(''a'', JInt 1)])]) [''spec'', ''a''] of
           None \<Rightarrow> v | Some d \<Rightarrow> removeFields d v)) \<and>
   RemoveMapFields [(''spec'', JObject [(''a'', JInt 1)])] (RemoveMapFields [(''spec'', JObject [(''a'', JInt 1)])]
      [(''spec'', JObject [(''a'', JInt 2), (''b'', JInt 3)]), (''status'', JNull)]) =
    RemoveMapFields [(''spec'', JObject [(''a'', JInt 1)])]
      [(''spec'', JObject [(''a'', JInt 2), (''b'', JInt 3)]), (''status'', JNull)]"
  by (rule RemoveMapFields_spec) (simp add: map_wf_def)



section \<open>An error that is read too late\<close>

text \<open>
  When the merge of the filtered prediction into the live object fails, its result is nil, and the
  removal of items runs on it before the error is read; if that dereferences the nil pointer, the error
  never comes back.
\<close>

lemma merge_error_panics:
  assumes "MergeTyped (smd E) typedLive typedPredicted = (None, Some e)"
    and "RemoveItems (smd E) None removed = Inl Panicked"
  shows "merge_back E typedLive typedPredicted removed = Inl Panicked"
  using assms by (simp add: merge_back_def)

end
