(* ===== verification/KubeConfig.thy ===== *)
theory KubeConfig
  imports KubeTypes
begin

text \<open>
  Temporary files (\<open>pkg/utils/io/io.go\<close>) and the kubeconfig that is written for kubectl
  (\<open>NewKubeConfig\<close>, \<open>newAuthInfo\<close> and \<open>WriteKubeConfig\<close> of \<open>pkg/utils/kube/kube.go\<close>).

  The file system is the list of the temporary files that exist, with their contents. What the operating
  system answers (the name of a new file, whether a write or a removal works) is the record \<open>os_api\<close>.
\<close>

section \<open>Temporary files\<close>

type_synonym files = "(string \<times> string) list"

text \<open>
  \<open>os_CreateTemp\<close> answers with the name of the file that it has created; such a name is new, as the
  documentation of \<open>os.CreateTemp\<close> says. A write that fails may have written a part, \<open>os_Partial\<close>.
\<close>

record os_api =
  os_StatDir :: "string \<Rightarrow> go_error + bool"
  os_CreateTemp :: "string \<Rightarrow> files \<Rightarrow> go_error + string"
  os_Write :: "string \<Rightarrow> string \<Rightarrow> go_error option"
  os_Partial :: "string \<Rightarrow> string \<Rightarrow> string"
  os_Close :: "string \<Rightarrow> go_error option"
  os_Remove :: "string \<Rightarrow> bool"

definition temp_fresh :: "os_api \<Rightarrow> bool" where
  "temp_fresh os \<longleftrightarrow> (\<forall>dir fs f. os_CreateTemp os dir fs = Inr f \<longrightarrow> map_of fs f = None)"

definition TempDir :: "os_api \<Rightarrow> string" where
  "TempDir os = (case os_StatDir os ''/dev/shm'' of
     Inr True \<Rightarrow> ''/dev/shm'' | _ \<Rightarrow> '''')"

definition CreateTemp :: "os_api \<Rightarrow> files \<Rightarrow> (go_error + string) \<times> files" where
  "CreateTemp os fs =
     (case os_CreateTemp os (TempDir os) fs of
        Inl e \<Rightarrow> (Inl e, fs)
      | Inr f \<Rightarrow> (Inr f, map_put f '''' fs))"

definition WriteFile :: "os_api \<Rightarrow> string \<Rightarrow> string \<Rightarrow> files \<Rightarrow> go_error option \<times> files" where
  "WriteFile os f content fs =
     (case os_Write os f content of
        None \<Rightarrow> (None, map_put f content fs)
      | Some e \<Rightarrow> (Some e, map_put f (os_Partial os f content) fs))"

definition DeleteFile :: "os_api \<Rightarrow> string \<Rightarrow> files \<Rightarrow> files" where
  "DeleteFile os path fs =
     (if map_of fs path = None then fs else if os_Remove os path then map_del path fs else fs)"

lemma map_del_put_new: "map_of m k = None \<Longrightarrow> map_del k (map_put k v m) = m"
  by (force simp: map_put_new map_del_def filter_id_conv map_of_eq_None_iff)

lemma map_put_put: "map_put k v (map_put k w m) = map_put k v m"
  by (induction m) auto

lemma DeleteFile_created:
  assumes "map_of fs f = None" "os_Remove os f"
  shows "DeleteFile os f (map_put f content fs) = fs"
  using assms by (simp add: DeleteFile_def map_del_put_new)

section \<open>Kubeconfig\<close>

text \<open>
  \<open>rest.Config\<close>, as far as the engine reads it; \<open>rc_Proxy\<close> is what the proxy function answers for no
  request. \<open>rc_BearerTokenFile\<close> is a field of it that the engine does not read.
\<close>

record rest_config =
  rc_Host :: string
  rc_ServerName :: string
  rc_Insecure :: bool
  rc_CAFile :: string
  rc_CAData :: string
  rc_CertFile :: string
  rc_CertData :: string
  rc_KeyFile :: string
  rc_KeyData :: string
  rc_Username :: string
  rc_Password :: string
  rc_BearerToken :: string
  rc_BearerTokenFile :: string
  rc_ExecProvider :: "string option"
  rc_Proxy :: "(go_error + string) option"
  rc_Burst :: int
  rc_QPS :: int
  rc_ImpersonateUser :: string
  rc_ImpersonateUID :: string
  rc_ImpersonateGroups :: "string list"

record AuthInfo =
  ClientCertificate :: string
  ClientCertificateData :: string
  ClientKey :: string
  ClientKeyData :: string
  Username :: string
  Password :: string
  Token :: string
  TokenFile :: string
  Exec :: "string option"

record kube_Cluster =
  Server :: string
  TLSServerName :: string
  InsecureSkipTLSVerify :: bool
  CertificateAuthority :: string
  CertificateAuthorityData :: string
  ProxyURL :: string

record kube_Context =
  ctxCluster :: string
  ctxAuthInfo :: string
  ctxNamespace :: string

record kube_Config =
  CurrentContext :: string
  Contexts :: "(string \<times> kube_Context) list"
  Clusters :: "(string \<times> kube_Cluster) list"
  AuthInfos :: "(string \<times> AuthInfo) list"

text \<open>One of the ifs of \<open>newAuthInfo\<close>: a credential that is there is copied, and remembered.\<close>

definition credential :: "bool \<Rightarrow> (AuthInfo \<Rightarrow> AuthInfo) \<Rightarrow> AuthInfo \<times> bool \<Rightarrow> AuthInfo \<times> bool" where
  "credential present assign s = (if present then (assign (fst s), True) else s)"

definition in_cluster_token :: string where
  "in_cluster_token = ''/var/run/secrets/kubernetes.io/serviceaccount/token''"

definition newAuthInfo :: "rest_config \<Rightarrow> AuthInfo" where
  "newAuthInfo r =
     (let s0 = (\<lparr>ClientCertificate = '''', ClientCertificateData = '''', ClientKey = '''', ClientKeyData = '''',
                  Username = '''', Password = '''', Token = '''', TokenFile = '''', Exec = None\<rparr>, False);
          s1 = credential (rc_CertFile r \<noteq> '''') (\<lambda>a. a\<lparr>ClientCertificate := rc_CertFile r\<rparr>) s0;
          s2 = credential (length (rc_CertData r) > 0) (\<lambda>a. a\<lparr>ClientCertificateData := rc_CertData r\<rparr>) s1;
          s3 = credential (rc_KeyFile r \<noteq> '''') (\<lambda>a. a\<lparr>ClientKey := rc_KeyFile r\<rparr>) s2;
          s4 = credential (length (rc_KeyData r) > 0) (\<lambda>a. a\<lparr>ClientKeyData := rc_KeyData r\<rparr>) s3;
          s5 = credential (rc_Username r \<noteq> '''') (\<lambda>a. a\<lparr>Username := rc_Username r\<rparr>) s4;
          s6 = credential (rc_Password r \<noteq> '''') (\<lambda>a. a\<lparr>Password := rc_Password r\<rparr>) s5;
          s7 = credential (rc_BearerToken r \<noteq> '''') (\<lambda>a. a\<lparr>Token := rc_BearerToken r\<rparr>) s6;
          (authInfo, haveCredentials) =
            credential (rc_ExecProvider r \<noteq> None) (\<lambda>a. a\<lparr>Exec := rc_ExecProvider r\<rparr>) s7
      in if rc_ExecProvider r = None \<and> \<not> haveCredentials
         then authInfo\<lparr>TokenFile := in_cluster_token\<rparr> else authInfo)"

definition NewKubeConfig :: "rest_config \<Rightarrow> string \<Rightarrow> kube_Config" where
  "NewKubeConfig r namespace =
     \<lparr>CurrentContext = rc_Host r,
      Contexts = [(rc_Host r, \<lparr>ctxCluster = rc_Host r, ctxAuthInfo = rc_Host r, ctxNamespace = namespace\<rparr>)],
      Clusters = [(rc_Host r, \<lparr>Server = rc_Host r, TLSServerName = rc_ServerName r,
         InsecureSkipTLSVerify = rc_Insecure r, CertificateAuthority = rc_CAFile r,
         CertificateAuthorityData = rc_CAData r,
         ProxyURL = (case rc_Proxy r of Some (Inr u) \<Rightarrow> u | _ \<Rightarrow> '''')\<rparr>)],
      AuthInfos = [(rc_Host r, newAuthInfo r)]\<rparr>"

text \<open>\<open>clientcmd.WriteToFile\<close>: the encoder of the library, then a write.\<close>

definition WriteKubeConfig ::
  "os_api \<Rightarrow> (kube_Config \<Rightarrow> go_error + string) \<Rightarrow> rest_config \<Rightarrow> string \<Rightarrow> string \<Rightarrow> files \<Rightarrow>
     go_error option \<times> files" where
  "WriteKubeConfig os encode restConfig namespace filename fs =
     (case encode (NewKubeConfig restConfig namespace) of
        Inl e \<Rightarrow> (Some e, fs)
      | Inr content \<Rightarrow> WriteFile os filename content fs)"

section \<open>What the kubeconfig has\<close>

definition no_credentials :: "rest_config \<Rightarrow> bool" where
  "no_credentials r \<longleftrightarrow> rc_CertFile r = '''' \<and> rc_CertData r = '''' \<and> rc_KeyFile r = '''' \<and> rc_KeyData r = '''' \<and>
     rc_Username r = '''' \<and> rc_Password r = '''' \<and> rc_BearerToken r = '''' \<and> rc_ExecProvider r = None"

lemma newAuthInfo_eq:
  "newAuthInfo r = \<lparr>ClientCertificate = rc_CertFile r, ClientCertificateData = rc_CertData r,
     ClientKey = rc_KeyFile r, ClientKeyData = rc_KeyData r, Username = rc_Username r,
     Password = rc_Password r, Token = rc_BearerToken r,
     TokenFile = (if no_credentials r then in_cluster_token else ''''), Exec = rc_ExecProvider r\<rparr>"
  by (simp add: newAuthInfo_def no_credentials_def credential_def Let_def)

text \<open>
  The kubeconfig says what the client configuration says: its current context leads to one cluster and
  one user, which have the server, the certificate authority and every credential of the configuration.
  The token file is the one of a pod exactly if there is no credential at all, even if the configuration
  names a token file of its own.
\<close>

theorem NewKubeConfig_resolves:
  "\<exists>ctx cl au. let k = NewKubeConfig r namespace in
     map_of (Contexts k) (CurrentContext k) = Some ctx \<and> ctxNamespace ctx = namespace \<and>
     map_of (Clusters k) (ctxCluster ctx) = Some cl \<and> map_of (AuthInfos k) (ctxAuthInfo ctx) = Some au \<and>
     Server cl = rc_Host r \<and> CertificateAuthority cl = rc_CAFile r \<and>
     CertificateAuthorityData cl = rc_CAData r \<and> InsecureSkipTLSVerify cl = rc_Insecure r \<and>
     (ClientCertificate au, ClientCertificateData au, ClientKey au, ClientKeyData au) =
       (rc_CertFile r, rc_CertData r, rc_KeyFile r, rc_KeyData r) \<and>
     (Username au, Password au, Token au, Exec au) =
       (rc_Username r, rc_Password r, rc_BearerToken r, rc_ExecProvider r) \<and>
     TokenFile au = (if no_credentials r then in_cluster_token else '''')"
  by (simp add: NewKubeConfig_def newAuthInfo_eq Let_def)

end
