(* ===== verification/ProtoModels.thy ===== *)
theory ProtoModels
  imports KubeTypes
begin

text \<open>
  \<open>pkg/utils/kube/uniqueprotomodels.go\<close>: the models of an OpenAPI document without those that would
  give a group, version and kind a second definition. A model is of the library's type \<open>'s\<close>; the engine
  reads its extensions, values of any type.
\<close>

section \<open>Model\<close>

datatype ext_value =
    ExtString string
  | ExtList "ext_value list"
  | ExtMap "(string \<times> ext_value) list"
  | ExtOther

record 's Models =
  ListedModels :: "string list"
  Lookup :: "string \<Rightarrow> 's option"

definition LookupModel :: "(string \<times> 's) list \<Rightarrow> string \<Rightarrow> 's option" where
  "LookupModel models model = map_of models model"

definition ListModels :: "(string \<times> 's) list \<Rightarrow> string list" where
  "ListModels models = sort_Sort str_less (map fst models)"

abbreviation "groupVersionKindExtensionKey \<equiv> ''x-kubernetes-group-version-kind''"

fun string_entry :: "(string \<times> ext_value) list \<Rightarrow> string \<Rightarrow> string option" where
  "string_entry gvkMap k = (case map_of gvkMap k of Some (ExtString s) \<Rightarrow> Some s | _ \<Rightarrow> None)"

fun gvk_entry :: "ext_value \<Rightarrow> GroupVersionKind option" where
  "gvk_entry (ExtMap gvkMap) =
     (case string_entry gvkMap ''group'' of
        None \<Rightarrow> None
      | Some g \<Rightarrow>
          (case string_entry gvkMap ''version'' of
             None \<Rightarrow> None
           | Some version \<Rightarrow>
               (case string_entry gvkMap ''kind'' of
                  None \<Rightarrow> None
                | Some kind \<Rightarrow> Some \<lparr>gvkGroup = g, gvkVersion = version, gvkKind = kind\<rparr>)))"
| "gvk_entry _ = None"

definition parseGroupVersionKind :: "('s \<Rightarrow> (string \<times> ext_value) list) \<Rightarrow> 's \<Rightarrow> GroupVersionKind list" where
  "parseGroupVersionKind extensions s =
     (case map_of (extensions s) groupVersionKindExtensionKey of
        Some (ExtList gvkList) \<Rightarrow> List.map_filter gvk_entry gvkList
      | _ \<Rightarrow> [])"

definition modelGvkWasAlreadyProcessed ::
  "('s \<Rightarrow> (string \<times> ext_value) list) \<Rightarrow> 's \<Rightarrow> (GroupVersionKind \<times> string) list \<Rightarrow> GroupVersionKind option" where
  "modelGvkWasAlreadyProcessed extensions model gvks =
     List.find (\<lambda>gvk. gvkKind gvk \<noteq> '''' \<and> map_of gvks gvk \<noteq> None) (parseGroupVersionKind extensions model)"

text \<open>The loop of \<open>newUniqueModels\<close>. None is the panic on a listed model that cannot be looked up.\<close>

fun unique_models ::
  "('s \<Rightarrow> (string \<times> ext_value) list) \<Rightarrow> ('s Models) \<Rightarrow> string list \<Rightarrow>
     (string \<times> 's) list \<Rightarrow> (GroupVersionKind \<times> string) list \<Rightarrow> GroupVersionKind list \<Rightarrow>
     ((string \<times> 's) list \<times> GroupVersionKind list) option" where
  "unique_models extensions models [] um gvks taintedGVKs = Some (um, taintedGVKs)"
| "unique_models extensions models (modelName # names) um gvks taintedGVKs =
     (case Lookup models modelName of
        None \<Rightarrow> None
      | Some model \<Rightarrow>
          (case modelGvkWasAlreadyProcessed extensions model gvks of
             None \<Rightarrow> unique_models extensions models names (map_put modelName model um)
               (foldl (\<lambda>m gvk. if gvkKind gvk \<noteq> '''' then map_put gvk modelName m else m) gvks
                  (parseGroupVersionKind extensions model)) taintedGVKs
           | Some gvk \<Rightarrow> unique_models extensions models names um gvks (taintedGVKs @ [gvk])))"

definition newUniqueModels ::
  "('s \<Rightarrow> (string \<times> ext_value) list) \<Rightarrow> 's Models \<Rightarrow> ((string \<times> 's) list \<times> GroupVersionKind list) option" where
  "newUniqueModels extensions models = unique_models extensions models (ListedModels models) [] [] []"

section \<open>The kept models\<close>

text \<open>The kinds that count as definitions of a model.\<close>

definition gvks_of :: "('s \<Rightarrow> (string \<times> ext_value) list) \<Rightarrow> 's \<Rightarrow> GroupVersionKind set" where
  "gvks_of extensions model = {gvk \<in> set (parseGroupVersionKind extensions model). gvkKind gvk \<noteq> ''''}"

text \<open>
  The reference: the names that survive when they are taken in order, each unless it defines again what
  a survivor before it defines.
\<close>

fun greedy :: "('k \<Rightarrow> 'g set) \<Rightarrow> 'g set \<Rightarrow> 'k list \<Rightarrow> 'k list" where
  "greedy d seen [] = []"
| "greedy d seen (x # xs) = (if d x \<inter> seen = {} then x # greedy d (seen \<union> d x) xs else greedy d seen xs)"

lemma greedy_disjoint: "x \<in> set (greedy d seen xs) \<Longrightarrow> d x \<inter> seen = {}"
  by (induction xs arbitrary: seen) (fastforce split: if_splits)+

lemma greedy_subset: "set (greedy d seen xs) \<subseteq> set xs"
  by (induction xs arbitrary: seen) auto

lemma greedy_pairwise:
  "distinct xs \<Longrightarrow> x \<in> set (greedy d seen xs) \<Longrightarrow> y \<in> set (greedy d seen xs) \<Longrightarrow> x \<noteq> y \<Longrightarrow> d x \<inter> d y = {}"
proof (induction xs arbitrary: seen)
  case (Cons a xs)
  then show ?case
    using greedy_disjoint [of _ d "seen \<union> d a" xs] by (fastforce split: if_splits)
qed simp

lemma greedy_all:
  "(\<And>x y. x \<in> set xs \<Longrightarrow> y \<in> set xs \<Longrightarrow> x \<noteq> y \<Longrightarrow> d x \<inter> d y = {}) \<Longrightarrow> distinct xs \<Longrightarrow>
   (\<And>x. x \<in> set xs \<Longrightarrow> d x \<inter> seen = {}) \<Longrightarrow> greedy d seen xs = xs"
proof (induction xs arbitrary: seen)
  case (Cons a xs)
  have "d x \<inter> (seen \<union> d a) = {}" if "x \<in> set xs" for x
    using Cons.prems(1) [of x a] Cons.prems(2) Cons.prems(3) [of x] that by (auto simp: Int_Un_distrib)
  moreover have "d a \<inter> seen = {}" by (simp add: Cons.prems(3))
  ultimately show ?case using Cons.IH [of "seen \<union> d a"] Cons.prems(1,2) by simp
qed simp

lemma greedy_dropped:
  "x \<in> set xs \<Longrightarrow> x \<notin> set (greedy d seen xs) \<Longrightarrow> d x \<inter> (seen \<union> \<Union> (d ` set (greedy d seen xs))) \<noteq> {}"
proof (induction xs arbitrary: seen)
  case (Cons a xs)
  then show ?case by (cases "d a \<inter> seen = {}") (auto simp: Un_assoc)
qed simp

lemma map_of_marks:
  "dom (map_of (foldl (\<lambda>m gvk. if gvkKind gvk \<noteq> '''' then map_put gvk n m else m) gvks gs)) =
   dom (map_of gvks) \<union> {g \<in> set gs. gvkKind g \<noteq> ''''}"
  by (induction gs arbitrary: gvks) auto

lemma processed_None:
  "modelGvkWasAlreadyProcessed ext model gvks = None \<longleftrightarrow> gvks_of ext model \<inter> dom (map_of gvks) = {}"
  by (auto simp: modelGvkWasAlreadyProcessed_def find_None_iff gvks_of_def)

definition models_found :: "'s Models \<Rightarrow> string list \<Rightarrow> bool" where
  "models_found models names \<longleftrightarrow> list_all (\<lambda>n. Lookup models n \<noteq> None) names"

definition model_gvks :: "('s \<Rightarrow> (string \<times> ext_value) list) \<Rightarrow> 's Models \<Rightarrow> string \<Rightarrow> GroupVersionKind set" where
  "model_gvks ext models n = gvks_of ext (the (Lookup models n))"

lemma unique_models_greedy:
  assumes "models_found models names" "distinct (map fst um @ names)"
  shows "\<exists>tainted. unique_models ext models names um gvks ts =
      Some (um @ map (\<lambda>n. (n, the (Lookup models n))) (greedy (model_gvks ext models) (dom (map_of gvks)) names),
        ts @ tainted) \<and>
    length tainted + length (greedy (model_gvks ext models) (dom (map_of gvks)) names) = length names"
  using assms
proof (induction names arbitrary: um gvks ts)
  case (Cons n names)
  then obtain m where m: "Lookup models n = Some m" by (auto simp: models_found_def)
  show ?case
  proof (cases "modelGvkWasAlreadyProcessed ext m gvks")
    case None
    have "map_of um n = None" using Cons.prems(2) by (auto simp: map_of_eq_None_iff)
    then have p: "map_put n m um = um @ [(n, m)]" by (rule map_put_new)
    have d: "model_gvks ext models n \<inter> dom (map_of gvks) = {}"
      using None m by (simp add: processed_None model_gvks_def)
    let ?gvks = "foldl (\<lambda>mm gvk. if gvkKind gvk \<noteq> '''' then map_put gvk n mm else mm) gvks
        (parseGroupVersionKind ext m)"
    have "dom (map_of ?gvks) = dom (map_of gvks) \<union> model_gvks ext models n"
      using m by (simp add: map_of_marks gvks_of_def model_gvks_def)
    with Cons.IH [of "um @ [(n, m)]" ?gvks ts] Cons.prems None m p d
    show ?thesis by (auto simp: models_found_def)
  next
    case (Some g)
    have "model_gvks ext models n \<inter> dom (map_of gvks) \<noteq> {}"
      using Some m processed_None [of ext m gvks] by (simp add: model_gvks_def)
    with Cons.IH [of um gvks "ts @ [g]"] Cons.prems Some m
    show ?thesis by (auto simp: models_found_def)
  qed
qed simp

text \<open>
  C14. The models that are kept are those of the reference: in the order of the document, each model that
  defines no group, version and kind that a model kept before it defines. So no two of them define the
  same one; every other model is reported by a GVK; and when no two models share one, all are kept.
\<close>

theorem newUniqueModels_spec:
  assumes "models_found models (ListedModels models)" "distinct (ListedModels models)"
  shows "\<exists>um tainted. newUniqueModels ext models = Some (um, tainted) \<and>
    um = map (\<lambda>n. (n, the (Lookup models n))) (greedy (model_gvks ext models) {} (ListedModels models)) \<and>
    length um + length tainted = length (ListedModels models) \<and>
    (\<forall>(n, m)\<in>set um. \<forall>(n', m')\<in>set um. n \<noteq> n' \<longrightarrow> gvks_of ext m \<inter> gvks_of ext m' = {}) \<and>
    ((\<forall>n\<in>set (ListedModels models). \<forall>n'\<in>set (ListedModels models).
        n \<noteq> n' \<longrightarrow> model_gvks ext models n \<inter> model_gvks ext models n' = {}) \<longrightarrow>
     map fst um = ListedModels models \<and> tainted = [])"
proof -
  let ?kept = "greedy (model_gvks ext models) {} (ListedModels models)"
  from unique_models_greedy [of models "ListedModels models" "[]" ext "[]" "[]"] assms
  obtain tainted where t: "newUniqueModels ext models = Some (map (\<lambda>n. (n, the (Lookup models n))) ?kept, tainted)"
    "length tainted + length ?kept = length (ListedModels models)"
    by (auto simp: newUniqueModels_def)
  have "gvks_of ext (the (Lookup models n)) \<inter> gvks_of ext (the (Lookup models n')) = {}"
    if "n \<in> set ?kept" "n' \<in> set ?kept" "n \<noteq> n'" for n n'
    using greedy_pairwise [OF assms(2) that] by (simp add: model_gvks_def)
  moreover have "?kept = ListedModels models"
    if "\<forall>n\<in>set (ListedModels models). \<forall>n'\<in>set (ListedModels models).
        n \<noteq> n' \<longrightarrow> model_gvks ext models n \<inter> model_gvks ext models n' = {}"
    using that assms(2) by (intro greedy_all) auto
  ultimately show ?thesis using t by (auto simp: comp_def)
qed

text \<open>Three models: the second has a kind of the first and one of its own, which is lost with it.\<close>

definition demo_models :: "ext_value Models" where
  "demo_models =
     (let gvk = (\<lambda>k. ExtMap [(''group'', ExtString ''''), (''version'', ExtString ''v1''), (''kind'', ExtString k)]);
          doc = [(''a'', ExtList [gvk ''List'']), (''b'', ExtList [gvk ''List'', gvk ''Other'']), (''c'', ExtOther)]
      in \<lparr>ListedModels = map fst doc, Lookup = map_of doc\<rparr>)"

theorem newUniqueModels_spec_witness:
  "newUniqueModels (\<lambda>s. [(groupVersionKindExtensionKey, s)]) demo_models =
     Some ([(''a'', the (Lookup demo_models ''a'')), (''c'', ExtOther)],
       [\<lparr>gvkGroup = '''', gvkVersion = ''v1'', gvkKind = ''List''\<rparr>]) \<and>
   (\<exists>um tainted. newUniqueModels (\<lambda>s. [(groupVersionKindExtensionKey, s)]) demo_models = Some (um, tainted) \<and>
      length um + length tainted = 3)"
proof -
  have l: "length (ListedModels demo_models) = 3" by code_simp
  have "newUniqueModels (\<lambda>s. [(groupVersionKindExtensionKey, s)]) demo_models =
     Some ([(''a'', the (Lookup demo_models ''a'')), (''c'', ExtOther)],
       [\<lparr>gvkGroup = '''', gvkVersion = ''v1'', gvkKind = ''List''\<rparr>])" by code_simp
  moreover have "models_found demo_models (ListedModels demo_models)" by code_simp
  moreover have "distinct (ListedModels demo_models)" by code_simp
  ultimately show ?thesis
    using newUniqueModels_spec [of demo_models "\<lambda>s. [(groupVersionKindExtensionKey, s)]"]
    unfolding l by blast
qed

end
