(* ===== verification/Kubectl.thy ===== *)
theory Kubectl
  imports KubeConfig ProtoModels CacheState
begin

text \<open>
  The kubectl wrapper, \<open>KubectlCmd\<close> of \<open>pkg/utils/kube/ctl.go\<close>, with \<open>convert.go\<close> and the client helpers
  of \<open>kube.go\<close>.

  The clients of client-go are the record \<open>client_api\<close>: their constructors, what discovery answers, and
  \<open>cl_Do\<close>, the answer of the API server to a request of the dynamic client. A request is what the wrapper
  builds: verb, resource, namespace if the resource has one, and the options. Tracing and logging are
  left out.
\<close>

section \<open>Clients\<close>

record DeleteOptions =
  GracePeriodSeconds :: "int option"
  Preconditions :: "string option"
  OrphanDependents :: "bool option"
  PropagationPolicy :: "string option"
  DryRun :: "string list"

record WriteOptions =
  wo_DryRun :: "string list"
  wo_FieldManager :: string

record resource_if =
  if_resource :: GroupVersionResource
  if_namespace :: "string option"

datatype request =
    ReqGet resource_if string
  | ReqCreate resource_if unstructured WriteOptions "string list"
  | ReqUpdate resource_if unstructured WriteOptions
  | ReqPatch resource_if string string string "string list"
  | ReqDelete resource_if string DeleteOptions

record APIResourceList =
  listGroupVersion :: string
  listAPIResources :: "APIResource list"

record client_api =
  cl_NewDiscovery :: "go_error option"
  cl_NewDynamic :: "go_error option"
  cl_NewClientset :: "go_error option"
  cl_ServerPreferredResources :: "APIResourceList list \<times> go_error option"
  cl_ServerGroupsAndResources :: "APIResourceList list \<times> go_error option"
  cl_ServerResources :: "string \<Rightarrow> go_error + APIResource list"
  cl_ServerVersion :: "go_error + string \<times> string"
  cl_msgs :: api_error_texts
  cl_ParseGroupVersion :: "string \<Rightarrow> go_error + string \<times> string"
  cl_Do :: "request \<Rightarrow> go_error + unstructured"

text \<open>\<open>schema.FromAPIVersionAndKind\<close> drops a group version that does not parse.\<close>

definition ToGroupVersionResource :: "client_api \<Rightarrow> string \<Rightarrow> APIResource \<Rightarrow> GroupVersionResource" where
  "ToGroupVersionResource api groupVersion apiResource =
     (case cl_ParseGroupVersion api groupVersion of
        Inl _ \<Rightarrow> \<lparr>gvrGroup = '''', gvrVersion = '''', gvrResource = apiName apiResource\<rparr>
      | Inr (g, v) \<Rightarrow> \<lparr>gvrGroup = g, gvrVersion = v, gvrResource = apiName apiResource\<rparr>)"

definition ToResourceInterface :: "APIResource \<Rightarrow> GroupVersionResource \<Rightarrow> string \<Rightarrow> resource_if" where
  "ToResourceInterface apiResource resource namespace =
     (if apiNamespaced apiResource then \<lparr>if_resource = resource, if_namespace = Some namespace\<rparr>
      else \<lparr>if_resource = resource, if_namespace = None\<rparr>)"

definition TestConfig :: "client_api \<Rightarrow> go_error option" where
  "TestConfig api =
     (case cl_NewClientset api of
        Some e \<Rightarrow> Some (wrap_err ''REST config invalid'' e)
      | None \<Rightarrow>
          (case cl_ServerVersion api of
             Inl e \<Rightarrow> Some (wrap_err ''REST config invalid'' e)
           | Inr _ \<Rightarrow> None))"

section \<open>API resources\<close>

text \<open>
  One list of the loop of \<open>filterAPIResources\<close>. A list whose group version does not parse is an error only
  once a resource of it has passed both filters; \<open>quote\<close> is the verb q.
\<close>

definition kept_resource ::
  "string \<Rightarrow> (string \<Rightarrow> string \<Rightarrow> string \<Rightarrow> bool) \<Rightarrow> (APIResource \<Rightarrow> bool) \<Rightarrow> string \<Rightarrow> APIResource \<Rightarrow> bool" where
  "kept_resource host excluded keep g r \<longleftrightarrow> \<not> excluded g (apiKind r) host \<and> keep r"

fun api_infos ::
  "client_api \<Rightarrow> string \<Rightarrow> (string \<Rightarrow> string \<Rightarrow> string \<Rightarrow> bool) \<Rightarrow> (APIResource \<Rightarrow> bool) \<Rightarrow> string \<Rightarrow>
     APIResource list \<Rightarrow> go_error + APIResourceInfo list" where
  "api_infos api host excluded keep gv [] = Inr []"
| "api_infos api host excluded keep gv (r # rs) =
     (let g = (case cl_ParseGroupVersion api gv of Inl _ \<Rightarrow> '''' | Inr (g, _) \<Rightarrow> g) in
      if \<not> kept_resource host excluded keep g r then api_infos api host excluded keep gv rs
      else
        (case cl_ParseGroupVersion api gv of
           Inl e \<Rightarrow> Inl (wrap_err (''failed to parse group version '' @ quote gv) e)
         | Inr (g, _) \<Rightarrow>
             (case api_infos api host excluded keep gv rs of
                Inl e \<Rightarrow> Inl e
              | Inr infos \<Rightarrow> Inr (\<lparr>infoGroupKind = (g, apiKind r),
                  infoGVR = ToGroupVersionResource api gv r, infoMeta = r\<rparr> # infos))))"

fun all_api_infos ::
  "client_api \<Rightarrow> string \<Rightarrow> (string \<Rightarrow> string \<Rightarrow> string \<Rightarrow> bool) \<Rightarrow> (APIResource \<Rightarrow> bool) \<Rightarrow>
     APIResourceList list \<Rightarrow> go_error + APIResourceInfo list" where
  "all_api_infos api host excluded keep [] = Inr []"
| "all_api_infos api host excluded keep (l # ls) =
     (case api_infos api host excluded keep (listGroupVersion l) (listAPIResources l) of
        Inl e \<Rightarrow> Inl e
      | Inr infos \<Rightarrow>
          (case all_api_infos api host excluded keep ls of
             Inl e \<Rightarrow> Inl e
           | Inr infos' \<Rightarrow> Inr (infos @ infos')))"

definition filterAPIResources ::
  "client_api \<Rightarrow> string \<Rightarrow> bool \<Rightarrow> (string \<Rightarrow> string \<Rightarrow> string \<Rightarrow> bool) \<Rightarrow> (APIResource \<Rightarrow> bool) \<Rightarrow>
     go_error + APIResourceInfo list" where
  "filterAPIResources api host preferred excluded keep =
     (case cl_NewDiscovery api of
        Some e \<Rightarrow> Inl (wrap_err ''failed to create discovery client'' e)
      | None \<Rightarrow>
          (let (serverResources, err) =
             (if preferred then cl_ServerPreferredResources api else cl_ServerGroupsAndResources api) in
           case err of
             Some e \<Rightarrow>
               (if length serverResources = 0
                then Inl (wrap_err ''failed to discover server resources, zero resources returned'' e)
                else all_api_infos api host excluded keep serverResources)
           | None \<Rightarrow> all_api_infos api host excluded keep serverResources))"

definition kubectl_GetAPIResources ::
  "client_api \<Rightarrow> string \<Rightarrow> bool \<Rightarrow> (string \<Rightarrow> string \<Rightarrow> string \<Rightarrow> bool) \<Rightarrow> go_error + APIResourceInfo list" where
  "kubectl_GetAPIResources api host preferred resourceFilter =
     filterAPIResources api host preferred resourceFilter
       (\<lambda>apiResource. isSupportedVerb apiResource ''list'' \<and> isSupportedVerb apiResource ''watch'')"

section \<open>Requests\<close>

text \<open>
  The first lines of \<open>GetResource\<close>, \<open>CreateResource\<close>, \<open>PatchResource\<close> and \<open>DeleteResource\<close>, which they
  repeat: the two clients, and the resource that supports the verb.
\<close>

definition resource_interface ::
  "client_api \<Rightarrow> GroupVersionKind \<Rightarrow> string \<Rightarrow> string \<Rightarrow> go_error + resource_if" where
  "resource_interface api gvk verb namespace =
     (case cl_NewDynamic api of
        Some e \<Rightarrow> Inl (wrap_err ''failed to create dynamic client'' e)
      | None \<Rightarrow>
          (case cl_NewDiscovery api of
             Some e \<Rightarrow> Inl (wrap_err ''failed to create discovery client'' e)
           | None \<Rightarrow>
               (case ServerResourceForGroupVersionKind (cl_msgs api) (cl_ServerResources api) gvk verb of
                  Inl e \<Rightarrow> Inl (wrap_err ''failed to get api resource'' e)
                | Inr apiResource \<Rightarrow>
                    Inr (ToResourceInterface apiResource
                      \<lparr>gvrGroup = gvkGroup gvk, gvrVersion = gvkVersion gvk, gvrResource = apiName apiResource\<rparr>
                      namespace))))"

text \<open>Each operation returns the request that it sends, if it sends one, and its result.\<close>

definition send :: "client_api \<Rightarrow> (resource_if \<Rightarrow> request) \<Rightarrow> go_error + resource_if \<Rightarrow>
    request list \<times> (go_error + unstructured)" where
  "send api req r = (case r of Inl e \<Rightarrow> ([], Inl e) | Inr i \<Rightarrow> ([req i], cl_Do api (req i)))"

definition GetResource ::
  "client_api \<Rightarrow> GroupVersionKind \<Rightarrow> string \<Rightarrow> string \<Rightarrow> request list \<times> (go_error + unstructured)" where
  "GetResource api gvk name namespace =
     send api (\<lambda>i. ReqGet i name) (resource_interface api gvk ''get'' namespace)"

definition CreateResource ::
  "client_api \<Rightarrow> GroupVersionKind \<Rightarrow> string \<Rightarrow> string \<Rightarrow> unstructured \<Rightarrow> WriteOptions \<Rightarrow> string list \<Rightarrow>
     request list \<times> (go_error + unstructured)" where
  "CreateResource api gvk name namespace obj createOptions subresources =
     send api (\<lambda>i. ReqCreate i obj createOptions subresources) (resource_interface api gvk ''create'' namespace)"

definition PatchResource ::
  "client_api \<Rightarrow> GroupVersionKind \<Rightarrow> string \<Rightarrow> string \<Rightarrow> string \<Rightarrow> string \<Rightarrow> string list \<Rightarrow>
     request list \<times> (go_error + unstructured)" where
  "PatchResource api gvk name namespace patchType patchBytes subresources =
     send api (\<lambda>i. ReqPatch i name patchType patchBytes subresources) (resource_interface api gvk ''patch'' namespace)"

definition effective_options :: "DeleteOptions \<Rightarrow> DeleteOptions" where
  "effective_options deleteOptions =
     (if PropagationPolicy deleteOptions = None
      then \<lparr>GracePeriodSeconds = None, Preconditions = None, OrphanDependents = None,
             PropagationPolicy = Some ''Foreground'', DryRun = []\<rparr>
      else deleteOptions)"

definition DeleteResource ::
  "client_api \<Rightarrow> GroupVersionKind \<Rightarrow> string \<Rightarrow> string \<Rightarrow> DeleteOptions \<Rightarrow> request list \<times> go_error option" where
  "DeleteResource api gvk name namespace deleteOptions =
     (let (reqs, r) = send api (\<lambda>i. ReqDelete i name (effective_options deleteOptions))
        (resource_interface api gvk ''delete'' namespace)
      in (reqs, case r of Inl e \<Rightarrow> Some e | Inr _ \<Rightarrow> None))"

section \<open>Schemas, versions and conversion\<close>

text \<open>
  \<open>'d\<close> is an OpenAPI document, \<open>'r\<close> the resources parsed from it, \<open>'p\<close> a GVK parser, \<open>'s\<close> a model. The
  resources are returned even if there is no parser.
\<close>

record ('d, 'r, 's, 'p) openapi_api =
  oa_Parse :: "go_error + 'r"
  oa_Schema :: "go_error + 'd"
  oa_NewOpenAPIData :: "'d \<Rightarrow> go_error + 's Models"
  oa_Extensions :: "'s \<Rightarrow> (string \<times> ext_value) list"
  oa_NewGVKParser :: "(string \<times> 's) list \<Rightarrow> go_error + 'p"

text \<open>None is the panic of \<open>newUniqueModels\<close>.\<close>

definition newGVKParser :: "('d, 'r, 's, 'p) openapi_api \<Rightarrow> (go_error + 'p) option" where
  "newGVKParser oapi =
     (case oa_Schema oapi of
        Inl e \<Rightarrow> Some (Inl (wrap_err ''error getting openapi schema'' e))
      | Inr doc \<Rightarrow>
          (case oa_NewOpenAPIData oapi doc of
             Inl e \<Rightarrow> Some (Inl (wrap_err ''error getting openapi data'' e))
           | Inr models \<Rightarrow>
               (case newUniqueModels (oa_Extensions oapi) models of
                  None \<Rightarrow> None
                | Some (models', taintedGVKs) \<Rightarrow>
                    (case oa_NewGVKParser oapi models' of
                       Inl e \<Rightarrow> Some (Inl (wrap_err ''failed to create GVK parser'' e))
                     | Inr p \<Rightarrow> Some (Inr p)))))"

definition LoadOpenAPISchema ::
  "client_api \<Rightarrow> ('d, 'r, 's, 'p) openapi_api \<Rightarrow> ('r option \<times> (go_error + 'p)) option" where
  "LoadOpenAPISchema api oapi =
     (case cl_NewDiscovery api of
        Some e \<Rightarrow> Some (None, Inl (wrap_err ''failed to create discovery client'' e))
      | None \<Rightarrow>
          (case oa_Parse oapi of
             Inl e \<Rightarrow> Some (None, Inl (wrap_err ''error getting openapi resources'' e))
           | Inr oapiResources \<Rightarrow>
               (case newGVKParser oapi of
                  None \<Rightarrow> None
                | Some (Inl e) \<Rightarrow> Some (Some oapiResources, Inl (wrap_err ''error getting gvk parser'' e))
                | Some (Inr p) \<Rightarrow> Some (Some oapiResources, Inr p))))"

definition kubectl_GetServerVersion :: "client_api \<Rightarrow> go_error + string" where
  "kubectl_GetServerVersion api =
     (case cl_NewDiscovery api of
        Some e \<Rightarrow> Inl (wrap_err ''failed to create discovery client'' e)
      | None \<Rightarrow>
          (case cl_ServerVersion api of
             Inl e \<Rightarrow> Inl (wrap_err ''failed to get server version'' e)
           | Inr (major, minor) \<Rightarrow> Inr (major @ ''.'' @ minor)))"

text \<open>
  Conversion by the scheme, through the internal version; \<open>'o\<close> is a typed object. The copy and the
  converted object are new objects, \<open>p\<close> is their pointer.
\<close>

record 'o convert_api =
  cv_ToInternal :: "unstructured \<Rightarrow> go_error + 'o"
  cv_ConvertTo :: "'o \<Rightarrow> string \<Rightarrow> string \<Rightarrow> go_error + 'o"
  cv_ToUnstructured :: "'o \<Rightarrow> go_error + unstructured"

definition convertToVersionWithScheme ::
  "'o convert_api \<Rightarrow> nat \<Rightarrow> unstructured \<Rightarrow> string \<Rightarrow> string \<Rightarrow> go_error + unstructured" where
  "convertToVersionWithScheme s p obj g version =
     (case cv_ToInternal s obj of
        Inl e \<Rightarrow> Inl (wrap_err ''failed to convert to version using internal group versioner'' e)
      | Inr object \<Rightarrow>
          (case cv_ConvertTo s object g version of
             Inl e \<Rightarrow> Inl (wrap_err ''failed to convert to version'' e)
           | Inr unmarshalledObj \<Rightarrow>
               (case cv_ToUnstructured s unmarshalledObj of
                  Inl e \<Rightarrow> Inl (wrap_err ''failed to convert to unstructured object'' e)
                | Inr body \<Rightarrow> Inr (body\<lparr>Ptr := p\<rparr>))))"

definition ConvertToVersion ::
  "'o convert_api \<Rightarrow> nat \<Rightarrow> unstructured \<Rightarrow> string \<Rightarrow> string \<Rightarrow> go_error + unstructured" where
  "ConvertToVersion s p obj g version =
     (if gvkGroup (GVK obj) = g \<and> gvkVersion (GVK obj) = version then Inr (obj\<lparr>Ptr := p\<rparr>)
      else convertToVersionWithScheme s p obj g version)"

section \<open>Managing resources\<close>

text \<open>
  \<open>ManageResources\<close> and \<open>ManageServerSideDiffDryRuns\<close>: the same body, a temporary kubeconfig for kubectl and
  the function that deletes it. The result is the name of the file.
\<close>

definition ManageResources ::
  "os_api \<Rightarrow> (kube_Config \<Rightarrow> go_error + string) \<Rightarrow> rest_config \<Rightarrow> files \<Rightarrow> (go_error + string) \<times> files" where
  "ManageResources os encode config fs =
     (case CreateTemp os fs of
        (Inl e, fs1) \<Rightarrow> (Inl (wrap_err ''failed to generate temp file for kubeconfig'' e), fs1)
      | (Inr f, fs1) \<Rightarrow>
          (case WriteKubeConfig os encode config '''' f fs1 of
             (Some e, fs2) \<Rightarrow> (Inl (wrap_err ''failed to write kubeconfig'' e), DeleteFile os f fs2)
           | (None, fs2) \<Rightarrow> (Inr f, fs2)))"

definition ManageServerSideDiffDryRuns ::
  "os_api \<Rightarrow> (kube_Config \<Rightarrow> go_error + string) \<Rightarrow> rest_config \<Rightarrow> files \<Rightarrow> (go_error + string) \<times> files" where
  "ManageServerSideDiffDryRuns os encode config fs = ManageResources os encode config fs"

definition cleanup_kubeconfig :: "os_api \<Rightarrow> string \<Rightarrow> files \<Rightarrow> files" where
  "cleanup_kubeconfig os f fs = DeleteFile os f fs"

end
