(* ===== verification/KubeHelpers.thy ===== *)
theory KubeHelpers
  imports KubeTypes
begin

text \<open>
  The remaining helpers of \<open>pkg/utils/kube/kube.go\<close> and \<open>ctl.go\<close>: the cleaning of kubectl's error output,
  the splitting of a YAML file, the watch that is repeated, the action that is retried, and the
  asynchronous loop.
\<close>

section \<open>Error output\<close>

text \<open>The regular expressions are written out. The class S of Go's expressions excludes these characters.\<close>

definition re_space :: "char \<Rightarrow> bool" where
  "re_space c \<longleftrightarrow> c \<in> {CHR 0x09, CHR 0x0A, CHR 0x0C, CHR 0x0D, CHR '' ''}"

definition drop_prefix :: "string \<Rightarrow> string \<Rightarrow> string option" where
  "drop_prefix p s = (if HasPrefix s p then Some (drop (length p) s) else None)"

text \<open>
  What follows an opening quote: one or more non-spaces, a closing quote, a colon and a space. The
  non-spaces with the quote and the colon are the longest run of non-spaces.
\<close>

definition quoted_rest :: "string \<Rightarrow> string option" where
  "quoted_rest s =
     (let w = takeWhile (\<lambda>c. \<not> re_space c) s; rest = drop (length w) s in
      if 3 \<le> length w \<and> HasSuffix w [CHR 0x22, CHR '':''] \<and> rest \<noteq> [] \<and> hd rest = CHR '' ''
      then Some (tl rest) else None)"

definition kubectlErrOut :: "string \<Rightarrow> string" where
  "kubectlErrOut s =
     (let s1 = (case drop_prefix ''error: '' s of Some r \<Rightarrow> r | None \<Rightarrow> s);
          named = (\<lambda>r. case drop_prefix [CHR '' '', CHR 0x22] r of None \<Rightarrow> None | Some r' \<Rightarrow> quoted_rest r');
          result = (case drop_prefix ''error validating'' s1 of
             Some r \<Rightarrow> named r
           | None \<Rightarrow> (case drop_prefix ''error when creating'' s1 of Some r \<Rightarrow> named r | None \<Rightarrow> None))
      in case result of Some r \<Rightarrow> r | None \<Rightarrow> s)"

text \<open>
  In each line the text from the first \<open>map[\<close> to the last closing bracket after it; both are matched
  greedily, and a dot does not match a newline.
\<close>

fun strip_map_line :: "string \<Rightarrow> string" where
  "strip_map_line [] = []"
| "strip_map_line (c # cs) =
     (case drop_prefix ''map['' (c # cs) of
        Some r \<Rightarrow>
          (if CHR '']'' \<in> set r then rev (takeWhile (\<lambda>x. x \<noteq> CHR '']'') (rev r)) else c # cs)
      | None \<Rightarrow> c # strip_map_line cs)"

definition kubectlErrOutMap :: "string \<Rightarrow> string" where
  "kubectlErrOutMap s = Join (map strip_map_line (Split s (CHR 0x0A))) [CHR 0x0A]"

text \<open>The last line \<open>for:\<close> with a quoted name, since the dots before it match as much as they can.\<close>

fun last_for :: "string \<Rightarrow> string option" where
  "last_for [] = None"
| "last_for (c # cs) =
     (case last_for cs of
        Some r \<Rightarrow> Some r
      | None \<Rightarrow>
          (case drop_prefix (CHR 0x0A # ''for: '' @ [CHR 0x22]) (c # cs) of
             None \<Rightarrow> None
           | Some r \<Rightarrow> quoted_rest r))"

definition kubectlApplyPatchErrOut :: "string \<Rightarrow> string" where
  "kubectlApplyPatchErrOut s =
     (case drop_prefix ''error when applying patch:'' s of
        None \<Rightarrow> s
      | Some r \<Rightarrow> (case last_for r of None \<Rightarrow> s | Some rest \<Rightarrow> rest))"

text \<open>\<open>strings.ReplaceAll\<close> of a non-empty text by the empty one.\<close>

function remove_all :: "string \<Rightarrow> string \<Rightarrow> string" where
  "remove_all p [] = []"
| "remove_all p (c # cs) =
     (if p \<noteq> [] \<and> HasPrefix (c # cs) p then remove_all p (drop (length p) (c # cs))
      else c # remove_all p cs)"
  by pat_completeness auto
termination by (relation "measure (length \<circ> snd)") auto

definition ignore_hint :: string where
  "ignore_hint = ''; if you choose to ignore these errors, turn validation off with --validate=false''"

definition cleanKubectlOutput :: "string \<Rightarrow> string" where
  "cleanKubectlOutput s =
     (let s1 = TrimSpace s; s2 = kubectlErrOut s1; s3 = kubectlErrOutMap s2; s4 = kubectlApplyPatchErrOut s3
      in remove_all ignore_hint s4)"

section \<open>Manifests\<close>

text \<open>
  The decoder is the list of what it answers before the end of the file: an error, or the raw bytes of a
  document.
\<close>

fun SplitYAMLToString :: "(go_error + string) list \<Rightarrow> string list \<times> go_error option" where
  "SplitYAMLToString [] = ([], None)"
| "SplitYAMLToString (Inl e # ds) = ([], Some (wrap_err ''failed to unmarshal manifest'' e))"
| "SplitYAMLToString (Inr raw # ds) =
     (let r = TrimSpace raw; (objs, err) = SplitYAMLToString ds in
      if length r = 0 \<or> r = ''null'' then (objs, err) else (r # objs, err))"

fun unmarshal_all :: "(string \<Rightarrow> go_error + 'o) \<Rightarrow> string list \<Rightarrow> 'o list \<times> go_error option" where
  "unmarshal_all f [] = ([], None)"
| "unmarshal_all f (yml # ymls) =
     (case f yml of
        Inl e \<Rightarrow> ([], Some (wrap_err ''failed to unmarshal manifest'' e))
      | Inr u \<Rightarrow> (let (objs, err) = unmarshal_all f ymls in (u # objs, err)))"

definition SplitYAML :: "(string \<Rightarrow> go_error + 'o) \<Rightarrow> (go_error + string) list \<Rightarrow> 'o list \<times> go_error option" where
  "SplitYAML unmarshal decoder =
     (case SplitYAMLToString decoder of
        (ymls, Some e) \<Rightarrow> ([], Some e)
      | (ymls, None) \<Rightarrow> unmarshal_all unmarshal ymls)"

section \<open>Watching and retrying\<close>

text \<open>
  One call of \<open>getWatch\<close>: it fails, or the watch delivers events and then its channel is closed, or the
  context is done while it is waited for. The channel gets the events and the errors.
\<close>

datatype watch_outcome = WatchClosed | WatchCtxDone

datatype 'e watch_call = WatchFails go_error | Watches "'e list" watch_outcome

definition execute_watch :: "'e watch_call \<Rightarrow> (go_error + 'e) list \<times> bool" where
  "execute_watch w =
     (case w of
        WatchFails err \<Rightarrow> ([Inl err], False)
      | Watches events e \<Rightarrow> (map Inr events, e = WatchClosed))"

text \<open>
  What the channel gets for a list of calls, and whether the channel is closed, that is, whether the
  goroutine has ended within these calls.
\<close>

fun WatchWithRetry :: "'e watch_call list \<Rightarrow> (go_error + 'e) list \<times> bool" where
  "WatchWithRetry [] = ([], False)"
| "WatchWithRetry (w # ws) =
     (let (out, retry) = execute_watch w in
      if \<not> retry then (out, True)
      else (let (out', closed) = WatchWithRetry ws in (out @ out', closed)))"

text \<open>
  \<open>RetryUntilSucceed\<close>: the results of the action as it is polled until the context is done; the outcome is
  the number of calls, and whether the action has succeeded.
\<close>

fun RetryUntilSucceed :: "go_error option list \<Rightarrow> nat \<times> bool" where
  "RetryUntilSucceed [] = (0, False)"
| "RetryUntilSucceed (err # errs) =
     (if err = None then (1, True)
      else (let (n, done) = RetryUntilSucceed errs in (Suc n, done)))"

text \<open>
  \<open>RunAllAsync\<close>: the goroutines up to a spawned number (\<open>g.Wait\<close> waits for all of them), each with its
  result, in the order \<open>order\<close> in which they finish; the first failure is the result.
\<close>

fun first_err :: "go_error option list \<Rightarrow> go_error option" where
  "first_err [] = None"
| "first_err (e # es) = (if e \<noteq> None then e else first_err es)"

definition RunAllAsync :: "nat \<Rightarrow> nat \<Rightarrow> nat list \<Rightarrow> (nat \<Rightarrow> go_error option) \<Rightarrow> go_error option" where
  "RunAllAsync n spawned order action = first_err (map action (filter (\<lambda>i. i < min spawned n) order))"

section \<open>Objects\<close>

text \<open>
  \<open>ToUnstructured\<close> is a call of the library's converter, whose error is passed on; None of
  \<open>MustToUnstructured\<close> is its panic.
\<close>

definition ToUnstructured_of :: "('a \<Rightarrow> go_error + 'o) \<Rightarrow> 'a \<Rightarrow> go_error + 'o" where
  "ToUnstructured_of convert obj = (case convert obj of Inl err \<Rightarrow> Inl err | Inr uObj \<Rightarrow> Inr uObj)"

definition MustToUnstructured :: "('a \<Rightarrow> go_error + 'o) \<Rightarrow> 'a \<Rightarrow> 'o option" where
  "MustToUnstructured convert obj = (case ToUnstructured_of convert obj of Inl err \<Rightarrow> None | Inr uObj \<Rightarrow> Some uObj)"

definition GetDeploymentReplicas ::
  "('o \<Rightarrow> string list \<Rightarrow> go_error + int option) \<Rightarrow> 'o \<Rightarrow> int option" where
  "GetDeploymentReplicas nestedInt64 u =
     (case nestedInt64 u [''spec'', ''replicas''] of Inr (Some val) \<Rightarrow> Some val | _ \<Rightarrow> None)"

section \<open>Properties\<close>

text \<open>Cases of the repository's test of the output, and one of each other expression.\<close>

lemma cleanKubectlOutput_cases:
  "cleanKubectlOutput (''error: error validating '' @ [CHR 0x22] @ ''STDIN'' @ [CHR 0x22] @
     '': error validating data: missing required field'' @ ignore_hint) =
   ''error validating data: missing required field''"
  "cleanKubectlOutput (''error when applying patch:'' @ [CHR 0x0A] @ ''{}'' @ [CHR 0x0A] @ ''for: '' @ [CHR 0x22] @
     ''/tmp/1'' @ [CHR 0x22] @ '': Service is invalid'') = ''Service is invalid''"
  "cleanKubectlOutput (''Invalid value: map[data:map[a:b] c:d]: cannot convert'') = ''Invalid value: : cannot convert''"
  by code_simp+

lemma strip_map_line_id: "CHR '']'' \<notin> set s \<Longrightarrow> strip_map_line s = s"
  by (induction s) (auto simp: drop_prefix_def HasPrefix_def split: option.splits dest: in_set_dropD)

lemma SplitYAMLToString_error: "snd (SplitYAMLToString ds) = None \<longleftrightarrow> list_all (\<lambda>d. \<exists>raw. d = Inr raw) ds"
  by (induction ds rule: SplitYAMLToString.induct) (auto simp: Let_def split: prod.splits if_splits)

lemma SplitYAMLToString_docs:
  "fst (SplitYAMLToString (map Inr raws)) = filter (\<lambda>r. r \<noteq> '''' \<and> r \<noteq> ''null'') (map TrimSpace raws)"
  by (induction raws) (auto simp: Let_def split: prod.splits)

lemma unmarshal_all_ok:
  "snd (unmarshal_all f ymls) = None \<Longrightarrow> map Inr (fst (unmarshal_all f ymls)) = map f ymls"
  by (induction ymls) (auto simp: Let_def split: sum.splits prod.splits)

text \<open>
  A file is split all or nothing as far as its documents are concerned: a decoder error leaves no object
  at all, whatever was parsed before it, and without one the objects are the documents in order, less
  the empty and the null ones, up to the first that does not unmarshal.
\<close>

theorem SplitYAML_spec:
  "(\<not> list_all (\<lambda>d. \<exists>raw. d = Inr raw) ds \<longrightarrow> fst (SplitYAML f ds) = [] \<and> snd (SplitYAML f ds) \<noteq> None) \<and>
   (let docs = filter (\<lambda>r. r \<noteq> '''' \<and> r \<noteq> ''null'') (map TrimSpace raws) in
    SplitYAML f (map Inr raws) = unmarshal_all f docs \<and>
    (snd (SplitYAML f (map Inr raws)) = None \<longrightarrow> map Inr (fst (SplitYAML f (map Inr raws))) = map f docs))"
proof -
  have s: "SplitYAML f (map Inr raws) = unmarshal_all f (filter (\<lambda>r. r \<noteq> '''' \<and> r \<noteq> ''null'') (map TrimSpace raws))"
    using SplitYAMLToString_docs [of raws] SplitYAMLToString_error [of "map Inr raws"]
    by (auto simp: SplitYAML_def list_all_iff split: prod.splits option.splits)
  moreover have "fst (SplitYAML f ds) = [] \<and> snd (SplitYAML f ds) \<noteq> None"
    if "\<not> list_all (\<lambda>d. \<exists>raw. d = Inr raw) ds"
    using that SplitYAMLToString_error [of ds] by (auto simp: SplitYAML_def split: prod.splits option.splits)
  ultimately show ?thesis using unmarshal_all_ok by (auto simp: Let_def)
qed

theorem SplitYAML_spec_witness:
  "SplitYAML Inr [Inr ''a: 1'', Inr '' null '', Inr ''b: 2''] = ([''a: 1'', ''b: 2''], None) \<and>
   fst (SplitYAML Inr [Inr ''a: 1'', Inl (Err ReasonOther ''bad'')]) = []"
proof -
  have "fst (SplitYAML Inr [Inr ''a: 1'', Inl (Err ReasonOther ''bad'')]) = []"
    using SplitYAML_spec [of "[Inr ''a: 1'', Inl (Err ReasonOther ''bad'')]" Inr] by simp
  moreover have "SplitYAML Inr [Inr ''a: 1'', Inr '' null '', Inr ''b: 2''] = ([''a: 1'', ''b: 2''], None)"
    by code_simp
  ultimately show ?thesis by simp
qed

definition restarts :: "'e watch_call \<Rightarrow> bool" where
  "restarts w \<longleftrightarrow> (\<exists>events. w = Watches events WatchClosed)"

text \<open>
  The watch is started again only after its channel was closed: the first call that fails is reported and
  ends it, like the end of the context.
\<close>

lemma WatchWithRetry_spec:
  "WatchWithRetry ws =
     (let run = takeWhile restarts ws; rest = dropWhile restarts ws
      in (concat (map (fst \<circ> execute_watch) (run @ take 1 rest)), rest \<noteq> []))"
proof (induction ws)
  case (Cons w ws)
  have "snd (execute_watch w) \<longleftrightarrow> restarts w"
    by (auto simp: execute_watch_def restarts_def split: watch_call.splits watch_outcome.split)
  with Cons show ?case by (cases "execute_watch w") (auto simp: Let_def)
qed simp

lemma RetryUntilSucceed_spec:
  "RetryUntilSucceed errs =
     (let failed = takeWhile (\<lambda>e. e \<noteq> None) errs
      in (length failed + (if None \<in> set errs then 1 else 0), None \<in> set errs))"
  by (induction errs) (auto simp: Let_def)

lemma RunAllAsync_None:
  "RunAllAsync n spawned order action = None \<longleftrightarrow> (\<forall>i\<in>set order. i < min spawned n \<longrightarrow> action i = None)"
proof -
  have "first_err es = None \<longleftrightarrow> set es \<subseteq> {None}" for es by (induction es) auto
  then show ?thesis by (auto simp: RunAllAsync_def)
qed

end
