(* ===== verification/ResourceOps.thy ===== *)
theory ResourceOps
  imports Kubectl KubeHelpers DiffHide
begin

text \<open>
  The operations on resources, \<open>pkg/utils/kube/resource_ops.go\<close>: they write the object to a temporary
  file and run kubectl's apply, replace, create or auth reconcile on it.

  An operation reads and changes the temporary files and the log of what it has done outside, oldest
  first. kubectl itself is library code: the record \<open>ops_env\<close> has what its constructors of options, its
  validation and its commands answer. A command is given by the options that the engine has set, and runs
  on the content that the file has then.
\<close>

section \<open>Commands\<close>

datatype dry_run = dry_none | dry_client | dry_server

record printer_flags =
  pf_operation :: string
  pf_template :: "string option"
  pf_json :: bool
  pf_managedFields :: bool

record delete_options =
  do_Filenames :: "string list"
  do_ForceDeletion :: bool

record apply_options =
  ao_ServerSideApply :: bool
  ao_Overwrite :: bool
  ao_OpenAPIPatch :: bool
  ao_DryRunStrategy :: dry_run
  ao_FieldManager :: string
  ao_Validation :: string
  ao_DeleteOptions :: delete_options
  ao_Namespace :: string
  ao_ForceConflicts :: bool
  ao_ToPrinter :: "string \<Rightarrow> go_error + printer_flags"

record replace_options =
  ro_DeleteOptions :: delete_options
  ro_DryRunStrategy :: dry_run
  ro_Namespace :: string
  ro_Printer :: printer_flags

record create_options =
  co_DryRunStrategy :: dry_run
  co_Filenames :: "string list"
  co_Printer :: printer_flags

record reconcile_options =
  re_DryRun :: bool
  re_Filenames :: "string list"
  re_Namespace :: string
  re_Printer :: printer_flags

text \<open>\<open>CmdCreate\<close> has the flags \<open>save-config\<close> and \<open>validate\<close> of the command beside its options.\<close>

datatype command =
    CmdApply apply_options
  | CmdReplace replace_options
  | CmdCreate create_options bool bool
  | CmdReconcile reconcile_options

text \<open>The event of a hook says whether the hook has returned a cleanup function, not an error.\<close>

datatype ops_event =
    HookRun string bool
  | HookCleanup string
  | NamespaceGet string
  | Logged string
  | RunCommand command "string option"

record run_output =
  ro_out :: string
  ro_err :: string
  ro_error :: "go_error option"

record ops_env =
  oe_os :: os_api
  oe_client :: client_api
  oe_MarshalJSON :: "unstructured \<Rightarrow> go_error + string"
  oe_logEnabled :: bool
  oe_objs :: object_api
  oe_typed :: typed_api
  oe_codec :: json_api
  oe_onKubectlRun :: "(ops_event list \<Rightarrow> string \<Rightarrow> go_error option) option"
  oe_GetNamespace :: "ops_event list \<Rightarrow> string \<Rightarrow> go_error option"
  oe_DeleteFlags :: "go_error + delete_options"
  oe_Validator :: "string \<Rightarrow> go_error option"
  oe_RESTMapper :: "go_error option"
  oe_Recorder :: "go_error option"
  oe_Complete :: "string \<Rightarrow> go_error option"
  oe_ToPrinter :: "printer_flags \<Rightarrow> go_error option"
  oe_Validate :: "command \<Rightarrow> go_error option"
  oe_Run :: "ops_event list \<Rightarrow> command \<Rightarrow> string option \<Rightarrow> run_output"

section \<open>Operations\<close>

record ops_state =
  ops_files :: files
  ops_log :: "ops_event list"

type_synonym 'a op = "ops_state \<Rightarrow> 'a res \<times> ops_state"

definition ret :: "'a res \<Rightarrow> 'a op" where
  "ret r st = (r, st)"

definition op_bind :: "'a op \<Rightarrow> ('a \<Rightarrow> 'b op) \<Rightarrow> 'b op" where
  "op_bind m f st = (case m st of (Inl e, st') \<Rightarrow> (Inl e, st') | (Inr x, st') \<Rightarrow> f x st')"

definition op_wrap :: "string \<Rightarrow> 'a op \<Rightarrow> 'a op" where
  "op_wrap msg m st = (let (r, st') = m st in (wrapping msg r, st'))"

text \<open>A deferred call runs on every way out, a panic included.\<close>

definition op_defer :: "(ops_state \<Rightarrow> ops_state) \<Rightarrow> 'a op \<Rightarrow> 'a op" where
  "op_defer c m st = (let (r, st') = m st in (r, c st'))"

definition log_event :: "ops_event \<Rightarrow> ops_state \<Rightarrow> ops_state" where
  "log_event e st = st\<lparr>ops_log := ops_log st @ [e]\<rparr>"

definition check :: "string \<Rightarrow> go_error option \<Rightarrow> unit res" where
  "check msg err = (case err of None \<Rightarrow> Inr () | Some e \<Rightarrow> Inl (Errored (wrap_err msg e)))"

text \<open>\<open>errors.New(cleanKubectlOutput(err.Error()))\<close>: only the text is left of the error.\<close>

definition cleaned :: "'a res \<Rightarrow> 'a res" where
  "cleaned r = (case r of Inl (Errored e) \<Rightarrow> Inl (Errored (Err ReasonOther (cleanKubectlOutput (err_text e)))) | _ \<Rightarrow> r)"

section \<open>The manifest file\<close>

definition maybeLogManifest :: "ops_env \<Rightarrow> string \<Rightarrow> unit op" where
  "maybeLogManifest E manifestBytes st =
     (if oe_logEnabled E then
        (case UnmarshalUn (oe_codec E) manifestBytes of
           Inl e \<Rightarrow> (Inl (Errored (wrap_err ''failed to unmarshal object'' e)), st)
         | Inr obj \<Rightarrow>
             (case HideSecretData (oe_objs E) (oe_typed E) (oe_codec E) (Some obj) None [] of
                Inl (Errored e) \<Rightarrow> (Inl (Errored (wrap_err ''failed to hide secret data'' e)), st)
              | Inl Panicked \<Rightarrow> (Inl Panicked, st)
              | Inr (redacted, _) \<Rightarrow>
                  (case (case redacted of None \<Rightarrow> Inr ''null'' | Some r \<Rightarrow> MarshalUn (oe_codec E) r) of
                     Inl e \<Rightarrow> (Inl (Errored (wrap_err ''failed to marshal redacted object'' e)), st)
                   | Inr redactedBytes \<Rightarrow> (Inr (), log_event (Logged redactedBytes) st))))
      else (Inr (), st))"

definition createManifestFile :: "ops_env \<Rightarrow> unstructured \<Rightarrow> string op" where
  "createManifestFile E obj st =
     (case oe_MarshalJSON E obj of
        Inl e \<Rightarrow> (Inl (Errored (wrap_err ''failed to marshal object'' e)), st)
      | Inr manifestBytes \<Rightarrow>
          (case CreateTemp (oe_os E) (ops_files st) of
             (Inl e, fs) \<Rightarrow> (Inl (Errored (wrap_err ''failed to generate temp file for manifest'' e)), st\<lparr>ops_files := fs\<rparr>)
           | (Inr f, fs) \<Rightarrow>
               (case WriteFile (oe_os E) f manifestBytes fs of
                  (Some e, fs1) \<Rightarrow> (Inl (Errored (wrap_err ''failed to write manifest'' e)), st\<lparr>ops_files := fs1\<rparr>)
                | (None, fs1) \<Rightarrow>
                    (case os_Close (oe_os E) f of
                       Some e \<Rightarrow> (Inl (Errored (wrap_err ''failed to close manifest'' e)), st\<lparr>ops_files := fs1\<rparr>)
                     | None \<Rightarrow>
                         op_bind (maybeLogManifest E manifestBytes) (\<lambda>_. ret (Inr f)) (st\<lparr>ops_files := fs1\<rparr>)))))"

definition delete_manifest :: "ops_env \<Rightarrow> string \<Rightarrow> ops_state \<Rightarrow> ops_state" where
  "delete_manifest E f st = st\<lparr>ops_files := DeleteFile (oe_os E) f (ops_files st)\<rparr>"

section \<open>Running kubectl\<close>

text \<open>\<open>processKubectlRun\<close>, with the deferred cleanup around the body \<open>m\<close> that follows it.\<close>

definition with_kubectl_run :: "ops_env \<Rightarrow> string \<Rightarrow> (go_error \<Rightarrow> go_error) \<Rightarrow> 'a op \<Rightarrow> 'a op" where
  "with_kubectl_run E cmd wrap m st =
     (case oe_onKubectlRun E of
        None \<Rightarrow> m st
      | Some hook \<Rightarrow>
          (case hook (ops_log st) cmd of
             Some e \<Rightarrow> (Inl (Errored (wrap e)), log_event (HookRun cmd False) st)
           | None \<Rightarrow> op_defer (log_event (HookCleanup cmd)) m (log_event (HookRun cmd True) st)))"

definition run_command :: "ops_env \<Rightarrow> command \<Rightarrow> string \<Rightarrow> (string \<times> string) op" where
  "run_command E c f st =
     (let content = map_of (ops_files st) f; st' = log_event (RunCommand c content) st;
          r = oe_Run E (ops_log st') c content
      in (case ro_error r of None \<Rightarrow> Inr (ro_out r, ro_err r) | Some e \<Rightarrow> Inl (Errored e), st'))"

definition nonempty_outputs :: "string \<times> string \<Rightarrow> string list" where
  "nonempty_outputs io = filter (\<lambda>buf. length buf > 0) [TrimSpace (fst io), TrimSpace (snd io)]"

subsection \<open>Options\<close>

definition blank_printer :: printer_flags where
  "blank_printer = \<lparr>pf_operation = '''', pf_template = None, pf_json = False, pf_managedFields = False\<rparr>"

text \<open>The switch on the strategy that three of the constructors have.\<close>

definition complete_dry_run :: "ops_env \<Rightarrow> dry_run \<Rightarrow> printer_flags \<Rightarrow> go_error + printer_flags" where
  "complete_dry_run E strategy flags =
     (case strategy of
        dry_client \<Rightarrow> (case oe_Complete E ''%s (dry run)'' of
            Some e \<Rightarrow> Inl (wrap_err ''error configuring client dryrun printer'' e)
          | None \<Rightarrow> Inr (flags\<lparr>pf_template := Some ''%s (dry run)''\<rparr>))
      | dry_server \<Rightarrow> (case oe_Complete E ''%s (server dry run)'' of
            Some e \<Rightarrow> Inl (wrap_err ''error configuring server dryrun printer'' e)
          | None \<Rightarrow> Inr (flags\<lparr>pf_template := Some ''%s (server dry run)''\<rparr>))
      | dry_none \<Rightarrow> Inr flags)"

definition newApplyOptionsCommon ::
  "ops_env \<Rightarrow> unstructured \<Rightarrow> string \<Rightarrow> bool \<Rightarrow> bool \<Rightarrow> bool \<Rightarrow> dry_run \<Rightarrow> string \<Rightarrow> apply_options res" where
  "newApplyOptionsCommon E obj fileName validate force serverSideApply dryRunStrategy mgr =
     bind_res (check ''failed to create dynamic client'' (cl_NewDynamic (oe_client E))) (\<lambda>_.
     bind_res (wrapping ''failed to create delete flags'' (lift_err (oe_DeleteFlags E))) (\<lambda>deleteOptions.
     (let validateDirective = (if validate then ''Strict'' else ''Ignore'') in
      bind_res (check ''failed to create validator'' (oe_Validator E validateDirective)) (\<lambda>_.
      bind_res (check ''failed to create restmapper'' (oe_RESTMapper E)) (\<lambda>_.
      Inr \<lparr>ao_ServerSideApply = serverSideApply, ao_Overwrite = True, ao_OpenAPIPatch = True,
           ao_DryRunStrategy = dryRunStrategy, ao_FieldManager = mgr, ao_Validation = validateDirective,
           ao_DeleteOptions = deleteOptions\<lparr>do_Filenames := [fileName], do_ForceDeletion := force\<rparr>,
           ao_Namespace = GetNamespace obj, ao_ForceConflicts = False,
           ao_ToPrinter = (\<lambda>_. Inl (Err ReasonOther ''no printer''))\<rparr>)))))"

definition ops_printer :: "ops_env \<Rightarrow> dry_run \<Rightarrow> string \<Rightarrow> go_error + printer_flags" where
  "ops_printer E strategy operation =
     (case complete_dry_run E strategy (blank_printer\<lparr>pf_operation := operation\<rparr>) of
        Inl e \<Rightarrow> Inl e
      | Inr flags \<Rightarrow> (case oe_ToPrinter E flags of Some e \<Rightarrow> Inl e | None \<Rightarrow> Inr flags))"

definition newApplyOptions ::
  "ops_env \<Rightarrow> unstructured \<Rightarrow> string \<Rightarrow> bool \<Rightarrow> bool \<Rightarrow> bool \<Rightarrow> dry_run \<Rightarrow> string \<Rightarrow> apply_options res" where
  "newApplyOptions E obj fileName validate force serverSideApply dryRunStrategy mgr =
     bind_res (newApplyOptionsCommon E obj fileName validate force serverSideApply dryRunStrategy mgr) (\<lambda>o0.
     (let o1 = o0\<lparr>ao_ToPrinter := ops_printer E (ao_DryRunStrategy o0)\<rparr>;
          o2 = (if serverSideApply then o1\<lparr>ao_ForceConflicts := True\<rparr> else o1)
      in bind_res (check ''error validating options'' (oe_Validate E (CmdApply o2))) (\<lambda>_. Inr o2)))"

text \<open>The printer of the server-side comparison refuses every other strategy; \<open>show_dry\<close> is the verb d.\<close>

definition show_dry :: "dry_run \<Rightarrow> string" where
  "show_dry s = (case s of dry_none \<Rightarrow> ''0'' | dry_client \<Rightarrow> ''1'' | dry_server \<Rightarrow> ''2'')"

definition diff_printer :: "ops_env \<Rightarrow> dry_run \<Rightarrow> string \<Rightarrow> go_error + printer_flags" where
  "diff_printer E strategy operation =
     (if strategy \<noteq> dry_server then
        Inl (Err ReasonOther (''invalid dry run strategy passed to server-side diff dry run applier: '' @
          show_dry strategy @ '', expected '' @ show_dry dry_server))
      else
        (let flags = blank_printer\<lparr>pf_operation := operation, pf_json := True, pf_managedFields := True\<rparr> in
         case oe_ToPrinter E flags of
           Some e \<Rightarrow> Inl (wrap_err ''error configuring server-side diff printer'' e)
         | None \<Rightarrow> Inr flags))"

definition diff_newApplyOptions ::
  "ops_env \<Rightarrow> unstructured \<Rightarrow> string \<Rightarrow> bool \<Rightarrow> bool \<Rightarrow> bool \<Rightarrow> dry_run \<Rightarrow> string \<Rightarrow> apply_options res" where
  "diff_newApplyOptions E obj fileName validate force serverSideApply dryRunStrategy mgr =
     bind_res (newApplyOptionsCommon E obj fileName validate force serverSideApply dryRunStrategy mgr) (\<lambda>o0.
     (let o1 = o0\<lparr>ao_ToPrinter := diff_printer E (ao_DryRunStrategy o0), ao_ForceConflicts := True\<rparr>
      in bind_res (check ''error validating options'' (oe_Validate E (CmdApply o1))) (\<lambda>_. Inr o1)))"

definition newCreateOptions :: "ops_env \<Rightarrow> string \<Rightarrow> dry_run \<Rightarrow> create_options res" where
  "newCreateOptions E fileName dryRunStrategy =
     bind_res (check ''error configuring recorder'' (oe_Recorder E)) (\<lambda>_.
     bind_res (lift_err (complete_dry_run E dryRunStrategy blank_printer)) (\<lambda>flags.
     bind_res (check ''error configuring printer'' (oe_ToPrinter E flags)) (\<lambda>_.
     (let o1 = \<lparr>co_DryRunStrategy = dryRunStrategy, co_Filenames = [fileName], co_Printer = flags\<rparr> in
      bind_res (check ''error validating options'' (oe_Validate E (CmdCreate o1 False False))) (\<lambda>_. Inr o1)))))"

definition newReplaceOptions :: "ops_env \<Rightarrow> string \<Rightarrow> string \<Rightarrow> bool \<Rightarrow> dry_run \<Rightarrow> replace_options res" where
  "newReplaceOptions E fileName namespace force dryRunStrategy =
     bind_res (check ''error configuring recorder'' (oe_Recorder E)) (\<lambda>_.
     bind_res (check ''error configuring dynamic client'' (cl_NewDynamic (oe_client E))) (\<lambda>_.
     bind_res (wrapping ''error configuring delete'' (lift_err (oe_DeleteFlags E))) (\<lambda>deleteOptions.
     bind_res (lift_err (complete_dry_run E dryRunStrategy blank_printer)) (\<lambda>flags.
     bind_res (check ''error configuring printer'' (oe_ToPrinter E flags)) (\<lambda>_.
     (let d1 = deleteOptions\<lparr>do_Filenames := [fileName]\<rparr>;
          d2 = (if dryRunStrategy = dry_none then d1\<lparr>do_ForceDeletion := force\<rparr> else d1);
          o1 = \<lparr>ro_DeleteOptions = d2, ro_DryRunStrategy = dryRunStrategy, ro_Namespace = namespace, ro_Printer = flags\<rparr> in
      bind_res (check ''error validating options'' (oe_Validate E (CmdReplace o1))) (\<lambda>_. Inr o1)))))))"

definition newReconcileOptions :: "ops_env \<Rightarrow> string \<Rightarrow> string \<Rightarrow> dry_run \<Rightarrow> reconcile_options res" where
  "newReconcileOptions E fileName namespace dryRunStrategy =
     (let dry = (dryRunStrategy \<noteq> dry_none) in
      bind_res (if dry then check ''error configuring client dryrun printer'' (oe_Complete E ''%s (dry run)'') else Inr ()) (\<lambda>_.
      (let flags = (if dry then blank_printer\<lparr>pf_template := Some ''%s (dry run)''\<rparr> else blank_printer);
           o1 = \<lparr>re_DryRun = dry, re_Filenames = [fileName], re_Namespace = namespace, re_Printer = flags\<rparr> in
       bind_res (check ''error configuring printer'' (oe_ToPrinter E flags)) (\<lambda>_.
       bind_res (check ''error validating options'' (oe_Validate E (CmdReconcile o1))) (\<lambda>_. Inr o1)))))"

section \<open>Auth reconcile\<close>

definition authReconcile :: "ops_env \<Rightarrow> unstructured \<Rightarrow> string \<Rightarrow> dry_run \<Rightarrow> string op" where
  "authReconcile E obj manifestFile dryRunStrategy =
     op_bind (ret (check ''error creating kube client'' (cl_NewClientset (oe_client E)))) (\<lambda>_.
     op_bind
       (\<lambda>st. if dryRunStrategy = dry_none \<and> GetNamespace obj \<noteq> '''' then
           (let st' = log_event (NamespaceGet (GetNamespace obj)) st in
            (check (''error getting namespace '' @ GetNamespace obj) (oe_GetNamespace E (ops_log st') (GetNamespace obj)), st'))
         else (Inr (), st)) (\<lambda>_.
     op_bind (ret (wrapping ''error calling newReconcileOptions''
       (newReconcileOptions E manifestFile (GetNamespace obj) dryRunStrategy))) (\<lambda>reconcileOpts.
     op_bind (ret (cleaned (case oe_Validate E (CmdReconcile reconcileOpts) of
         None \<Rightarrow> Inr () | Some e \<Rightarrow> Inl (Errored e)))) (\<lambda>_.
     op_bind (\<lambda>st. let (r, st') = run_command E (CmdReconcile reconcileOpts) manifestFile st in (cleaned r, st')) (\<lambda>io.
     ret (Inr (Join (nonempty_outputs io) ''. '')))))))"

definition rbacReconcile :: "ops_env \<Rightarrow> unstructured \<Rightarrow> string \<Rightarrow> dry_run \<Rightarrow> string op" where
  "rbacReconcile E obj fileName dryRunStrategy =
     with_kubectl_run E ''auth'' (wrap_err ''error processing kubectl run auth'')
       (op_wrap ''error running kubectl auth reconcile'' (authReconcile E obj fileName dryRunStrategy))"

section \<open>The operations\<close>

definition runResourceCommand ::
  "ops_env \<Rightarrow> unstructured \<Rightarrow> dry_run \<Rightarrow> (string \<Rightarrow> (string \<times> string) op) \<Rightarrow> string op" where
  "runResourceCommand E obj dryRunStrategy executor =
     op_bind (createManifestFile E obj) (\<lambda>f.
       op_defer (delete_manifest E f)
         (op_bind
            (if GetAPIVersion obj = ''rbac.authorization.k8s.io/v1'' then
               op_bind (op_wrap ''error running rbacReconcile'' (rbacReconcile E obj f dryRunStrategy))
                 (\<lambda>outReconcile. ret (Inr [outReconcile]))
             else ret (Inr [])) (\<lambda>out.
          op_bind (\<lambda>st. let (r, st') = executor f st in (cleaned r, st')) (\<lambda>io.
            ret (Inr (Join (out @ nonempty_outputs io) ''. ''))))))"

definition diff_runResourceCommand ::
  "ops_env \<Rightarrow> unstructured \<Rightarrow> (string \<Rightarrow> (string \<times> string) op) \<Rightarrow> string op" where
  "diff_runResourceCommand E obj executor =
     op_bind (createManifestFile E obj) (\<lambda>f.
       op_defer (delete_manifest E f)
         (op_bind (\<lambda>st. let (r, st') = executor f st in (cleaned r, st')) (\<lambda>(stdout, stderr).
            ret (if stderr \<noteq> '''' \<and> stdout = ''''
                 then fail (''server-side dry run apply had non-empty stderr: '' @ stderr)
                 else Inr stdout))))"

definition replace_executor ::
  "ops_env \<Rightarrow> unstructured \<Rightarrow> dry_run \<Rightarrow> bool \<Rightarrow> string \<Rightarrow> (string \<times> string) op" where
  "replace_executor E obj dryRunStrategy force fileName =
     with_kubectl_run E ''replace'' id
       (op_bind (ret (newReplaceOptions E fileName (GetNamespace obj) force dryRunStrategy))
          (\<lambda>o'. run_command E (CmdReplace o') fileName))"

definition ReplaceResource :: "ops_env \<Rightarrow> unstructured \<Rightarrow> dry_run \<Rightarrow> bool \<Rightarrow> string op" where
  "ReplaceResource E obj dryRunStrategy force =
     runResourceCommand E obj dryRunStrategy (replace_executor E obj dryRunStrategy force)"

definition create_executor :: "ops_env \<Rightarrow> dry_run \<Rightarrow> bool \<Rightarrow> string \<Rightarrow> (string \<times> string) op" where
  "create_executor E dryRunStrategy validate fileName =
     with_kubectl_run E ''create'' id
       (op_bind (ret (newCreateOptions E fileName dryRunStrategy))
          (\<lambda>o'. run_command E (CmdCreate o' False validate) fileName))"

definition ops_CreateResource :: "ops_env \<Rightarrow> unstructured \<Rightarrow> dry_run \<Rightarrow> bool \<Rightarrow> string op" where
  "ops_CreateResource E obj dryRunStrategy validate =
     runResourceCommand E obj dryRunStrategy (create_executor E dryRunStrategy validate)"

definition apply_executor ::
  "ops_env \<Rightarrow> unstructured \<Rightarrow> dry_run \<Rightarrow> bool \<Rightarrow> bool \<Rightarrow> bool \<Rightarrow> string \<Rightarrow> string \<Rightarrow> (string \<times> string) op" where
  "apply_executor E obj dryRunStrategy force validate serverSideApply mgr fileName =
     with_kubectl_run E ''apply'' id
       (op_bind (ret (newApplyOptions E obj fileName validate force serverSideApply dryRunStrategy mgr))
          (\<lambda>o'. run_command E (CmdApply o') fileName))"

definition ApplyResource ::
  "ops_env \<Rightarrow> unstructured \<Rightarrow> dry_run \<Rightarrow> bool \<Rightarrow> bool \<Rightarrow> bool \<Rightarrow> string \<Rightarrow> string op" where
  "ApplyResource E obj dryRunStrategy force validate serverSideApply mgr =
     runResourceCommand E obj dryRunStrategy
       (apply_executor E obj dryRunStrategy force validate serverSideApply mgr)"

definition diff_apply_executor ::
  "ops_env \<Rightarrow> unstructured \<Rightarrow> dry_run \<Rightarrow> bool \<Rightarrow> bool \<Rightarrow> bool \<Rightarrow> string \<Rightarrow> string \<Rightarrow> (string \<times> string) op" where
  "diff_apply_executor E obj dryRunStrategy force validate serverSideApply mgr fileName =
     with_kubectl_run E ''apply'' id
       (op_bind (ret (diff_newApplyOptions E obj fileName validate force serverSideApply dryRunStrategy mgr))
          (\<lambda>o'. run_command E (CmdApply o') fileName))"

definition diff_ApplyResource ::
  "ops_env \<Rightarrow> unstructured \<Rightarrow> dry_run \<Rightarrow> bool \<Rightarrow> bool \<Rightarrow> bool \<Rightarrow> string \<Rightarrow> string op" where
  "diff_ApplyResource E obj dryRunStrategy force validate serverSideApply mgr =
     diff_runResourceCommand E obj (diff_apply_executor E obj dryRunStrategy force validate serverSideApply mgr)"

text \<open>\<open>UpdateResource\<close> goes through the dynamic client; both dry runs are dry runs of the server.\<close>

definition UpdateResource ::
  "client_api \<Rightarrow> unstructured \<Rightarrow> dry_run \<Rightarrow> request list \<times> (go_error + unstructured)" where
  "UpdateResource api obj dryRunStrategy =
     (case cl_NewDynamic api of
        Some e \<Rightarrow> ([], Inl (wrap_err ''error creating dynamic client for config'' e))
      | None \<Rightarrow>
          (case cl_NewDiscovery api of
             Some e \<Rightarrow> ([], Inl (wrap_err ''error creating discovery client for config'' e))
           | None \<Rightarrow>
               (case ServerResourceForGroupVersionKind (cl_msgs api) (cl_ServerResources api) (GVK obj) ''update'' of
                  Inl e \<Rightarrow> ([], Inl (wrap_err ''error creating discovery client for config'' e))
                | Inr apiResource \<Rightarrow>
                    (let i = ToResourceInterface apiResource
                           \<lparr>gvrGroup = gvkGroup (GVK obj), gvrVersion = gvkVersion (GVK obj),
                            gvrResource = apiName apiResource\<rparr> (GetNamespace obj);
                         opts = \<lparr>wo_DryRun = (if dryRunStrategy = dry_client \<or> dryRunStrategy = dry_server
                           then [''All''] else []), wo_FieldManager = ''''\<rparr>;
                         req = ReqUpdate i obj opts
                     in ([req], cl_Do api req)))))"

text \<open>\<open>kubeCmdFactory\<close>: the flags that the factory is made from.\<close>

record config_flags =
  cf_Namespace :: "string option"
  cf_KubeConfig :: string
  cf_DiscoveryBurst :: int
  cf_DiscoveryQPS :: int
  cf_Impersonate :: string
  cf_ImpersonateUID :: string
  cf_ImpersonateGroup :: "string list"

definition kubeCmdFactory :: "string \<Rightarrow> string \<Rightarrow> rest_config \<Rightarrow> config_flags" where
  "kubeCmdFactory kubeconfig ns config =
     \<lparr>cf_Namespace = (if ns \<noteq> '''' then Some ns else None), cf_KubeConfig = kubeconfig,
      cf_DiscoveryBurst = rc_Burst config, cf_DiscoveryQPS = rc_QPS config,
      cf_Impersonate = rc_ImpersonateUser config, cf_ImpersonateUID = rc_ImpersonateUID config,
      cf_ImpersonateGroup = rc_ImpersonateGroups config\<rparr>"

end
