(* ===== verification/KubectlProps.thy ===== *)
theory KubectlProps
  imports ResourceOps
begin

text \<open>
  Properties of the kubectl wrapper: which API resources it reports, what a deletion and a dry-run update
  ask the server for, the life of the temporary kubeconfig, and conversion.
\<close>

section \<open>API resources\<close>

definition gv_group :: "client_api \<Rightarrow> string \<Rightarrow> string" where
  "gv_group api gv = (case cl_ParseGroupVersion api gv of Inl _ \<Rightarrow> '''' | Inr (g, _) \<Rightarrow> g)"

definition parses :: "client_api \<Rightarrow> string \<Rightarrow> bool" where
  "parses api gv \<longleftrightarrow> (\<exists>p. cl_ParseGroupVersion api gv = Inr p)"

definition info_of :: "client_api \<Rightarrow> string \<Rightarrow> APIResource \<Rightarrow> APIResourceInfo" where
  "info_of api gv r = \<lparr>infoGroupKind = (gv_group api gv, apiKind r),
     infoGVR = ToGroupVersionResource api gv r, infoMeta = r\<rparr>"

lemma api_infos_eq:
  "api_infos api host excluded keep gv rs =
     (let kept = filter (kept_resource host excluded keep (gv_group api gv)) rs in
      if kept = [] then Inr []
      else case cl_ParseGroupVersion api gv of
          Inl e \<Rightarrow> Inl (wrap_err (''failed to parse group version '' @ quote gv) e)
        | Inr _ \<Rightarrow> Inr (map (info_of api gv) kept))"
  by (induction rs) (auto simp: gv_group_def info_of_def Let_def split: sum.splits prod.splits)

definition infos_of_list ::
  "client_api \<Rightarrow> (APIResource \<Rightarrow> string \<Rightarrow> bool) \<Rightarrow> APIResourceList \<Rightarrow> APIResourceInfo list" where
  "infos_of_list api P l = map (info_of api (listGroupVersion l))
     (filter (\<lambda>r. P r (gv_group api (listGroupVersion l))) (listAPIResources l))"

lemma all_api_infos_ok:
  assumes "\<forall>l\<in>set ls. parses api (listGroupVersion l) \<or>
      (\<forall>r\<in>set (listAPIResources l). \<not> kept_resource host excluded keep (gv_group api (listGroupVersion l)) r)"
  shows "all_api_infos api host excluded keep ls =
     Inr (concat (map (infos_of_list api (\<lambda>r g. kept_resource host excluded keep g r)) ls))"
  using assms
  by (induction ls) (auto simp: api_infos_eq infos_of_list_def parses_def Let_def filter_empty_conv)

lemma all_api_infos_error:
  assumes "l \<in> set ls" "\<not> parses api (listGroupVersion l)" "r \<in> set (listAPIResources l)"
    "kept_resource host excluded keep (gv_group api (listGroupVersion l)) r"
  shows "\<exists>e. all_api_infos api host excluded keep ls = Inl e"
  using assms(1)
proof (induction ls)
  case (Cons a ls)
  show ?case
  proof (cases "a = l")
    case True
    with assms(2-4) show ?thesis
      by (auto simp: api_infos_eq parses_def Let_def filter_empty_conv split: sum.split)
  next
    case False
    with Cons show ?thesis by (auto split: sum.splits)
  qed
qed simp

definition watchable :: "APIResource \<Rightarrow> bool" where
  "watchable r \<longleftrightarrow> isSupportedVerb r ''list'' \<and> isSupportedVerb r ''watch''"

text \<open>
  When discovery answers, even in part, the API resources are those of its lists, in order, whose kind
  is not excluded and which can be listed and watched; it is an error only if discovery found nothing at
  all, or such a resource comes under a group version that does not parse.
\<close>

theorem GetAPIResources_spec:
  assumes "cl_NewDiscovery api = None"
    and "(if preferred then cl_ServerPreferredResources api else cl_ServerGroupsAndResources api) = (ls, err)"
  shows "let wanted = (\<lambda>r g. \<not> excluded g (apiKind r) host \<and> watchable r);
             bad = (\<exists>l\<in>set ls. \<exists>r\<in>set (listAPIResources l). \<not> parses api (listGroupVersion l) \<and>
               wanted r (gv_group api (listGroupVersion l)))
    in (if err \<noteq> None \<and> ls = [] then kubectl_GetAPIResources api host preferred excluded =
          Inl (wrap_err ''failed to discover server resources, zero resources returned'' (the err))
        else if bad then isl (kubectl_GetAPIResources api host preferred excluded)
        else kubectl_GetAPIResources api host preferred excluded = Inr (concat (map (infos_of_list api wanted) ls)))"
proof -
  let ?keep = "\<lambda>apiResource. isSupportedVerb apiResource ''list'' \<and> isSupportedVerb apiResource ''watch''"
  let ?wanted = "\<lambda>r g. \<not> excluded g (apiKind r) host \<and> watchable r"
  have k: "kept_resource host excluded ?keep g r \<longleftrightarrow> ?wanted r g" for g r
    by (simp add: kept_resource_def watchable_def)
  have g: "kubectl_GetAPIResources api host preferred excluded =
      (if err \<noteq> None \<and> ls = [] then Inl (wrap_err ''failed to discover server resources, zero resources returned'' (the err))
       else all_api_infos api host excluded ?keep ls)"
    using assms by (simp add: kubectl_GetAPIResources_def filterAPIResources_def split: option.split)
  show ?thesis
  proof (cases "\<exists>l\<in>set ls. \<exists>r\<in>set (listAPIResources l). \<not> parses api (listGroupVersion l) \<and>
      ?wanted r (gv_group api (listGroupVersion l))")
    case True
    then obtain e where "all_api_infos api host excluded ?keep ls = Inl e"
      using all_api_infos_error [of _ ls api _ host excluded ?keep] k by blast
    with True g show ?thesis by auto
  next
    case False
    then have "\<forall>l\<in>set ls. parses api (listGroupVersion l) \<or>
        (\<forall>r\<in>set (listAPIResources l). \<not> kept_resource host excluded ?keep (gv_group api (listGroupVersion l)) r)"
      using k by blast
    from all_api_infos_ok [OF this] False g k show ?thesis by auto
  qed
qed

section \<open>Requests\<close>

text \<open>
  A deletion always says how dependents are deleted. Without a policy the options are not completed but
  replaced: a dry run, a precondition and a grace period are lost, and the deletion is real. An update,
  for either dry run, is a dry run of the server.
\<close>

theorem delete_and_update_requests:
  "(\<forall>req\<in>set (fst (DeleteResource api gvk name namespace opts)). \<exists>i opts'. req = ReqDelete i name opts' \<and>
      PropagationPolicy opts' \<noteq> None \<and>
      (if PropagationPolicy opts = None
       then DryRun opts' = [] \<and> Preconditions opts' = None \<and> GracePeriodSeconds opts' = None \<and>
         PropagationPolicy opts' = Some ''Foreground''
       else opts' = opts)) \<and>
   (\<forall>req\<in>set (fst (UpdateResource api obj s)). \<exists>i opts'. req = ReqUpdate i obj opts' \<and>
      wo_DryRun opts' = (if s = dry_none then [] else [''All'']))"
  by (auto simp: DeleteResource_def send_def effective_options_def UpdateResource_def Let_def
      split: sum.splits option.splits)
    (metis dry_run.exhaust)+

text \<open>A client whose server has secrets.\<close>

definition secret_client :: client_api where
  "secret_client = \<lparr>cl_NewDiscovery = None, cl_NewDynamic = None, cl_NewClientset = None,
     cl_ServerPreferredResources = ([\<lparr>listGroupVersion = ''v1'', listAPIResources = [\<lparr>apiName = ''secrets'',
        apiKind = SecretKind, apiNamespaced = True, apiVerbs = [''list'', ''Watch'']\<rparr>, \<lparr>apiName = ''bindings'',
        apiKind = ''Binding'', apiNamespaced = True, apiVerbs = [''create'']\<rparr>]\<rparr>], Some (Err ReasonOther ''partial'')),
     cl_ServerGroupsAndResources = ([], None),
     cl_ServerResources = (\<lambda>_. Inr [\<lparr>apiName = ''secrets'', apiKind = SecretKind, apiNamespaced = True,
        apiVerbs = [''get'', ''update'', ''delete'']\<rparr>]), cl_ServerVersion = Inr (''1'', ''30''),
     cl_msgs = \<lparr>NotFoundText = (\<lambda>_. ''''), MethodNotSupportedText = (\<lambda>_ _. '''')\<rparr>,
     cl_ParseGroupVersion = (\<lambda>_. Inr ('''', ''v1'')), cl_Do = (\<lambda>_. Inr blank)\<rparr>"

theorem GetAPIResources_spec_witness:
  "kubectl_GetAPIResources secret_client ''host'' True (\<lambda>_ _ _. False) =
     Inr [\<lparr>infoGroupKind = ('''', SecretKind),
       infoGVR = \<lparr>gvrGroup = '''', gvrVersion = ''v1'', gvrResource = ''secrets''\<rparr>,
       infoMeta = \<lparr>apiName = ''secrets'', apiKind = SecretKind, apiNamespaced = True, apiVerbs = [''list'', ''Watch'']\<rparr>\<rparr>] \<and>
   \<not> isl (kubectl_GetAPIResources secret_client ''host'' True (\<lambda>_ _ _. False))"
proof
  show "kubectl_GetAPIResources secret_client ''host'' True (\<lambda>_ _ _. False) =
     Inr [\<lparr>infoGroupKind = ('''', SecretKind),
       infoGVR = \<lparr>gvrGroup = '''', gvrVersion = ''v1'', gvrResource = ''secrets''\<rparr>,
       infoMeta = \<lparr>apiName = ''secrets'', apiKind = SecretKind, apiNamespaced = True, apiVerbs = [''list'', ''Watch'']\<rparr>\<rparr>]"
    by code_simp
  show "\<not> isl (kubectl_GetAPIResources secret_client ''host'' True (\<lambda>_ _ _. False))"
    using GetAPIResources_spec [of secret_client True _ _ "\<lambda>_ _ _. False" "''host''"]
    by (simp add: secret_client_def parses_def Let_def)
qed

text \<open>What the deletion loses, on a concrete request.\<close>

lemma delete_loses_dry_run:
  "DeleteResource secret_client \<lparr>gvkGroup = '''', gvkVersion = ''v1'', gvkKind = SecretKind\<rparr> ''s'' ''ns''
     \<lparr>GracePeriodSeconds = Some 30, Preconditions = Some ''uid'', OrphanDependents = None,
      PropagationPolicy = None, DryRun = [''All'']\<rparr> =
   ([ReqDelete \<lparr>if_resource = \<lparr>gvrGroup = '''', gvrVersion = ''v1'', gvrResource = ''secrets''\<rparr>, if_namespace = Some ''ns''\<rparr> ''s''
      \<lparr>GracePeriodSeconds = None, Preconditions = None, OrphanDependents = None,
       PropagationPolicy = Some ''Foreground'', DryRun = []\<rparr>], None)"
  by (simp add: DeleteResource_def send_def resource_interface_def secret_client_def ToResourceInterface_def
      ServerResourceForGroupVersionKind_def isSupportedVerb_def effective_options_def ToLower_def)

section \<open>The temporary kubeconfig\<close>

text \<open>
  The kubeconfig exists exactly while resources are managed: after a failure there is no file that was
  not there before, after a success there is one more, which holds the encoded kubeconfig, and the
  cleanup takes it away.
\<close>

theorem kubeconfig_lifecycle:
  assumes "temp_fresh os" "\<forall>f. os_Remove os f"
  shows "case ManageResources os encode config fs of
      (Inl _, fs') \<Rightarrow> fs' = fs
    | (Inr f, fs') \<Rightarrow> map_of fs f = None \<and>
        (\<exists>content. encode (NewKubeConfig config '''') = Inr content \<and> fs' = map_put f content fs) \<and>
        cleanup_kubeconfig os f fs' = fs"
proof (cases "os_CreateTemp os (TempDir os) fs")
  case (Inl e)
  then show ?thesis by (simp add: ManageResources_def CreateTemp_def)
next
  case (Inr f)
  with assms(1) have n: "map_of fs f = None" by (auto simp: temp_fresh_def)
  note d = DeleteFile_created [OF n, of os, OF assms(2) [rule_format]]
  show ?thesis
    using Inr n d
    by (auto simp: ManageResources_def CreateTemp_def WriteKubeConfig_def WriteFile_def cleanup_kubeconfig_def map_put_put
        split: sum.split option.split)
qed

definition one_os :: os_api where
  "one_os = \<lparr>os_StatDir = (\<lambda>_. Inr False), os_CreateTemp = (\<lambda>_ fs. if fs = [] then Inr ''t'' else Inl (Err ReasonOther ''full'')),
     os_Write = (\<lambda>_ _. None), os_Partial = (\<lambda>_ _. ''''), os_Close = (\<lambda>_. None), os_Remove = (\<lambda>_. True)\<rparr>"

definition one_config :: rest_config where
  "one_config = \<lparr>rc_Host = ''https://host'', rc_ServerName = '''', rc_Insecure = False, rc_CAFile = '''', rc_CAData = ''ca'',
     rc_CertFile = '''', rc_CertData = '''', rc_KeyFile = '''', rc_KeyData = '''', rc_Username = '''', rc_Password = '''',
     rc_BearerToken = ''token'', rc_BearerTokenFile = '''', rc_ExecProvider = None, rc_Proxy = None, rc_Burst = 0, rc_QPS = 0,
     rc_ImpersonateUser = '''', rc_ImpersonateUID = '''', rc_ImpersonateGroups = []\<rparr>"

theorem kubeconfig_lifecycle_witness:
  "case ManageResources one_os (\<lambda>k. Inr (CurrentContext k)) one_config [] of
      (Inl _, fs') \<Rightarrow> fs' = []
    | (Inr f, fs') \<Rightarrow> map_of [] f = (None :: string option) \<and>
        (\<exists>content. Inr (CurrentContext (NewKubeConfig one_config '''')) = (Inr content :: go_error + string) \<and>
           fs' = map_put f content []) \<and> cleanup_kubeconfig one_os f fs' = []"
  by (rule kubeconfig_lifecycle [where encode = "\<lambda>k. Inr (CurrentContext k)"])
    (simp_all add: temp_fresh_def one_os_def)

section \<open>Conversion\<close>

text \<open>An object that already has the version is copied; nothing can go wrong with it.\<close>

lemma ConvertToVersion_same:
  "ConvertToVersion s p obj (gvkGroup (GVK obj)) (gvkVersion (GVK obj)) = Inr (obj\<lparr>Ptr := p\<rparr>)"
  by (simp add: ConvertToVersion_def)

lemma ConvertToVersion_fresh: "ConvertToVersion s p obj g v = Inr x \<Longrightarrow> Ptr x = p"
  by (auto simp: ConvertToVersion_def convertToVersionWithScheme_def split: if_splits sum.splits)

lemma LoadOpenAPISchema_parser:
  "LoadOpenAPISchema api oapi = Some (r, Inr p) \<Longrightarrow> r \<noteq> None \<and> newGVKParser oapi = Some (Inr p)"
  by (auto simp: LoadOpenAPISchema_def split: option.splits sum.splits)

end
