(* ===== verification/ResourceOpsProps.thy ===== *)
theory ResourceOpsProps
  imports KubectlProps DiffSecret
begin

text \<open>
  Properties of the operations on resources: a dry run reaches every command, the hooks are closed, the
  manifest file goes away, RBAC objects. The three operations share the contract of their executors,
  the locale \<open>kubectl_executor\<close>.
\<close>

section \<open>Vocabulary\<close>

fun dry_command :: "command \<Rightarrow> bool" where
  "dry_command (CmdApply o') \<longleftrightarrow> ao_DryRunStrategy o' \<noteq> dry_none"
| "dry_command (CmdReplace o') \<longleftrightarrow> ro_DryRunStrategy o' \<noteq> dry_none"
| "dry_command (CmdCreate o' _ _) \<longleftrightarrow> co_DryRunStrategy o' \<noteq> dry_none"
| "dry_command (CmdReconcile o') \<longleftrightarrow> re_DryRun o'"

fun follows :: "dry_run \<Rightarrow> ops_event \<Rightarrow> bool" where
  "follows s (RunCommand c _) \<longleftrightarrow> (dry_command c \<longleftrightarrow> s \<noteq> dry_none)"
| "follows s _ \<longleftrightarrow> True"

text \<open>
  The hook that is open after a log, if the log opens one at a time and closes what it has opened.
\<close>

fun open_hook :: "ops_event list \<Rightarrow> string option \<Rightarrow> string option option" where
  "open_hook [] s = Some s"
| "open_hook (HookRun c True # es) s = (if s = None then open_hook es (Some c) else None)"
| "open_hook (HookCleanup c # es) s = (if s = Some c then open_hook es None else None)"
| "open_hook (_ # es) s = open_hook es s"

lemma open_hook_append [simp]:
  "open_hook (es @ fs) s = (case open_hook es s of None \<Rightarrow> None | Some s' \<Rightarrow> open_hook fs s')"
  by (induction es s rule: open_hook.induct) (auto split: option.split)

text \<open>
  \<open>emits s h m\<close>: the operation \<open>m\<close> leaves the files alone, its commands follow the strategy \<open>s\<close>, and with
  the hook \<open>h\<close> open it closes every other hook that it opens.
\<close>

definition emits :: "dry_run \<Rightarrow> string option \<Rightarrow> 'a op \<Rightarrow> bool" where
  "emits s h m \<longleftrightarrow> (\<forall>st. \<exists>new. ops_files (snd (m st)) = ops_files st \<and> ops_log (snd (m st)) = ops_log st @ new \<and>
     list_all (follows s) new \<and> open_hook new h = Some h)"

lemma emitsI:
  "(\<And>st. \<exists>new. ops_files (snd (m st)) = ops_files st \<and> ops_log (snd (m st)) = ops_log st @ new \<and>
     list_all (follows s) new \<and> open_hook new h = Some h) \<Longrightarrow> emits s h m"
  by (simp add: emits_def)

named_theorems op_intros \<open>what an operation does outside, by its parts\<close>

lemma emits_ret [op_intros]: "emits s h (ret r)"
  by (rule emitsI, rule exI [of _ "[]"]) (simp add: ret_def)

lemma emits_bind [op_intros]:
  assumes "emits s h m" "\<And>x. emits s h (f x)"
  shows "emits s h (op_bind m f)"
proof (rule emitsI)
  fix st
  obtain r st' where m: "m st = (r, st')" by fastforce
  from assms(1) obtain new where new: "ops_files st' = ops_files st" "ops_log st' = ops_log st @ new"
    "list_all (follows s) new" "open_hook new h = Some h"
    unfolding emits_def by (metis m snd_conv)
  show "\<exists>new. ops_files (snd (op_bind m f st)) = ops_files st \<and> ops_log (snd (op_bind m f st)) = ops_log st @ new \<and>
     list_all (follows s) new \<and> open_hook new h = Some h"
  proof (cases r)
    case (Inl e)
    with m new show ?thesis by (auto simp: op_bind_def)
  next
    case (Inr x)
    from assms(2) [of x] obtain new' where "ops_files (snd (f x st')) = ops_files st'"
      "ops_log (snd (f x st')) = ops_log st' @ new'" "list_all (follows s) new'" "open_hook new' h = Some h"
      unfolding emits_def by blast
    with m new Inr show ?thesis by (intro exI [of _ "new @ new'"]) (simp add: op_bind_def)
  qed
qed

lemma emits_if [op_intros]: "emits s h m \<Longrightarrow> emits s h m' \<Longrightarrow> emits s h (if b then m else m')"
  by simp

lemma emits_prod [op_intros]: "(\<And>a b. emits s h (f a b)) \<Longrightarrow> emits s h (case x of (a, b) \<Rightarrow> f a b)"
  by (simp add: case_prod_beta)

lemma emits_map [op_intros]: "emits s h m \<Longrightarrow> emits s h (\<lambda>st. let (r, st') = m st in (g r, st'))"
  by (simp add: emits_def case_prod_beta Let_def)

lemma emits_wrap [op_intros]: "emits s h m \<Longrightarrow> emits s h (op_wrap msg m)"
  by (simp add: emits_def op_wrap_def case_prod_beta Let_def)

lemma emits_command [op_intros]: "follows s (RunCommand c None) \<Longrightarrow> emits s h (run_command E c f)"
  by (rule emitsI, rule exI [of _ "[RunCommand c _]"])
    (simp add: run_command_def log_event_def Let_def split: option.split)

lemma emits_namespace [op_intros]:
  "emits s h (\<lambda>st. if b then (let st' = log_event (NamespaceGet n) st in (r st', st')) else (Inr (), st))"
  by (rule emitsI, cases b) (auto simp: log_event_def Let_def)

lemma emits_hook [op_intros]:
  assumes "\<And>h. emits s h m"
  shows "emits s None (with_kubectl_run E cmd wrap m)"
proof (rule emitsI)
  fix st
  show "\<exists>new. ops_files (snd (with_kubectl_run E cmd wrap m st)) = ops_files st \<and>
     ops_log (snd (with_kubectl_run E cmd wrap m st)) = ops_log st @ new \<and>
     list_all (follows s) new \<and> open_hook new None = Some None"
  proof (cases "oe_onKubectlRun E")
    case None
    with assms [of None] show ?thesis by (simp add: with_kubectl_run_def emits_def)
  next
    case (Some hook)
    show ?thesis
    proof (cases "hook (ops_log st) cmd")
      case None
      from assms [of "Some cmd"] obtain new where
        "ops_files (snd (m (log_event (HookRun cmd True) st))) = ops_files (log_event (HookRun cmd True) st)"
        "ops_log (snd (m (log_event (HookRun cmd True) st))) = ops_log (log_event (HookRun cmd True) st) @ new"
        "list_all (follows s) new" "open_hook new (Some cmd) = Some (Some cmd)"
        unfolding emits_def by blast
      with Some None show ?thesis
        by (intro exI [of _ "HookRun cmd True # new @ [HookCleanup cmd]"])
          (simp add: with_kubectl_run_def op_defer_def log_event_def case_prod_beta Let_def)
    next
      case (Some e)
      with \<open>oe_onKubectlRun E = Some hook\<close> show ?thesis
        by (intro exI [of _ "[HookRun cmd False]"]) (simp add: with_kubectl_run_def log_event_def)
    qed
  qed
qed

section \<open>The manifest file\<close>

text \<open>A successful creation: the file is new and holds the manifest, nothing else has changed.\<close>

lemma createManifestFile_ok:
  assumes "createManifestFile E obj st = (Inr f, st')" "temp_fresh (oe_os E)"
  shows "map_of (ops_files st) f = None \<and>
    (\<exists>content. oe_MarshalJSON E obj = Inr content \<and> ops_files st' = map_put f content (ops_files st)) \<and>
    (\<exists>new. ops_log st' = ops_log st @ new \<and> (\<forall>e\<in>set new. \<exists>t. e = Logged t))"
  using assms
  by (auto simp: createManifestFile_def CreateTemp_def WriteFile_def op_bind_def ret_def maybeLogManifest_def
      temp_fresh_def map_put_put log_event_def split: sum.splits option.splits fault.splits if_splits prod.splits)

lemma createManifestFile_log:
  "\<exists>new. ops_log (snd (createManifestFile E obj st)) = ops_log st @ new \<and> (\<forall>e\<in>set new. \<exists>t. e = Logged t)"
  by (auto simp: createManifestFile_def CreateTemp_def WriteFile_def op_bind_def ret_def maybeLogManifest_def
      log_event_def split: sum.splits option.splits fault.splits if_splits prod.splits)

lemma logged_only:
  "\<forall>e\<in>set new. \<exists>t. e = Logged t \<Longrightarrow> list_all (follows s) new \<and> open_hook new h = Some h"
  by (induction new) auto

text \<open>
  \<open>runs s m\<close>: like \<open>emits\<close>, for an operation that works on a file of its own.
\<close>

definition runs :: "dry_run \<Rightarrow> 'a op \<Rightarrow> bool" where
  "runs s m \<longleftrightarrow> (\<forall>st. \<exists>new. ops_log (snd (m st)) = ops_log st @ new \<and> list_all (follows s) new \<and>
     open_hook new None = Some None)"

lemma runs_with_file:
  assumes "\<And>f. emits s None (body f)"
  shows "runs s (op_bind (createManifestFile E obj) (\<lambda>f. op_defer (delete_manifest E f) (body f)))"
  unfolding runs_def
proof
  fix st
  obtain r st1 where c: "createManifestFile E obj st = (r, st1)" by fastforce
  from createManifestFile_log [of E obj st] c obtain new where
    new: "ops_log st1 = ops_log st @ new" "\<forall>e\<in>set new. \<exists>t. e = Logged t" by auto
  note l = logged_only [OF new(2), of s None]
  show "\<exists>new. ops_log (snd (op_bind (createManifestFile E obj) (\<lambda>f. op_defer (delete_manifest E f) (body f)) st)) =
      ops_log st @ new \<and> list_all (follows s) new \<and> open_hook new None = Some None"
  proof (cases r)
    case (Inl e)
    with c new l show ?thesis by (auto simp: op_bind_def)
  next
    case (Inr f)
    from assms [of f] obtain new' where "ops_log (snd (body f st1)) = ops_log st1 @ new'"
      "list_all (follows s) new'" "open_hook new' None = Some None"
      unfolding emits_def by blast
    with c new l Inr show ?thesis
      by (intro exI [of _ "new @ new'"])
        (simp add: op_bind_def op_defer_def delete_manifest_def case_prod_beta Let_def)
  qed
qed

lemma file_restored:
  assumes "\<And>f. emits s None (body f)" "temp_fresh (oe_os E)" "\<And>f. os_Remove (oe_os E) f"
    and "createManifestFile E obj st = (Inr f, st1)"
  shows "ops_files (snd (op_bind (createManifestFile E obj) (\<lambda>f. op_defer (delete_manifest E f) (body f)) st)) =
    ops_files st"
proof -
  from assms(1) [of f] have "ops_files (snd (body f st1)) = ops_files st1"
    unfolding emits_def by blast
  moreover from createManifestFile_ok [OF assms(4,2)] obtain content where
    "map_of (ops_files st) f = None" "ops_files st1 = map_put f content (ops_files st)" by blast
  ultimately show ?thesis
    using assms(3,4) DeleteFile_created [of "ops_files st" f "oe_os E" content]
    by (simp add: op_bind_def op_defer_def delete_manifest_def case_prod_beta Let_def)
qed

section \<open>The options follow the strategy\<close>

lemma newApplyOptions_strategy:
  "newApplyOptions E obj f validate force ssa s mgr = Inr o' \<Longrightarrow> ao_DryRunStrategy o' = s \<and>
     do_Filenames (ao_DeleteOptions o') = [f] \<and> ao_Namespace o' = GetNamespace obj \<and>
     do_ForceDeletion (ao_DeleteOptions o') = force \<and> ao_ForceConflicts o' = ssa"
  by (auto simp: newApplyOptions_def newApplyOptionsCommon_def bind_res_eq_Inr Let_def split: if_splits)

lemma newReplaceOptions_strategy:
  "newReplaceOptions E f ns force s = Inr o' \<Longrightarrow> ro_DryRunStrategy o' = s \<and>
     do_Filenames (ro_DeleteOptions o') = [f]"
  by (auto simp: newReplaceOptions_def bind_res_eq_Inr Let_def split: if_splits)

lemma newCreateOptions_strategy:
  "newCreateOptions E f s = Inr o' \<Longrightarrow> co_DryRunStrategy o' = s \<and> co_Filenames o' = [f]"
  by (auto simp: newCreateOptions_def bind_res_eq_Inr Let_def)

lemma newReconcileOptions_strategy:
  "newReconcileOptions E f ns s = Inr o' \<Longrightarrow> (re_DryRun o' \<longleftrightarrow> s \<noteq> dry_none) \<and> re_Filenames o' = [f]"
  by (auto simp: newReconcileOptions_def bind_res_eq_Inr Let_def)

lemma emits_options:
  assumes "\<And>x. r = Inr x \<Longrightarrow> emits s h (f x)"
  shows "emits s h (op_bind (ret r) f)"
proof (cases r)
  case (Inl e)
  then show ?thesis by (intro emitsI exI [of _ "[]"]) (simp add: op_bind_def ret_def)
next
  case (Inr x)
  then have "op_bind (ret r) f = f x" by (simp add: op_bind_def ret_def fun_eq_iff)
  with assms [OF Inr] show ?thesis by simp
qed

lemma authReconcile_emits: "emits s h (authReconcile E obj f s)"
  unfolding authReconcile_def
  by (intro op_intros emits_options)
    (auto simp: wrapping_eq_Inr dest: newReconcileOptions_strategy)

lemma rbacReconcile_emits [op_intros]: "emits s None (rbacReconcile E obj f s)"
  unfolding rbacReconcile_def by (intro op_intros authReconcile_emits)

section \<open>The contract of an executor\<close>

locale kubectl_executor =
  fixes E :: ops_env and s :: dry_run and exec :: "string \<Rightarrow> (string \<times> string) op"
  assumes executes: "emits s None (exec f)"
begin

lemma runs_resource: "runs s (runResourceCommand E obj s exec)"
  unfolding runResourceCommand_def by (intro runs_with_file op_intros executes)

lemma restores:
  assumes "temp_fresh (oe_os E)" "\<And>f. os_Remove (oe_os E) f" "createManifestFile E obj st = (Inr f, st1)"
  shows "ops_files (snd (runResourceCommand E obj s exec st)) = ops_files st"
  unfolding runResourceCommand_def
  by (rule file_restored [OF _ assms, where s = s]) (intro op_intros executes)

end

lemma replace_emits: "emits s None (replace_executor E obj s force f)"
  unfolding replace_executor_def
  by (intro op_intros emits_options) (auto dest: newReplaceOptions_strategy)

lemma create_emits: "emits s None (create_executor E s validate f)"
  unfolding create_executor_def
  by (intro op_intros emits_options) (auto dest: newCreateOptions_strategy)

lemma apply_emits: "emits s None (apply_executor E obj s force validate ssa mgr f)"
  unfolding apply_executor_def
  by (intro op_intros emits_options) (auto dest: newApplyOptions_strategy)

interpretation replace_cmd: kubectl_executor E s "replace_executor E obj s force" for E s obj force
  by unfold_locales (rule replace_emits)

interpretation create_cmd: kubectl_executor E s "create_executor E s validate" for E s validate
  by unfold_locales (rule create_emits)

interpretation apply_cmd: kubectl_executor E s "apply_executor E obj s force validate ssa mgr"
  for E s obj force validate ssa mgr
  by unfold_locales (rule apply_emits)

lemma diff_apply_emits: "emits s None (diff_apply_executor E obj s force validate ssa mgr f)"
  unfolding diff_apply_executor_def
  by (intro op_intros emits_options)
    (auto simp: diff_newApplyOptions_def newApplyOptionsCommon_def bind_res_eq_Inr Let_def)

lemma diff_restores:
  assumes "temp_fresh (oe_os E)" "\<And>f. os_Remove (oe_os E) f" "createManifestFile E obj st = (Inr f, st1)"
  shows "ops_files (snd (diff_ApplyResource E obj s force validate ssa mgr st)) = ops_files st"
  unfolding diff_ApplyResource_def diff_runResourceCommand_def
  by (rule file_restored [OF _ assms, where s = s]) (intro op_intros diff_apply_emits)

text \<open>The auth reconcile of an object whose namespace cannot be read.\<close>

lemma authReconcile_blocked:
  assumes "GetNamespace obj \<noteq> ''''" "\<And>log. oe_GetNamespace E log (GetNamespace obj) \<noteq> None"
  shows "\<exists>e new. authReconcile E obj f dry_none st = (Inl e, st\<lparr>ops_log := ops_log st @ new\<rparr>) \<and>
    (\<forall>c content. RunCommand c content \<notin> set new)"
proof (cases "cl_NewClientset (oe_client E)")
  case None
  obtain e where "oe_GetNamespace E (ops_log st @ [NamespaceGet (GetNamespace obj)]) (GetNamespace obj) = Some e"
    using assms(2) by blast
  with None assms(1) show ?thesis
    by (intro exI [of _ "Errored (wrap_err (''error getting namespace '' @ GetNamespace obj) e)"]
        exI [of _ "[NamespaceGet (GetNamespace obj)]"])
      (simp add: authReconcile_def op_bind_def ret_def check_def log_event_def Let_def)
next
  case (Some e)
  then show ?thesis
    by (intro exI [of _ "Errored (wrap_err ''error creating kube client'' e)"] exI [of _ "[]"])
      (simp add: authReconcile_def op_bind_def ret_def check_def)
qed

lemma rbacReconcile_blocked:
  assumes "GetNamespace obj \<noteq> ''''" "\<And>log. oe_GetNamespace E log (GetNamespace obj) \<noteq> None"
  shows "\<exists>e new. rbacReconcile E obj f dry_none st = (Inl e, st\<lparr>ops_log := ops_log st @ new\<rparr>) \<and>
    (\<forall>c content. RunCommand c content \<notin> set new)"
proof -
  let ?m = "op_wrap ''error running kubectl auth reconcile'' (authReconcile E obj f dry_none)"
  have m: "\<exists>e new. ?m st = (Inl e, st\<lparr>ops_log := ops_log st @ new\<rparr>) \<and> (\<forall>c content. RunCommand c content \<notin> set new)" for st
    using authReconcile_blocked [OF assms, of f st] by (auto simp: op_wrap_def wrapping_def split: fault.split)
  obtain e new where n: "?m (log_event (HookRun ''auth'' True) st) = (Inl e, st\<lparr>ops_log := ops_log st @ HookRun ''auth'' True # new\<rparr>)"
    "\<forall>c content. RunCommand c content \<notin> set new"
    using m [of "log_event (HookRun ''auth'' True) st"] by (auto simp: log_event_def)
  show ?thesis
  proof (cases "oe_onKubectlRun E")
    case None
    with m [of st] show ?thesis by (simp add: rbacReconcile_def with_kubectl_run_def)
  next
    case (Some hook)
    show ?thesis
    proof (cases "hook (ops_log st) ''auth''")
      case None
      with Some n show ?thesis
        by (intro exI [of _ e] exI [of _ "HookRun ''auth'' True # new @ [HookCleanup ''auth'']"])
          (simp add: rbacReconcile_def with_kubectl_run_def op_defer_def log_event_def)
    next
      case (Some e')
      with \<open>oe_onKubectlRun E = Some hook\<close> show ?thesis
        by (intro exI [of _ "Errored (wrap_err ''error processing kubectl run auth'' e')"] exI [of _ "[HookRun ''auth'' False]"])
          (simp add: rbacReconcile_def with_kubectl_run_def log_event_def)
    qed
  qed
qed

lemma rbac_blocked:
  assumes "GetAPIVersion obj = ''rbac.authorization.k8s.io/v1''" "GetNamespace obj \<noteq> ''''"
    and "\<And>log. oe_GetNamespace E log (GetNamespace obj) \<noteq> None"
  shows "(\<exists>e. fst (runResourceCommand E obj dry_none exec st) = Inl e) \<and>
    (\<exists>new. ops_log (snd (runResourceCommand E obj dry_none exec st)) = ops_log st @ new \<and>
      (\<forall>c content. RunCommand c content \<notin> set new))"
proof -
  obtain r st1 where c: "createManifestFile E obj st = (r, st1)" by fastforce
  from createManifestFile_log [of E obj st] c obtain new where
    new: "ops_log st1 = ops_log st @ new" "\<forall>e\<in>set new. \<exists>t. e = Logged t" by auto
  have l: "RunCommand c content \<notin> set new" for c content using new(2) by blast
  show ?thesis
  proof (cases r)
    case (Inl e)
    with c new l show ?thesis by (auto simp: runResourceCommand_def op_bind_def)
  next
    case (Inr f)
    obtain e new' where b: "rbacReconcile E obj f dry_none st1 = (Inl e, st1\<lparr>ops_log := ops_log st1 @ new'\<rparr>)"
      "\<forall>c content. RunCommand c content \<notin> set new'"
      using rbacReconcile_blocked [OF assms(2,3)] by blast
    with c new l Inr b assms(1) show ?thesis
      by (auto simp: runResourceCommand_def op_bind_def op_defer_def op_wrap_def delete_manifest_def
          wrapping_def split: fault.split)
  qed
qed

section \<open>A demonstration\<close>

text \<open>
  Everything works; \<open>full_disk\<close> writes only four bytes of a file. The manifest of an object is its name.
\<close>

definition demo_os :: os_api where
  "demo_os = \<lparr>os_StatDir = (\<lambda>_. Inr True), os_CreateTemp = (\<lambda>_ fs. Inr (replicate (Suc (sum_list (map (length \<circ> fst) fs))) (CHR ''t''))),
     os_Write = (\<lambda>_ _. None), os_Partial = (\<lambda>_ _. ''''), os_Close = (\<lambda>_. None), os_Remove = (\<lambda>_. True)\<rparr>"

definition demo_ops :: "bool \<Rightarrow> ops_env" where
  "demo_ops debug = \<lparr>oe_os = demo_os, oe_client = secret_client, oe_MarshalJSON = (\<lambda>o'. Inr (GetName o')),
     oe_logEnabled = debug, oe_objs = go_api, oe_typed = demo_typed,
     oe_codec = demo_codec,
     oe_onKubectlRun = Some (\<lambda>_ _. None), oe_GetNamespace = (\<lambda>_ n. if n = ''gone'' then Some (Err ReasonNotFound ''not found'') else None),
     oe_DeleteFlags = Inr \<lparr>do_Filenames = [], do_ForceDeletion = False\<rparr>, oe_Validator = (\<lambda>_. None),
     oe_RESTMapper = None, oe_Recorder = None, oe_Complete = (\<lambda>_. None), oe_ToPrinter = (\<lambda>_. None),
     oe_Validate = (\<lambda>_. None), oe_Run = (\<lambda>_ _ _. \<lparr>ro_out = ''done'', ro_err = '''', ro_error = None\<rparr>)\<rparr>"

definition full_disk :: ops_env where
  "full_disk = (demo_ops False)\<lparr>oe_os := demo_os\<lparr>os_Write := (\<lambda>_ _. Some (Err ReasonOther ''no space left on device'')),
     os_Partial := (\<lambda>_ content. take 4 content)\<rparr>\<rparr>"

definition demo_role :: "string \<Rightarrow> unstructured" where
  "demo_role ns = (mk_obj ''rbac.authorization.k8s.io'' ''Role'' ns ''reader'')"

abbreviation "demo_start \<equiv> \<lparr>ops_files = [(''x'', ''other'')], ops_log = []\<rparr>"

lemma demo_fresh: "temp_fresh demo_os"
proof -
  have "map_of fs (replicate (Suc (sum_list (map (length \<circ> fst) fs))) c) = None" for fs :: files and c
  proof -
    have "length (fst e) \<le> sum_list (map (length \<circ> fst) fs)" if "e \<in> set fs" for e
      using that by (induction fs) auto
    then show ?thesis by (fastforce simp: map_of_eq_None_iff)
  qed
  then show ?thesis unfolding temp_fresh_def demo_os_def by simp
qed

section \<open>Properties\<close>

text \<open>
  C11. Whatever kubectl, its hooks and the file system answer, every command that an apply, a replace or a
  create runs, the auth reconcile of RBAC objects included, is a dry run exactly if the operation is
  one, and every hook that was opened is closed before the next and before the end.
\<close>

theorem operations_follow_strategy:
  assumes "m \<in> {ApplyResource E obj s force validate ssa mgr, ReplaceResource E obj s force,
    ops_CreateResource E obj s validate}"
  shows "\<exists>new. ops_log (snd (m st)) = ops_log st @ new \<and>
    (\<forall>c content. RunCommand c content \<in> set new \<longrightarrow> (dry_command c \<longleftrightarrow> s \<noteq> dry_none)) \<and>
    open_hook new None = Some None"
proof -
  have "runs s m"
    using assms apply_cmd.runs_resource replace_cmd.runs_resource create_cmd.runs_resource
    by (auto simp: ApplyResource_def ReplaceResource_def ops_CreateResource_def)
  then obtain new where "ops_log (snd (m st)) = ops_log st @ new" "list_all (follows s) new"
    "open_hook new None = Some None"
    unfolding runs_def by blast
  then show ?thesis by (intro exI [of _ new]) (fastforce simp: list_all_iff)
qed

theorem operations_follow_strategy_witness:
  "\<exists>new. ops_log (snd (ApplyResource (demo_ops False) (demo_role ''ns'') dry_client False True False ''m'' demo_start)) = new \<and>
    (\<forall>c content. RunCommand c content \<in> set new \<longrightarrow> (dry_command c \<longleftrightarrow> dry_client \<noteq> dry_none)) \<and>
    open_hook new None = Some None"
  using operations_follow_strategy [of "ApplyResource (demo_ops False) (demo_role ''ns'') dry_client False True False ''m''"
      "demo_ops False" "demo_role ''ns''" dry_client False True False "''m''" demo_start] by simp

text \<open>
  C12. The manifest file does not outlive the operation: if it could be created at all, the temporary files
  afterwards are those of before, however the operation ends.
\<close>

theorem manifest_file_removed:
  assumes "m \<in> {ApplyResource E obj s force validate ssa mgr, ReplaceResource E obj s force,
      ops_CreateResource E obj s validate, diff_ApplyResource E obj s force validate ssa mgr}"
    and "temp_fresh (oe_os E)" "\<forall>f. os_Remove (oe_os E) f" "createManifestFile E obj st = (Inr f, st1)"
  shows "ops_files (snd (m st)) = ops_files st"
  using assms(1) apply_cmd.restores [OF assms(2) _ assms(4)] replace_cmd.restores [OF assms(2) _ assms(4)]
    create_cmd.restores [OF assms(2) _ assms(4)] diff_restores [OF assms(2) _ assms(4)] assms(3)
  by (auto simp: ApplyResource_def ReplaceResource_def ops_CreateResource_def)

theorem manifest_file_removed_witness:
  "ops_files (snd (ApplyResource (demo_ops False) (demo_role ''ns'') dry_client False True False ''m'' demo_start)) =
     [(''x'', ''other'')]"
proof -
  have c: "createManifestFile (demo_ops False) (demo_role ''ns'') demo_start =
      (Inr ''tt'', \<lparr>ops_files = [(''x'', ''other''), (''tt'', ''reader'')], ops_log = []\<rparr>)"
    by (simp add: createManifestFile_def CreateTemp_def WriteFile_def maybeLogManifest_def op_bind_def ret_def
        demo_ops_def demo_os_def demo_role_def mk_obj_def numeral_2_eq_2)
  have "temp_fresh (oe_os (demo_ops False))" "\<forall>f. os_Remove (oe_os (demo_ops False)) f"
    using demo_fresh by (simp_all add: demo_ops_def demo_os_def)
  from manifest_file_removed [OF _ this c, of _ dry_client False True False "''m''"] show ?thesis by simp
qed

text \<open>
  C13. But the deletion is deferred too late: when anything fails after the file exists, a write to a full
  disk or the logging of the manifest, the operation fails and the file stays, with the manifest or the
  part of it that was written.
\<close>

theorem manifest_file_left_behind:
  assumes "m \<in> {ApplyResource E obj s force validate ssa mgr, ReplaceResource E obj s force,
      ops_CreateResource E obj s validate, diff_ApplyResource E obj s force validate ssa mgr}"
    and "oe_MarshalJSON E obj = Inr content" "os_CreateTemp (oe_os E) (TempDir (oe_os E)) (ops_files st) = Inr f"
    and "createManifestFile E obj st = (Inl e, st1)"
  shows "\<exists>c\<in>{content, os_Partial (oe_os E) f content}. fst (m st) = Inl e \<and>
    ops_files (snd (m st)) = map_put f c (map_put f '''' (ops_files st))"
proof -
  have "m st = (Inl e, st1)"
    using assms(1,4)
    by (auto simp: ApplyResource_def ReplaceResource_def ops_CreateResource_def diff_ApplyResource_def
        runResourceCommand_def diff_runResourceCommand_def op_bind_def)
  moreover have "\<exists>c\<in>{content, os_Partial (oe_os E) f content}.
      ops_files st1 = map_put f c (map_put f '''' (ops_files st))"
    using assms(2-4)
    by (auto simp: createManifestFile_def CreateTemp_def WriteFile_def op_bind_def ret_def maybeLogManifest_def
        split: sum.splits option.splits fault.splits if_splits prod.splits)
  ultimately show ?thesis by simp
qed

theorem manifest_file_left_behind_witness:
  "ops_files (snd (ReplaceResource full_disk (mk_obj '''' SecretKind ''ns'' ''password'') dry_none False demo_start)) =
     [(''x'', ''other''), (''tt'', ''pass'')]"
proof -
  let ?o = "mk_obj '''' SecretKind ''ns'' ''password''"
  have c: "createManifestFile full_disk ?o demo_start =
      (Inl (Errored (wrap_err ''failed to write manifest'' (Err ReasonOther ''no space left on device''))),
        \<lparr>ops_files = [(''x'', ''other''), (''tt'', ''pass'')], ops_log = []\<rparr>)"
    by (simp add: createManifestFile_def CreateTemp_def WriteFile_def full_disk_def demo_ops_def demo_os_def
        mk_obj_def numeral_2_eq_2)
  have "\<exists>c\<in>{''password'', os_Partial (oe_os full_disk) ''tt'' ''password''}. fst (ReplaceResource full_disk ?o dry_none False demo_start) =
        Inl (Errored (wrap_err ''failed to write manifest'' (Err ReasonOther ''no space left on device''))) \<and>
      ops_files (snd (ReplaceResource full_disk ?o dry_none False demo_start)) =
        map_put ''tt'' c (map_put ''tt'' '''' (ops_files demo_start))"
    by (rule manifest_file_left_behind [OF _ _ _ c, of _ dry_none False False False "''''"])
      (simp_all add: full_disk_def demo_ops_def demo_os_def mk_obj_def TempDir_def numeral_2_eq_2)
  then show ?thesis using c by (simp add: ReplaceResource_def runResourceCommand_def op_bind_def)
qed

text \<open>
  An RBAC object of a namespace that cannot be read is not touched, and the namespace is not created
  on the way: the operation fails before any command.
\<close>

theorem rbac_needs_namespace:
  assumes "m \<in> {ApplyResource E obj dry_none force validate ssa mgr, ReplaceResource E obj dry_none force,
      ops_CreateResource E obj dry_none validate}"
    and "GetAPIVersion obj = ''rbac.authorization.k8s.io/v1''" "GetNamespace obj \<noteq> ''''"
    and "\<And>log. oe_GetNamespace E log (GetNamespace obj) \<noteq> None"
  shows "(\<exists>e. fst (m st) = Inl e) \<and>
    (\<exists>new. ops_log (snd (m st)) = ops_log st @ new \<and> (\<forall>c content. RunCommand c content \<notin> set new))"
  using assms(1) rbac_blocked [OF assms(2-4)]
  by (auto simp: ApplyResource_def ReplaceResource_def ops_CreateResource_def)

theorem rbac_needs_namespace_witness:
  "\<exists>e. fst (ApplyResource (demo_ops False) (demo_role ''gone'') dry_none False True False ''m'' demo_start) = Inl e"
  using rbac_needs_namespace [of "ApplyResource (demo_ops False) (demo_role ''gone'') dry_none False True False ''m''"
      "demo_ops False" "demo_role ''gone''" False True False "''m''" demo_start]
  by (simp add: demo_ops_def demo_role_def mk_obj_def)

end
