(* ===== verification/WatchEvents.thy ===== *)
theory WatchEvents
  imports CacheProps
begin

text \<open>
  The goroutine \<open>watchEvents\<close> of \<open>pkg/cache/cluster.go\<close>: the attempts of \<open>RetryUntilSucceed\<close>, and in each of
  them the loop over the channels of a watch. What the channels deliver, and what other goroutines do to
  the cache in between, is the list of signals of an attempt.

  Properties: a kind is listed again after every attempt that has ended, so that the cache agrees with
  the cluster whatever events were missed; the retries of a listing; what a watch that is not found any
  more leaves behind.
\<close>

section \<open>One event\<close>

text \<open>
  An event is handled, or handling it panics (in \<open>startMissingWatches\<close>, on the nil map of an invalidated
  cache, before anything but the list of API resources has changed), or it blocks for ever (the send on
  the nil channel of an invalidated cache).
\<close>

datatype 'i event_outcome =
    EventHandled (after_event: "'i clusterCache")
  | EventPanicked (after_event: "'i clusterCache")
  | EventStuck (after_event: "'i clusterCache")

definition handle_event :: "cluster_api \<Rightarrow> WatchEvent \<Rightarrow> unstructured \<Rightarrow> 'i clusterCache \<Rightarrow> 'i event_outcome" where
  "handle_event k8s event obj c =
     (case recordEvent (ca_templates k8s) event obj c of
        None \<Rightarrow> EventStuck (log_calls (\<lambda>h. EventSeen h event obj) (getEventHandlers c) c)
      | Some c1 \<Rightarrow>
          if IsCRD obj then
            (case handle_crd k8s event obj c1 of
               None \<Rightarrow> EventPanicked (if event = Added
                 then foldl (\<lambda>c a. appendAPIResource a c) c1 (crd_resources (ca_toCRD k8s obj)) else c1)
             | Some c2 \<Rightarrow> EventHandled c2)
          else EventHandled c1)"

section \<open>The loop of a watch\<close>

text \<open>
  What can happen next: another goroutine changes the cache; the watcher has asked for a new watch and the
  server does not know the resource any more; one of the channels of the select statement is ready.
\<close>

datatype 'i watch_signal =
    OtherStep "'i clusterCache \<Rightarrow> 'i clusterCache"
  | WatchNotFound
  | CtxDone
  | ResyncTimer
  | WatcherDone
  | ResultClosed
  | ResultObject WatchEvent "unstructured option"

text \<open>The action ends without an error, with one, never (it is blocked), or goes on when the signals are used up.\<close>

datatype watch_exit = WatchStopped | WatchFailed go_error | WatchBlocked | WatchGoing

definition watch_failure :: "cluster_api \<Rightarrow> APIResourceInfo \<Rightarrow> string \<Rightarrow> string \<Rightarrow> 'i clusterCache \<Rightarrow> watch_exit" where
  "watch_failure k8s api before after c = WatchFailed (Err ReasonOther
     (before @ ca_GroupKindString k8s (infoGroupKind api) @ '' on '' @ cc_host c @ after))"

fun watch_loop ::
  "cluster_api \<Rightarrow> APIResourceInfo \<Rightarrow> string \<Rightarrow> bool \<Rightarrow> 'i watch_signal list \<Rightarrow> 'i clusterCache \<Rightarrow>
     watch_exit \<times> 'i clusterCache" where
  "watch_loop k8s api ns resync [] c = (WatchGoing, c)"
| "watch_loop k8s api ns resync (s # signals) c =
     (case s of
        OtherStep f \<Rightarrow> watch_loop k8s api ns resync signals (f c)
      | WatchNotFound \<Rightarrow> watch_loop k8s api ns resync signals (stopWatching (infoGroupKind api) ns c)
      | CtxDone \<Rightarrow> (WatchStopped, c)
      | ResyncTimer \<Rightarrow>
          if resync then (watch_failure k8s api ''resyncing '' '' due to timeout'' c, c)
          else watch_loop k8s api ns resync signals c
      | WatcherDone \<Rightarrow> (watch_failure k8s api ''watch '' '' has closed'' c, c)
      | ResultClosed \<Rightarrow> (watch_failure k8s api ''watch '' '' has closed'' c, c)
      | ResultObject event None \<Rightarrow>
          (WatchFailed (Err ReasonOther ''failed to convert to *unstructured.Unstructured''), c)
      | ResultObject event (Some obj) \<Rightarrow>
          (case handle_event k8s event obj c of
             EventHandled c' \<Rightarrow> watch_loop k8s api ns resync signals c'
           | EventPanicked c' \<Rightarrow> (WatchFailed (Err ReasonOther ''recovered from panic''), c')
           | EventStuck c' \<Rightarrow> (WatchBlocked, c')))"

section \<open>Attempts\<close>

text \<open>
  One attempt: the exit, the resource version that the next attempt starts from, and the cache. The
  deferred function resets the resource version once the watcher exists. A panic in the loop runs it too.
\<close>

definition watch_attempt ::
  "cluster_api \<Rightarrow> APIResourceInfo \<Rightarrow> string \<Rightarrow> (string \<Rightarrow> go_error option) \<Rightarrow> 'i watch_signal list \<Rightarrow> string \<Rightarrow>
     'i clusterCache \<Rightarrow> watch_exit \<times> string \<times> 'i clusterCache" where
  "watch_attempt k8s api ns newWatcher signals resourceVersion c =
     (case watch_start k8s api ns resourceVersion c of
        (Inl err, c1) \<Rightarrow> (WatchFailed err, '''', c1)
      | (Inr version, c1) \<Rightarrow>
          (case newWatcher version of
             Some e \<Rightarrow> (WatchFailed (wrap_err ''failed to create resource watcher'' e), version, c1)
           | None \<Rightarrow>
               (let (exit, c2) = watch_loop k8s api ns (cc_watchResyncTimeout c1 > 0) signals c1 in
                (exit, if exit = WatchGoing \<or> exit = WatchBlocked then version else '''', c2))))"

text \<open>
  A round is what happens up to the end of an attempt: what others do before it, the watcher, the signals,
  and whether the context is done before the next attempt.
\<close>

record 'i watch_round =
  wr_before :: "'i clusterCache \<Rightarrow> 'i clusterCache"
  wr_newWatcher :: "string \<Rightarrow> go_error option"
  wr_signals :: "'i watch_signal list"
  wr_cancelled :: bool

fun watchEvents ::
  "cluster_api \<Rightarrow> APIResourceInfo \<Rightarrow> string \<Rightarrow> 'i watch_round list \<Rightarrow> string \<Rightarrow> 'i clusterCache \<Rightarrow>
     watch_exit \<times> string \<times> 'i clusterCache" where
  "watchEvents k8s api ns [] resourceVersion c = (WatchGoing, resourceVersion, c)"
| "watchEvents k8s api ns (r # rounds) resourceVersion c =
     (case watch_attempt k8s api ns (wr_newWatcher r) (wr_signals r) resourceVersion (wr_before r c) of
        (WatchFailed err, version, c') \<Rightarrow>
          if wr_cancelled r then (WatchStopped, version, c') else watchEvents k8s api ns rounds version c'
      | (exit, version, c') \<Rightarrow> (exit, version, c'))"

section \<open>A kind is listed again\<close>

text \<open>The version that a listing has for a key, the last entry of the key if there are several.\<close>

definition listed_version :: "unstructured list \<Rightarrow> ResourceKey \<Rightarrow> string option" where
  "listed_version uns k = map_option GetResourceVersion (find (\<lambda>un. listed_key un = k) (rev uns))"

text \<open>A cache agrees with a listing of a kind when it has the listed versions and nothing else of the kind.\<close>

definition agrees :: "GroupKind \<Rightarrow> string \<Rightarrow> unstructured list \<Rightarrow> 'i clusterCache \<Rightarrow> 'i clusterCache \<Rightarrow> bool" where
  "agrees gk ns uns c c' \<longleftrightarrow> (\<forall>k. case listed_version uns k of
     Some v \<Rightarrow> map_option (node_version c') (map_of (cc_resources c') k) = Some v
   | None \<Rightarrow> map_of (cc_resources c') k =
       (if Kind k = snd gk \<and> Group k = fst gk \<and> (ns = '''' \<or> Namespace k = ns) then None else map_of (cc_resources c) k))"

lemma new_resources_eq:
  "new_resources templates uns c =
     ([length (cc_heap c) ..< length (cc_heap c) + length uns],
      c\<lparr>cc_heap := cc_heap c @ map (\<lambda>un. resource_of templates un c) uns\<rparr>)"
proof (induction uns arbitrary: c)
  case (Cons un uns)
  have "resource_of templates u (c\<lparr>cc_heap := h\<rparr>) = resource_of templates u c" for u h
    by (simp add: resource_of_def)
  with Cons show ?case by (simp add: newResource_def alloc_def Let_def upt_rec [of "length (cc_heap c)"] del: upt_Suc)
qed simp

lemma map_of_find: "map_of (map (\<lambda>n. (f n, n)) ns) k = find (\<lambda>n. f n = k) ns"
  by (induction ns) auto

lemma find_map: "find P (map f xs) = map_option f (find (\<lambda>x. P (f x)) xs)"
  by (induction xs) auto

lemma find_same: "(\<And>x. x \<in> set xs \<Longrightarrow> P x = Q x) \<Longrightarrow> find P xs = find Q xs"
  by (induction xs) auto

lemma objByKey_new:
  assumes "new_resources templates uns c = (ns, c1)"
  shows "map_option (node_version c1) (objByKey (cc_heap c1) ns k) = listed_version uns k"
proof -
  let ?L = "length (cc_heap c)"
  let ?u = "\<lambda>n. uns ! (n - ?L)"
  have ns: "ns = [?L ..< ?L + length uns]"
    and c1: "c1 = c\<lparr>cc_heap := cc_heap c @ map (\<lambda>un. resource_of templates un c) uns\<rparr>"
    using assms by (simp_all add: new_resources_eq)
  have node: "cc_heap c1 ! n = resource_of templates (?u n) c" if "n \<in> set ns" for n
    using that by (auto simp: c1 ns nth_append)
  have uns: "uns = map ?u ns"
    by (rule nth_equalityI) (simp_all add: ns)
  have "objByKey (cc_heap c1) ns k = find (\<lambda>n. node_key (cc_heap c1) n = k) (rev ns)"
    unfolding objByKey_def rev_map map_of_find ..
  also have "\<dots> = find (\<lambda>n. listed_key (?u n) = k) (rev ns)"
    by (rule find_same) (simp add: node_key_def node resource_of_key)
  finally have obj: "objByKey (cc_heap c1) ns k = find (\<lambda>n. listed_key (?u n) = k) (rev ns)" .
  have "listed_version uns k = map_option (\<lambda>n. GetResourceVersion (?u n)) (find (\<lambda>n. listed_key (?u n) = k) (rev ns))"
    by (subst uns) (simp add: listed_version_def rev_map find_map option.map_comp comp_def)
  moreover have "node_version c1 n = GetResourceVersion (?u n)" if "find P (rev ns) = Some n" for P n
  proof -
    from that have "n \<in> set ns" by (metis find_Some_iff nth_mem set_rev)
    then show ?thesis by (simp add: node resource_of_def split_beta Let_def)
  qed
  ultimately show ?thesis by (cases "find (\<lambda>n. listed_key (?u n) = k) (rev ns)") (simp_all add: obj)
qed

lemma load_agrees:
  assumes "lr_err (listResources k8s api ns c) = None"
  shows "\<exists>c'. loadInitialState k8s api ns c = (Inr (lr_version (listResources k8s api ns c)), c') \<and>
     agrees (infoGroupKind api) ns (lr_items (listResources k8s api ns c)) c c'"
proof -
  let ?uns = "lr_items (listResources k8s api ns c)"
  obtain items c1 where n: "new_resources (ca_templates k8s) ?uns c = (items, c1)" by fastforce
  let ?c' = "replaceResourceCache (infoGroupKind api) items ns c1"
  have r: "cc_resources c1 = cc_resources c" using n by (auto simp: new_resources_eq)
  have "agrees (infoGroupKind api) ns ?uns c ?c'"
    unfolding agrees_def in_listing_alt [symmetric]
  proof
    fix k
    show "case listed_version ?uns k of
       Some v \<Rightarrow> map_option (node_version ?c') (map_of (cc_resources ?c') k) = Some v
     | None \<Rightarrow> map_of (cc_resources ?c') k = (if in_listing (infoGroupKind api) ns k then None else map_of (cc_resources c) k)"
      using objByKey_new [OF n, of k] replace_agrees [where c = c1 and res = items and k = k and gk = "infoGroupKind api" and ns = ns]
      by (cases "objByKey (cc_heap c1) items k") (auto simp: r split: option.splits)
  qed
  then show ?thesis using n assms by (simp add: loadInitialState_def Let_def)
qed

text \<open>
  An attempt that has ended, in whatever way, has lost the resource version it worked with, unless the
  watcher could not even be created.
\<close>

lemma attempt_forgets:
  assumes "watch_attempt k8s api ns newWatcher signals v c = (WatchFailed e, v', c')"
  shows "v' = '''' \<or> newWatcher v' \<noteq> None"
  using assms by (auto simp: watch_attempt_def split: sum.splits option.splits prod.splits if_splits)

text \<open>
  C18. No missed event stays missed: after an attempt of a watch that failed (closed, timed out, an event
  that could not be handled, a panic, a listing that failed), the next attempt starts by listing the kind,
  and if the cluster answers, the cache agrees with the listing whatever happened to it in between: every
  listed object is there in the listed version, and nothing else of that kind and namespace is. The
  library refuses to watch from an empty version; the hypothesis is that it accepts the others.
\<close>

theorem watch_relists:
  assumes "watch_attempt k8s api ns newWatcher signals v c = (WatchFailed e, v', c')" "v' \<noteq> '''' \<longrightarrow> newWatcher v' = None"
    and "lr_err (listResources k8s api ns c2) = None"
  shows "\<exists>version c3. watch_start k8s api ns v' c2 = (Inr version, c3) \<and>
     agrees (infoGroupKind api) ns (lr_items (listResources k8s api ns c2)) c2 c3"
proof -
  have "v' = ''''" using attempt_forgets [OF assms(1)] assms(2) by auto
  then show ?thesis using load_agrees [OF assms(3)] by (auto simp: watch_start_def)
qed

definition refuses_empty :: "string \<Rightarrow> go_error option" where
  "refuses_empty v = (if v = '''' then Some (Err ReasonOther ''initial RV is not supported'') else None)"

theorem watch_relists_witness:
  "\<exists>version c3. watch_start demo_cluster (demo_info ''apps'' ''StatefulSet'') ''''
      (fst (snd (watch_attempt demo_cluster (demo_info ''apps'' ''StatefulSet'') '''' refuses_empty
        [ResultObject Deleted (Some demo_sts), ResultClosed] ''7'' demo_synced))) demo_new = (Inr version, c3) \<and>
     agrees (''apps'', ''StatefulSet'') '''' [demo_sts] demo_new c3"
proof -
  let ?attempt = "watch_attempt demo_cluster (demo_info ''apps'' ''StatefulSet'') '''' refuses_empty
        [ResultObject Deleted (Some demo_sts), ResultClosed] ''7'' demo_synced"
  have "case ?attempt of (WatchFailed e, v', c') \<Rightarrow> v' = '''' | _ \<Rightarrow> False" by code_simp
  then obtain e c' where a: "?attempt = (WatchFailed e, '''', c')" by (auto split: prod.splits watch_exit.splits)
  have "lr_items (listResources demo_cluster (demo_info ''apps'' ''StatefulSet'') '''' demo_new) = [demo_sts]"
    unfolding demo_cluster_def demo_listing by (simp add: demo_sts_def demo_pvc_def demo_obj_def mk_obj_def demo_info_def)
  moreover have "lr_err (listResources demo_cluster (demo_info ''apps'' ''StatefulSet'') '''' demo_new) = None"
    unfolding demo_cluster_def demo_listing by simp
  moreover have "infoGroupKind (demo_info ''apps'' ''StatefulSet'') = (''apps'', ''StatefulSet'')" by (simp add: demo_info_def)
  ultimately show ?thesis using watch_relists [OF a, of demo_new] by (simp add: a)
qed

section \<open>The tables of the cache under a watch\<close>

text \<open>Other goroutines take steps of the cache.\<close>

definition other_steps :: "('i UpdateSettingsFunc \<Rightarrow> bool) \<Rightarrow> cluster_api \<Rightarrow> 'i watch_signal \<Rightarrow> bool" where
  "other_steps S k8s s \<longleftrightarrow> (case s of OtherStep f \<Rightarrow> (\<forall>c. (event_step S k8s)\<^sup>*\<^sup>* c (f c)) | _ \<Rightarrow> True)"

context cache_invariant
begin

lemma event_handled: "I c \<Longrightarrow> I (after_event (handle_event k8s event obj c))"
  by (auto simp: handle_event_def intro: frame [OF _ same_tables_log] recorded crd_handled apis_changed(2)
      split: option.split)

lemma loop_kept: "list_all (other_steps S k8s) signals \<Longrightarrow> I c \<Longrightarrow> I (snd (watch_loop k8s api ns resync signals c))"
proof (induction signals arbitrary: c)
  case (Cons s signals)
  show ?case
  proof (cases s)
    case (OtherStep f)
    with Cons.prems have "(event_step S k8s)\<^sup>*\<^sup>* c (f c)" by (simp add: other_steps_def)
    with Cons OtherStep show ?thesis using events_kept by simp
  next
    case (ResultObject event o')
    then show ?thesis
    proof (cases o')
      case (Some obj)
      with Cons ResultObject event_handled [of c k8s event obj] show ?thesis
        by (cases "handle_event k8s event obj c") simp_all
    qed (use Cons.prems in simp)
  next
    case ResyncTimer
    with Cons show ?thesis by (cases resync) (simp_all add: watch_failure_def)
  qed (use Cons stopped in \<open>simp_all add: watch_failure_def\<close>)
qed simp

lemma attempt_kept:
  assumes "list_all (other_steps S k8s) signals" "I c"
  shows "I (snd (snd (watch_attempt k8s api ns newWatcher signals v c)))"
proof -
  have "I (snd (watch_start k8s api ns v c))" using assms(2) by (simp add: watch_start_def loaded)
  with loop_kept [OF assms(1)] show ?thesis
    by (auto simp: watch_attempt_def split: prod.split sum.split option.split) (metis snd_conv)+
qed

end

text \<open>
  A watch, however often it is retried and whatever it delivers, keeps the index by namespace exact.
\<close>

definition round_steps :: "('i UpdateSettingsFunc \<Rightarrow> bool) \<Rightarrow> cluster_api \<Rightarrow> 'i watch_round \<Rightarrow> bool" where
  "round_steps S k8s r \<longleftrightarrow> (\<forall>c. (event_step S k8s)\<^sup>*\<^sup>* c (wr_before r c)) \<and> list_all (other_steps S k8s) (wr_signals r)"

lemma watchEvents_index:
  "list_all (round_steps setting k8s) rounds \<Longrightarrow> index_ok c \<Longrightarrow> index_ok (snd (snd (watchEvents k8s api ns rounds v c)))"
proof (induction rounds arbitrary: v c)
  case (Cons r rounds)
  then have "index_ok (wr_before r c)" using index.events_kept [of k8s c] by (simp add: round_steps_def)
  with Cons.prems(1) have "index_ok (snd (snd (watch_attempt k8s api ns (wr_newWatcher r) (wr_signals r) v (wr_before r c))))"
    by (intro index.attempt_kept) (simp_all add: round_steps_def)
  with Cons show ?case by (auto split: prod.splits watch_exit.split)
qed simp

text \<open>A watch blocks only on an invalidated cache that processes events in batches.\<close>

lemma handle_event_stuck:
  "handle_event k8s event obj c = EventStuck c' \<Longrightarrow> cc_batchEventsProcessing c \<and> cc_eventMetaCh c = None"
  by (auto simp: handle_event_def recordEvent_def log_calls_def Let_def split: option.splits if_splits)

section \<open>The retries of a listing\<close>


section \<open>A kind that is gone\<close>

lemma log_calls_watches [simp]:
  "cc_cancelled (log_calls f hs c) = cc_cancelled c" "cc_apisMeta (log_calls f hs c) = cc_apisMeta c"
  by (simp_all add: log_calls_def)

lemma removal_watches:
  "cc_cancelled (remove_unlisted gk ns listed c k) = cc_cancelled c" "cc_apisMeta (remove_unlisted gk ns listed c k) = cc_apisMeta c"
  by (simp_all add: remove_unlisted_def onNodeRemoved_def Let_def split: option.split)

lemma removals_watches:
  "cc_cancelled (foldl (remove_unlisted gk ns listed) c ks) = cc_cancelled c"
  "cc_apisMeta (foldl (remove_unlisted gk ns listed) c ks) = cc_apisMeta c"
  by (induction ks arbitrary: c) (simp_all add: removal_watches)

text \<open>
  C19. When the server does not know a watched kind any more, the watch of one namespace cancels the context that the
  watches of the kind share and forgets the kind, and removes its own resources. The resources of the
  kind in the other namespaces stay in the cache, although nothing watches them any more.
\<close>

theorem stop_leaves_others:
  assumes "cc_apisMeta c = Some m" "map_of m gk = Some info"
  shows "am_watch info \<in> set (cc_cancelled (stopWatching gk ns c)) \<and> \<not> watched gk (stopWatching gk ns c) \<and>
     (\<forall>k. map_of (cc_resources (stopWatching gk ns c)) k =
        (if Kind k = snd gk \<and> Group k = fst gk \<and> (ns = '''' \<or> Namespace k = ns) then None else map_of (cc_resources c) k))"
proof -
  define c1 where "c1 = c\<lparr>cc_cancelled := cc_cancelled c @ [am_watch info], cc_apisMeta := Some (map_del gk m)\<rparr>"
  have s: "stopWatching gk ns c = replaceResourceCache gk [] ns c1"
    using assms by (simp add: stopWatching_def c1_def)
  have "cc_cancelled (stopWatching gk ns c) = cc_cancelled c1" "cc_apisMeta (stopWatching gk ns c) = cc_apisMeta c1"
    by (simp_all add: s replaceResourceCache_def Let_def removals_watches)
  moreover have "map_of (cc_resources (stopWatching gk ns c)) k = (if in_listing gk ns k then None else map_of (cc_resources c) k)" for k
    using replace_agrees [where c = c1 and res = "[]" and gk = gk and ns = ns and k = k]
    by (simp add: s objByKey_def c1_def)
  ultimately show ?thesis by (auto simp: c1_def watched_def in_listing_def)
qed

text \<open>A StatefulSet in ''prod'' outlives the watch of another namespace that is told that the kind is gone.\<close>

theorem stop_leaves_others_witness:
  "map_of (cc_resources (stopWatching (''apps'', ''StatefulSet'') ''dev'' demo_synced)) (GetResourceKey demo_sts) =
     map_of (cc_resources demo_synced) (GetResourceKey demo_sts) \<and>
   map_of (cc_resources demo_synced) (GetResourceKey demo_sts) = Some 1 \<and>
   \<not> watched (''apps'', ''StatefulSet'') (stopWatching (''apps'', ''StatefulSet'') ''dev'' demo_synced)"
proof -
  have "case cc_apisMeta demo_synced of None \<Rightarrow> False
      | Some m \<Rightarrow> (case map_of m (''apps'', ''StatefulSet'') of None \<Rightarrow> False | Some info \<Rightarrow> True)" by code_simp
  then obtain m info where m: "cc_apisMeta demo_synced = Some m" "map_of m (''apps'', ''StatefulSet'') = Some info"
    by (auto split: option.splits)
  have "Namespace (GetResourceKey demo_sts) = ''prod''" by code_simp
  moreover have "map_of (cc_resources demo_synced) (GetResourceKey demo_sts) = Some 1" by code_simp
  ultimately show ?thesis using stop_leaves_others [OF m, of "''dev''"] by simp
qed

end
