(* ===== verification/FieldConverters.thy ===== *)
theory FieldConverters
  imports Json
begin

text \<open>
  The converters that the structured merge of the comparison is given,
  \<open>pkg/diff/internal/fieldmanager/borrowed_typeconverter.go\<close>, \<open>borrowed_versionconverter.go\<close> and \<open>wrapper.go\<close>:
  between objects and typed values, and from one API version to another through a hub version.

  Typed values, their schemas (\<open>'t\<close>) and the conversion of objects are the libraries', given as records
  of functions. An object is unstructured, with its content, or a Go struct (\<open>'s\<close>).
\<close>

section \<open>Between objects and typed values\<close>

datatype 's runtime_object = Unstructured object | Structured 's

text \<open>
  An error is told apart by its type: that of a missing schema, that of a kind that a library scheme does
  not have registered, or any other.
\<close>

datatype conv_error = NoCorrespondingType GroupVersionKind | NotRegistered string | OtherError string

definition conv_error_text :: "(GroupVersionKind \<Rightarrow> string) \<Rightarrow> conv_error \<Rightarrow> string" where
  "conv_error_text gvk_text e =
     (case e of
        NoCorrespondingType gvk \<Rightarrow> ''no corresponding type for '' @ gvk_text gvk
      | NotRegistered s \<Rightarrow> s
      | OtherError s \<Rightarrow> s)"

definition isNoCorrespondingTypeError :: "conv_error option \<Rightarrow> bool" where
  "isNoCorrespondingTypeError err = (case err of Some (NoCorrespondingType gvk) \<Rightarrow> True | _ \<Rightarrow> False)"

record ('t, 'v, 's) typed_api =
  ty_FromUnstructured :: "'t \<Rightarrow> object \<Rightarrow> conv_error + 'v"
  ty_FromStructured :: "'t \<Rightarrow> 's runtime_object \<Rightarrow> conv_error + 'v"
  ty_Unstructured :: "'v \<Rightarrow> json"
  ty_GVK :: "'s runtime_object \<Rightarrow> GroupVersionKind"
  ty_Deduced :: 't

record ('v, 's) TypeConverter =
  ObjectToTyped :: "'s runtime_object \<Rightarrow> conv_error + 'v"
  TypedToObject :: "'v \<Rightarrow> conv_error + 's runtime_object"

definition from_object :: "('t, 'v, 's) typed_api \<Rightarrow> 't \<Rightarrow> 's runtime_object \<Rightarrow> conv_error + 'v" where
  "from_object A t obj =
     (case obj of
        Unstructured content \<Rightarrow> ty_FromUnstructured A t content
      | Structured s \<Rightarrow> ty_FromStructured A t obj)"

definition valueToObject :: "json \<Rightarrow> conv_error + 's runtime_object" where
  "valueToObject vu =
     (case vu of
        JObject o' \<Rightarrow> Inr (Unstructured o')
      | _ \<Rightarrow> Inl (OtherError ''failed to convert value to unstructured''))"

definition DeducedTypeConverter :: "('t, 'v, 's) typed_api \<Rightarrow> ('v, 's) TypeConverter" where
  "DeducedTypeConverter A =
     \<lparr>ObjectToTyped = from_object A (ty_Deduced A), TypedToObject = (\<lambda>v. valueToObject (ty_Unstructured A v))\<rparr>"

text \<open>\<open>typeConverter\<close>; the parser maps a kind to its schema, if it has one.\<close>

definition typeConverter :: "('t, 'v, 's) typed_api \<Rightarrow> (GroupVersionKind \<Rightarrow> 't option) \<Rightarrow> ('v, 's) TypeConverter" where
  "typeConverter A parser =
     \<lparr>ObjectToTyped = (\<lambda>obj. let gvk = ty_GVK A obj in
        case parser gvk of None \<Rightarrow> Inl (NoCorrespondingType gvk) | Some t \<Rightarrow> from_object A t obj),
      TypedToObject = (\<lambda>v. valueToObject (ty_Unstructured A v))\<rparr>"

definition NewTypeConverter ::
  "('t, 'v, 's) typed_api \<Rightarrow> ('m \<Rightarrow> bool \<Rightarrow> conv_error + (GroupVersionKind \<Rightarrow> 't option)) \<Rightarrow> 'm \<Rightarrow> bool \<Rightarrow>
     conv_error + ('v, 's) TypeConverter" where
  "NewTypeConverter A newGVKParser models preserveUnknownFields =
     (case newGVKParser models preserveUnknownFields of
        Inl err \<Rightarrow> Inl err | Inr parser \<Rightarrow> Inr (typeConverter A parser))"

section \<open>Between versions\<close>

record GroupVersion =
  gv_Group :: string
  gv_Version :: string

record ('v, 's) versionConverter =
  vc_typeConverter :: "('v, 's) TypeConverter"
  vc_ConvertToVersion :: "'s runtime_object \<Rightarrow> GroupVersion \<Rightarrow> conv_error + 's runtime_object"
  vc_hubGetter :: "GroupVersion \<Rightarrow> GroupVersion"

type_synonym 's object_convertor = "'s runtime_object \<Rightarrow> GroupVersion \<Rightarrow> conv_error + 's runtime_object"

definition newVersionConverter ::
  "('v, 's) TypeConverter \<Rightarrow> 's object_convertor \<Rightarrow> GroupVersion \<Rightarrow> ('v, 's) versionConverter" where
  "newVersionConverter t o' h = \<lparr>vc_typeConverter = t, vc_ConvertToVersion = o',
     vc_hubGetter = (\<lambda>from_version. \<lparr>gv_Group = gv_Group from_version, gv_Version = gv_Version h\<rparr>)\<rparr>"

definition newCRDVersionConverter ::
  "('v, 's) TypeConverter \<Rightarrow> 's object_convertor \<Rightarrow> GroupVersion \<Rightarrow> ('v, 's) versionConverter" where
  "newCRDVersionConverter t o' h = \<lparr>vc_typeConverter = t, vc_ConvertToVersion = o', vc_hubGetter = (\<lambda>_. h)\<rparr>"

definition NewVersionConverter ::
  "('t, 'v, 's) typed_api \<Rightarrow> (GroupVersionKind \<Rightarrow> 't option) \<Rightarrow> 's object_convertor \<Rightarrow> GroupVersion \<Rightarrow>
     ('v, 's) versionConverter" where
  "NewVersionConverter A gvkParser o' h = newVersionConverter (typeConverter A gvkParser) o' h"

text \<open>
  \<open>Convert\<close> returns a value together with an error: the value it was given, up to the last step, whose
  result it passes on.
\<close>

definition Convert ::
  "('s runtime_object \<Rightarrow> GroupVersion) \<Rightarrow> (string \<Rightarrow> conv_error + GroupVersion) \<Rightarrow> ('v, 's) versionConverter \<Rightarrow>
     'v \<Rightarrow> string \<Rightarrow> 'v option \<times> conv_error option" where
  "Convert version_of ParseGroupVersion v obj version =
     (case TypedToObject (vc_typeConverter v) obj of
        Inl err \<Rightarrow> (Some obj, Some err)
      | Inr objectToConvert \<Rightarrow>
          (case ParseGroupVersion version of
             Inl err \<Rightarrow> (Some obj, Some err)
           | Inr groupVersion \<Rightarrow>
               (let fromVersion = version_of objectToConvert in
                if fromVersion = groupVersion then (Some obj, None)
                else
                  (case vc_ConvertToVersion v objectToConvert (vc_hubGetter v fromVersion) of
                     Inl err \<Rightarrow> (Some obj, Some err)
                   | Inr internalObject \<Rightarrow>
                       (case vc_ConvertToVersion v internalObject groupVersion of
                          Inl err \<Rightarrow> (Some obj, Some err)
                        | Inr convertedObject \<Rightarrow>
                            (case ObjectToTyped (vc_typeConverter v) convertedObject of
                               Inl err \<Rightarrow> (None, Some err) | Inr tv \<Rightarrow> (Some tv, None)))))))"

definition IsMissingVersionError :: "conv_error option \<Rightarrow> bool" where
  "IsMissingVersionError err \<longleftrightarrow>
     (case err of Some (NotRegistered s) \<Rightarrow> True | _ \<Rightarrow> False) \<or> isNoCorrespondingTypeError err"

section \<open>Properties\<close>

text \<open>A library whose typed values keep the content of the object that they are made of.\<close>

definition keeps_content :: "('t, 'v, 's) typed_api \<Rightarrow> bool" where
  "keeps_content A \<longleftrightarrow> (\<forall>t content v. ty_FromUnstructured A t content = Inr v \<longrightarrow> ty_Unstructured A v = JObject content)"

text \<open>Both converters then turn the typed value of an unstructured object back into that object.\<close>

lemma typed_roundtrip:
  "keeps_content A \<Longrightarrow> ObjectToTyped (typeConverter A parser) (Unstructured content) = Inr v \<Longrightarrow>
     TypedToObject (typeConverter A parser) v = Inr (Unstructured content)"
  "keeps_content A \<Longrightarrow> ObjectToTyped (DeducedTypeConverter A) (Unstructured content) = Inr v \<Longrightarrow>
     TypedToObject (DeducedTypeConverter A) v = Inr (Unstructured content)"
  by (auto simp: typeConverter_def DeducedTypeConverter_def from_object_def keeps_content_def valueToObject_def Let_def
      split: option.splits)

text \<open>
  The conversion of the merge, for a value made of an unstructured object: within a version nothing
  happens; otherwise the object goes to the version of the configuration in the group it came from, and
  from there to the version asked for. An error leaves the value that was given, unless the result has no
  schema; both that and a kind that is not registered count as a missing version.
\<close>

theorem NewVersionConverter_spec:
  assumes "keeps_content A" "ObjectToTyped (typeConverter A parser) (Unstructured content) = Inr v"
    and "Parse version = Inr gv"
  shows "Convert version_of Parse (NewVersionConverter A parser convertor h) v version =
     (if version_of (Unstructured content) = gv then (Some v, None)
      else case convertor (Unstructured content) \<lparr>gv_Group = gv_Group (version_of (Unstructured content)), gv_Version = gv_Version h\<rparr> of
        Inl err \<Rightarrow> (Some v, Some err)
      | Inr hub \<Rightarrow>
          (case convertor hub gv of
             Inl err \<Rightarrow> (Some v, Some err)
           | Inr new \<Rightarrow>
               (case parser (ty_GVK A new) of
                  None \<Rightarrow> (None, Some (NoCorrespondingType (ty_GVK A new)))
                | Some t \<Rightarrow> (case from_object A t new of Inl err \<Rightarrow> (None, Some err) | Inr tv \<Rightarrow> (Some tv, None)))))"
  using typed_roundtrip(1) [OF assms(1,2)] assms(3)
  by (auto simp: Convert_def NewVersionConverter_def newVersionConverter_def typeConverter_def Let_def
      split: sum.split option.split)

lemma missing_versions:
  "IsMissingVersionError (Some (NoCorrespondingType gvk))" "IsMissingVersionError (Some (NotRegistered s))"
  "\<not> IsMissingVersionError (Some (OtherError s))" "\<not> IsMissingVersionError None"
  by (simp_all add: IsMissingVersionError_def isNoCorrespondingTypeError_def)

end
