(* ===== verification/Engine.thy ===== *)
theory Engine
  imports SyncProps CacheWatch DiffProps Kubectl
begin

text \<open>
  The engine, \<open>pkg/engine/engine.go\<close>: it composes the cache, the reconciliation, the comparison and the
  synchronization.

  \<open>Run\<close> fills the cache. \<open>Sync\<close> asks the cache for the managed live objects, pairs them with the
  targets, compares the pairs, and steps a new sync context until its operation has completed or its
  caller's context is done. Between two steps it waits for a timer, for the caller's context, or for an
  update of a managed resource that the cache reports. What happens meanwhile is a list of rounds,
  chosen freely: the cluster that answers the calls of a step, what the other goroutines do to the cache,
  and what the wait sees, in its order. None as an outcome is that the rounds are used up and the loop
  still runs.
\<close>

section \<open>Construction\<close>

text \<open>
  \<open>'k\<close> is the implementation of the kubectl wrapper; the default one has a logger and a tracer that the
  options replace, an overriding one is left alone.
\<close>

datatype ('k, 'l, 't) kubectl_impl = KubectlCmd (KubectlLog: 'l) (KubectlTracer: 't) | OtherKubectl 'k

record ('k, 'l, 't) engine_options =
  eo_log :: 'l
  eo_kubectl :: "('k, 'l, 't) kubectl_impl"

type_synonym ('k, 'l, 't) engine_Option = "('k, 'l, 't) engine_options \<Rightarrow> ('k, 'l, 't) engine_options"

definition engine_WithLogr :: "'l \<Rightarrow> ('k, 'l, 't) engine_Option" where
  "engine_WithLogr log o' =
     (let o1 = o'\<lparr>eo_log := log\<rparr> in
      case eo_kubectl o1 of
        KubectlCmd _ t \<Rightarrow> o1\<lparr>eo_kubectl := KubectlCmd log t\<rparr>
      | OtherKubectl _ \<Rightarrow> o1)"

definition SetTracer :: "'t \<Rightarrow> ('k, 'l, 't) engine_Option" where
  "SetTracer tracer o' =
     (case eo_kubectl o' of
        KubectlCmd l _ \<Rightarrow> o'\<lparr>eo_kubectl := KubectlCmd l tracer\<rparr>
      | OtherKubectl _ \<Rightarrow> o')"

definition WithKubectl :: "('k, 'l, 't) kubectl_impl \<Rightarrow> ('k, 'l, 't) engine_Option" where
  "WithKubectl kubectl o' = o'\<lparr>eo_kubectl := kubectl\<rparr>"

definition engine_applyOptions ::
  "'l \<Rightarrow> 't \<Rightarrow> ('k, 'l, 't) engine_Option list \<Rightarrow> ('k, 'l, 't) engine_options" where
  "engine_applyOptions log nopTracer opts =
     foldl (\<lambda>o' opt. opt o') \<lparr>eo_log = log, eo_kubectl = KubectlCmd log nopTracer\<rparr> opts"

text \<open>\<open>Run\<close>: the function that it returns stops the engine by \<open>Invalidate\<close>, without options.\<close>

definition engine_Run ::
  "cluster_api \<Rightarrow> CacheSync.schedule \<Rightarrow> int \<Rightarrow> int \<Rightarrow> int \<Rightarrow> 'i clusterCache \<Rightarrow>
     (go_error + ('i clusterCache \<Rightarrow> 'i clusterCache)) \<times> 'i clusterCache" where
  "engine_Run k8s sch now0 now now' c =
     (case EnsureSynced k8s sch now0 now now' c of
        (Some err, c') \<Rightarrow> (Inl (wrap_err ''failed to ensure the cache is synced'' err), c')
      | (None, c') \<Rightarrow> (Inr (Invalidate []), c'))"

section \<open>Waiting\<close>

text \<open>
  What the select of the loop sees: the caller's context is done, the timer fires, or the cache reports an
  update of a resource. The handler sends to the loop only for keys of \<open>managedResources\<close>, and blocks
  until the loop takes it or has ended; an update of any other resource passes.
\<close>

datatype 'i wait_event = CtxDone go_error | TimeAfter | Updated "'i Resource option" "'i Resource option"

datatype wait_result = StopWith go_error | Again

definition updated_key :: "'i Resource option \<Rightarrow> 'i Resource option \<Rightarrow> ResourceKey option" where
  "updated_key newR oldR =
     (case newR of Some r \<Rightarrow> Some (ResourceKey_of r) | None \<Rightarrow> map_option ResourceKey_of oldR)"

fun engine_wait :: "ResourceKey set \<Rightarrow> 'i wait_event list \<Rightarrow> wait_result option" where
  "engine_wait managed [] = None"
| "engine_wait managed (CtxDone e # ws) = Some (StopWith e)"
| "engine_wait managed (TimeAfter # ws) = Some Again"
| "engine_wait managed (Updated newR oldR # ws) =
     (case updated_key newR oldR of
        Some k \<Rightarrow> if k \<in> managed then Some Again else engine_wait managed ws
      | None \<Rightarrow> engine_wait managed ws)"

section \<open>Sync\<close>

record 'i round =
  rd_cluster :: cluster
  rd_cache :: "'i clusterCache \<Rightarrow> 'i clusterCache"
  rd_waits :: "'i wait_event list"

definition sync_result :: "sync_state \<Rightarrow> ResourceSyncResult list \<times> go_error option" where
  "sync_result st =
     (let (phase, message, resources) = GetState st in
      (resources, if phase = OperationError then Some (Err ReasonOther (''sync operation failed: '' @ message)) else None))"

fun engine_loop ::
  "ResourceKey set \<Rightarrow> 'i round list \<Rightarrow> sync_state \<Rightarrow> 'i clusterCache \<Rightarrow>
     ((ResourceSyncResult list \<times> go_error option) \<times> sync_state \<times> 'i clusterCache) option" where
  "engine_loop managed [] st c = None"
| "engine_loop managed (r # rs) st c =
     (let st1 = Sync (rd_cluster r) st; c1 = rd_cache r c; (phase, message, resources) = GetState st1 in
      if Completed phase then Some (sync_result st1, st1, c1)
      else
        (case engine_wait managed (rd_waits r) of
           None \<Rightarrow> None
         | Some (StopWith e) \<Rightarrow> Some ((resources, Some e), Terminate (rd_cluster r) st1, c1)
         | Some Again \<Rightarrow> engine_loop managed rs st1 c1))"

text \<open>
  \<open>NewSyncContext\<close> with the constructors that may fail before the context exists; the file is the
  kubeconfig that the deferred cleanup deletes.
\<close>

definition new_sync_context ::
  "client_api \<Rightarrow> os_api \<Rightarrow> (kube_Config \<Rightarrow> go_error + string) \<Rightarrow> rest_config \<Rightarrow> string \<Rightarrow> ReconciliationResult \<Rightarrow>
     string \<Rightarrow> int \<Rightarrow> SyncOpt list \<Rightarrow> files \<Rightarrow> (go_error + string \<times> syncContext) \<times> files" where
  "new_sync_context api os encode config revision reconciliationResult namespace now opts fs =
     (case cl_NewDynamic api of
        Some e \<Rightarrow> (Inl (wrap_err ''failed to create dynamic client'' e), fs)
      | None \<Rightarrow>
     (case cl_NewDiscovery api of
        Some e \<Rightarrow> (Inl (wrap_err ''failed to create discovery client'' e), fs)
      | None \<Rightarrow>
     (case cl_NewClientset api of
        Some e \<Rightarrow> (Inl (wrap_err ''failed to create extensions client'' e), fs)
      | None \<Rightarrow>
     (case ManageResources os encode config fs of
        (Inl e, fs1) \<Rightarrow> (Inl (wrap_err ''failed to manage resources'' e), fs1)
      | (Inr f, fs1) \<Rightarrow> (Inr (f, NewSyncContext revision reconciliationResult namespace now opts), fs1)))))"

text \<open>
  The parts of the engine: the cluster as the cache sees it, the libraries of the comparison, the clients,
  the file system, the clock, the next free object pointer and the number of its update handler. The
  comparison sees an object as its JSON, \<open>ee_content\<close>.
\<close>

record ('o, 'q, 'p, 't, 'v, 's) engine_env =
  ee_k8s :: cluster_api
  ee_notFoundText :: "GroupKind \<Rightarrow> string"
  ee_content :: "unstructured \<Rightarrow> object"
  ee_diff :: "('o, 'q, 'p, 't, 'v, 's) diff_env"
  ee_client :: client_api
  ee_os :: os_api
  ee_encode :: "kube_Config \<Rightarrow> go_error + string"
  ee_config :: rest_config
  ee_now :: int
  ee_ptr :: nat
  ee_handler :: nat

datatype sync_outcome = Returned "ResourceSyncResult list" "go_error option" | Panics | Running_on

text \<open>
  \<open>Reconcile\<close> works on the map that it is given: it deletes duplicates and matched entries from it. This is
  the map that is left, and which the update handler reads.
\<close>

definition reconciled_map ::
  "unstructured option list \<Rightarrow> live_map \<Rightarrow> string \<Rightarrow> ResourceInfoProvider \<Rightarrow> live_map" where
  "reconciled_map targets liveObjByKey namespace resInfo =
     (let targetObjs = fst (splitHooks targets) in
      snd (match_live namespace resInfo targetObjs (dedupLiveResources targetObjs liveObjByKey)))"

definition start_state :: "nat \<Rightarrow> syncContext \<Rightarrow> sync_state" where
  "start_state p ctx = syncContext.extend ctx (sync_state.fields [] [] p)"

definition managed_live :: "(ResourceKey \<times> unstructured) list \<Rightarrow> live_map" where
  "managed_live m = map (\<lambda>(k, o'). (k, Some o')) m"

definition scope_of :: "('o, 'q, 'p, 't, 'v, 's) engine_env \<Rightarrow> 'i clusterCache \<Rightarrow> ResourceInfoProvider" where
  "scope_of E c gk = IsNamespaced (ee_notFoundText E) gk c"

definition diff_result ::
  "('o, 'q, 'p, 't, 'v, 's) engine_env \<Rightarrow> ReconciliationResult \<Rightarrow> DiffResultList res" where
  "diff_result E result =
     DiffArray (ee_diff E) [] (map (map_option (ee_content E)) (Target result)) (map (map_option (ee_content E)) (Live result))"

definition engine_Sync ::
  "('o, 'q, 'p, 't, 'v, 's) engine_env \<Rightarrow> unstructured list \<Rightarrow> ('i Resource \<Rightarrow> bool) \<Rightarrow> string \<Rightarrow> string \<Rightarrow>
     SyncOpt list \<Rightarrow> 'i round list \<Rightarrow> 'i clusterCache \<Rightarrow> files \<Rightarrow> sync_outcome \<times> 'i clusterCache \<times> files" where
  "engine_Sync E resources isManaged revision namespace opts rounds c fs =
     (case GetManagedLiveObjs (ee_k8s E) resources isManaged c of
        Inl err \<Rightarrow> (Returned [] (Some (wrap_err ''failed to get managed live objects'' err)), c, fs)
      | Inr managedResources \<Rightarrow>
     (let live = managed_live managedResources;
          result = Reconcile (map Some resources) live namespace (scope_of E c);
          managed = fst ` set (reconciled_map (map Some resources) live namespace (scope_of E c)) in
      case diff_result E result of
        Inl Panicked \<Rightarrow> (Panics, c, fs)
      | Inl (Errored err) \<Rightarrow> (Returned [] (Some (wrap_err ''failed to diff objects'' err)), c, fs)
      | Inr diffRes \<Rightarrow>
          (case new_sync_context (ee_client E) (ee_os E) (ee_encode E) (ee_config E) revision result namespace (ee_now E)
                  (opts @ [WithSkipHooks (\<not> AnyModified diffRes)]) fs of
             (Inl err, fs1) \<Rightarrow> (Returned [] (Some (wrap_err ''failed to create sync context'' err)), c, fs1)
           | (Inr (kubeconfig, ctx), fs1) \<Rightarrow>
               (let (hkey, c1) = OnResourceUpdated (ee_handler E) c in
                case engine_loop managed rounds (start_state (ee_ptr E) ctx) c1 of
                  None \<Rightarrow> (Running_on, c1, fs1)
                | Some ((res, err), st, c2) \<Rightarrow>
                    (Returned res err, UnsubscribeResourceUpdated hkey c2, cleanup_kubeconfig (ee_os E) kubeconfig fs1)))))"

end
