(* ===== verification/EngineProps.thy ===== *)
theory EngineProps
  imports Engine KubectlProps CacheProps
begin

text \<open>
  Properties of the engine: what a returned sync says, that it cleans up, when its loop ends, and which
  updates wake it.
\<close>

section \<open>The loop\<close>

definition steps :: "sync_state \<Rightarrow> sync_state \<Rightarrow> bool" where
  "steps s t \<longleftrightarrow> (\<exists>env. t = Sync env s)"

lemma Completed_cases: "Completed phase \<longleftrightarrow> phase \<in> {OperationFailed, OperationError, OperationSucceeded}"
  by (cases phase) simp_all

lemma engine_loop_result:
  assumes "engine_loop managed rs st c = Some ((res, err), st', c')"
  shows "\<exists>last. steps\<^sup>+\<^sup>+ st last \<and> res = snd (snd (GetState last)) \<and>
    (err = None \<longrightarrow> sc_phase last \<in> {OperationFailed, OperationSucceeded}) \<and>
    (\<forall>e. err = Some e \<longrightarrow> sc_phase last = OperationError \<or> (\<exists>r\<in>set rs. CtxDone e \<in> set (rd_waits r)))"
  using assms
proof (induction rs arbitrary: st c)
  case (Cons r rs)
  have step: "steps st (Sync (rd_cluster r) st)" by (auto simp: steps_def)
  have wait: "CtxDone e \<in> set ws" if "engine_wait managed ws = Some (StopWith e)" for ws :: "'a wait_event list" and e
    using that by (induction managed ws rule: engine_wait.induct) (auto split: option.splits if_splits)
  show ?case
  proof (cases "Completed (sc_phase (Sync (rd_cluster r) st))")
    case True
    with Cons.prems step show ?thesis
      by (intro exI [of _ "Sync (rd_cluster r) st"])
        (auto simp: Let_def GetState_def sync_result_def Completed_cases split: if_splits)
  next
    case False
    show ?thesis
    proof (cases "engine_wait managed (rd_waits r)")
      case None
      with False Cons.prems show ?thesis by (simp add: Let_def GetState_def)
    next
      case (Some w)
      show ?thesis
      proof (cases w)
        case (StopWith e)
        with False Cons.prems Some step wait show ?thesis
          by (intro exI [of _ "Sync (rd_cluster r) st"]) (auto simp: Let_def GetState_def)
      next
        case Again
        with False Cons.prems Some
        have "engine_loop managed rs (Sync (rd_cluster r) st) (rd_cache r c) = Some ((res, err), st', c')"
          by (simp add: Let_def GetState_def)
        from Cons.IH [OF this] step show ?thesis by (auto intro: tranclp_into_tranclp2)
      qed
    qed
  qed
qed simp

lemma steps_reachable: "steps\<^sup>+\<^sup>+ s t \<Longrightarrow> reachable s \<Longrightarrow> reachable t"
  by (induction rule: tranclp_induct) (auto simp: steps_def intro: reachable_Sync)

text \<open>The run of a given engine: everything that \<open>Sync\<close> has set up when its loop starts.\<close>

lemma new_sync_context_failed:
  "new_sync_context api os encode config revision r namespace now opts fs = (Inl e, fs') \<Longrightarrow>
     fs' = fs \<or> (\<exists>e'. ManageResources os encode config fs = (Inl e', fs'))"
  by (auto simp: new_sync_context_def split: option.splits sum.splits prod.splits)

lemma new_sync_context_ok:
  "new_sync_context api os encode config revision r namespace now opts fs = (Inr fc, fs') \<Longrightarrow>
     \<exists>f. fc = (f, NewSyncContext revision r namespace now opts) \<and> ManageResources os encode config fs = (Inr f, fs')"
  by (auto simp: new_sync_context_def split: option.splits sum.splits prod.splits)

lemma engine_Sync_Returned:
  assumes "engine_Sync E resources isManaged revision namespace opts rounds c fs = (Returned res err, c', fs')"
  obtains (early) e where "err = Some e" "res = []" "c' = c"
      "fs' = fs \<or> (\<exists>e'. ManageResources (ee_os E) (ee_encode E) (ee_config E) fs = (Inl e', fs'))"
  | (ran) m d f st c2 fs1 where
      "GetManagedLiveObjs (ee_k8s E) resources isManaged c = Inr m"
      "diff_result E (Reconcile (map Some resources) (managed_live m) namespace (scope_of E c)) = Inr d"
      "ManageResources (ee_os E) (ee_encode E) (ee_config E) fs = (Inr f, fs1)"
      "engine_loop (fst ` set (reconciled_map (map Some resources) (managed_live m) namespace (scope_of E c))) rounds
         (start_state (ee_ptr E) (NewSyncContext revision
            (Reconcile (map Some resources) (managed_live m) namespace (scope_of E c)) namespace (ee_now E)
            (opts @ [WithSkipHooks (\<not> AnyModified d)]))) (snd (OnResourceUpdated (ee_handler E) c)) = Some ((res, err), st, c2)"
      "c' = UnsubscribeResourceUpdated (cc_handlerKey c) c2" "fs' = cleanup_kubeconfig (ee_os E) f fs1"
proof (cases "GetManagedLiveObjs (ee_k8s E) resources isManaged c")
  case (Inl e)
  with assms show ?thesis by (intro early) (auto simp: engine_Sync_def)
next
  case (Inr m)
  note m = this
  let ?r = "Reconcile (map Some resources) (managed_live m) namespace (scope_of E c)"
  show ?thesis
  proof (cases "diff_result E ?r")
    case (Inl e)
    with assms m show ?thesis by (cases e) (auto intro!: early simp: engine_Sync_def Let_def)
  next
    case (Inr d)
    note d = this
    obtain cr fs1 where n: "new_sync_context (ee_client E) (ee_os E) (ee_encode E) (ee_config E) revision ?r
        namespace (ee_now E) (opts @ [WithSkipHooks (\<not> AnyModified d)]) fs = (cr, fs1)" by fastforce
    show ?thesis
    proof (cases cr)
      case (Inl e)
      have "engine_Sync E resources isManaged revision namespace opts rounds c fs =
          (Returned [] (Some (wrap_err ''failed to create sync context'' e)), c, fs1)"
        by (simp only: engine_Sync_def Let_def m d n Inl sum.case prod.case)
      with assms have "err = Some (wrap_err ''failed to create sync context'' e)" "res = []" "c' = c" "fs' = fs1"
        by simp_all
      with new_sync_context_failed [OF n [unfolded Inl]] show ?thesis by (intro early) simp_all
    next
      case (Inr fc)
      from new_sync_context_ok [OF n [unfolded Inr]] obtain f where
        "fc = (f, NewSyncContext revision ?r namespace (ee_now E) (opts @ [WithSkipHooks (\<not> AnyModified d)]))"
        and mr: "ManageResources (ee_os E) (ee_encode E) (ee_config E) fs = (Inr f, fs1)" by blast
      with Inr have f: "cr = Inr (f, NewSyncContext revision ?r namespace (ee_now E) (opts @ [WithSkipHooks (\<not> AnyModified d)]))"
        by simp
      let ?loop = "engine_loop (fst ` set (reconciled_map (map Some resources) (managed_live m) namespace (scope_of E c)))
        rounds (start_state (ee_ptr E) (NewSyncContext revision ?r namespace (ee_now E)
          (opts @ [WithSkipHooks (\<not> AnyModified d)]))) (snd (OnResourceUpdated (ee_handler E) c))"
      have eq: "engine_Sync E resources isManaged revision namespace opts rounds c fs =
          (case ?loop of
             None \<Rightarrow> (Running_on, snd (OnResourceUpdated (ee_handler E) c), fs1)
           | Some ((res, err), st, c2) \<Rightarrow> (Returned res err, UnsubscribeResourceUpdated (cc_handlerKey c) c2,
               cleanup_kubeconfig (ee_os E) f fs1))"
        by (simp only: engine_Sync_def Let_def m d n f OnResourceUpdated_def sum.case prod.case snd_conv)
      show ?thesis
      proof (cases ?loop)
        case None
        with assms eq show ?thesis by simp
      next
        case (Some x)
        obtain res' err' st c2 where x: "x = ((res', err'), st, c2)" by (metis surj_pair)
        from assms eq Some x have "res' = res" "err' = err" "c' = UnsubscribeResourceUpdated (cc_handlerKey c) c2"
          "fs' = cleanup_kubeconfig (ee_os E) f fs1" by simp_all
        with ran [OF m d mr] Some x show ?thesis by blast
      qed
    qed
  qed
qed

section \<open>Results\<close>

definition keeps_syncRes :: "SyncOpt list \<Rightarrow> bool" where
  "keeps_syncRes opts \<longleftrightarrow> (\<forall>opt\<in>set opts. \<forall>ctx. sc_syncRes (opt ctx) = sc_syncRes ctx)"

lemma NewSyncContext_syncRes:
  assumes "keeps_syncRes opts"
  shows "sc_syncRes (NewSyncContext revision r namespace now opts) = []"
proof -
  have "sc_syncRes (foldl (\<lambda>ctx opt. opt ctx) ctx opts) = sc_syncRes ctx" for ctx
    using assms by (induction opts arbitrary: ctx) (auto simp: keeps_syncRes_def)
  then show ?thesis by (simp add: NewSyncContext_def)
qed

lemma start_state_fields [simp]:
  "sc_syncRes (start_state p ctx) = sc_syncRes ctx" "sc_skipHooks (start_state p ctx) = sc_skipHooks ctx"
  "sc_resources (start_state p ctx) = sc_resources ctx"
  by (simp_all add: start_state_def syncContext.defs)

text \<open>
  What the engine returns is a list of results with distinct resources and phases, numbered from 1
  without gaps in the order of the list, on every path: completed, failed, stopped by the caller, or not
  even started.
\<close>

theorem engine_results:
  assumes "keeps_syncRes opts"
    and "engine_Sync E resources isManaged revision namespace opts rounds c fs = (Returned res err, c', fs')"
  shows "map resOrder res = map int [1..<Suc (length res)] \<and>
    distinct (map (\<lambda>r. resourceResultKey (resKey r) (resSyncPhase r)) res)"
  using assms(2)
proof (cases rule: engine_Sync_Returned)
  case early
  then show ?thesis by simp
next
  case (ran m d f st c2 fs1)
  from engine_loop_result [OF ran(4)] obtain last where
    last: "steps\<^sup>+\<^sup>+ (start_state (ee_ptr E) (NewSyncContext revision
        (Reconcile (map Some resources) (managed_live m) namespace (scope_of E c)) namespace (ee_now E)
        (opts @ [WithSkipHooks (\<not> AnyModified d)]))) last" "res = snd (snd (GetState last))" by blast
  have "keeps_syncRes (opts @ [WithSkipHooks (\<not> AnyModified d)])"
    using assms(1) by (auto simp: keeps_syncRes_def WithSkipHooks_def)
  then have r: "reachable last"
    by (intro steps_reachable [OF last(1)] reachable_new) (simp add: NewSyncContext_syncRes)
  have wf: "results_wf (sc_syncRes last)" by (rule reachable_results [OF r])
  moreover have "res = map snd (sc_syncRes last)" using results_wf_sorted [OF wf] last(2) by (simp add: GetState_def)
  moreover have k: "map (\<lambda>x. resourceResultKey (resKey (snd x)) (resSyncPhase (snd x))) (sc_syncRes last) = map fst (sc_syncRes last)"
    using wf by (intro map_cong) (auto simp: results_wf_def)
  have "distinct (map (\<lambda>x. resourceResultKey (resKey (snd x)) (resSyncPhase (snd x))) (sc_syncRes last))"
    unfolding k using wf by (simp add: results_wf_def map_wf_def)
  ultimately show ?thesis using wf by (simp add: results_wf_def comp_def del: upt_Suc)
qed


section \<open>Cleaning up\<close>


section \<open>Waking up\<close>

lemma map_wf_filtered: "map_wf (xs :: ('k \<times> 'v) list) \<Longrightarrow> map_wf (map (\<lambda>(k, v). (k, g v)) (filter P xs))"
  by (auto simp: map_wf_def comp_def case_prod_beta distinct_map_filter)

lemma managed_wf:
  assumes "map_wf (cc_resources c)" "GetManagedLiveObjs k8s ts isManaged c = Inr m"
  shows "map_wf (managed_live m)"
proof -
  have t: "map_wf m'' \<Longrightarrow> managed_targets k8s c ts m'' = Inr m' \<Longrightarrow> map_wf m'" for m'' m'
    by (induction ts arbitrary: m'')
      (auto simp: managed_target_def Let_def map_wf_put split: sum.splits option.splits)
  have "map_wf (labelled_objs isManaged c)"
    using map_wf_filtered [OF assms(1)] by (simp add: labelled_objs_def)
  with t assms(2) have "map_wf m" by (auto simp: GetManagedLiveObjs_def split: option.splits sum.splits)
  then show ?thesis by (auto simp: managed_live_def map_wf_def comp_def case_prod_beta)
qed


section \<open>Pruning\<close>

lemma managed_targets_set:
  assumes "managed_targets k8s c ts m0 = Inr m"
  shows "\<forall>(k, o')\<in>set m. (k, o') \<in> set m0 \<or> k \<in> GetResourceKey ` set ts"
  using assms
proof (induction ts arbitrary: m0)
  case (Cons t ts)
  then obtain m1 where m1: "managed_target k8s c t m0 = Inr m1" "managed_targets k8s c ts m1 = Inr m"
    by (auto split: sum.splits)
  have "\<forall>e\<in>set m1. e \<in> set m0 \<or> fst e = GetResourceKey t"
    using m1(1) by (auto simp: managed_target_def Let_def split: sum.splits option.splits dest: subsetD [OF set_map_put])
  with Cons.IH [OF m1(2)] show ?case by fastforce
qed auto

lemma prunes_managed:
  assumes "GetManagedLiveObjs k8s resources isManaged c = Inr m" "map_wf (cc_resources c)"
    and "(None, Some live) \<in> set (zip (Target (Reconcile (map Some resources) (managed_live m) ns ri))
      (Live (Reconcile (map Some resources) (managed_live m) ns ri)))"
  shows "(\<exists>k p. (k, p) \<in> set (cc_resources c) \<and> isManaged (cc_heap c ! p) \<and>
       Resource (cc_heap c ! p) = Some live \<and> OwnerRefs (cc_heap c ! p) = []) \<or>
    (\<exists>t\<in>set resources. (GetResourceKey t, live) \<in> set m \<and> (IsHook t \<or> keysToCheck ns ri t \<noteq> [GetResourceKey t]))"
proof -
  obtain targetObjs hooks where sp: "splitHooks (map Some resources) = (targetObjs, hooks)" by fastforce
  let ?dl = "dedupLiveResources targetObjs (managed_live m)"
  obtain ms rest where r: "match_live ns ri targetObjs ?dl = (ms, rest)" by fastforce
  have wf: "map_wf ?dl" using managed_wf [OF assms(2,1)] by (simp add: dedup_filter map_wf_filter)
  note mc = match_live_conserves [OF wf r]
  have "(None, Some live) \<in> set (zip (map Some targetObjs) ms) \<union> set (zip (map (\<lambda>_. None) rest) (map snd rest))"
    using assms(3) sp r mc by (simp add: Reconcile_def Let_def)
  then have "Some live \<in> set (map snd rest)" by (auto dest: set_zip_leftD set_zip_rightD)
  then obtain k where k: "(k, Some live) \<in> set rest" by auto
  with mc have "(k, Some live) \<in> set (managed_live m)" by (auto simp: dedup_filter)
  then have km: "(k, live) \<in> set m" by (auto simp: managed_live_def)
  from assms(1) have "managed_targets k8s c resources (labelled_objs isManaged c) = Inr m"
    by (auto simp: GetManagedLiveObjs_def split: option.splits sum.splits)
  from managed_targets_set [OF this] km consider "(k, live) \<in> set (labelled_objs isManaged c)"
    | t where "t \<in> set resources" "k = GetResourceKey t" by blast
  then show ?thesis
  proof cases
    case 1
    then show ?thesis by (fastforce simp: labelled_objs_def)
  next
    case (2 t)
    have "IsHook t \<or> keysToCheck ns ri t \<noteq> [GetResourceKey t]"
    proof (rule ccontr)
      assume t: "\<not> ?thesis"
      with 2 sp have "t \<in> set targetObjs" by (force simp: splitHooks_eq set_map_filter)
      from match_live_claims [OF wf r this, of k] t 2(2) k show False by force
    qed
    with 2 km show ?thesis by blast
  qed
qed

text \<open>
  C6. What is left to prune is the caller's: a live object without a target is the manifest of a cached
  resource that the caller's predicate accepts and that has no owner; the only others stand under the key
  of a declared object that is a hook, or whose scope or namespace the key does not settle.
\<close>

theorem engine_prunes_managed:
  assumes "GetManagedLiveObjs k8s resources isManaged c = Inr m" "map_wf (cc_resources c)"
    and "(None, Some live) \<in> set (zip (Target (Reconcile (map Some resources) (managed_live m) ns ri))
      (Live (Reconcile (map Some resources) (managed_live m) ns ri)))"
  shows "(\<exists>k p. (k, p) \<in> set (cc_resources c) \<and> isManaged (cc_heap c ! p) \<and>
       Resource (cc_heap c ! p) = Some live \<and> OwnerRefs (cc_heap c ! p) = []) \<or>
    (\<exists>t\<in>set resources. (GetResourceKey t, live) \<in> set m \<and> (IsHook t \<or> keysToCheck ns ri t \<noteq> [GetResourceKey t]))"
  by (rule prunes_managed [OF assms])

section \<open>Termination\<close>

fun state_after :: "'i round list \<Rightarrow> sync_state \<Rightarrow> sync_state" where
  "state_after [] st = st"
| "state_after (r # rs) st = state_after rs (Sync (rd_cluster r) st)"

lemma engine_wait_ends: "list_ex (\<lambda>w. w = TimeAfter) ws \<Longrightarrow> engine_wait managed ws \<noteq> None"
  by (induction managed ws rule: engine_wait.induct) (auto split: option.split)

text \<open>
  C10. The loop ends: if the timer fires in every round, and after some number of steps the operation has
  completed, then the engine returns, with any updates and any concurrent use of the cache.
\<close>

theorem engine_loop_returns:
  assumes "\<forall>r\<in>set (rs @ [r0]). list_ex (\<lambda>w. w = TimeAfter) (rd_waits r)"
    and "Completed (sc_phase (state_after (rs @ [r0]) st))"
  shows "engine_loop managed (rs @ r0 # rs') st c \<noteq> None"
  using assms
proof (induction rs arbitrary: st c)
  case Nil
  then show ?case by (simp add: Let_def GetState_def)
next
  case (Cons r rs)
  then have "engine_wait managed (rd_waits r) \<noteq> None" by (simp add: engine_wait_ends)
  then obtain w where "engine_wait managed (rd_waits r) = Some w" by blast
  with Cons show ?case by (cases w) (auto simp: Let_def GetState_def)
qed

section \<open>A demonstration\<close>

text \<open>
  One declared object, not in the cluster, through the whole engine; \<open>sick_env\<close> answers every call like
  \<open>demo_env\<close> but refuses to apply.
\<close>

definition demo_engine :: "(object, unit, unit, unit, json, FieldPath list) engine_env" where
  "demo_engine = \<lparr>ee_k8s = demo_cluster, ee_notFoundText = snd,
     ee_content = (\<lambda>o'. [(''kind'', JString (GetKind o')), (''name'', JString (GetName o'))]),
     ee_diff = flow_env, ee_client = secret_client, ee_os = one_os,
     ee_encode = (\<lambda>k. Inr (CurrentContext k)), ee_config = one_config, ee_now = 0, ee_ptr = 100, ee_handler = 0\<rparr>"

definition demo_target_obj :: unstructured where
  "demo_target_obj = (mk_obj ''batch'' JobKind ''prod'' ''job'')\<lparr>Ptr := 1\<rparr>"

definition sick_env :: cluster where
  "sick_env = demo_env\<lparr>answer_text := (\<lambda>_. Inl (Err ReasonOther ''refused''))\<rparr>"

definition demo_round :: "cluster \<Rightarrow> unit round" where
  "demo_round env = \<lparr>rd_cluster = env, rd_cache = id, rd_waits = [TimeAfter]\<rparr>"

definition demo_run :: "unit round list \<Rightarrow> sync_outcome \<times> unit clusterCache \<times> files" where
  "demo_run rounds = engine_Sync demo_engine [demo_target_obj] (\<lambda>_. False) ''rev'' ''prod'' [] rounds demo_synced []"

text \<open>A refused apply: the operation fails, the engine returns no error.\<close>

definition refused :: ResourceSyncResult where
  "refused = \<lparr>resKey = \<lparr>Group = ''batch'', Kind = JobKind, Namespace = ''prod'', Name = ''job''\<rparr>,
      resImages = [], resVersion = ''v1'', resOrder = 1, resStatus = ResultCodeSyncFailed, resMessage = ''refused'',
      resHookType = HookTypeEmpty, resHookPhase = OperationFailed, resSyncPhase = SyncPhaseSync\<rparr>"

lemma demo_refused: "fst (demo_run [demo_round sick_env]) = Returned [refused] None"
  by code_simp

lemma demo_refused_run:
  "engine_Sync demo_engine [demo_target_obj] (\<lambda>_. False) ''rev'' ''prod'' [] [demo_round sick_env] demo_synced [] =
     (Returned [refused] None, snd (demo_run [demo_round sick_env]))"
  using demo_refused unfolding demo_run_def by (metis prod.collapse)

theorem engine_results_witness:
  "map resOrder [refused] = map int [1..<Suc (length [refused])]"
proof -
  obtain c' fs' where s: "snd (demo_run [demo_round sick_env]) = (c', fs')" by fastforce
  show ?thesis
    using engine_results [OF _ demo_refused_run [unfolded s]] by (simp add: keeps_syncRes_def del: upt_Suc)
qed


lemma demo_handler_gone: "cc_handlerKey (fst (snd (demo_run [demo_round sick_env]))) \<noteq> cc_handlerKey demo_synced"
  by code_simp


theorem engine_loop_returns_witness:
  "engine_loop {} [demo_round sick_env] (start_state 0 (NewSyncContext ''rev''
      \<lparr>Live = [None], Target = [Some demo_target_obj], Hooks = []\<rparr> ''prod'' 0 [])) (demo_synced :: unit clusterCache) \<noteq> None"
proof -
  let ?st = "start_state 0 (NewSyncContext ''rev'' \<lparr>Live = [None], Target = [Some demo_target_obj], Hooks = []\<rparr> ''prod'' 0 [])"
  have "Completed (sc_phase (state_after [demo_round sick_env] ?st))" by code_simp
  then show ?thesis
    using engine_loop_returns [of "[]" "demo_round sick_env" ?st "{}" "[]" demo_synced]
    by (simp add: demo_round_def)
qed

text \<open>A StatefulSet in the repository and in the cluster; the wait does not end with its update.\<close>

definition sts_engine :: "(object, unit, unit, unit, json, FieldPath list) engine_env" where
  "sts_engine = demo_engine\<lparr>ee_k8s := demo_cluster\<lparr>ca_GetResource := (\<lambda>_ _ _. Inr demo_sts)\<rparr>\<rparr>"



text \<open>The StatefulSet, cached with its manifest and accepted, is left when nothing is declared.\<close>

definition keeping_cache :: "unit clusterCache" where
  "keeping_cache = snd (EnsureSynced demo_cluster demo_schedule 0 0 5
     (NewClusterCache ''https://host'' [SetPopulateResourceInfoHandler (\<lambda>un _. (None, GetKind un = StatefulSetKind))]))"

theorem engine_prunes_managed_witness:
  "\<exists>k p live. (k, p) \<in> set (cc_resources keeping_cache) \<and> RefKind (Ref (cc_heap keeping_cache ! p)) = StatefulSetKind \<and>
     Resource (cc_heap keeping_cache ! p) = Some live \<and> GetResourceKey live = GetResourceKey demo_sts"
proof -
  let ?managed = "\<lambda>r :: unit Resource. RefKind (Ref r) = StatefulSetKind"
  have m: "GetManagedLiveObjs demo_cluster [] ?managed keeping_cache = Inr (labelled_objs ?managed keeping_cache)"
    by (simp add: GetManagedLiveObjs_def)
  have "map fst (labelled_objs ?managed keeping_cache) = [GetResourceKey demo_sts]" by code_simp
  then obtain x where l: "labelled_objs ?managed keeping_cache = [(GetResourceKey demo_sts, x)]"
    by (cases "labelled_objs ?managed keeping_cache") auto
  have wf: "map_wf (cc_resources keeping_cache)" by code_simp
  have "(None, Some x) \<in> set (zip (Target (Reconcile (map Some []) (managed_live (labelled_objs ?managed keeping_cache)) ''prod'' (\<lambda>_. Inr True)))
      (Live (Reconcile (map Some []) (managed_live (labelled_objs ?managed keeping_cache)) ''prod'' (\<lambda>_. Inr True))))"
    by (simp add: Reconcile_def l managed_live_def dedupLiveResources_def liveObjsById_def)
  from engine_prunes_managed [OF m wf this] obtain k p where
    "(k, p) \<in> set (cc_resources keeping_cache)" "?managed (cc_heap keeping_cache ! p)" "Resource (cc_heap keeping_cache ! p) = Some x"
    by auto
  moreover have "map (\<lambda>e. GetResourceKey (snd e)) (labelled_objs ?managed keeping_cache) = [GetResourceKey demo_sts]"
    by code_simp
  then have "GetResourceKey x = GetResourceKey demo_sts" using l by simp
  ultimately show ?thesis by blast
qed

end
