(* ===== verification/Agent.thy ===== *)
theory Agent
  imports EngineProps WatchEvents KubeHelpers
begin

text \<open>
  The agent, \<open>agent/main.go\<close>: it parses the manifests of a repository, marks each object, lets the engine
  synchronize the cluster with them, and prunes by that mark.

  git, the walk over the files, the hash, the decoder and the client configuration are parameters. The
  timer and the HTTP handler only decide when an iteration of the loop runs; the profiler is left out.
\<close>

section \<open>Manifests\<close>

abbreviation "annotationGCMark \<equiv> ''gitops-agent.argoproj.io/gc-mark''"

record settings =
  repoPath :: string
  paths :: "string list"

text \<open>\<open>hash\<close> is SHA-256 followed by the URL-safe base64 encoding.\<close>

definition getGCMark :: "(string \<Rightarrow> string) \<Rightarrow> settings \<Rightarrow> ResourceKey \<Rightarrow> string" where
  "getGCMark hash s k =
     ''sha256.'' @ hash ((repoPath s @ ''/'' @ Join (paths s) '','') @ Join [Group k, Kind k, Name k] ''/'')"

text \<open>What the walk over a path calls its function with, in order; \<open>Contents\<close> is the result of reading the file.\<close>

datatype walk_entry = WalkError go_error | WalkDir | WalkFile (FilePath: string) (FileName: string) (Contents: "go_error + string")

record agent_api =
  ag_Revision :: "string \<Rightarrow> go_error + string"
  ag_Walk :: "string \<Rightarrow> string \<Rightarrow> walk_entry list"
  ag_Decode :: "string \<Rightarrow> (go_error + string) list"
  ag_Unmarshal :: "string \<Rightarrow> go_error + unstructured"
  ag_hash :: "string \<Rightarrow> string"

text \<open>\<open>filepath.Ext\<close>: from the last dot of the name to its end.\<close>

definition Ext :: "string \<Rightarrow> string" where
  "Ext name = (if CHR ''.'' \<in> set name then CHR ''.'' # rev (takeWhile (\<lambda>c. c \<noteq> CHR ''.'') (rev name)) else '''')"

fun walk_manifests :: "agent_api \<Rightarrow> walk_entry list \<Rightarrow> unstructured list \<Rightarrow> go_error + unstructured list" where
  "walk_manifests A [] res = Inr res"
| "walk_manifests A (WalkError e # es) res = Inl e"
| "walk_manifests A (WalkDir # es) res = walk_manifests A es res"
| "walk_manifests A (WalkFile path name contents # es) res =
     (if ToLower (Ext name) \<notin> {''.json'', ''.yml'', ''.yaml''} then walk_manifests A es res
      else
        (case contents of
           Inl e \<Rightarrow> Inl (wrap_err (''failed to read file '' @ path) e)
         | Inr data \<Rightarrow>
             (case SplitYAML (ag_Unmarshal A) (ag_Decode A data) of
                (_, Some e) \<Rightarrow> Inl (wrap_err (''failed to parse '' @ path) e)
              | (items, None) \<Rightarrow> walk_manifests A es (res @ items))))"

fun walk_paths :: "agent_api \<Rightarrow> string \<Rightarrow> string list \<Rightarrow> unstructured list \<Rightarrow> go_error + unstructured list" where
  "walk_paths A repo [] res = Inr res"
| "walk_paths A repo (p # ps) res =
     (case walk_manifests A (ag_Walk A repo p) res of
        Inl e \<Rightarrow> Inl (wrap_err (''failed to parse '' @ p) e)
      | Inr res' \<Rightarrow> walk_paths A repo ps res')"

definition mark :: "agent_api \<Rightarrow> settings \<Rightarrow> unstructured \<Rightarrow> unstructured" where
  "mark A s obj = obj\<lparr>GetAnnotations := (GetAnnotations obj)(annotationGCMark \<mapsto> getGCMark (ag_hash A) s (GetResourceKey obj))\<rparr>"

definition parseManifests :: "agent_api \<Rightarrow> settings \<Rightarrow> go_error + unstructured list \<times> string" where
  "parseManifests A s =
     (case ag_Revision A (repoPath s) of
        Inl e \<Rightarrow> Inl (wrap_err ''failed to determine git revision'' e)
      | Inr revision \<Rightarrow>
          (case walk_paths A (repoPath s) (paths s) [] of
             Inl e \<Rightarrow> Inl e
           | Inr res \<Rightarrow> Inr (map (mark A s) res, revision)))"

section \<open>The loop\<close>

text \<open>The info of a cached resource is its mark; the manifest is cached if there is one.\<close>

definition agent_info :: "unstructured \<Rightarrow> bool \<Rightarrow> string option \<times> bool" where
  "agent_info un isRoot =
     (let gcMark = (case GetAnnotations un annotationGCMark of Some m \<Rightarrow> m | None \<Rightarrow> '''')
      in (Some gcMark, gcMark \<noteq> ''''))"

definition agent_cache :: "string \<Rightarrow> bool \<Rightarrow> string \<Rightarrow> string clusterCache" where
  "agent_cache host namespaced namespace =
     NewClusterCache host [SetNamespaces (if namespaced then [namespace] else []), SetPopulateResourceInfoHandler agent_info]"

text \<open>
  The predicate of the sync. The type assertion on the info would panic without one; every resource of
  the agent's cache has one.
\<close>

definition agent_isManaged :: "agent_api \<Rightarrow> settings \<Rightarrow> string Resource \<Rightarrow> bool" where
  "agent_isManaged A s r = (case Info r of None \<Rightarrow> False | Some gcMark \<Rightarrow> gcMark = getGCMark (ag_hash A) s (ResourceKey_of r))"

text \<open>One iteration: the lines of the table that is printed, or None after a logged error.\<close>

definition agent_iteration ::
  "agent_api \<Rightarrow> ('o, 'q, 'p, 't, 'v, 's) engine_env \<Rightarrow> settings \<Rightarrow> string \<Rightarrow> bool \<Rightarrow> string round list \<Rightarrow>
     string clusterCache \<Rightarrow> files \<Rightarrow> ((string \<times> string) list option \<times> string clusterCache \<times> files) option" where
  "agent_iteration A E s namespace prune rounds c fs =
     (case parseManifests A s of
        Inl _ \<Rightarrow> Some (None, c, fs)
      | Inr (target, revision) \<Rightarrow>
          (case engine_Sync E target (agent_isManaged A s) revision namespace [WithPrune prune] rounds c fs of
             (Returned result None, c', fs') \<Rightarrow>
               Some (Some (map (\<lambda>res. (ResourceKey_String (resKey res), resMessage res)) result), c', fs')
           | (Returned _ (Some _), c', fs') \<Rightarrow> Some (None, c', fs')
           | (_, c', fs') \<Rightarrow> None))"

text \<open>The command: its flags with their defaults, and what it does before the loop. \<open>Inl\<close> is the exit code.\<close>

record agent_flags =
  fl_paths :: "string list"
  fl_resyncSeconds :: int
  fl_port :: int
  fl_prune :: bool
  fl_namespaced :: bool
  fl_namespace :: string

definition default_flags :: agent_flags where
  "default_flags = \<lparr>fl_paths = [''.''], fl_resyncSeconds = 300, fl_port = 9001, fl_prune = True,
     fl_namespaced = False, fl_namespace = ''''\<rparr>"

record client_config =
  cf_ClientConfig :: "go_error + string"
  cf_Namespace :: "go_error + string"

definition checkError :: "go_error + 'a \<Rightarrow> nat + 'a" where
  "checkError r = (case r of Inl err \<Rightarrow> Inl 1 | Inr x \<Rightarrow> Inr x)"

definition agent_setup ::
  "string list \<Rightarrow> agent_flags \<Rightarrow> client_config \<Rightarrow> nat + settings \<times> string \<times> string clusterCache" where
  "agent_setup args flags cfg =
     (case args of
        [] \<Rightarrow> Inl 1
      | repo # _ \<Rightarrow>
          (case checkError (cf_ClientConfig cfg) of
             Inl code \<Rightarrow> Inl code
           | Inr host \<Rightarrow>
               (case (if fl_namespace flags = '''' then checkError (cf_Namespace cfg) else Inr (fl_namespace flags)) of
                  Inl code \<Rightarrow> Inl code
                | Inr namespace \<Rightarrow> Inr (\<lparr>repoPath = repo, paths = fl_paths flags\<rparr>, namespace,
                    agent_cache host (fl_namespaced flags) namespace))))"

text \<open>The engine is started; the loop begins on the synchronized cache.\<close>

definition agent_start ::
  "cluster_api \<Rightarrow> CacheSync.schedule \<Rightarrow> int \<Rightarrow> int \<Rightarrow> int \<Rightarrow> string list \<Rightarrow> agent_flags \<Rightarrow> client_config \<Rightarrow>
     nat + settings \<times> string \<times> string clusterCache" where
  "agent_start k8s sch now0 now now' args flags cfg =
     (case agent_setup args flags cfg of
        Inl code \<Rightarrow> Inl code
      | Inr (s, namespace, c) \<Rightarrow>
          (case engine_Run k8s sch now0 now now' c of
             (r, c') \<Rightarrow> (case checkError r of Inl code \<Rightarrow> Inl code | Inr cleanup \<Rightarrow> Inr (s, namespace, c'))))"

text \<open>
  A turn of the loop: the repository and the cluster as they are then, the rounds of its sync, and what
  other goroutines do to the cache until the next trigger. The result has the table of every turn that
  has ended; without a state the last sync does not return.
\<close>

record ('o, 'q, 'p, 't, 'v, 's) agent_turn =
  tn_api :: agent_api
  tn_env :: "('o, 'q, 'p, 't, 'v, 's) engine_env"
  tn_rounds :: "string round list"
  tn_idle :: "string clusterCache \<Rightarrow> string clusterCache"

fun agent_loop ::
  "settings \<Rightarrow> string \<Rightarrow> bool \<Rightarrow> ('o, 'q, 'p, 't, 'v, 's) agent_turn list \<Rightarrow> string clusterCache \<Rightarrow> files \<Rightarrow>
     (string \<times> string) list option list \<times> (string clusterCache \<times> files) option" where
  "agent_loop s namespace prune [] c fs = ([], Some (c, fs))"
| "agent_loop s namespace prune (t # ts) c fs =
     (case agent_iteration (tn_api t) (tn_env t) s namespace prune (tn_rounds t) c fs of
        None \<Rightarrow> ([], None)
      | Some (table, c', fs') \<Rightarrow>
          (let (tables, final) = agent_loop s namespace prune ts (tn_idle t c') fs' in (table # tables, final)))"

section \<open>The mark\<close>

lemma ResourceKey_of_live:
  "ResourceKey_of (resource_of templates un c) =
     NewResourceKey (gvkGroup (GVK un)) (GetKind un) (GetNamespace un) (GetName un)"
  by (simp add: ResourceKey_of_def resource_of_def GetObjectRef_def Let_def split: prod.splits option.splits)

lemma agent_isManaged_iff:
  assumes "cc_populateResourceInfo c = Some agent_info"
  shows "agent_isManaged A s (resource_of templates un c) \<longleftrightarrow>
    GetAnnotations un annotationGCMark = Some (getGCMark (ag_hash A) s
      (NewResourceKey (gvkGroup (GVK un)) (GetKind un) (GetNamespace un) (GetName un)))"
proof -
  have "Info (resource_of templates un c) =
      Some (case GetAnnotations un annotationGCMark of Some m \<Rightarrow> m | None \<Rightarrow> '''')"
    using assms by (simp add: resource_of_def agent_info_def Let_def split: prod.splits)
  moreover have "getGCMark h s k \<noteq> ''''" for h k by (simp add: getGCMark_def)
  ultimately show ?thesis
    by (auto simp: agent_isManaged_def ResourceKey_of_live split: option.splits) metis
qed

text \<open>
  C15. The agent recognizes what it has applied, and nothing else: the live object of a manifest that it
  parsed, which carries the manifest's annotations and has its group, kind and name in whatever
  namespace, is managed and cached with its manifest; a live object without the mark is not managed.
\<close>

theorem agent_recognizes:
  assumes "parseManifests A s = Inr (target, revision)" "obj \<in> set target"
    and "cc_populateResourceInfo c = Some agent_info"
    and "GVK un = GVK obj" "GetKind un = gvkKind (GVK un)" "GetName un = GetName obj"
    and "GetAnnotations un annotationGCMark = GetAnnotations obj annotationGCMark"
    and "GetAnnotations stranger annotationGCMark = None"
  shows "agent_isManaged A s (resource_of templates un c) \<and> Resource (resource_of templates un c) = Some un \<and>
    \<not> agent_isManaged A s (resource_of templates stranger c)"
proof -
  from assms(1,2) obtain o0 where "obj = mark A s o0"
    by (auto simp: parseManifests_def split: sum.splits)
  then have m: "GetAnnotations obj annotationGCMark = Some (getGCMark (ag_hash A) s (GetResourceKey obj))"
    by (simp add: mark_def GetResourceKey_def)
  have "getGCMark (ag_hash A) s (GetResourceKey obj) =
      getGCMark (ag_hash A) s (NewResourceKey (gvkGroup (GVK un)) (GetKind un) (GetNamespace un) (GetName un))"
    using assms(4-6) by (simp add: getGCMark_def GetResourceKey_def NewResourceKey_def)
  with m assms(7) have "agent_isManaged A s (resource_of templates un c)"
    by (simp add: agent_isManaged_iff [OF assms(3)])
  moreover have "Resource (resource_of templates un c) = Some un"
    using m assms(3,7) by (simp add: resource_of_def agent_info_def Let_def getGCMark_def split: prod.splits)
  moreover have "\<not> agent_isManaged A s (resource_of templates stranger c)"
    using assms(8) by (simp add: agent_isManaged_iff [OF assms(3)])
  ultimately show ?thesis by blast
qed

definition demo_agent :: "agent_api" where
  "demo_agent = \<lparr>ag_Revision = (\<lambda>_. Inr ''rev''),
     ag_Walk = (\<lambda>_ _. [WalkDir, WalkFile ''repo/a.YAML'' ''a.YAML'' (Inr ''web''), WalkFile ''repo/b.txt'' ''b.txt'' (Inr ''text'')]),
     ag_Decode = (\<lambda>data. [Inr data]), ag_Unmarshal = (\<lambda>yml. Inr (mk_obj ''apps'' DeploymentKind '''' yml)), ag_hash = (\<lambda>s. s)\<rparr>"

definition demo_settings :: settings where
  "demo_settings = \<lparr>repoPath = ''repo'', paths = [''.'']\<rparr>"

theorem agent_recognizes_witness:
  "agent_isManaged demo_agent demo_settings (resource_of (\<lambda>_. Inr []) ((mark demo_agent demo_settings
      (mk_obj ''apps'' DeploymentKind '''' ''web''))\<lparr>GetNamespace := ''prod''\<rparr>) (agent_cache ''host'' False ''prod''))"
proof -
  let ?obj = "mark demo_agent demo_settings (mk_obj ''apps'' DeploymentKind '''' ''web'')"
  have e: "Ext ''a.YAML'' = ''.YAML''" "Ext ''b.txt'' = ''.txt''" "ToLower ''.YAML'' = ''.yaml''" "ToLower ''.txt'' = ''.txt''"
    "TrimSpace ''web'' = ''web''"
    by code_simp+
  have p: "parseManifests demo_agent demo_settings = Inr ([?obj], ''rev'')"
    by (simp add: parseManifests_def demo_agent_def demo_settings_def e SplitYAML_def Let_def)
  show ?thesis
    using agent_recognizes [OF p, of ?obj "agent_cache ''host'' False ''prod''" "?obj\<lparr>GetNamespace := ''prod''\<rparr>"
        "mk_obj ''apps'' DeploymentKind '''' ''other''" "\<lambda>_. Inr []"]
    by (simp add: agent_cache_def NewClusterCache_def SetPopulateResourceInfoHandler_def SetNamespaces_def
        mark_def mk_obj_def blank_def)
qed

section \<open>What the agent prunes\<close>

lemma keeps_handler_setting: "keeps_handler opt \<Longrightarrow> setting opt"
  by (simp add: keeps_handler_def setting_def same_tables_nodes)

lemma event_step_mono:
  assumes "event_step S k8s c c'" "\<And>opt. S opt \<Longrightarrow> S' opt"
  shows "event_step S' k8s c c'"
  using assms(1)
proof cases
  case (invalidate opts)
  then show ?thesis using assms(2) by (auto simp: list_all_iff intro: event_step.intros)
qed (auto intro: event_step.intros)

lemma cache_step_mono: "cache_step S k8s c c' \<Longrightarrow> (\<And>opt. S opt \<Longrightarrow> S' opt) \<Longrightarrow> cache_step S' k8s c c'"
  by (auto elim!: cache_step.cases intro: cache_step.intros event_step_mono)

lemma infos_reset: "infos_ok f c \<Longrightarrow> infos_ok f (sync_reset c)"
  by (simp add: infos_ok_def) (simp add: sync_reset_def cancel_watches_def invalidateEventMeta_def Let_def)

lemma cache_step_infos: "cache_step keeps_handler k8s c c' \<Longrightarrow> infos_ok f c \<Longrightarrow> infos_ok f c'"
  by (induction rule: cache_step.induct) (auto intro: infos.event_kept infos.ensured infos_reset)

lemma agent_cache_new:
  "infos_ok agent_info (agent_cache host namespaced namespace)" "index_covers (agent_cache host namespaced namespace)"
proof -
  show "infos_ok agent_info (agent_cache host namespaced namespace)"
    by (simp add: infos_ok_def agent_cache_def NewClusterCache_def SetPopulateResourceInfoHandler_def SetNamespaces_def empty_cache_def)
  show "index_covers (agent_cache host namespaced namespace)"
    unfolding agent_cache_def by (rule index_ok_covers [OF index_ok_frame [OF empty_cache_ok new_cache_nodes]]) (simp add: settings)
qed

lemma agent_cache_reachable:
  assumes "(cache_step keeps_handler k8s)\<^sup>*\<^sup>* (agent_cache host namespaced namespace) c"
  shows "infos_ok agent_info c" "index_covers c"
proof -
  show "infos_ok agent_info c"
    using assms by (induction rule: rtranclp_induct) (auto intro: agent_cache_new cache_step_infos)
  show "index_covers c"
    using assms by (induction rule: rtranclp_induct)
      (auto intro: agent_cache_new cache_step_covers cache_step_mono keeps_handler_setting)
qed

text \<open>
  C7. The agent prunes only its own: after the start of the agent and whatever the watches, the resyncs and the
  traversals have done to its cache, a live object that an iteration is left to prune carries the mark of
  this repository for its own group, kind and name. The only others are live objects of hooks that the
  repository declares, and of declared objects whose scope or namespace is not settled.
\<close>

theorem agent_prunes_own:
  assumes "(cache_step keeps_handler k8s)\<^sup>*\<^sup>* (agent_cache host namespaced namespace) c"
    and "parseManifests A s = Inr (target, revision)"
    and "GetManagedLiveObjs k8s target (agent_isManaged A s) c = Inr m"
    and "(None, Some live) \<in> set (zip (Target (Reconcile (map Some target) (managed_live m) ns ri))
      (Live (Reconcile (map Some target) (managed_live m) ns ri)))"
  shows "GetAnnotations live annotationGCMark = Some (getGCMark (ag_hash A) s
       (NewResourceKey (gvkGroup (GVK live)) (GetKind live) (GetNamespace live) (GetName live))) \<or>
    (\<exists>t\<in>set target. (GetResourceKey t, live) \<in> set m \<and> (IsHook t \<or> keysToCheck ns ri t \<noteq> [GetResourceKey t]))"
proof -
  note inv = agent_cache_reachable [OF assms(1)]
  have "map_wf (cc_resources c)" using inv(2) by (simp add: index_covers_def nodes_ok_def map_wf_def)
  from prunes_managed [OF assms(3) this assms(4)] consider
    k p where "(k, p) \<in> set (cc_resources c)" "agent_isManaged A s (cc_heap c ! p)" "Resource (cc_heap c ! p) = Some live"
    | "\<exists>t\<in>set target. (GetResourceKey t, live) \<in> set m \<and> (IsHook t \<or> keysToCheck ns ri t \<noteq> [GetResourceKey t])"
    by blast
  then show ?thesis
  proof cases
    case (1 k p)
    with inv(2) have "p < length (cc_heap c)" by (auto simp: index_covers_def nodes_ok_def)
    with inv(1) have "info_given agent_info (cc_heap c ! p)" by (simp add: infos_ok_def)
    with 1 obtain isRoot where r: "Ref (cc_heap c ! p) = GetObjectRef live" "agent_info live isRoot = (Info (cc_heap c ! p), True)"
      by (auto simp: info_given_def)
    have "ResourceKey_of (cc_heap c ! p) = NewResourceKey (gvkGroup (GVK live)) (GetKind live) (GetNamespace live) (GetName live)"
      by (simp add: ResourceKey_of_def r(1) GetObjectRef_def)
    with 1(2) r(2) show ?thesis
      by (auto simp: agent_isManaged_def agent_info_def Let_def split: option.splits)
  qed simp
qed

text \<open>An empty repository: the marked StatefulSet is left to prune, the volume claim is not.\<close>

definition empty_repo :: agent_api where
  "empty_repo = demo_agent\<lparr>ag_Walk := \<lambda>_ _. []\<rparr>"

definition marked_sts :: unstructured where
  "marked_sts = mark empty_repo demo_settings demo_sts"

definition agent_demo_cache :: "string clusterCache" where
  "agent_demo_cache = snd (EnsureSynced (demo_api [marked_sts, demo_pvc]) demo_schedule 0 0 5 (agent_cache ''host'' False ''prod''))"

theorem agent_prunes_own_witness:
  "\<exists>live. labelled_objs (agent_isManaged empty_repo demo_settings) agent_demo_cache = [(GetResourceKey demo_sts, live)] \<and>
     GetAnnotations live annotationGCMark = Some (getGCMark (ag_hash empty_repo) demo_settings
       (NewResourceKey (gvkGroup (GVK live)) (GetKind live) (GetNamespace live) (GetName live)))"
proof -
  let ?managed = "agent_isManaged empty_repo demo_settings"
  let ?m = "labelled_objs ?managed agent_demo_cache"
  have reach: "(cache_step keeps_handler (demo_api [marked_sts, demo_pvc]))\<^sup>*\<^sup>* (agent_cache ''host'' False ''prod'') agent_demo_cache"
    unfolding agent_demo_cache_def by (intro r_into_rtranclp cache_step.ensure)
  have parse: "parseManifests empty_repo demo_settings = Inr ([], ''rev'')"
    by (simp add: parseManifests_def empty_repo_def demo_agent_def demo_settings_def)
  have m: "GetManagedLiveObjs (demo_api [marked_sts, demo_pvc]) [] ?managed agent_demo_cache = Inr ?m"
    by (simp add: GetManagedLiveObjs_def)
  have "map fst ?m = [GetResourceKey demo_sts]" by code_simp
  then obtain x where l: "?m = [(GetResourceKey demo_sts, x)]" by (cases ?m) auto
  have "(None, Some x) \<in> set (zip (Target (Reconcile (map Some []) (managed_live ?m) ''prod'' (\<lambda>_. Inr True)))
      (Live (Reconcile (map Some []) (managed_live ?m) ''prod'' (\<lambda>_. Inr True))))"
    by (simp add: Reconcile_def l managed_live_def dedupLiveResources_def liveObjsById_def)
  from agent_prunes_own [OF reach parse m this] l show ?thesis by auto
qed

end
